(* ===== verification/W9_Prelude.thy ===== *)
theory W9_Prelude
  imports Main "HOL-Library.Word" "HOL-Library.AList" "HOL-Library.Multiset"
begin

text \<open>
  Shared vocabulary of the development: Rust's machine integers and checked arithmetic, the
  \<open>Result\<close>-returning \<open>&mut self\<close> methods as state-and-error functions, little-endian byte
  strings, UTF-8 validation as \<open>core::str::from_utf8\<close> performs it, and \<open>HashMap\<close> as an
  association list with distinct keys behind the interface locale \<open>hash_map\<close>.
\<close>

unbundle bit_operations_syntax

section \<open>Machine integers\<close>

type_synonym u8 = "8 word"
type_synonym u16 = "16 word"
type_synonym u32 = "32 word"
type_synonym u64 = "64 word"
type_synonym u128 = "128 word"

text \<open>
  \<open>usize\<close> is the 64-bit unsigned size type. Lengths and counters are natural numbers, and every
  checked or saturating operation of the source names the bound below explicitly.
\<close>

definition usize_max :: nat where
  "usize_max = 2 ^ 64 - 1"

definition usize_checked_add :: "nat \<Rightarrow> nat \<Rightarrow> nat option" where
  "usize_checked_add a b = (if a + b \<le> usize_max then Some (a + b) else None)"

definition usize_saturating_add :: "nat \<Rightarrow> nat \<Rightarrow> nat" where
  "usize_saturating_add a b = min usize_max (a + b)"

text \<open>Plain \<open>-\<close> on \<open>usize\<close>, with the wrap-around of a release build.\<close>

definition usize_wrapping_sub :: "nat \<Rightarrow> nat \<Rightarrow> nat" where
  "usize_wrapping_sub a b = (if b \<le> a then a - b else usize_max + 1 + a - b)"

definition checked_add :: "'a::len word \<Rightarrow> 'a word \<Rightarrow> 'a word option" where
  "checked_add a b = (if unat a + unat b < 2 ^ LENGTH('a) then Some (a + b) else None)"

definition saturating_add :: "'a::len word \<Rightarrow> 'a word \<Rightarrow> 'a word" where
  "saturating_add a b = (if unat a + unat b < 2 ^ LENGTH('a) then a + b else - 1)"

definition saturating_sub :: "'a::len word \<Rightarrow> 'a word \<Rightarrow> 'a word" where
  "saturating_sub a b = (if b \<le> a then a - b else 0)"

text \<open>\<open>u32::try_from(n).unwrap_or(u32::MAX)\<close> and its relatives.\<close>

definition try_from_nat :: "nat \<Rightarrow> 'a::len word option" where
  "try_from_nat n = (if n < 2 ^ LENGTH('a) then Some (of_nat n) else None)"

definition try_from_or_max :: "nat \<Rightarrow> 'a::len word" where
  "try_from_or_max n = (case try_from_nat n of Some w \<Rightarrow> w | None \<Rightarrow> - 1)"

lemma checked_add_Some_iff:
  fixes a b c :: "'a::len word"
  shows "checked_add a b = Some c \<longleftrightarrow> unat a + unat b < 2 ^ LENGTH('a) \<and> c = a + b"
  by (auto simp: checked_add_def)

lemma unat_checked_add:
  fixes a b c :: "'a::len word"
  assumes "checked_add a b = Some c"
  shows "unat c = unat a + unat b"
  using assms by (simp add: checked_add_Some_iff unat_word_ariths)

lemma unat_saturating_sub [simp]: "unat (saturating_sub a b) = unat a - unat b"
  by (auto simp: saturating_sub_def unat_sub word_le_nat_alt)

lemma try_from_nat_Some_iff:
  fixes w :: "'a::len word"
  shows "try_from_nat n = Some w \<longleftrightarrow> n < 2 ^ LENGTH('a) \<and> unat w = n"
  by (auto simp: try_from_nat_def unat_of_nat)

lemma try_from_nat_None_iff:
  "(try_from_nat n :: 'a::len word option) = None \<longleftrightarrow> 2 ^ LENGTH('a) \<le> n"
  by (simp add: try_from_nat_def not_less)

lemma usize_checked_add_Some_iff [simp]:
  "usize_checked_add a b = Some c \<longleftrightarrow> c = a + b \<and> a + b \<le> usize_max"
  by (auto simp: usize_checked_add_def)

section \<open>Methods that may fail\<close>

text \<open>
  A Rust method \<open>fn m(&mut self, ..) -> Result<T, E>\<close> is a function of the receiver that returns
  its \<open>Result\<close> (\<open>Inl\<close> for \<open>Err\<close>) together with the receiver as the method left it; on
  \<open>Err\<close> the mutations made so far stay. \<open>sbind\<close> is the \<open>?\<close> operator.
\<close>

type_synonym ('s, 'e, 'a) action = "'s \<Rightarrow> ('e + 'a) \<times> 's"

definition sreturn :: "'a \<Rightarrow> ('s, 'e, 'a) action" where
  "sreturn x s = (Inr x, s)"

definition sfail :: "'e \<Rightarrow> ('s, 'e, 'a) action" where
  "sfail e s = (Inl e, s)"

definition sbind :: "('s, 'e, 'a) action \<Rightarrow> ('a \<Rightarrow> ('s, 'e, 'b) action) \<Rightarrow> ('s, 'e, 'b) action"
  where
  "sbind m f s = (case m s of (Inl e, s') \<Rightarrow> (Inl e, s') | (Inr x, s') \<Rightarrow> f x s')"

text \<open>\<open>if let Err(e) = m { undo; return Err(e) }\<close>\<close>

definition on_err :: "('s, 'e, 'a) action \<Rightarrow> ('s \<Rightarrow> 's) \<Rightarrow> ('s, 'e, 'a) action" where
  "on_err m undo s = (case m s of (Inl e, s') \<Rightarrow> (Inl e, undo s') | (Inr x, s') \<Rightarrow> (Inr x, s'))"

text \<open>A method that cannot fail.\<close>

definition smodify :: "('s \<Rightarrow> 's) \<Rightarrow> ('s, 'e, unit) action" where
  "smodify f s = (Inr (), f s)"

text \<open>\<open>result.map_err(f)?\<close> on a value that does not touch the receiver.\<close>

definition slift :: "'e + 'a \<Rightarrow> ('s, 'e, 'a) action" where
  "slift r s = (r, s)"

definition map_err :: "('e \<Rightarrow> 'f) \<Rightarrow> 'e + 'a \<Rightarrow> 'f + 'a" where
  "map_err f r = (case r of Inl e \<Rightarrow> Inl (f e) | Inr x \<Rightarrow> Inr x)"

definition smap_err :: "('e \<Rightarrow> 'f) \<Rightarrow> ('s, 'e, 'a) action \<Rightarrow> ('s, 'f, 'a) action" where
  "smap_err f m s = (case m s of (r, s') \<Rightarrow> (map_err f r, s'))"

named_theorems method_defs

lemmas [method_defs] =
  sreturn_def sfail_def smodify_def slift_def

lemma sreturn_eq_Inr [simp]: "sreturn x s = (Inr y, s') \<longleftrightarrow> y = x \<and> s' = s"
  by (auto simp: sreturn_def)

lemma sfail_neq_Inr [simp]: "sfail e s \<noteq> (Inr y, s')"
  by (simp add: sfail_def)

lemma slift_eq_Inr [simp]: "slift r s = (Inr y, s') \<longleftrightarrow> r = Inr y \<and> s' = s"
  by (auto simp: slift_def)

lemma sbind_eq_Inr:
  "sbind m f s = (Inr y, s') \<longleftrightarrow> (\<exists>x t. m s = (Inr x, t) \<and> f x t = (Inr y, s'))"
  by (auto simp: sbind_def split: prod.splits sum.splits)

lemma sbind_Inr [simp]: "m s = (Inr x, t) \<Longrightarrow> sbind m f s = f x t"
  by (simp add: sbind_def)

lemma sbind_sreturn [simp]: "sbind (sreturn x) f = f x"
  by (simp add: sbind_def sreturn_def fun_eq_iff)

lemma sbind_sreturn_right [simp]: "sbind m sreturn = m"
  by (auto simp: sbind_def sreturn_def fun_eq_iff split: prod.splits sum.splits)

lemma sbind_assoc: "sbind (sbind m f) g = sbind m (\<lambda>x. sbind (f x) g)"
  by (auto simp: sbind_def fun_eq_iff split: prod.splits sum.splits)

lemma map_err_eq_Inr [simp]: "map_err f r = Inr x \<longleftrightarrow> r = Inr x"
  by (auto simp: map_err_def split: sum.splits)

text \<open>
  What a method keeps of its receiver, whatever it returns. The rules below let the preservation
  of an invariant follow the structure of a method.
\<close>

definition keeps :: "('s \<Rightarrow> bool) \<Rightarrow> ('s, 'e, 'a) action \<Rightarrow> bool" where
  "keeps P m \<longleftrightarrow> (\<forall>s. P s \<longrightarrow> P (snd (m s)))"

lemma keepsI [intro?]: "(\<And>s. P s \<Longrightarrow> P (snd (m s))) \<Longrightarrow> keeps P m"
  by (simp add: keeps_def)

lemma keepsD: "keeps P m \<Longrightarrow> P s \<Longrightarrow> P (snd (m s))"
  by (simp add: keeps_def)

lemma keeps_sreturn [simp, intro]: "keeps P (sreturn x)"
  by (simp add: keeps_def sreturn_def)

lemma keeps_sfail [simp, intro]: "keeps P (sfail x)"
  by (simp add: keeps_def sfail_def)

lemma keeps_slift [simp, intro]: "keeps P (slift x)"
  by (simp add: keeps_def slift_def)

lemma keeps_sbind:
  assumes "keeps P m" and "\<And>x. keeps P (f x)"
  shows "keeps P (sbind m f)"
  using assms by (auto simp: keeps_def sbind_def split: prod.splits sum.splits)

section \<open>Little-endian byte strings\<close>

type_synonym bytes = "u8 list"

fun from_le_bytes :: "bytes \<Rightarrow> 'a::len word" where
  "from_le_bytes [] = 0"
| "from_le_bytes (b # bs) = ucast b OR push_bit 8 (from_le_bytes bs)"

definition to_le_bytes :: "nat \<Rightarrow> 'a::len word \<Rightarrow> bytes" where
  "to_le_bytes n w = map (\<lambda>i. ucast (drop_bit (8 * i) w)) [0..<n]"

lemma length_to_le_bytes [simp]: "length (to_le_bytes n w) = n"
  by (simp add: to_le_bytes_def)

lemma bit_from_le_bytes:
  fixes n :: nat
  shows "bit (from_le_bytes bs :: 'a::len word) n \<longleftrightarrow>
    n < LENGTH('a) \<and> n div 8 < length bs \<and> bit (bs ! (n div 8)) (n mod 8)"
proof (induction bs arbitrary: n)
  case Nil
  then show ?case by simp
next
  case (Cons b bs)
  show ?case
  proof (cases "n < 8")
    case True
    then show ?thesis
      by (auto simp: bit_or_iff bit_push_bit_iff bit_ucast_iff)
  next
    case False
    then have d: "n div 8 = Suc ((n - 8) div 8)" and m: "n mod 8 = (n - 8) mod 8"
      by (simp_all add: le_div_geq le_mod_geq)
    have "\<not> bit b n" using False by (auto dest: bit_imp_le_length)
    with False d m Cons[of "n - 8"] show ?thesis
      by (auto simp: bit_or_iff bit_push_bit_iff bit_ucast_iff)
  qed
qed

lemma from_to_le_bytes:
  fixes w :: "'a::len word"
  assumes "LENGTH('a) = 8 * n"
  shows "from_le_bytes (to_le_bytes n w) = w"
proof (rule bit_word_eqI)
  fix i assume i: "i < LENGTH('a)"
  with assms have "i div 8 < n" by simp
  then show "bit (from_le_bytes (to_le_bytes n w) :: 'a word) i \<longleftrightarrow> bit w i"
    using i by (simp add: bit_from_le_bytes to_le_bytes_def bit_ucast_iff bit_drop_bit_eq)
qed

lemma to_from_le_bytes:
  assumes "LENGTH('a) = 8 * n" and "length bs = n"
  shows "to_le_bytes n (from_le_bytes bs :: 'a::len word) = bs"
proof (rule nth_equalityI)
  show "length (to_le_bytes n (from_le_bytes bs :: 'a word)) = length bs"
    using assms by simp
next
  fix i assume "i < length (to_le_bytes n (from_le_bytes bs :: 'a word))"
  then have i: "i < n" by simp
  show "to_le_bytes n (from_le_bytes bs :: 'a word) ! i = bs ! i"
  proof (rule bit_word_eqI)
    fix j assume j: "j < LENGTH(8)"
    then have "(8 * i + j) div 8 = i" and "(8 * i + j) mod 8 = j" by simp_all
    moreover have "8 * i + j < 8 * n" using i j by simp
    ultimately show "bit (to_le_bytes n (from_le_bytes bs :: 'a word) ! i) j \<longleftrightarrow> bit (bs ! i) j"
      using i j assms
      by (simp add: to_le_bytes_def bit_ucast_iff bit_drop_bit_eq bit_from_le_bytes)
  qed
qed

lemma to_le_bytes_inject:
  fixes v w :: "'a::len word"
  assumes "LENGTH('a) = 8 * n"
  shows "to_le_bytes n v = to_le_bytes n w \<longleftrightarrow> v = w"
  using assms from_to_le_bytes by metis

section \<open>Strings\<close>

text \<open>
  A Rust \<open>String\<close> is its UTF-8 byte sequence, so \<open>len()\<close> and \<open>as_bytes()\<close> are list
  operations. \<open>utf8_valid\<close> is the well-formedness test of \<open>core::str::from_utf8\<close>: no
  overlong forms, no surrogates, nothing above U+10FFFF.
\<close>

type_synonym rstring = bytes

definition utf8_cont :: "u8 \<Rightarrow> bool" where
  "utf8_cont b \<longleftrightarrow> 0x80 \<le> b \<and> b \<le> 0xBF"

fun utf8_valid :: "bytes \<Rightarrow> bool" where
  "utf8_valid [] = True"
| "utf8_valid (a # bs) =
     (if a < 0x80 then utf8_valid bs
      else case bs of
        [] \<Rightarrow> False
      | b # cs \<Rightarrow>
          if 0xC2 \<le> a \<and> a \<le> 0xDF then utf8_cont b \<and> utf8_valid cs
          else case cs of
            [] \<Rightarrow> False
          | c # ds \<Rightarrow>
              if 0xE0 \<le> a \<and> a \<le> 0xEF
              then utf8_cont b \<and> utf8_cont c \<and> (a = 0xE0 \<longrightarrow> 0xA0 \<le> b) \<and> (a = 0xED \<longrightarrow> b \<le> 0x9F) \<and>
                   utf8_valid ds
              else case ds of
                [] \<Rightarrow> False
              | d # es \<Rightarrow>
                  0xF0 \<le> a \<and> a \<le> 0xF4 \<and> utf8_cont b \<and> utf8_cont c \<and> utf8_cont d \<and>
                  (a = 0xF0 \<longrightarrow> 0x90 \<le> b) \<and> (a = 0xF4 \<longrightarrow> b \<le> 0x8F) \<and> utf8_valid es)"

text \<open>A string literal of the source, as its bytes.\<close>

definition bytes_of_string :: "string \<Rightarrow> rstring" where
  "bytes_of_string cs = map of_char cs"

lemma utf8_valid_ascii: "(\<And>b. b \<in> set bs \<Longrightarrow> b < 0x80) \<Longrightarrow> utf8_valid bs"
  by (induction bs) auto

section \<open>Hash maps\<close>

text \<open>
  The interface the source uses of \<open>std::collections::HashMap\<close>: lookup, insertion (which
  replaces), removal, and the entries an iteration visits. A weighted sum over the values is
  how the session's byte counters relate to the entries they count.
\<close>

locale hash_map =
  fixes get :: "'m \<Rightarrow> 'k \<Rightarrow> 'v option"
    and ins :: "'k \<Rightarrow> 'v \<Rightarrow> 'm \<Rightarrow> 'm"
    and rem :: "'k \<Rightarrow> 'm \<Rightarrow> 'm"
    and entries :: "'m \<Rightarrow> ('k \<times> 'v) list"
    and ok :: "'m \<Rightarrow> bool"
  assumes get_ins: "get (ins k v m) = (get m)(k \<mapsto> v)"
    and get_rem: "get (rem k m) = (get m)(k := None)"
    and entries_ok: "ok m \<Longrightarrow> distinct (map fst (entries m))"
    and entries_get: "ok m \<Longrightarrow> (k, v) \<in> set (entries m) \<longleftrightarrow> get m k = Some v"
    and ok_ins: "ok m \<Longrightarrow> ok (ins k v m)"
    and ok_rem: "ok m \<Longrightarrow> ok (rem k m)"
begin

lemma mset_entries:
  assumes "ok m" and "ok m'" and "\<And>k. get m k = get m' k"
  shows "mset (entries m) = mset (entries m')"
proof (rule set_eq_iff_mset_eq_distinct [THEN iffD1])
  show "distinct (entries m)" "distinct (entries m')"
    using assms(1,2) entries_ok by (auto simp: distinct_map)
  show "set (entries m) = set (entries m')"
    using assms by (auto simp: entries_get)
qed

lemma mset_entries_ins_fresh:
  assumes "ok m" and "get m k = None"
  shows "mset (entries (ins k v m)) = add_mset (k, v) (mset (entries m))"
proof -
  have d: "distinct ((k, v) # entries m)"
    using assms entries_ok [OF assms(1)] entries_get [OF assms(1), of k v]
    by (auto simp: distinct_map)
  have "set (entries (ins k v m)) = set ((k, v) # entries m)"
    using assms entries_get ok_ins get_ins by (auto simp: fun_upd_def split: if_splits)
  moreover have "distinct (entries (ins k v m))"
    using entries_ok [OF ok_ins [OF assms(1)]] by (auto simp: distinct_map)
  ultimately have "mset (entries (ins k v m)) = mset ((k, v) # entries m)"
    using d set_eq_iff_mset_eq_distinct by blast
  then show ?thesis by simp
qed

lemma mset_entries_rem:
  assumes "ok m" and "get m k = Some v"
  shows "mset (entries m) = add_mset (k, v) (mset (entries (rem k m)))"
proof -
  have r: "ok (rem k m)" "get (rem k m) k = None"
    using assms by (simp_all add: ok_rem get_rem)
  have "get (ins k v (rem k m)) x = get m x" for x
    using assms by (simp add: get_ins get_rem)
  then have "mset (entries (ins k v (rem k m))) = mset (entries m)"
    using mset_entries [OF ok_ins [OF r(1)] assms(1)] by blast
  then show ?thesis using mset_entries_ins_fresh [OF r] by simp
qed

lemma mset_entries_ins_old:
  assumes "ok m" and "get m k = Some w"
  shows "mset (entries (ins k v m)) = add_mset (k, v) (mset (entries (rem k m)))"
proof -
  have "get (rem k (ins k v m)) x = get (rem k m) x" for x
    by (simp add: get_ins get_rem)
  then have "mset (entries (rem k (ins k v m))) = mset (entries (rem k m))"
    using mset_entries ok_rem ok_ins assms(1) by blast
  then show ?thesis
    using mset_entries_rem [OF ok_ins [OF assms(1)], of k v k v] by (simp add: get_ins)
qed

end

text \<open>The implementation: an association list in the order of first insertion.\<close>

type_synonym ('k, 'v) hmap = "('k \<times> 'v) list"

definition hm_get :: "('k, 'v) hmap \<Rightarrow> 'k \<Rightarrow> 'v option" where
  "hm_get m k = map_of m k"

definition hm_insert :: "'k \<Rightarrow> 'v \<Rightarrow> ('k, 'v) hmap \<Rightarrow> ('k, 'v) hmap" where
  "hm_insert k v m = AList.update k v m"

definition hm_remove :: "'k \<Rightarrow> ('k, 'v) hmap \<Rightarrow> ('k, 'v) hmap" where
  "hm_remove k m = AList.delete k m"

definition hm_ok :: "('k, 'v) hmap \<Rightarrow> bool" where
  "hm_ok m \<longleftrightarrow> distinct (map fst m)"

definition hm_contains :: "('k, 'v) hmap \<Rightarrow> 'k \<Rightarrow> bool" where
  "hm_contains m k \<longleftrightarrow> hm_get m k \<noteq> None"

definition hm_sum :: "('v \<Rightarrow> nat) \<Rightarrow> ('k, 'v) hmap \<Rightarrow> nat" where
  "hm_sum f m = sum_list (map (f \<circ> snd) m)"

interpretation hm: hash_map hm_get hm_insert hm_remove "\<lambda>m. m" hm_ok
  by unfold_locales
    (auto simp: hm_get_def hm_insert_def hm_remove_def hm_ok_def fun_eq_iff update_conv'
      delete_conv' distinct_update distinct_delete)

lemma hm_get_insert [simp]: "hm_get (hm_insert k v m) x = (if x = k then Some v else hm_get m x)"
  by (simp add: hm.get_ins)

lemma hm_get_remove [simp]: "hm_get (hm_remove k m) x = (if x = k then None else hm_get m x)"
  by (simp add: hm.get_rem)

lemma hm_get_Nil [simp]: "hm_get [] k = None"
  by (simp add: hm_get_def)

lemma hm_ok_Nil [simp, intro]: "hm_ok []"
  by (simp add: hm_ok_def)

lemmas hm_ok_insert [simp, intro] = hm.ok_ins
lemmas hm_ok_remove [simp, intro] = hm.ok_rem

lemma hm_get_None_iff: "hm_get m k = None \<longleftrightarrow> k \<notin> fst ` set m"
  by (simp add: hm_get_def map_of_eq_None_iff)

lemma hm_get_SomeD: "hm_get m k = Some v \<Longrightarrow> (k, v) \<in> set m"
  by (simp add: hm_get_def map_of_SomeD)

lemma hm_length_insert:
  "length (hm_insert k v m) = (if hm_get m k = None then Suc (length m) else length m)"
proof -
  have "length (hm_insert k v m) = length (map fst (AList.update k v m))"
    by (simp add: hm_insert_def)
  then show ?thesis
    by (auto simp: update_keys hm_get_None_iff)
qed

lemma hm_length_remove:
  assumes "hm_ok m" and "hm_get m k = Some v"
  shows "Suc (length (hm_remove k m)) = length m"
  using arg_cong [OF hm.mset_entries_rem [OF assms], of size] by simp

lemma hm_sum_mset: "hm_sum f m = (\<Sum>(k, v)\<in>#mset m. f v)"
  unfolding hm_sum_def sum_mset_sum_list [symmetric] mset_map
  by (simp add: case_prod_beta' comp_def)

lemma hm_sum_Nil [simp]: "hm_sum f [] = 0"
  by (simp add: hm_sum_def)

lemma hm_sum_insert_fresh:
  "hm_ok m \<Longrightarrow> hm_get m k = None \<Longrightarrow> hm_sum f (hm_insert k v m) = f v + hm_sum f m"
  by (simp add: hm_sum_mset hm.mset_entries_ins_fresh)

lemma hm_sum_remove:
  "hm_ok m \<Longrightarrow> hm_get m k = Some v \<Longrightarrow> hm_sum f m = f v + hm_sum f (hm_remove k m)"
  by (simp add: hm_sum_mset hm.mset_entries_rem [of m k v])

lemma hm_sum_insert_old:
  "hm_ok m \<Longrightarrow> hm_get m k = Some w \<Longrightarrow> f v = f w \<Longrightarrow> hm_sum f (hm_insert k v m) = hm_sum f m"
  by (simp add: hm_sum_mset hm.mset_entries_rem [of m k w] hm.mset_entries_ins_old)

end
