(* ===== verification/Wire_Types.thy ===== *)
theory Wire_Types
  imports W9_Prelude
begin

text \<open>
  The stock \<open>9P2000.L\<close> data of \<open>crates/w9pt/src/protocol\<close>: identifiers and QIDs
  (\<open>types.rs\<close>), flag words (\<open>flags.rs\<close>), message numbers and the operation matrix
  (\<open>message_type.rs\<close>), composite structures with their validation (\<open>structures.rs\<close>), typed
  requests and responses (\<open>message.rs\<close>), and the errno values of \<open>filesystem/error.rs\<close>.
  Rust newtypes over integers are type synonyms; structs are records whose fields carry a short
  prefix; enum variants keep their names, prefixed where two enums share one.
\<close>

section \<open>Identifiers and QIDs (types.rs)\<close>

type_synonym session_id = u64
type_synonym operation_id = u64
type_synonym tag = u16
type_synonym fid = u32

definition NOTAG :: tag where
  "NOTAG = - 1"

definition NOFID :: fid where
  "NOFID = - 1"

definition HEADER_SIZE :: nat where
  "HEADER_SIZE = 7"

definition IO_HEADER_SIZE :: nat where
  "IO_HEADER_SIZE = 24"

definition NO_NUMERIC_USER :: u32 where
  "NO_NUMERIC_USER = - 1"

definition VERSION_9P2000_L :: rstring where
  "VERSION_9P2000_L = bytes_of_string ''9P2000.L''"

text \<open>\<open>contains\<close>, the same body in every bitset newtype of \<open>flags.rs\<close> and in \<open>QidType\<close>.\<close>

definition contains_bits :: "'a::len word \<Rightarrow> 'a word \<Rightarrow> bool" where
  "contains_bits self other \<longleftrightarrow> self AND other = other"

definition QidType_DIRECTORY :: u8 where
  "QidType_DIRECTORY = 0x80"

record qid =
  qid_ty :: u8
  qid_version :: u32
  qid_path :: u64

section \<open>Linux errno values (filesystem/error.rs)\<close>

type_synonym linux_errno = u32

definition EPERM :: linux_errno where "EPERM = 1"
definition ENOENT :: linux_errno where "ENOENT = 2"
definition EINTR :: linux_errno where "EINTR = 4"
definition EIO :: linux_errno where "EIO = 5"
definition EBADF :: linux_errno where "EBADF = 9"
definition EAGAIN :: linux_errno where "EAGAIN = 11"
definition ENOMEM :: linux_errno where "ENOMEM = 12"
definition EACCES :: linux_errno where "EACCES = 13"
definition EBUSY :: linux_errno where "EBUSY = 16"
definition EEXIST :: linux_errno where "EEXIST = 17"
definition EXDEV :: linux_errno where "EXDEV = 18"
definition ENOTDIR :: linux_errno where "ENOTDIR = 20"
definition EISDIR :: linux_errno where "EISDIR = 21"
definition EINVAL :: linux_errno where "EINVAL = 22"
definition ENOSPC :: linux_errno where "ENOSPC = 28"
definition EROFS :: linux_errno where "EROFS = 30"
definition ERANGE :: linux_errno where "ERANGE = 34"
definition ENAMETOOLONG :: linux_errno where "ENAMETOOLONG = 36"
definition ENOLCK :: linux_errno where "ENOLCK = 37"
definition ENOSYS :: linux_errno where "ENOSYS = 38"
definition ENOTEMPTY :: linux_errno where "ENOTEMPTY = 39"
definition ELOOP :: linux_errno where "ELOOP = 40"
definition ENODATA :: linux_errno where "ENODATA = 61"
definition EOVERFLOW :: linux_errno where "EOVERFLOW = 75"
definition EPROTO :: linux_errno where "EPROTO = 71"
definition EOPNOTSUPP :: linux_errno where "EOPNOTSUPP = 95"
definition ECANCELED :: linux_errno where "ECANCELED = 125"

section \<open>Flag words (flags.rs)\<close>

type_synonym open_flags = u32
type_synonym getattr_mask = u64
type_synonym setattr_mask = u32
type_synonym lock_flags = u32
type_synonym unlink_flags = u32
type_synonym xattr_flags = u32

definition GetattrMask_ATIME :: getattr_mask where "GetattrMask_ATIME = push_bit 5 1"
definition GetattrMask_MTIME :: getattr_mask where "GetattrMask_MTIME = push_bit 6 1"
definition GetattrMask_CTIME :: getattr_mask where "GetattrMask_CTIME = push_bit 7 1"
definition GetattrMask_BTIME :: getattr_mask where "GetattrMask_BTIME = push_bit 11 1"
definition GetattrMask_ALL :: getattr_mask where "GetattrMask_ALL = 0x3fff"

definition SetattrMask_ATIME :: setattr_mask where "SetattrMask_ATIME = push_bit 4 1"
definition SetattrMask_MTIME :: setattr_mask where "SetattrMask_MTIME = push_bit 5 1"
definition SetattrMask_ATIME_SET :: setattr_mask where "SetattrMask_ATIME_SET = push_bit 7 1"
definition SetattrMask_MTIME_SET :: setattr_mask where "SetattrMask_MTIME_SET = push_bit 8 1"

definition UnlinkFlags_REMOVE_DIR :: unlink_flags where "UnlinkFlags_REMOVE_DIR = 0x200"
definition XattrFlags_CREATE :: xattr_flags where "XattrFlags_CREATE = 1"
definition XattrFlags_REPLACE :: xattr_flags where "XattrFlags_REPLACE = 2"

datatype lock_type = LockRead | LockWrite | LockUnlock

fun lock_type_to_u8 :: "lock_type \<Rightarrow> u8" where
  "lock_type_to_u8 LockRead = 0"
| "lock_type_to_u8 LockWrite = 1"
| "lock_type_to_u8 LockUnlock = 2"

definition lock_type_try_from :: "u8 \<Rightarrow> u8 + lock_type" where
  "lock_type_try_from value =
     (if value = 0 then Inr LockRead
      else if value = 1 then Inr LockWrite
      else if value = 2 then Inr LockUnlock
      else Inl value)"

datatype lock_status = LockSuccess | LockBlocked | LockError | LockGrace

fun lock_status_to_u8 :: "lock_status \<Rightarrow> u8" where
  "lock_status_to_u8 LockSuccess = 0"
| "lock_status_to_u8 LockBlocked = 1"
| "lock_status_to_u8 LockError = 2"
| "lock_status_to_u8 LockGrace = 3"

lemma lock_type_try_from_iff: "lock_type_try_from v = Inr t \<longleftrightarrow> v = lock_type_to_u8 t"
  by (cases t) (auto simp: lock_type_try_from_def)

section \<open>Message numbers (message_type.rs)\<close>

datatype (plugins only: code) message_type =
    Rlerror | Tstatfs | Rstatfs | Tlopen | Rlopen | Tlcreate | Rlcreate | Tsymlink
  | Rsymlink | Tmknod | Rmknod | Trename | Rrename | Treadlink | Rreadlink | Tgetattr
  | Rgetattr | Tsetattr | Rsetattr | Txattrwalk | Rxattrwalk | Txattrcreate | Rxattrcreate | Treaddir
  | Rreaddir | Tfsync | Rfsync | Tlock | Rlock | Tgetlock | Rgetlock | Tlink
  | Rlink | Tmkdir | Rmkdir | Trenameat | Rrenameat | Tunlinkat | Runlinkat | Tversion
  | Rversion | Tauth | Rauth | Tattach | Rattach | Tflush | Rflush | Twalk
  | Rwalk | Tread | Rread | Twrite | Rwrite | Tclunk | Rclunk | Tremove
  | Rremove

primrec to_u8 :: "message_type \<Rightarrow> u8" where
  "to_u8 Rlerror = 7"
| "to_u8 Tstatfs = 8"
| "to_u8 Rstatfs = 9"
| "to_u8 Tlopen = 12"
| "to_u8 Rlopen = 13"
| "to_u8 Tlcreate = 14"
| "to_u8 Rlcreate = 15"
| "to_u8 Tsymlink = 16"
| "to_u8 Rsymlink = 17"
| "to_u8 Tmknod = 18"
| "to_u8 Rmknod = 19"
| "to_u8 Trename = 20"
| "to_u8 Rrename = 21"
| "to_u8 Treadlink = 22"
| "to_u8 Rreadlink = 23"
| "to_u8 Tgetattr = 24"
| "to_u8 Rgetattr = 25"
| "to_u8 Tsetattr = 26"
| "to_u8 Rsetattr = 27"
| "to_u8 Txattrwalk = 30"
| "to_u8 Rxattrwalk = 31"
| "to_u8 Txattrcreate = 32"
| "to_u8 Rxattrcreate = 33"
| "to_u8 Treaddir = 40"
| "to_u8 Rreaddir = 41"
| "to_u8 Tfsync = 50"
| "to_u8 Rfsync = 51"
| "to_u8 Tlock = 52"
| "to_u8 Rlock = 53"
| "to_u8 Tgetlock = 54"
| "to_u8 Rgetlock = 55"
| "to_u8 Tlink = 70"
| "to_u8 Rlink = 71"
| "to_u8 Tmkdir = 72"
| "to_u8 Rmkdir = 73"
| "to_u8 Trenameat = 74"
| "to_u8 Rrenameat = 75"
| "to_u8 Tunlinkat = 76"
| "to_u8 Runlinkat = 77"
| "to_u8 Tversion = 100"
| "to_u8 Rversion = 101"
| "to_u8 Tauth = 102"
| "to_u8 Rauth = 103"
| "to_u8 Tattach = 104"
| "to_u8 Rattach = 105"
| "to_u8 Tflush = 108"
| "to_u8 Rflush = 109"
| "to_u8 Twalk = 110"
| "to_u8 Rwalk = 111"
| "to_u8 Tread = 116"
| "to_u8 Rread = 117"
| "to_u8 Twrite = 118"
| "to_u8 Rwrite = 119"
| "to_u8 Tclunk = 120"
| "to_u8 Rclunk = 121"
| "to_u8 Tremove = 122"
| "to_u8 Rremove = 123"

text \<open>The match of \<open>TryFrom<u8>\<close>, one row per arm.\<close>

definition message_type_table :: "(u8 \<times> message_type) list" where
  "message_type_table =
    [(7, Rlerror), (8, Tstatfs), (9, Rstatfs), (12, Tlopen), (13, Rlopen), (14, Tlcreate),
     (15, Rlcreate), (16, Tsymlink), (17, Rsymlink), (18, Tmknod), (19, Rmknod), (20, Trename),
     (21, Rrename), (22, Treadlink), (23, Rreadlink), (24, Tgetattr), (25, Rgetattr), (26, Tsetattr),
     (27, Rsetattr), (30, Txattrwalk), (31, Rxattrwalk), (32, Txattrcreate), (33, Rxattrcreate), (40, Treaddir),
     (41, Rreaddir), (50, Tfsync), (51, Rfsync), (52, Tlock), (53, Rlock), (54, Tgetlock),
     (55, Rgetlock), (70, Tlink), (71, Rlink), (72, Tmkdir), (73, Rmkdir), (74, Trenameat),
     (75, Rrenameat), (76, Tunlinkat), (77, Runlinkat), (100, Tversion), (101, Rversion), (102, Tauth),
     (103, Rauth), (104, Tattach), (105, Rattach), (108, Tflush), (109, Rflush), (110, Twalk),
     (111, Rwalk), (116, Tread), (117, Rread), (118, Twrite), (119, Rwrite), (120, Tclunk),
     (121, Rclunk), (122, Tremove), (123, Rremove)]"

definition message_type_try_from :: "u8 \<Rightarrow> u8 + message_type" where
  "message_type_try_from value =
     (case map_of message_type_table value of Some m \<Rightarrow> Inr m | None \<Rightarrow> Inl value)"

definition is_request :: "message_type \<Rightarrow> bool" where
  "is_request m \<longleftrightarrow> m \<in> set
    [Tstatfs, Tlopen, Tlcreate, Tsymlink, Tmknod, Trename, Treadlink, Tgetattr,
     Tsetattr, Txattrwalk, Txattrcreate, Treaddir, Tfsync, Tlock, Tgetlock, Tlink,
     Tmkdir, Trenameat, Tunlinkat, Tversion, Tauth, Tattach, Tflush, Twalk,
     Tread, Twrite, Tclunk, Tremove]"

datatype dispatch_class = Protocol | Policy | FilesystemOrPolicy | Filesystem

record operation_spec =
  os_request :: message_type
  os_response :: message_type
  os_dispatch :: dispatch_class

definition OPERATION_MATRIX :: "operation_spec list" where
  "OPERATION_MATRIX =
    [\<lparr>os_request = Tversion, os_response = Rversion, os_dispatch = Protocol\<rparr>,
     \<lparr>os_request = Tauth, os_response = Rauth, os_dispatch = Policy\<rparr>,
     \<lparr>os_request = Tattach, os_response = Rattach, os_dispatch = Policy\<rparr>,
     \<lparr>os_request = Tflush, os_response = Rflush, os_dispatch = Protocol\<rparr>,
     \<lparr>os_request = Twalk, os_response = Rwalk, os_dispatch = Filesystem\<rparr>,
     \<lparr>os_request = Tclunk, os_response = Rclunk, os_dispatch = FilesystemOrPolicy\<rparr>,
     \<lparr>os_request = Tlopen, os_response = Rlopen, os_dispatch = Filesystem\<rparr>,
     \<lparr>os_request = Tlcreate, os_response = Rlcreate, os_dispatch = Filesystem\<rparr>,
     \<lparr>os_request = Tmkdir, os_response = Rmkdir, os_dispatch = Filesystem\<rparr>,
     \<lparr>os_request = Tmknod, os_response = Rmknod, os_dispatch = Filesystem\<rparr>,
     \<lparr>os_request = Tsymlink, os_response = Rsymlink, os_dispatch = Filesystem\<rparr>,
     \<lparr>os_request = Tread, os_response = Rread, os_dispatch = FilesystemOrPolicy\<rparr>,
     \<lparr>os_request = Twrite, os_response = Rwrite, os_dispatch = FilesystemOrPolicy\<rparr>,
     \<lparr>os_request = Treaddir, os_response = Rreaddir, os_dispatch = Filesystem\<rparr>,
     \<lparr>os_request = Tfsync, os_response = Rfsync, os_dispatch = Filesystem\<rparr>,
     \<lparr>os_request = Tstatfs, os_response = Rstatfs, os_dispatch = Filesystem\<rparr>,
     \<lparr>os_request = Tgetattr, os_response = Rgetattr, os_dispatch = Filesystem\<rparr>,
     \<lparr>os_request = Tsetattr, os_response = Rsetattr, os_dispatch = Filesystem\<rparr>,
     \<lparr>os_request = Treadlink, os_response = Rreadlink, os_dispatch = Filesystem\<rparr>,
     \<lparr>os_request = Trename, os_response = Rrename, os_dispatch = Filesystem\<rparr>,
     \<lparr>os_request = Trenameat, os_response = Rrenameat, os_dispatch = Filesystem\<rparr>,
     \<lparr>os_request = Tremove, os_response = Rremove, os_dispatch = Filesystem\<rparr>,
     \<lparr>os_request = Tunlinkat, os_response = Runlinkat, os_dispatch = Filesystem\<rparr>,
     \<lparr>os_request = Tlink, os_response = Rlink, os_dispatch = Filesystem\<rparr>,
     \<lparr>os_request = Txattrwalk, os_response = Rxattrwalk, os_dispatch = Filesystem\<rparr>,
     \<lparr>os_request = Txattrcreate, os_response = Rxattrcreate, os_dispatch = Filesystem\<rparr>,
     \<lparr>os_request = Tlock, os_response = Rlock, os_dispatch = Filesystem\<rparr>,
     \<lparr>os_request = Tgetlock, os_response = Rgetlock, os_dispatch = Filesystem\<rparr>]"


section \<open>Composite structures (structures.rs)\<close>

datatype structure_error =
    InvalidNanoseconds | UnknownMaskBits | InvalidComponentName | InvalidXattrName
  | ConflictingXattrFlags | UnknownLockFlags

record statfs =
  st_ty :: u32
  st_block_size :: u32
  st_blocks :: u64
  st_blocks_free :: u64
  st_blocks_available :: u64
  st_files :: u64
  st_files_free :: u64
  st_filesystem_id :: u64
  st_max_name_length :: u32

record timestamp =
  ts_seconds :: u64
  ts_nanoseconds :: u64

definition timestamp_is_valid :: "timestamp \<Rightarrow> bool" where
  "timestamp_is_valid t \<longleftrightarrow> ts_nanoseconds t < 1000000000"

record file_attributes =
  fa_valid :: getattr_mask
  fa_qid :: qid
  fa_mode :: u32
  fa_uid :: u32
  fa_gid :: u32
  fa_link_count :: u64
  fa_device :: u64
  fa_size :: u64
  fa_block_size :: u64
  fa_blocks :: u64
  fa_accessed :: timestamp
  fa_modified :: timestamp
  fa_changed :: timestamp
  fa_created :: timestamp
  fa_generation :: u64
  fa_data_version :: u64

definition fa_has_valid_timestamps :: "file_attributes \<Rightarrow> bool" where
  "fa_has_valid_timestamps a \<longleftrightarrow>
     (\<not> contains_bits (fa_valid a) GetattrMask_ATIME \<or> timestamp_is_valid (fa_accessed a)) \<and>
     (\<not> contains_bits (fa_valid a) GetattrMask_MTIME \<or> timestamp_is_valid (fa_modified a)) \<and>
     (\<not> contains_bits (fa_valid a) GetattrMask_CTIME \<or> timestamp_is_valid (fa_changed a)) \<and>
     (\<not> contains_bits (fa_valid a) GetattrMask_BTIME \<or> timestamp_is_valid (fa_created a))"

definition fa_validate :: "file_attributes \<Rightarrow> structure_error + unit" where
  "fa_validate a =
     (if fa_valid a AND NOT GetattrMask_ALL \<noteq> 0 then Inl UnknownMaskBits
      else if \<not> fa_has_valid_timestamps a then Inl InvalidNanoseconds
      else Inr ())"

record set_attributes =
  sa_valid :: setattr_mask
  sa_mode :: u32
  sa_uid :: u32
  sa_gid :: u32
  sa_size :: u64
  sa_accessed :: timestamp
  sa_modified :: timestamp

definition sa_has_valid_timestamps :: "set_attributes \<Rightarrow> bool" where
  "sa_has_valid_timestamps a \<longleftrightarrow>
     (\<not> contains_bits (sa_valid a) SetattrMask_ATIME_SET \<or> timestamp_is_valid (sa_accessed a)) \<and>
     (\<not> contains_bits (sa_valid a) SetattrMask_MTIME_SET \<or> timestamp_is_valid (sa_modified a))"

definition sa_validate :: "set_attributes \<Rightarrow> structure_error + unit" where
  "sa_validate a =
     (if sa_valid a AND NOT 0x1ff \<noteq> 0 then Inl UnknownMaskBits
      else if contains_bits (sa_valid a) SetattrMask_ATIME_SET \<and>
              \<not> contains_bits (sa_valid a) SetattrMask_ATIME then Inl UnknownMaskBits
      else if contains_bits (sa_valid a) SetattrMask_MTIME_SET \<and>
              \<not> contains_bits (sa_valid a) SetattrMask_MTIME then Inl UnknownMaskBits
      else if \<not> sa_has_valid_timestamps a then Inl InvalidNanoseconds
      else Inr ())"

record directory_entry =
  de_qid :: qid
  de_offset :: u64
  de_ty :: u8
  de_name :: rstring

definition validate_component :: "rstring \<Rightarrow> structure_error + unit" where
  "validate_component name =
     (if name = [] \<or> 0x2F \<in> set name \<or> 0 \<in> set name then Inl InvalidComponentName else Inr ())"

definition de_validate :: "directory_entry \<Rightarrow> structure_error + unit" where
  "de_validate e = validate_component (de_name e)"

record lock =
  lk_ty :: lock_type
  lk_start :: u64
  lk_length :: u64
  lk_process_id :: u32
  lk_client_id :: rstring

record lock_request =
  lr_lock :: lock
  lr_flags :: lock_flags

definition lr_validate :: "lock_request \<Rightarrow> structure_error + unit" where
  "lr_validate r = (if lr_flags r AND NOT 0x3 \<noteq> 0 then Inl UnknownLockFlags else Inr ())"

record user_identity =
  ui_name :: rstring
  ui_numeric_id :: "u32 option"

definition from_wire :: "rstring \<Rightarrow> u32 \<Rightarrow> user_identity" where
  "from_wire name numeric_id =
     \<lparr>ui_name = name,
      ui_numeric_id = (if numeric_id \<noteq> NO_NUMERIC_USER then Some numeric_id else None)\<rparr>"

definition numeric_wire_value :: "user_identity \<Rightarrow> u32" where
  "numeric_wire_value u =
     (case ui_numeric_id u of Some value \<Rightarrow> value | None \<Rightarrow> NO_NUMERIC_USER)"

definition xattr_name_new :: "rstring \<Rightarrow> structure_error + rstring" where
  "xattr_name_new name = (if name = [] \<or> 0 \<in> set name then Inl InvalidXattrName else Inr name)"

definition xattr_validate_flags :: "xattr_flags \<Rightarrow> structure_error + unit" where
  "xattr_validate_flags flags =
     (if flags AND NOT 0x3 \<noteq> 0 then Inl UnknownMaskBits
      else if contains_bits flags XattrFlags_CREATE \<and> contains_bits flags XattrFlags_REPLACE
      then Inl ConflictingXattrFlags
      else Inr ())"

section \<open>Requests and responses (message.rs)\<close>

datatype (plugins only: code) request_body =
    ReqVersion u32 rstring \<comment> \<open>msize, version\<close>
  | ReqAuth fid rstring rstring u32 \<comment> \<open>afid, uname, aname, n_uname\<close>
  | ReqAttach fid fid rstring rstring u32 \<comment> \<open>fid, afid, uname, aname, n_uname\<close>
  | ReqFlush tag \<comment> \<open>old_tag\<close>
  | ReqWalk fid fid "rstring list" \<comment> \<open>fid, new_fid, names\<close>
  | ReqClunk fid \<comment> \<open>fid\<close>
  | ReqLopen fid open_flags \<comment> \<open>fid, flags\<close>
  | ReqLcreate fid rstring open_flags u32 u32 \<comment> \<open>fid, name, flags, mode, gid\<close>
  | ReqMkdir fid rstring u32 u32 \<comment> \<open>directory, name, mode, gid\<close>
  | ReqMknod fid rstring u32 u32 u32 u32 \<comment> \<open>directory, name, mode, major, minor, gid\<close>
  | ReqSymlink fid rstring rstring u32 \<comment> \<open>directory, name, target, gid\<close>
  | ReqRead fid u64 u32 \<comment> \<open>fid, offset, count\<close>
  | ReqWrite fid u64 bytes \<comment> \<open>fid, offset, data\<close>
  | ReqReaddir fid u64 u32 \<comment> \<open>fid, offset, count\<close>
  | ReqFsync fid bool \<comment> \<open>fid, data_only\<close>
  | ReqStatfs fid \<comment> \<open>fid\<close>
  | ReqGetattr fid getattr_mask \<comment> \<open>fid, mask\<close>
  | ReqSetattr fid set_attributes \<comment> \<open>fid, attributes\<close>
  | ReqReadlink fid \<comment> \<open>fid\<close>
  | ReqRename fid fid rstring \<comment> \<open>fid, directory, name\<close>
  | ReqRenameAt fid rstring fid rstring \<comment> \<open>old_directory, old_name, new_directory, new_name\<close>
  | ReqRemove fid \<comment> \<open>fid\<close>
  | ReqUnlinkAt fid rstring unlink_flags \<comment> \<open>directory, name, flags\<close>
  | ReqLink fid fid rstring \<comment> \<open>directory, target, name\<close>
  | ReqXattrWalk fid fid rstring \<comment> \<open>fid, new_fid, name\<close>
  | ReqXattrCreate fid rstring u64 xattr_flags \<comment> \<open>fid, name, size, flags\<close>
  | ReqLock fid lock_request \<comment> \<open>fid, lock\<close>
  | ReqGetlock fid lock \<comment> \<open>fid, lock\<close>

record request =
  req_tag :: tag
  req_body :: request_body

primrec request_message_type :: "request_body \<Rightarrow> message_type" where
  "request_message_type (ReqVersion _ _) = Tversion"
| "request_message_type (ReqAuth _ _ _ _) = Tauth"
| "request_message_type (ReqAttach _ _ _ _ _) = Tattach"
| "request_message_type (ReqFlush _) = Tflush"
| "request_message_type (ReqWalk _ _ _) = Twalk"
| "request_message_type (ReqClunk _) = Tclunk"
| "request_message_type (ReqLopen _ _) = Tlopen"
| "request_message_type (ReqLcreate _ _ _ _ _) = Tlcreate"
| "request_message_type (ReqMkdir _ _ _ _) = Tmkdir"
| "request_message_type (ReqMknod _ _ _ _ _ _) = Tmknod"
| "request_message_type (ReqSymlink _ _ _ _) = Tsymlink"
| "request_message_type (ReqRead _ _ _) = Tread"
| "request_message_type (ReqWrite _ _ _) = Twrite"
| "request_message_type (ReqReaddir _ _ _) = Treaddir"
| "request_message_type (ReqFsync _ _) = Tfsync"
| "request_message_type (ReqStatfs _) = Tstatfs"
| "request_message_type (ReqGetattr _ _) = Tgetattr"
| "request_message_type (ReqSetattr _ _) = Tsetattr"
| "request_message_type (ReqReadlink _) = Treadlink"
| "request_message_type (ReqRename _ _ _) = Trename"
| "request_message_type (ReqRenameAt _ _ _ _) = Trenameat"
| "request_message_type (ReqRemove _) = Tremove"
| "request_message_type (ReqUnlinkAt _ _ _) = Tunlinkat"
| "request_message_type (ReqLink _ _ _) = Tlink"
| "request_message_type (ReqXattrWalk _ _ _) = Txattrwalk"
| "request_message_type (ReqXattrCreate _ _ _ _) = Txattrcreate"
| "request_message_type (ReqLock _ _) = Tlock"
| "request_message_type (ReqGetlock _ _) = Tgetlock"

datatype (plugins only: code) response_body =
    ResVersion u32 rstring \<comment> \<open>msize, version\<close>
  | ResAuth qid \<comment> \<open>qid\<close>
  | ResAttach qid \<comment> \<open>qid\<close>
  | ResFlush
  | ResWalk "qid list" \<comment> \<open>qids\<close>
  | ResClunk
  | ResLopen qid u32 \<comment> \<open>qid, io_unit\<close>
  | ResLcreate qid u32 \<comment> \<open>qid, io_unit\<close>
  | ResMkdir qid \<comment> \<open>qid\<close>
  | ResMknod qid \<comment> \<open>qid\<close>
  | ResSymlink qid \<comment> \<open>qid\<close>
  | ResRead bytes \<comment> \<open>data\<close>
  | ResWrite u32 \<comment> \<open>count\<close>
  | ResReaddir bytes \<comment> \<open>data\<close>
  | ResFsync
  | ResStatfs statfs
  | ResGetattr file_attributes
  | ResSetattr
  | ResReadlink rstring \<comment> \<open>target\<close>
  | ResRename
  | ResRenameAt
  | ResRemove
  | ResUnlinkAt
  | ResLink
  | ResXattrWalk u64 \<comment> \<open>size\<close>
  | ResXattrCreate
  | ResLock lock_status \<comment> \<open>status\<close>
  | ResGetlock lock \<comment> \<open>lock\<close>
  | ResLerror linux_errno

record response =
  res_tag :: tag
  res_body :: response_body

primrec response_message_type :: "response_body \<Rightarrow> message_type" where
  "response_message_type (ResVersion _ _) = Rversion"
| "response_message_type (ResAuth _) = Rauth"
| "response_message_type (ResAttach _) = Rattach"
| "response_message_type ResFlush = Rflush"
| "response_message_type (ResWalk _) = Rwalk"
| "response_message_type ResClunk = Rclunk"
| "response_message_type (ResLopen _ _) = Rlopen"
| "response_message_type (ResLcreate _ _) = Rlcreate"
| "response_message_type (ResMkdir _) = Rmkdir"
| "response_message_type (ResMknod _) = Rmknod"
| "response_message_type (ResSymlink _) = Rsymlink"
| "response_message_type (ResRead _) = Rread"
| "response_message_type (ResWrite _) = Rwrite"
| "response_message_type (ResReaddir _) = Rreaddir"
| "response_message_type ResFsync = Rfsync"
| "response_message_type (ResStatfs _) = Rstatfs"
| "response_message_type (ResGetattr _) = Rgetattr"
| "response_message_type ResSetattr = Rsetattr"
| "response_message_type (ResReadlink _) = Rreadlink"
| "response_message_type ResRename = Rrename"
| "response_message_type ResRenameAt = Rrenameat"
| "response_message_type ResRemove = Rremove"
| "response_message_type ResUnlinkAt = Runlinkat"
| "response_message_type ResLink = Rlink"
| "response_message_type (ResXattrWalk _) = Rxattrwalk"
| "response_message_type ResXattrCreate = Rxattrcreate"
| "response_message_type (ResLock _) = Rlock"
| "response_message_type (ResGetlock _) = Rgetlock"
| "response_message_type (ResLerror _) = Rlerror"

section \<open>Message numbers and the operation matrix\<close>

lemma message_type_try_from_to_u8 [simp]: "message_type_try_from (to_u8 m) = Inr m"
  by (cases m) (simp_all add: message_type_try_from_def message_type_table_def)

lemma message_type_try_from_iff: "message_type_try_from v = Inr m \<longleftrightarrow> v = to_u8 m"
proof
  assume "message_type_try_from v = Inr m"
  then have "(v, m) \<in> set message_type_table"
    by (auto simp: message_type_try_from_def split: option.splits dest: map_of_SomeD)
  then show "v = to_u8 m"
    by (auto simp: message_type_table_def)
qed simp

lemma to_u8_inject: "to_u8 a = to_u8 b \<longleftrightarrow> a = b"
  by (metis Inr_inject message_type_try_from_to_u8)

lemma is_request_request_message_type [simp]: "is_request (request_message_type b)"
  by (cases b) (simp_all add: is_request_def)

lemma not_is_request_response_message_type [simp]: "\<not> is_request (response_message_type b)"
  by (cases b) (simp_all add: is_request_def)

end
