(* ===== verification/Wire_Codec.thy ===== *)
theory Wire_Codec
  imports Wire_Types
begin

text \<open>
  The checked little-endian request decoder and response encoder of
  \<open>crates/w9pt/src/protocol/codec.rs\<close>, with the wire error domains of \<open>error.rs\<close> and the
  configured bounds of \<open>limits.rs\<close> that the decoder reads. \<open>Reader\<close> and \<open>Writer\<close> are the
  source's cursor structs; every \<open>?\<close> of the source is an \<open>sbind\<close>.
\<close>

section \<open>Error domains (error.rs)\<close>

datatype decode_error =
    Incomplete nat nat \<comment> \<open>needed, available\<close>
  | FrameTooSmall u32
  | FrameTooLarge u32 u32 \<comment> \<open>size, maximum\<close>
  | LengthMismatch u32 nat \<comment> \<open>declared, actual\<close>
  | UnknownMessageType u8
  | UnexpectedResponse u8
  | InvalidUtf8 nat \<comment> \<open>offset\<close>
  | StringTooLong nat nat \<comment> \<open>length, maximum\<close>
  | CountTooLarge string nat nat \<comment> \<open>kind, count, maximum\<close>
  | ArithmeticOverflow
  | InvalidValue string
  | TrailingBytes nat \<comment> \<open>remaining\<close>

datatype encode_error =
    EncFrameTooLarge nat u32 \<comment> \<open>size, maximum\<close>
  | EncStringTooLong nat nat
  | EncCountTooLarge string nat nat
  | EncArithmeticOverflow
  | EncInvalidValue string

section \<open>Configured bounds (limits.rs)\<close>

definition MIN_FRAME_SIZE :: u32 where
  "MIN_FRAME_SIZE = 7"

record limits =
  max_frame_size :: u32
  max_buffered_input_bytes :: nat
  max_queued_effects :: nat
  max_queued_effect_bytes :: nat
  max_in_flight_tags :: nat
  max_fids :: nat
  max_walk_elements :: nat
  max_string_bytes :: nat
  max_pending_write_bytes :: nat

datatype invalid_limits =
    TooSmall string
  | TooLarge string
  | Inconsistent string string \<comment> \<open>smaller, larger\<close>

definition first_zero :: "(string \<times> nat) list \<Rightarrow> string option" where
  "first_zero named = map_option fst (List.find (\<lambda>(name, value). value = 0) named)"

definition limits_validate :: "limits \<Rightarrow> invalid_limits + unit" where
  "limits_validate l =
     (if max_frame_size l < MIN_FRAME_SIZE then Inl (TooSmall ''max_frame_size'')
      else case first_zero
         [(''max_buffered_input_bytes'', max_buffered_input_bytes l),
          (''max_queued_effects'', max_queued_effects l),
          (''max_queued_effect_bytes'', max_queued_effect_bytes l),
          (''max_in_flight_tags'', max_in_flight_tags l),
          (''max_fids'', max_fids l),
          (''max_walk_elements'', max_walk_elements l),
          (''max_string_bytes'', max_string_bytes l),
          (''max_pending_write_bytes'', max_pending_write_bytes l)] of
        Some name \<Rightarrow> Inl (TooSmall name)
      | None \<Rightarrow>
          if max_buffered_input_bytes l < unat (max_frame_size l)
          then Inl (Inconsistent ''max_buffered_input_bytes'' ''max_frame_size'')
          else if max_string_bytes l > 65535 then Inl (TooLarge ''max_string_bytes'')
          else if max_walk_elements l > 65535 then Inl (TooLarge ''max_walk_elements'')
          else Inr ())"

text \<open>Every \<open>usize\<close> field holds a \<open>usize\<close>.\<close>

definition limits_usize :: "limits \<Rightarrow> bool" where
  "limits_usize l \<longleftrightarrow>
     max_buffered_input_bytes l \<le> usize_max \<and> max_queued_effects l \<le> usize_max \<and>
     max_queued_effect_bytes l \<le> usize_max \<and> max_in_flight_tags l \<le> usize_max \<and>
     max_fids l \<le> usize_max \<and> max_walk_elements l \<le> usize_max \<and>
     max_string_bytes l \<le> usize_max \<and> max_pending_write_bytes l \<le> usize_max"

definition limits_default :: limits where
  "limits_default =
     \<lparr>max_frame_size = 1024 * 1024,
      max_buffered_input_bytes = 1024 * 1024,
      max_queued_effects = 256,
      max_queued_effect_bytes = 4 * 1024 * 1024,
      max_in_flight_tags = 128,
      max_fids = 4096,
      max_walk_elements = 16,
      max_string_bytes = 4096,
      max_pending_write_bytes = 8 * 1024 * 1024\<rparr>"

section \<open>Reader\<close>

record reader =
  rd_bytes :: bytes
  rd_offset :: nat

type_synonym 'a parser = "(reader, decode_error, 'a) action"

definition reader_new :: "bytes \<Rightarrow> reader" where
  "reader_new bs = \<lparr>rd_bytes = bs, rd_offset = 0\<rparr>"

definition reader_remaining :: "reader \<Rightarrow> nat" where
  "reader_remaining r = length (rd_bytes r) - rd_offset r"

definition reader_take :: "nat \<Rightarrow> bytes parser" where
  "reader_take n r =
     (case usize_checked_add (rd_offset r) n of
        None \<Rightarrow> (Inl ArithmeticOverflow, r)
      | Some stop \<Rightarrow>
          if stop \<le> length (rd_bytes r)
          then (Inr (take n (drop (rd_offset r) (rd_bytes r))), r\<lparr>rd_offset := stop\<rparr>)
          else (Inl (Incomplete n (reader_remaining r)), r))"

definition reader_u8 :: "u8 parser" where
  "reader_u8 = sbind (reader_take 1) (\<lambda>bs. sreturn (hd bs))"

definition reader_u16 :: "u16 parser" where
  "reader_u16 = sbind (reader_take 2) (\<lambda>bs. sreturn (from_le_bytes bs))"

definition reader_u32 :: "u32 parser" where
  "reader_u32 = sbind (reader_take 4) (\<lambda>bs. sreturn (from_le_bytes bs))"

definition reader_u64 :: "u64 parser" where
  "reader_u64 = sbind (reader_take 8) (\<lambda>bs. sreturn (from_le_bytes bs))"

definition reader_string :: "nat \<Rightarrow> rstring parser" where
  "reader_string maximum =
     sbind reader_u16 (\<lambda>len.
       let n = unat len in
       if n > maximum then sfail (StringTooLong n maximum)
       else (\<lambda>r. let offset = rd_offset r in
              sbind (reader_take n) (\<lambda>value.
                if utf8_valid value then sreturn value
                else sfail (InvalidUtf8 offset)) r))"

definition reader_bytes :: "nat \<Rightarrow> bytes parser" where
  "reader_bytes n = reader_take n"

definition reader_finish :: "reader \<Rightarrow> decode_error + unit" where
  "reader_finish r =
     (if reader_remaining r = 0 then Inr () else Inl (TrailingBytes (reader_remaining r)))"

section \<open>Request decoding\<close>

definition validate_component_name :: "rstring \<Rightarrow> decode_error + unit" where
  "validate_component_name name =
     (if name = [] \<or> 0x2F \<in> set name \<or> 0 \<in> set name
      then Inl (InvalidValue ''path component'') else Inr ())"

fun map_structure_error :: "structure_error \<Rightarrow> decode_error" where
  "map_structure_error InvalidNanoseconds = InvalidValue ''nanoseconds''"
| "map_structure_error UnknownMaskBits = InvalidValue ''mask bits''"
| "map_structure_error InvalidComponentName = InvalidValue ''path component''"
| "map_structure_error InvalidXattrName = InvalidValue ''xattr name''"
| "map_structure_error ConflictingXattrFlags = InvalidValue ''xattr flags''"
| "map_structure_error UnknownLockFlags = InvalidValue ''lock flags''"

definition validate_frame :: "bytes \<Rightarrow> u32 \<Rightarrow> decode_error + unit" where
  "validate_frame frame maximum =
     (if length frame < 4 then Inl (Incomplete 4 (length frame))
      else let declared = from_le_bytes (take 4 frame) :: u32 in
        if declared < of_nat HEADER_SIZE then Inl (FrameTooSmall declared)
        else if declared > maximum then Inl (FrameTooLarge declared maximum)
        else if unat declared \<noteq> length frame then Inl (LengthMismatch declared (length frame))
        else Inr ())"

text \<open>The arms of the decoder's \<open>match message_type\<close>, one definition per message.\<close>

definition decode_version :: "nat \<Rightarrow> request_body parser" where
  "decode_version string_limit =
     sbind reader_u32 (\<lambda>msize.
     sbind (reader_string string_limit) (\<lambda>version.
     sreturn (ReqVersion msize version)))"

definition decode_auth :: "nat \<Rightarrow> request_body parser" where
  "decode_auth string_limit =
     sbind reader_u32 (\<lambda>afid.
     sbind (reader_string string_limit) (\<lambda>uname.
     sbind (reader_string string_limit) (\<lambda>aname.
     sbind reader_u32 (\<lambda>n_uname.
     sreturn (ReqAuth afid uname aname n_uname)))))"

definition decode_attach :: "nat \<Rightarrow> request_body parser" where
  "decode_attach string_limit =
     sbind reader_u32 (\<lambda>fid.
     sbind reader_u32 (\<lambda>afid.
     sbind (reader_string string_limit) (\<lambda>uname.
     sbind (reader_string string_limit) (\<lambda>aname.
     sbind reader_u32 (\<lambda>n_uname.
     sreturn (ReqAttach fid afid uname aname n_uname))))))"

definition decode_flush :: "request_body parser" where
  "decode_flush = sbind reader_u16 (\<lambda>old_tag. sreturn (ReqFlush old_tag))"

text \<open>A name that must be one path component: read, then validated.\<close>

definition reader_component :: "nat \<Rightarrow> rstring parser" where
  "reader_component string_limit =
     sbind (reader_string string_limit) (\<lambda>name.
     sbind (slift (validate_component_name name)) (\<lambda>_. sreturn name))"

fun reader_names :: "nat \<Rightarrow> nat \<Rightarrow> rstring list parser" where
  "reader_names string_limit 0 = sreturn []"
| "reader_names string_limit (Suc n) =
     sbind (reader_component string_limit) (\<lambda>name.
     sbind (reader_names string_limit n) (\<lambda>names.
     sreturn (name # names)))"

definition decode_walk :: "limits \<Rightarrow> request_body parser" where
  "decode_walk lim =
     sbind reader_u32 (\<lambda>fid.
     sbind reader_u32 (\<lambda>new_fid.
     sbind reader_u16 (\<lambda>c.
       let count = unat c in
       if count > max_walk_elements lim
       then sfail (CountTooLarge ''walk elements'' count (max_walk_elements lim))
       else sbind (reader_names (max_string_bytes lim) count) (\<lambda>names.
            sreturn (ReqWalk fid new_fid names)))))"

definition decode_clunk :: "request_body parser" where
  "decode_clunk = sbind reader_u32 (\<lambda>fid. sreturn (ReqClunk fid))"

definition decode_lopen :: "request_body parser" where
  "decode_lopen =
     sbind reader_u32 (\<lambda>fid. sbind reader_u32 (\<lambda>flags. sreturn (ReqLopen fid flags)))"

definition decode_lcreate :: "nat \<Rightarrow> request_body parser" where
  "decode_lcreate string_limit =
     sbind reader_u32 (\<lambda>fid.
     sbind (reader_component string_limit) (\<lambda>name.
     sbind reader_u32 (\<lambda>flags.
     sbind reader_u32 (\<lambda>mode.
     sbind reader_u32 (\<lambda>gid.
     sreturn (ReqLcreate fid name flags mode gid))))))"

definition decode_mkdir :: "nat \<Rightarrow> request_body parser" where
  "decode_mkdir string_limit =
     sbind reader_u32 (\<lambda>directory.
     sbind (reader_component string_limit) (\<lambda>name.
     sbind reader_u32 (\<lambda>mode.
     sbind reader_u32 (\<lambda>gid.
     sreturn (ReqMkdir directory name mode gid)))))"

definition decode_mknod :: "nat \<Rightarrow> request_body parser" where
  "decode_mknod string_limit =
     sbind reader_u32 (\<lambda>directory.
     sbind (reader_component string_limit) (\<lambda>name.
     sbind reader_u32 (\<lambda>mode.
     sbind reader_u32 (\<lambda>major.
     sbind reader_u32 (\<lambda>minor.
     sbind reader_u32 (\<lambda>gid.
     sreturn (ReqMknod directory name mode major minor gid)))))))"

definition decode_symlink :: "nat \<Rightarrow> request_body parser" where
  "decode_symlink string_limit =
     sbind reader_u32 (\<lambda>directory.
     sbind (reader_component string_limit) (\<lambda>name.
     sbind (reader_string string_limit) (\<lambda>target.
     sbind reader_u32 (\<lambda>gid.
     sreturn (ReqSymlink directory name target gid)))))"

definition decode_read :: "request_body parser" where
  "decode_read =
     sbind reader_u32 (\<lambda>fid.
     sbind reader_u64 (\<lambda>offset.
     sbind reader_u32 (\<lambda>count.
     sreturn (ReqRead fid offset count))))"

definition decode_write :: "limits \<Rightarrow> request_body parser" where
  "decode_write lim =
     sbind reader_u32 (\<lambda>fid.
     sbind reader_u64 (\<lambda>offset.
     sbind reader_u32 (\<lambda>c.
       let count = unat c in
       if count > max_pending_write_bytes lim
       then sfail (CountTooLarge ''write bytes'' count (max_pending_write_bytes lim))
       else sbind (reader_bytes count) (\<lambda>data.
            sreturn (ReqWrite fid offset data)))))"

definition decode_readdir :: "request_body parser" where
  "decode_readdir =
     sbind reader_u32 (\<lambda>fid.
     sbind reader_u64 (\<lambda>offset.
     sbind reader_u32 (\<lambda>count.
     sreturn (ReqReaddir fid offset count))))"

definition decode_fsync :: "request_body parser" where
  "decode_fsync =
     sbind reader_u32 (\<lambda>fid.
     sbind reader_u32 (\<lambda>v.
       if v = 0 then sreturn (ReqFsync fid False)
       else if v = 1 then sreturn (ReqFsync fid True)
       else sfail (InvalidValue ''fsync datasync'')))"

definition decode_statfs :: "request_body parser" where
  "decode_statfs = sbind reader_u32 (\<lambda>fid. sreturn (ReqStatfs fid))"

definition decode_getattr :: "request_body parser" where
  "decode_getattr =
     sbind reader_u32 (\<lambda>fid.
     sbind reader_u64 (\<lambda>mask.
       if mask AND NOT GetattrMask_ALL \<noteq> 0 then sfail (InvalidValue ''getattr mask'')
       else sreturn (ReqGetattr fid mask)))"

definition reader_timestamp :: "timestamp parser" where
  "reader_timestamp =
     sbind reader_u64 (\<lambda>seconds.
     sbind reader_u64 (\<lambda>nanoseconds.
     sreturn \<lparr>ts_seconds = seconds, ts_nanoseconds = nanoseconds\<rparr>))"

definition decode_setattr :: "request_body parser" where
  "decode_setattr =
     sbind reader_u32 (\<lambda>fid.
     sbind reader_u32 (\<lambda>valid.
     sbind reader_u32 (\<lambda>mode.
     sbind reader_u32 (\<lambda>uid.
     sbind reader_u32 (\<lambda>gid.
     sbind reader_u64 (\<lambda>size.
     sbind reader_timestamp (\<lambda>accessed.
     sbind reader_timestamp (\<lambda>modified.
       let attributes =
         \<lparr>sa_valid = valid, sa_mode = mode, sa_uid = uid, sa_gid = gid, sa_size = size,
          sa_accessed = accessed, sa_modified = modified\<rparr>
       in sbind (slift (map_err map_structure_error (sa_validate attributes))) (\<lambda>_.
          sreturn (ReqSetattr fid attributes))))))))))"

definition decode_readlink :: "request_body parser" where
  "decode_readlink = sbind reader_u32 (\<lambda>fid. sreturn (ReqReadlink fid))"

definition decode_rename :: "nat \<Rightarrow> request_body parser" where
  "decode_rename string_limit =
     sbind reader_u32 (\<lambda>fid.
     sbind reader_u32 (\<lambda>directory.
     sbind (reader_component string_limit) (\<lambda>name.
     sreturn (ReqRename fid directory name))))"

definition decode_renameat :: "nat \<Rightarrow> request_body parser" where
  "decode_renameat string_limit =
     sbind reader_u32 (\<lambda>old_directory.
     sbind (reader_component string_limit) (\<lambda>old_name.
     sbind reader_u32 (\<lambda>new_directory.
     sbind (reader_component string_limit) (\<lambda>new_name.
     sreturn (ReqRenameAt old_directory old_name new_directory new_name)))))"

definition decode_remove :: "request_body parser" where
  "decode_remove = sbind reader_u32 (\<lambda>fid. sreturn (ReqRemove fid))"

definition decode_unlinkat :: "nat \<Rightarrow> request_body parser" where
  "decode_unlinkat string_limit =
     sbind reader_u32 (\<lambda>directory.
     sbind (reader_component string_limit) (\<lambda>name.
     sbind reader_u32 (\<lambda>flags.
       if flags AND NOT UnlinkFlags_REMOVE_DIR \<noteq> 0 then sfail (InvalidValue ''unlink flags'')
       else sreturn (ReqUnlinkAt directory name flags))))"

definition decode_link :: "nat \<Rightarrow> request_body parser" where
  "decode_link string_limit =
     sbind reader_u32 (\<lambda>directory.
     sbind reader_u32 (\<lambda>target.
     sbind (reader_component string_limit) (\<lambda>name.
     sreturn (ReqLink directory target name))))"

definition decode_xattrwalk :: "nat \<Rightarrow> request_body parser" where
  "decode_xattrwalk string_limit =
     sbind reader_u32 (\<lambda>fid.
     sbind reader_u32 (\<lambda>new_fid.
     sbind (reader_string string_limit) (\<lambda>name.
     sreturn (ReqXattrWalk fid new_fid name))))"

definition decode_xattrcreate :: "nat \<Rightarrow> request_body parser" where
  "decode_xattrcreate string_limit =
     sbind reader_u32 (\<lambda>fid.
     sbind (reader_string string_limit) (\<lambda>name.
     sbind (slift (map_err map_structure_error (xattr_name_new name))) (\<lambda>_.
     sbind reader_u64 (\<lambda>size.
     sbind reader_u32 (\<lambda>flags.
     sbind (slift (map_err map_structure_error (xattr_validate_flags flags))) (\<lambda>_.
     sreturn (ReqXattrCreate fid name size flags)))))))"

definition reader_lock_type :: "lock_type parser" where
  "reader_lock_type =
     sbind reader_u8 (\<lambda>v.
     slift (map_err (\<lambda>_. InvalidValue ''lock type'') (lock_type_try_from v)))"

definition decode_lock :: "nat \<Rightarrow> request_body parser" where
  "decode_lock string_limit =
     sbind reader_u32 (\<lambda>fid.
     sbind reader_lock_type (\<lambda>ty.
     sbind reader_u32 (\<lambda>flags.
     sbind reader_u64 (\<lambda>start.
     sbind reader_u64 (\<lambda>len.
     sbind reader_u32 (\<lambda>process_id.
     sbind (reader_string string_limit) (\<lambda>client_id.
       let lock = \<lparr>lr_lock = \<lparr>lk_ty = ty, lk_start = start, lk_length = len,
                              lk_process_id = process_id, lk_client_id = client_id\<rparr>,
                   lr_flags = flags\<rparr>
       in sbind (slift (map_err map_structure_error (lr_validate lock))) (\<lambda>_.
          sreturn (ReqLock fid lock)))))))))"

definition decode_getlock :: "nat \<Rightarrow> request_body parser" where
  "decode_getlock string_limit =
     sbind reader_u32 (\<lambda>fid.
     sbind reader_lock_type (\<lambda>ty.
     sbind reader_u64 (\<lambda>start.
     sbind reader_u64 (\<lambda>len.
     sbind reader_u32 (\<lambda>process_id.
     sbind (reader_string string_limit) (\<lambda>client_id.
     sreturn (ReqGetlock fid
       \<lparr>lk_ty = ty, lk_start = start, lk_length = len,
        lk_process_id = process_id, lk_client_id = client_id\<rparr>)))))))"

definition decode_body :: "limits \<Rightarrow> u8 \<Rightarrow> message_type \<Rightarrow> request_body parser" where
  "decode_body lim raw_type message_type =
     (let string_limit = max_string_bytes lim in
      case message_type of
        Tversion \<Rightarrow> decode_version string_limit
      | Tauth \<Rightarrow> decode_auth string_limit
      | Tattach \<Rightarrow> decode_attach string_limit
      | Tflush \<Rightarrow> decode_flush
      | Twalk \<Rightarrow> decode_walk lim
      | Tclunk \<Rightarrow> decode_clunk
      | Tlopen \<Rightarrow> decode_lopen
      | Tlcreate \<Rightarrow> decode_lcreate string_limit
      | Tmkdir \<Rightarrow> decode_mkdir string_limit
      | Tmknod \<Rightarrow> decode_mknod string_limit
      | Tsymlink \<Rightarrow> decode_symlink string_limit
      | Tread \<Rightarrow> decode_read
      | Twrite \<Rightarrow> decode_write lim
      | Treaddir \<Rightarrow> decode_readdir
      | Tfsync \<Rightarrow> decode_fsync
      | Tstatfs \<Rightarrow> decode_statfs
      | Tgetattr \<Rightarrow> decode_getattr
      | Tsetattr \<Rightarrow> decode_setattr
      | Treadlink \<Rightarrow> decode_readlink
      | Trename \<Rightarrow> decode_rename string_limit
      | Trenameat \<Rightarrow> decode_renameat string_limit
      | Tremove \<Rightarrow> decode_remove
      | Tunlinkat \<Rightarrow> decode_unlinkat string_limit
      | Tlink \<Rightarrow> decode_link string_limit
      | Txattrwalk \<Rightarrow> decode_xattrwalk string_limit
      | Txattrcreate \<Rightarrow> decode_xattrcreate string_limit
      | Tlock \<Rightarrow> decode_lock string_limit
      | Tgetlock \<Rightarrow> decode_getlock string_limit
      | _ \<Rightarrow> sfail (UnexpectedResponse raw_type))"

definition decode_header_and_body :: "limits \<Rightarrow> request parser" where
  "decode_header_and_body lim =
     sbind reader_u32 (\<lambda>declared_size.
     sbind reader_u8 (\<lambda>raw_type.
     sbind (slift (map_err UnknownMessageType (message_type_try_from raw_type))) (\<lambda>message_type.
       if \<not> is_request message_type then sfail (UnexpectedResponse raw_type)
       else
         sbind reader_u16 (\<lambda>tag.
         sbind (decode_body lim raw_type message_type) (\<lambda>body r.
           case reader_finish r of
             Inl e \<Rightarrow> (Inl e, r)
           | Inr _ \<Rightarrow> (Inr \<lparr>req_tag = tag, req_body = body\<rparr>, r))))))"

definition decode_request :: "bytes \<Rightarrow> limits \<Rightarrow> u32 \<Rightarrow> decode_error + request" where
  "decode_request frame lim maximum =
     (case validate_frame frame maximum of
        Inl e \<Rightarrow> Inl e
      | Inr _ \<Rightarrow> fst (decode_header_and_body lim (reader_new frame)))"

section \<open>Writer\<close>

record writer =
  wr_bytes :: bytes
  wr_maximum :: u32

type_synonym emitter = "(writer, encode_error, unit) action"

definition writer_reserve :: "nat \<Rightarrow> emitter" where
  "writer_reserve additional w =
     (case usize_checked_add (length (wr_bytes w)) additional of
        None \<Rightarrow> (Inl EncArithmeticOverflow, w)
      | Some sz \<Rightarrow>
          if sz > unat (wr_maximum w) then (Inl (EncFrameTooLarge sz (wr_maximum w)), w)
          else (Inr (), w))"

definition writer_extend :: "bytes \<Rightarrow> emitter" where
  "writer_extend bs =
     sbind (writer_reserve (length bs)) (\<lambda>_.
     smodify (\<lambda>w. w\<lparr>wr_bytes := wr_bytes w @ bs\<rparr>))"

definition writer_u8 :: "u8 \<Rightarrow> emitter" where
  "writer_u8 value =
     sbind (writer_reserve 1) (\<lambda>_.
     smodify (\<lambda>w. w\<lparr>wr_bytes := wr_bytes w @ [value]\<rparr>))"

definition writer_u16 :: "u16 \<Rightarrow> emitter" where
  "writer_u16 value = writer_extend (to_le_bytes 2 value)"

definition writer_u32 :: "u32 \<Rightarrow> emitter" where
  "writer_u32 value = writer_extend (to_le_bytes 4 value)"

definition writer_u64 :: "u64 \<Rightarrow> emitter" where
  "writer_u64 value = writer_extend (to_le_bytes 8 value)"

definition writer_string :: "rstring \<Rightarrow> emitter" where
  "writer_string value =
     (case try_from_nat (length value) :: u16 option of
        None \<Rightarrow> sfail (EncStringTooLong (length value) 65535)
      | Some len \<Rightarrow> sbind (writer_u16 len) (\<lambda>_. writer_extend value))"

definition writer_qid :: "qid \<Rightarrow> emitter" where
  "writer_qid value =
     sbind (writer_u8 (qid_ty value)) (\<lambda>_.
     sbind (writer_u32 (qid_version value)) (\<lambda>_.
     writer_u64 (qid_path value)))"

definition writer_frame :: "message_type \<Rightarrow> tag \<Rightarrow> u32 \<Rightarrow> encode_error + writer" where
  "writer_frame message_type tag maximum =
     (if maximum < of_nat HEADER_SIZE then Inl (EncFrameTooLarge HEADER_SIZE maximum)
      else
        case sbind (writer_u8 (to_u8 message_type)) (\<lambda>_. writer_u16 tag)
               \<lparr>wr_bytes = [0, 0, 0, 0], wr_maximum = maximum\<rparr> of
          (Inl e, _) \<Rightarrow> Inl e
        | (Inr _, w) \<Rightarrow> Inr w)"

definition writer_finish :: "writer \<Rightarrow> encode_error + bytes" where
  "writer_finish w =
     (case try_from_nat (length (wr_bytes w)) :: u32 option of
        None \<Rightarrow> Inl EncArithmeticOverflow
      | Some sz \<Rightarrow> Inr (to_le_bytes 4 sz @ drop 4 (wr_bytes w)))"

section \<open>Response encoding\<close>

fun map_structure_encode_error :: "structure_error \<Rightarrow> encode_error" where
  "map_structure_encode_error InvalidNanoseconds = EncInvalidValue ''nanoseconds''"
| "map_structure_encode_error UnknownMaskBits = EncInvalidValue ''mask bits''"
| "map_structure_encode_error InvalidComponentName = EncInvalidValue ''path component''"
| "map_structure_encode_error InvalidXattrName = EncInvalidValue ''xattr name''"
| "map_structure_encode_error ConflictingXattrFlags = EncInvalidValue ''xattr flags''"
| "map_structure_encode_error UnknownLockFlags = EncInvalidValue ''lock flags''"

definition write_timestamp :: "timestamp \<Rightarrow> emitter" where
  "write_timestamp t =
     sbind (writer_u64 (ts_seconds t)) (\<lambda>_. writer_u64 (ts_nanoseconds t))"

definition write_lock :: "lock \<Rightarrow> emitter" where
  "write_lock l =
     sbind (writer_u8 (lock_type_to_u8 (lk_ty l))) (\<lambda>_.
     sbind (writer_u64 (lk_start l)) (\<lambda>_.
     sbind (writer_u64 (lk_length l)) (\<lambda>_.
     sbind (writer_u32 (lk_process_id l)) (\<lambda>_.
     writer_string (lk_client_id l)))))"

fun writer_qids :: "qid list \<Rightarrow> emitter" where
  "writer_qids [] = sreturn ()"
| "writer_qids (q # qs) = sbind (writer_qid q) (\<lambda>_. writer_qids qs)"

definition write_walk :: "qid list \<Rightarrow> emitter" where
  "write_walk qids =
     (case try_from_nat (length qids) :: u16 option of
        None \<Rightarrow> sfail (EncCountTooLarge ''walk qids'' (length qids) 65535)
      | Some n \<Rightarrow> sbind (writer_u16 n) (\<lambda>_. writer_qids qids))"

definition write_data :: "bytes \<Rightarrow> emitter" where
  "write_data data =
     (case try_from_nat (length data) :: u32 option of
        None \<Rightarrow> sfail (EncCountTooLarge ''response data'' (length data) (2 ^ 32 - 1))
      | Some n \<Rightarrow> sbind (writer_u32 n) (\<lambda>_. writer_extend data))"

definition write_statfs :: "statfs \<Rightarrow> emitter" where
  "write_statfs s =
     sbind (writer_u32 (st_ty s)) (\<lambda>_.
     sbind (writer_u32 (st_block_size s)) (\<lambda>_.
     sbind (writer_u64 (st_blocks s)) (\<lambda>_.
     sbind (writer_u64 (st_blocks_free s)) (\<lambda>_.
     sbind (writer_u64 (st_blocks_available s)) (\<lambda>_.
     sbind (writer_u64 (st_files s)) (\<lambda>_.
     sbind (writer_u64 (st_files_free s)) (\<lambda>_.
     sbind (writer_u64 (st_filesystem_id s)) (\<lambda>_.
     writer_u32 (st_max_name_length s)))))))))"

definition write_attributes :: "file_attributes \<Rightarrow> emitter" where
  "write_attributes a =
     sbind (slift (map_err map_structure_encode_error (fa_validate a))) (\<lambda>_.
     sbind (writer_u64 (fa_valid a)) (\<lambda>_.
     sbind (writer_qid (fa_qid a)) (\<lambda>_.
     sbind (writer_u32 (fa_mode a)) (\<lambda>_.
     sbind (writer_u32 (fa_uid a)) (\<lambda>_.
     sbind (writer_u32 (fa_gid a)) (\<lambda>_.
     sbind (writer_u64 (fa_link_count a)) (\<lambda>_.
     sbind (writer_u64 (fa_device a)) (\<lambda>_.
     sbind (writer_u64 (fa_size a)) (\<lambda>_.
     sbind (writer_u64 (fa_block_size a)) (\<lambda>_.
     sbind (writer_u64 (fa_blocks a)) (\<lambda>_.
     sbind (write_timestamp (fa_accessed a)) (\<lambda>_.
     sbind (write_timestamp (fa_modified a)) (\<lambda>_.
     sbind (write_timestamp (fa_changed a)) (\<lambda>_.
     sbind (write_timestamp (fa_created a)) (\<lambda>_.
     sbind (writer_u64 (fa_generation a)) (\<lambda>_.
     writer_u64 (fa_data_version a)))))))))))))))))"

primrec write_body :: "response_body \<Rightarrow> emitter" where
  "write_body (ResVersion msize version) =
     sbind (writer_u32 msize) (\<lambda>_. writer_string version)"
| "write_body (ResAuth qid) = writer_qid qid"
| "write_body (ResAttach qid) = writer_qid qid"
| "write_body ResFlush = sreturn ()"
| "write_body (ResWalk qids) = write_walk qids"
| "write_body ResClunk = sreturn ()"
| "write_body (ResLopen qid io_unit) =
     sbind (writer_qid qid) (\<lambda>_. writer_u32 io_unit)"
| "write_body (ResLcreate qid io_unit) =
     sbind (writer_qid qid) (\<lambda>_. writer_u32 io_unit)"
| "write_body (ResMkdir qid) = writer_qid qid"
| "write_body (ResMknod qid) = writer_qid qid"
| "write_body (ResSymlink qid) = writer_qid qid"
| "write_body (ResRead data) = write_data data"
| "write_body (ResWrite n) = writer_u32 n"
| "write_body (ResReaddir data) = write_data data"
| "write_body ResFsync = sreturn ()"
| "write_body (ResStatfs statfs) = write_statfs statfs"
| "write_body (ResGetattr attributes) = write_attributes attributes"
| "write_body ResSetattr = sreturn ()"
| "write_body (ResReadlink target) = writer_string target"
| "write_body ResRename = sreturn ()"
| "write_body ResRenameAt = sreturn ()"
| "write_body ResRemove = sreturn ()"
| "write_body ResUnlinkAt = sreturn ()"
| "write_body ResLink = sreturn ()"
| "write_body (ResXattrWalk n) = writer_u64 n"
| "write_body ResXattrCreate = sreturn ()"
| "write_body (ResLock status) = writer_u8 (lock_status_to_u8 status)"
| "write_body (ResGetlock lock) = write_lock lock"
| "write_body (ResLerror error) = writer_u32 error"

definition encode_response :: "response \<Rightarrow> u32 \<Rightarrow> encode_error + bytes" where
  "encode_response response maximum =
     (case writer_frame (response_message_type (res_body response)) (res_tag response) maximum of
        Inl e \<Rightarrow> Inl e
      | Inr w \<Rightarrow>
          (case write_body (res_body response) w of
             (Inl e, _) \<Rightarrow> Inl e
           | (Inr _, w') \<Rightarrow> writer_finish w'))"

text \<open>
  Directory records: the loop carries the bytes emitted so far. \<open>record_length\<close> cannot overflow
  (a name of at most 65535 bytes plus 24), so the first checked sum is written as its value; the
  second keeps its check.
\<close>

definition directory_record :: "directory_entry \<Rightarrow> u16 \<Rightarrow> bytes" where
  "directory_record entry name_length =
     [qid_ty (de_qid entry)] @ to_le_bytes 4 (qid_version (de_qid entry)) @
     to_le_bytes 8 (qid_path (de_qid entry)) @ to_le_bytes 8 (de_offset entry) @
     [de_ty entry] @ to_le_bytes 2 name_length @ de_name entry"

fun directory_loop :: "nat \<Rightarrow> nat \<Rightarrow> bytes \<Rightarrow> directory_entry list \<Rightarrow> encode_error + bytes" where
  "directory_loop maximum_data_bytes maximum_string_bytes bs [] = Inr bs"
| "directory_loop maximum_data_bytes maximum_string_bytes bs (entry # entries) =
     (case map_err map_structure_encode_error (de_validate entry) of
        Inl e \<Rightarrow> Inl e
      | Inr _ \<Rightarrow>
          if length (de_name entry) > maximum_string_bytes
          then Inl (EncStringTooLong (length (de_name entry)) maximum_string_bytes)
          else
            (case try_from_nat (length (de_name entry)) :: u16 option of
               None \<Rightarrow> Inl (EncStringTooLong (length (de_name entry)) 65535)
             | Some name_length \<Rightarrow>
                 let record_length = 13 + 8 + 1 + 2 + length (de_name entry) in
                 (case usize_checked_add (length bs) record_length of
                    None \<Rightarrow> Inl EncArithmeticOverflow
                  | Some new_length \<Rightarrow>
                      if new_length > maximum_data_bytes then Inr bs
                      else directory_loop maximum_data_bytes maximum_string_bytes
                             (bs @ directory_record entry name_length) entries)))"

definition encode_directory_entries ::
  "directory_entry list \<Rightarrow> nat \<Rightarrow> nat \<Rightarrow> encode_error + bytes" where
  "encode_directory_entries entries maximum_data_bytes maximum_string_bytes =
     directory_loop maximum_data_bytes maximum_string_bytes [] entries"

end
