(* ===== verification/Wire_Format.thy ===== *)
theory Wire_Format
  imports Wire_Codec
begin

text \<open>
  The wire format as a specification, and the proof that the decoder and the encoder of
  \<open>codec.rs\<close> implement it exactly. The format of a request or response is the concatenation of
  its little-endian fields; \<open>request_ok\<close> and \<open>response_ok\<close> say which values the code admits.
  The interface locales \<open>wire_field\<close> (a \<open>Reader\<close> method against a format) and \<open>wire_emitter\<close>
  (a \<open>Writer\<close> method against a format) compose along \<open>sbind\<close>, so that the statement for a
  whole message is assembled from its fields.
\<close>

section \<open>The format\<close>

definition wire_string :: "rstring \<Rightarrow> bytes" where
  "wire_string s = to_le_bytes 2 (of_nat (length s) :: u16) @ s"

definition wire_qid :: "qid \<Rightarrow> bytes" where
  "wire_qid q = [qid_ty q] @ to_le_bytes 4 (qid_version q) @ to_le_bytes 8 (qid_path q)"

definition wire_timestamp :: "timestamp \<Rightarrow> bytes" where
  "wire_timestamp t = to_le_bytes 8 (ts_seconds t) @ to_le_bytes 8 (ts_nanoseconds t)"

definition wire_lock_range :: "lock \<Rightarrow> bytes" where
  "wire_lock_range l =
     to_le_bytes 8 (lk_start l) @ to_le_bytes 8 (lk_length l) @
     to_le_bytes 4 (lk_process_id l) @ wire_string (lk_client_id l)"

primrec wire_request_body :: "request_body \<Rightarrow> bytes" where
  "wire_request_body (ReqVersion msize version) = to_le_bytes 4 msize @ wire_string version"
| "wire_request_body (ReqAuth afid uname aname n_uname) =
     to_le_bytes 4 afid @ wire_string uname @ wire_string aname @ to_le_bytes 4 n_uname"
| "wire_request_body (ReqAttach fid afid uname aname n_uname) =
     to_le_bytes 4 fid @ to_le_bytes 4 afid @ wire_string uname @ wire_string aname @
     to_le_bytes 4 n_uname"
| "wire_request_body (ReqFlush old_tag) = to_le_bytes 2 old_tag"
| "wire_request_body (ReqWalk fid new_fid names) =
     to_le_bytes 4 fid @ to_le_bytes 4 new_fid @ to_le_bytes 2 (of_nat (length names) :: u16) @
     concat (map wire_string names)"
| "wire_request_body (ReqClunk fid) = to_le_bytes 4 fid"
| "wire_request_body (ReqLopen fid flags) = to_le_bytes 4 fid @ to_le_bytes 4 flags"
| "wire_request_body (ReqLcreate fid name flags mode gid) =
     to_le_bytes 4 fid @ wire_string name @ to_le_bytes 4 flags @ to_le_bytes 4 mode @
     to_le_bytes 4 gid"
| "wire_request_body (ReqMkdir directory name mode gid) =
     to_le_bytes 4 directory @ wire_string name @ to_le_bytes 4 mode @ to_le_bytes 4 gid"
| "wire_request_body (ReqMknod directory name mode major minor gid) =
     to_le_bytes 4 directory @ wire_string name @ to_le_bytes 4 mode @ to_le_bytes 4 major @
     to_le_bytes 4 minor @ to_le_bytes 4 gid"
| "wire_request_body (ReqSymlink directory name target gid) =
     to_le_bytes 4 directory @ wire_string name @ wire_string target @ to_le_bytes 4 gid"
| "wire_request_body (ReqRead fid offset n) =
     to_le_bytes 4 fid @ to_le_bytes 8 offset @ to_le_bytes 4 n"
| "wire_request_body (ReqWrite fid offset data) =
     to_le_bytes 4 fid @ to_le_bytes 8 offset @ to_le_bytes 4 (of_nat (length data) :: u32) @ data"
| "wire_request_body (ReqReaddir fid offset n) =
     to_le_bytes 4 fid @ to_le_bytes 8 offset @ to_le_bytes 4 n"
| "wire_request_body (ReqFsync fid data_only) =
     to_le_bytes 4 fid @ to_le_bytes 4 (if data_only then 1 else 0 :: u32)"
| "wire_request_body (ReqStatfs fid) = to_le_bytes 4 fid"
| "wire_request_body (ReqGetattr fid m) = to_le_bytes 4 fid @ to_le_bytes 8 m"
| "wire_request_body (ReqSetattr fid a) =
     to_le_bytes 4 fid @ to_le_bytes 4 (sa_valid a) @ to_le_bytes 4 (sa_mode a) @
     to_le_bytes 4 (sa_uid a) @ to_le_bytes 4 (sa_gid a) @ to_le_bytes 8 (sa_size a) @
     wire_timestamp (sa_accessed a) @ wire_timestamp (sa_modified a)"
| "wire_request_body (ReqReadlink fid) = to_le_bytes 4 fid"
| "wire_request_body (ReqRename fid directory name) =
     to_le_bytes 4 fid @ to_le_bytes 4 directory @ wire_string name"
| "wire_request_body (ReqRenameAt old_directory old_name new_directory new_name) =
     to_le_bytes 4 old_directory @ wire_string old_name @ to_le_bytes 4 new_directory @
     wire_string new_name"
| "wire_request_body (ReqRemove fid) = to_le_bytes 4 fid"
| "wire_request_body (ReqUnlinkAt directory name flags) =
     to_le_bytes 4 directory @ wire_string name @ to_le_bytes 4 flags"
| "wire_request_body (ReqLink directory target name) =
     to_le_bytes 4 directory @ to_le_bytes 4 target @ wire_string name"
| "wire_request_body (ReqXattrWalk fid new_fid name) =
     to_le_bytes 4 fid @ to_le_bytes 4 new_fid @ wire_string name"
| "wire_request_body (ReqXattrCreate fid name sz flags) =
     to_le_bytes 4 fid @ wire_string name @ to_le_bytes 8 sz @ to_le_bytes 4 flags"
| "wire_request_body (ReqLock fid l) =
     to_le_bytes 4 fid @ [lock_type_to_u8 (lk_ty (lr_lock l))] @ to_le_bytes 4 (lr_flags l) @
     wire_lock_range (lr_lock l)"
| "wire_request_body (ReqGetlock fid l) =
     to_le_bytes 4 fid @ [lock_type_to_u8 (lk_ty l)] @ wire_lock_range l"

definition string_ok :: "nat \<Rightarrow> rstring \<Rightarrow> bool" where
  "string_ok lim s \<longleftrightarrow> length s \<le> lim \<and> length s < 65536 \<and> utf8_valid s"

definition component_ok :: "nat \<Rightarrow> rstring \<Rightarrow> bool" where
  "component_ok lim s \<longleftrightarrow> string_ok lim s \<and> s \<noteq> [] \<and> 0x2F \<notin> set s \<and> 0 \<notin> set s"

text \<open>The values the decoder admits, under the configured limits.\<close>

primrec request_ok :: "limits \<Rightarrow> request_body \<Rightarrow> bool" where
  "request_ok lim (ReqVersion msize version) = string_ok (max_string_bytes lim) version"
| "request_ok lim (ReqAuth afid uname aname n_uname) =
     (string_ok (max_string_bytes lim) uname \<and> string_ok (max_string_bytes lim) aname)"
| "request_ok lim (ReqAttach fid afid uname aname n_uname) =
     (string_ok (max_string_bytes lim) uname \<and> string_ok (max_string_bytes lim) aname)"
| "request_ok lim (ReqFlush old_tag) = True"
| "request_ok lim (ReqWalk fid new_fid names) =
     (length names \<le> max_walk_elements lim \<and> length names < 65536 \<and>
      (\<forall>name \<in> set names. component_ok (max_string_bytes lim) name))"
| "request_ok lim (ReqClunk fid) = True"
| "request_ok lim (ReqLopen fid flags) = True"
| "request_ok lim (ReqLcreate fid name flags mode gid) = component_ok (max_string_bytes lim) name"
| "request_ok lim (ReqMkdir directory name mode gid) = component_ok (max_string_bytes lim) name"
| "request_ok lim (ReqMknod directory name mode major minor gid) =
     component_ok (max_string_bytes lim) name"
| "request_ok lim (ReqSymlink directory name target gid) =
     (component_ok (max_string_bytes lim) name \<and> string_ok (max_string_bytes lim) target)"
| "request_ok lim (ReqRead fid offset n) = True"
| "request_ok lim (ReqWrite fid offset data) =
     (length data \<le> max_pending_write_bytes lim \<and> length data < 2 ^ 32)"
| "request_ok lim (ReqReaddir fid offset n) = True"
| "request_ok lim (ReqFsync fid data_only) = True"
| "request_ok lim (ReqStatfs fid) = True"
| "request_ok lim (ReqGetattr fid m) = (m AND NOT GetattrMask_ALL = 0)"
| "request_ok lim (ReqSetattr fid a) = (sa_validate a = Inr ())"
| "request_ok lim (ReqReadlink fid) = True"
| "request_ok lim (ReqRename fid directory name) = component_ok (max_string_bytes lim) name"
| "request_ok lim (ReqRenameAt old_directory old_name new_directory new_name) =
     (component_ok (max_string_bytes lim) old_name \<and> component_ok (max_string_bytes lim) new_name)"
| "request_ok lim (ReqRemove fid) = True"
| "request_ok lim (ReqUnlinkAt directory name flags) =
     (component_ok (max_string_bytes lim) name \<and> flags AND NOT UnlinkFlags_REMOVE_DIR = 0)"
| "request_ok lim (ReqLink directory target name) = component_ok (max_string_bytes lim) name"
| "request_ok lim (ReqXattrWalk fid new_fid name) = string_ok (max_string_bytes lim) name"
| "request_ok lim (ReqXattrCreate fid name sz flags) =
     (string_ok (max_string_bytes lim) name \<and> name \<noteq> [] \<and> 0 \<notin> set name \<and>
      xattr_validate_flags flags = Inr ())"
| "request_ok lim (ReqLock fid l) =
     (string_ok (max_string_bytes lim) (lk_client_id (lr_lock l)) \<and> lr_validate l = Inr ())"
| "request_ok lim (ReqGetlock fid l) = string_ok (max_string_bytes lim) (lk_client_id l)"

definition wire_frame :: "message_type \<Rightarrow> tag \<Rightarrow> bytes \<Rightarrow> bytes" where
  "wire_frame m t payload =
     to_le_bytes 4 (of_nat (7 + length payload) :: u32) @ [to_u8 m] @ to_le_bytes 2 t @ payload"

definition wire_request :: "request \<Rightarrow> bytes" where
  "wire_request r =
     wire_frame (request_message_type (req_body r)) (req_tag r) (wire_request_body (req_body r))"

section \<open>Reader methods against formats\<close>

definition reader_ok :: "reader \<Rightarrow> bool" where
  "reader_ok r \<longleftrightarrow> rd_offset r \<le> length (rd_bytes r) \<and> length (rd_bytes r) \<le> usize_max"

definition reader_rest :: "reader \<Rightarrow> bytes" where
  "reader_rest r = drop (rd_offset r) (rd_bytes r)"

definition reader_advance :: "nat \<Rightarrow> reader \<Rightarrow> reader" where
  "reader_advance n r = r\<lparr>rd_offset := rd_offset r + n\<rparr>"

lemma reader_rest_advance: "reader_rest (reader_advance n r) = drop n (reader_rest r)"
  by (simp add: reader_rest_def reader_advance_def add.commute)

lemma reader_advance_add: "reader_advance m (reader_advance n r) = reader_advance (n + m) r"
  by (simp add: reader_advance_def)

lemma reader_ok_advance:
  assumes "reader_ok r" and "reader_rest r = b @ c"
  shows "reader_ok (reader_advance (length b) r)"
proof -
  have "length b \<le> length (rd_bytes r) - rd_offset r"
    using arg_cong [OF assms(2), of length] by (simp add: reader_rest_def)
  then show ?thesis
    using assms(1) by (auto simp: reader_ok_def reader_advance_def)
qed

text \<open>
  \<open>fmt x b\<close>: the bytes \<open>b\<close> are an encoding of \<open>x\<close>. The method succeeds exactly on the inputs
  that start with an encoding, returns what is encoded and consumes exactly the encoding.
\<close>

locale wire_field =
  fixes p :: "'a parser"
    and fmt :: "'a \<Rightarrow> bytes \<Rightarrow> bool"
  assumes parse_iff: "reader_ok r \<Longrightarrow> p r = (Inr x, r') \<longleftrightarrow>
    (\<exists>b. fmt x b \<and> take (length b) (reader_rest r) = b \<and> r' = reader_advance (length b) r)"
begin

lemma parse_encoding:
  assumes "reader_ok r" and "fmt x b" and "reader_rest r = b @ c"
  shows "p r = (Inr x, reader_advance (length b) r)"
  using assms by (auto simp: parse_iff)

lemma parse_consumes:
  assumes "reader_ok r" and "p r = (Inr x, r')"
  shows "\<exists>b. fmt x b \<and> reader_rest r = b @ reader_rest r' \<and> reader_ok r'"
proof -
  from assms obtain b where "fmt x b" and t: "take (length b) (reader_rest r) = b"
    and r': "r' = reader_advance (length b) r"
    by (auto simp: parse_iff)
  moreover from t have "reader_rest r = b @ drop (length b) (reader_rest r)"
    by (metis append_take_drop_id)
  ultimately show ?thesis
    using assms(1) reader_ok_advance by (auto simp: reader_rest_advance)
qed

end

named_theorems wire_field_intros

lemma wire_field_cong:
  assumes "wire_field p F" and "\<And>x b. F x b \<longleftrightarrow> G x b"
  shows "wire_field p G"
  using assms by (simp add: wire_field_def)

lemma wire_field_sreturn [wire_field_intros]: "wire_field (sreturn x) (\<lambda>y b. y = x \<and> b = [])"
  by unfold_locales (auto simp: reader_advance_def)

lemma wire_field_sfail [wire_field_intros]: "wire_field (sfail e) (\<lambda>y b. False)"
  by unfold_locales auto

lemma wire_field_slift [wire_field_intros]: "wire_field (slift r) (\<lambda>y b. r = Inr y \<and> b = [])"
  by unfold_locales (auto simp: reader_advance_def)

lemma wire_field_if [wire_field_intros]:
  "wire_field p F \<Longrightarrow> wire_field q G \<Longrightarrow>
   wire_field (if c then p else q) (\<lambda>y b. if c then F y b else G y b)"
  by simp

lemma wire_field_sbind [wire_field_intros]:
  assumes p: "wire_field p F" and f: "\<And>x. wire_field (f x) (G x)"
  shows "wire_field (sbind p f) (\<lambda>y b. \<exists>x b1 b2. F x b1 \<and> G x y b2 \<and> b = b1 @ b2)"
proof (unfold_locales, intro iffI)
  fix r y r'
  assume ok: "reader_ok r" and "sbind p f r = (Inr y, r')"
  then obtain x t where x: "p r = (Inr x, t)" and y: "f x t = (Inr y, r')"
    by (auto simp: sbind_eq_Inr)
  obtain b1 where b1: "F x b1" "take (length b1) (reader_rest r) = b1"
    and t: "t = reader_advance (length b1) r"
    using x wire_field.parse_iff [OF p ok] by auto
  have "reader_ok t"
    using reader_ok_advance [OF ok, of b1] b1(2) t by (metis append_take_drop_id)
  then obtain b2 where b2: "G x y b2" "take (length b2) (reader_rest t) = b2"
    and r': "r' = reader_advance (length b2) t"
    using y wire_field.parse_iff [OF f] by auto
  have "take (length (b1 @ b2)) (reader_rest r) = b1 @ b2"
    using b1(2) b2(2) t by (simp add: take_add reader_rest_advance)
  then show "\<exists>b. (\<exists>x b1 b2. F x b1 \<and> G x y b2 \<and> b = b1 @ b2) \<and>
      take (length b) (reader_rest r) = b \<and> r' = reader_advance (length b) r"
    using b1(1) b2(1) r' t by (intro exI [of _ "b1 @ b2"]) (auto simp: reader_advance_add)
next
  fix r y r'
  assume ok: "reader_ok r" and "\<exists>b. (\<exists>x b1 b2. F x b1 \<and> G x y b2 \<and> b = b1 @ b2) \<and>
      take (length b) (reader_rest r) = b \<and> r' = reader_advance (length b) r"
  then obtain x b1 b2 where F: "F x b1" and G: "G x y b2"
    and tk: "take (length b1 + length b2) (reader_rest r) = b1 @ b2"
    and r': "r' = reader_advance (length b1 + length b2) r"
    by auto
  let ?t = "reader_advance (length b1) r"
  have eq: "reader_rest r = b1 @ b2 @ drop (length b1 + length b2) (reader_rest r)"
    using tk by (metis append.assoc append_take_drop_id)
  have x: "p r = (Inr x, ?t)"
    using wire_field.parse_encoding [OF p ok F eq] .
  have okt: "reader_ok ?t"
    using reader_ok_advance [OF ok eq] .
  have "reader_rest ?t = b2 @ drop (length b1 + length b2) (reader_rest r)"
    using eq by (metis append_eq_conv_conj reader_rest_advance)
  then have "f x ?t = (Inr y, reader_advance (length b2) ?t)"
    using wire_field.parse_encoding [OF f okt G] by blast
  then show "sbind p f r = (Inr y, r')"
    using x r' by (simp add: reader_advance_add)
qed

lemma wire_field_take [wire_field_intros]:
  "wire_field (reader_take n) (\<lambda>x b. length x = n \<and> b = x)"
proof unfold_locales
  fix r x r' assume "reader_ok r"
  then show "reader_take n r = (Inr x, r') \<longleftrightarrow> (\<exists>b. (length x = n \<and> b = x) \<and>
      take (length b) (reader_rest r) = b \<and> r' = reader_advance (length b) r)"
    by (auto simp: reader_take_def reader_ok_def reader_rest_def reader_advance_def
        usize_checked_add_def split: if_splits)
qed


subsection \<open>Fields\<close>

lemma wire_field_u8 [wire_field_intros]: "wire_field reader_u8 (\<lambda>x b. b = [x])"
  unfolding reader_u8_def
  by (rule wire_field_cong, (rule wire_field_intros)+) (auto simp: length_Suc_conv)

lemma wire_field_u16 [wire_field_intros]: "wire_field reader_u16 (\<lambda>x b. b = to_le_bytes 2 x)"
  unfolding reader_u16_def
  by (rule wire_field_cong, (rule wire_field_intros)+)
    (auto simp: from_to_le_bytes to_from_le_bytes)

lemma wire_field_u32 [wire_field_intros]: "wire_field reader_u32 (\<lambda>x b. b = to_le_bytes 4 x)"
  unfolding reader_u32_def
  by (rule wire_field_cong, (rule wire_field_intros)+)
    (auto simp: from_to_le_bytes to_from_le_bytes)

lemma wire_field_u64 [wire_field_intros]: "wire_field reader_u64 (\<lambda>x b. b = to_le_bytes 8 x)"
  unfolding reader_u64_def
  by (rule wire_field_cong, (rule wire_field_intros)+)
    (auto simp: from_to_le_bytes to_from_le_bytes)

text \<open>The capture of the offset for the error message does not affect what is accepted.\<close>

lemma wire_field_utf8 [wire_field_intros]:
  "wire_field (\<lambda>r. sbind (reader_take n) (\<lambda>value.
      if utf8_valid value then sreturn value else sfail (InvalidUtf8 (rd_offset r))) r)
     (\<lambda>s b. length s = n \<and> utf8_valid s \<and> b = s)"
proof -
  have *: "wire_field (sbind (reader_take n) (\<lambda>value.
      if utf8_valid value then sreturn value else sfail (InvalidUtf8 k)))
      (\<lambda>s b. length s = n \<and> utf8_valid s \<and> b = s)" for k
    by (rule wire_field_cong, (rule wire_field_intros)+) (auto split: if_splits)
  show ?thesis
    using wire_field.parse_iff [OF *] by unfold_locales
qed

text \<open>A count prefix: the word that carries a length is determined by it.\<close>

lemma ex_length_prefix:
  "(\<exists>w :: 'a::len word. n = unat w \<and> P w) \<longleftrightarrow> n < 2 ^ LENGTH('a) \<and> P (of_nat n)"
  by (metis of_nat_unat unsigned_less unat_of_nat mod_less ucast_id)

lemma wire_field_string [wire_field_intros]:
  "wire_field (reader_string lim) (\<lambda>s b. string_ok lim s \<and> b = wire_string s)"
proof (rule wire_field_cong)
  show "wire_field (reader_string lim) (\<lambda>s b. \<exists>(len :: u16) b1 b2. b1 = to_le_bytes 2 len \<and>
      (if lim < unat len then False else length s = unat len \<and> utf8_valid s \<and> b2 = s) \<and>
      b = b1 @ b2)"
    unfolding reader_string_def Let_def by (rule wire_field_intros)+
  fix s b
  have "(\<exists>len :: u16. length s = unat len \<and> unat len \<le> lim \<and> utf8_valid s \<and>
      b = to_le_bytes 2 len @ s) \<longleftrightarrow> string_ok lim s \<and> b = wire_string s"
    by (auto simp: ex_length_prefix string_ok_def wire_string_def unat_of_nat)
  then show "(\<exists>(len :: u16) b1 b2. b1 = to_le_bytes 2 len \<and>
      (if lim < unat len then False else length s = unat len \<and> utf8_valid s \<and> b2 = s) \<and>
      b = b1 @ b2) \<longleftrightarrow> string_ok lim s \<and> b = wire_string s"
    by (auto simp: not_less)
qed

subsection \<open>Composite fields\<close>

lemma validate_component_name_iff [simp]:
  "validate_component_name name = Inr u \<longleftrightarrow> name \<noteq> [] \<and> 0x2F \<notin> set name \<and> 0 \<notin> set name"
  by (auto simp: validate_component_name_def)

lemma xattr_name_new_iff [simp]:
  "xattr_name_new name = Inr u \<longleftrightarrow> u = name \<and> name \<noteq> [] \<and> 0 \<notin> set name"
  by (auto simp: xattr_name_new_def)

lemma wire_field_component [wire_field_intros]:
  "wire_field (reader_component lim) (\<lambda>s b. component_ok lim s \<and> b = wire_string s)"
  unfolding reader_component_def
  by (rule wire_field_cong, (rule wire_field_intros)+) (auto simp: component_ok_def)

lemma wire_field_names [wire_field_intros]:
  "wire_field (reader_names lim n)
     (\<lambda>names b. length names = n \<and> (\<forall>s \<in> set names. component_ok lim s) \<and>
        b = concat (map wire_string names))"
proof (induction n)
  case 0
  show ?case
    by (simp only: reader_names.simps, rule wire_field_cong, rule wire_field_sreturn) auto
next
  case (Suc n)
  show ?case
    by (simp only: reader_names.simps, rule wire_field_cong,
        (rule wire_field_intros Suc.IH)+) (fastforce simp: length_Suc_conv)
qed

lemma wire_field_timestamp [wire_field_intros]:
  "wire_field reader_timestamp (\<lambda>t b. b = wire_timestamp t)"
proof (unfold reader_timestamp_def, rule wire_field_cong, (rule wire_field_intros)+)
  fix t :: timestamp and b
  show "(\<exists>x b1 b2. b1 = to_le_bytes 8 x \<and> (\<exists>y b3 b4. b3 = to_le_bytes 8 y \<and>
      (t = \<lparr>ts_seconds = x, ts_nanoseconds = y\<rparr> \<and> b4 = []) \<and> b2 = b3 @ b4) \<and> b = b1 @ b2) \<longleftrightarrow>
      b = wire_timestamp t"
    by (cases t) (auto simp: wire_timestamp_def)
qed

lemma wire_field_lock_type [wire_field_intros]:
  "wire_field reader_lock_type (\<lambda>t b. b = [lock_type_to_u8 t])"
  unfolding reader_lock_type_def
  by (rule wire_field_cong, (rule wire_field_intros)+) (auto simp: lock_type_try_from_iff)

subsection \<open>Messages\<close>

text \<open>The encodings of the admitted requests of one message type.\<close>

definition body_format :: "limits \<Rightarrow> message_type \<Rightarrow> request_body \<Rightarrow> bytes \<Rightarrow> bool" where
  "body_format lim m y b \<longleftrightarrow>
     request_message_type y = m \<and> request_ok lim y \<and> b = wire_request_body y"

lemma map_err_Inr_iff [simp]: "map_err f r = Inr x \<longleftrightarrow> r = Inr x"
  by (cases r) (auto simp: map_err_def)

text \<open>A length-prefixed field whose length is checked against a bound before it is read.\<close>

lemma wire_field_counted:
  assumes "wire_field rd (\<lambda>c b. b = to_le_bytes k c)"
    and "\<And>c. wire_field (p c) (\<lambda>x b. length x = unat c \<and> F x b)"
  shows "wire_field
    (sbind rd (\<lambda>c :: 'w::len word.
       if unat c > m then sfail (e c) else sbind (p c) (\<lambda>x. sreturn (g x))))
    (\<lambda>y b. \<exists>x b2. y = g x \<and> length x \<le> m \<and> length x < 2 ^ LENGTH('w) \<and> F x b2 \<and>
       b = to_le_bytes k (of_nat (length x) :: 'w word) @ b2)"
proof (rule wire_field_cong)
  show "wire_field
    (sbind rd (\<lambda>c. if unat c > m then sfail (e c) else sbind (p c) (\<lambda>x. sreturn (g x))))
    (\<lambda>y b. \<exists>(c :: 'w word) b1 b2. b1 = to_le_bytes k c \<and>
       (if unat c > m then False
        else \<exists>x b3 b4. (length x = unat c \<and> F x b3) \<and> (y = g x \<and> b4 = []) \<and> b2 = b3 @ b4) \<and>
       b = b1 @ b2)"
    by (rule wire_field_intros assms)+
  fix y b
  have "(\<exists>x b2 (c :: 'w word). length x = unat c \<and> y = g x \<and> unat c \<le> m \<and> F x b2 \<and> b = to_le_bytes k c @ b2) \<longleftrightarrow>
    (\<exists>x b2. y = g x \<and> length x \<le> m \<and> length x < 2 ^ LENGTH('w) \<and> F x b2 \<and>
       b = to_le_bytes k (of_nat (length x) :: 'w word) @ b2)" (is "?A \<longleftrightarrow> ?B")
    by (auto simp: ex_length_prefix unat_of_nat)
  then show "(\<exists>(c :: 'w word) b1 b2. b1 = to_le_bytes k c \<and>
       (if unat c > m then False
        else \<exists>x b3 b4. (length x = unat c \<and> F x b3) \<and> (y = g x \<and> b4 = []) \<and> b2 = b3 @ b4) \<and>
       b = b1 @ b2) \<longleftrightarrow> ?B"
    by (auto simp: not_less split: if_splits)
qed

lemma set_attributes_eq_iff:
  "a = \<lparr>sa_valid = v, sa_mode = m, sa_uid = u, sa_gid = g, sa_size = s, sa_accessed = x,
     sa_modified = y\<rparr> \<longleftrightarrow>
   v = sa_valid a \<and> m = sa_mode a \<and> u = sa_uid a \<and> g = sa_gid a \<and> s = sa_size a \<and>
   x = sa_accessed a \<and> y = sa_modified a"
  by (cases a) auto

lemma set_attributes_eta:
  "\<lparr>sa_valid = sa_valid a, sa_mode = sa_mode a, sa_uid = sa_uid a, sa_gid = sa_gid a,
    sa_size = sa_size a, sa_accessed = sa_accessed a, sa_modified = sa_modified a\<rparr> = a"
  by (cases a) simp

lemma lock_eta:
  "\<lparr>lk_ty = lk_ty l, lk_start = lk_start l, lk_length = lk_length l,
    lk_process_id = lk_process_id l, lk_client_id = lk_client_id l\<rparr> = l"
  by (cases l) simp

lemma lock_request_eta: "\<lparr>lr_lock = lr_lock l, lr_flags = lr_flags l\<rparr> = l"
  by (cases l) simp

lemma lock_eq_iff:
  "l = \<lparr>lk_ty = t, lk_start = s, lk_length = n, lk_process_id = p, lk_client_id = c\<rparr> \<longleftrightarrow>
   t = lk_ty l \<and> s = lk_start l \<and> n = lk_length l \<and> p = lk_process_id l \<and> c = lk_client_id l"
  by (cases l) auto

lemma lock_request_eq_iff:
  "l = \<lparr>lr_lock = k, lr_flags = f\<rparr> \<longleftrightarrow> lr_lock l = k \<and> f = lr_flags l"
  by (cases l) auto

lemma wire_field_version [wire_field_intros]:
  "wire_field (decode_version (max_string_bytes lim)) (body_format lim Tversion)"
  unfolding decode_version_def Let_def
  by (rule wire_field_cong, (rule wire_field_intros)+) (case_tac x; auto simp: body_format_def)

lemma wire_field_auth [wire_field_intros]:
  "wire_field (decode_auth (max_string_bytes lim)) (body_format lim Tauth)"
  unfolding decode_auth_def Let_def
  by (rule wire_field_cong, (rule wire_field_intros)+) (case_tac x; auto simp: body_format_def)

lemma wire_field_attach [wire_field_intros]:
  "wire_field (decode_attach (max_string_bytes lim)) (body_format lim Tattach)"
  unfolding decode_attach_def Let_def
  by (rule wire_field_cong, (rule wire_field_intros)+) (case_tac x; auto simp: body_format_def)

lemma wire_field_flush [wire_field_intros]:
  "wire_field decode_flush (body_format lim Tflush)"
  unfolding decode_flush_def Let_def
  by (rule wire_field_cong, (rule wire_field_intros)+) (case_tac x; auto simp: body_format_def)

lemma wire_field_walk [wire_field_intros]:
  "wire_field (decode_walk lim) (body_format lim Twalk)"
  unfolding decode_walk_def reader_bytes_def Let_def
  by (rule wire_field_cong, (rule wire_field_counted wire_field_intros)+)
    (case_tac x; auto simp: body_format_def)

lemma wire_field_clunk [wire_field_intros]:
  "wire_field decode_clunk (body_format lim Tclunk)"
  unfolding decode_clunk_def Let_def
  by (rule wire_field_cong, (rule wire_field_intros)+) (case_tac x; auto simp: body_format_def)

lemma wire_field_lopen [wire_field_intros]:
  "wire_field decode_lopen (body_format lim Tlopen)"
  unfolding decode_lopen_def Let_def
  by (rule wire_field_cong, (rule wire_field_intros)+) (case_tac x; auto simp: body_format_def)

lemma wire_field_lcreate [wire_field_intros]:
  "wire_field (decode_lcreate (max_string_bytes lim)) (body_format lim Tlcreate)"
  unfolding decode_lcreate_def Let_def
  by (rule wire_field_cong, (rule wire_field_intros)+) (case_tac x; auto simp: body_format_def)

lemma wire_field_mkdir [wire_field_intros]:
  "wire_field (decode_mkdir (max_string_bytes lim)) (body_format lim Tmkdir)"
  unfolding decode_mkdir_def Let_def
  by (rule wire_field_cong, (rule wire_field_intros)+) (case_tac x; auto simp: body_format_def)

lemma wire_field_mknod [wire_field_intros]:
  "wire_field (decode_mknod (max_string_bytes lim)) (body_format lim Tmknod)"
  unfolding decode_mknod_def Let_def
  by (rule wire_field_cong, (rule wire_field_intros)+) (case_tac x; auto simp: body_format_def)

lemma wire_field_symlink [wire_field_intros]:
  "wire_field (decode_symlink (max_string_bytes lim)) (body_format lim Tsymlink)"
  unfolding decode_symlink_def Let_def
  by (rule wire_field_cong, (rule wire_field_intros)+) (case_tac x; auto simp: body_format_def)

lemma wire_field_read [wire_field_intros]:
  "wire_field decode_read (body_format lim Tread)"
  unfolding decode_read_def Let_def
  by (rule wire_field_cong, (rule wire_field_intros)+) (case_tac x; auto simp: body_format_def)

lemma wire_field_write [wire_field_intros]:
  "wire_field (decode_write lim) (body_format lim Twrite)"
  unfolding decode_write_def reader_bytes_def Let_def
  by (rule wire_field_cong, (rule wire_field_counted wire_field_intros)+)
    (case_tac x; auto simp: body_format_def)

lemma wire_field_readdir [wire_field_intros]:
  "wire_field decode_readdir (body_format lim Treaddir)"
  unfolding decode_readdir_def Let_def
  by (rule wire_field_cong, (rule wire_field_intros)+) (case_tac x; auto simp: body_format_def)

lemma wire_field_fsync [wire_field_intros]:
  "wire_field decode_fsync (body_format lim Tfsync)"
  unfolding decode_fsync_def Let_def
  by (rule wire_field_cong, (rule wire_field_intros)+) (case_tac x; auto simp: body_format_def if_bool_eq_disj)

lemma wire_field_statfs [wire_field_intros]:
  "wire_field decode_statfs (body_format lim Tstatfs)"
  unfolding decode_statfs_def Let_def
  by (rule wire_field_cong, (rule wire_field_intros)+) (case_tac x; auto simp: body_format_def)

lemma wire_field_getattr [wire_field_intros]:
  "wire_field decode_getattr (body_format lim Tgetattr)"
  unfolding decode_getattr_def Let_def
  by (rule wire_field_cong, (rule wire_field_intros)+) (case_tac x; auto simp: body_format_def if_bool_eq_disj)

lemma wire_field_setattr [wire_field_intros]:
  "wire_field decode_setattr (body_format lim Tsetattr)"
  unfolding decode_setattr_def Let_def
  by (rule wire_field_cong, (rule wire_field_intros)+) (case_tac x; auto simp: set_attributes_eq_iff set_attributes_eta body_format_def)

lemma wire_field_readlink [wire_field_intros]:
  "wire_field decode_readlink (body_format lim Treadlink)"
  unfolding decode_readlink_def Let_def
  by (rule wire_field_cong, (rule wire_field_intros)+) (case_tac x; auto simp: body_format_def)

lemma wire_field_rename [wire_field_intros]:
  "wire_field (decode_rename (max_string_bytes lim)) (body_format lim Trename)"
  unfolding decode_rename_def Let_def
  by (rule wire_field_cong, (rule wire_field_intros)+) (case_tac x; auto simp: body_format_def)

lemma wire_field_renameat [wire_field_intros]:
  "wire_field (decode_renameat (max_string_bytes lim)) (body_format lim Trenameat)"
  unfolding decode_renameat_def Let_def
  by (rule wire_field_cong, (rule wire_field_intros)+) (case_tac x; auto simp: body_format_def)

lemma wire_field_remove [wire_field_intros]:
  "wire_field decode_remove (body_format lim Tremove)"
  unfolding decode_remove_def Let_def
  by (rule wire_field_cong, (rule wire_field_intros)+) (case_tac x; auto simp: body_format_def)

lemma wire_field_unlinkat [wire_field_intros]:
  "wire_field (decode_unlinkat (max_string_bytes lim)) (body_format lim Tunlinkat)"
  unfolding decode_unlinkat_def Let_def
  by (rule wire_field_cong, (rule wire_field_intros)+) (case_tac x; auto simp: body_format_def if_bool_eq_disj)

lemma wire_field_link [wire_field_intros]:
  "wire_field (decode_link (max_string_bytes lim)) (body_format lim Tlink)"
  unfolding decode_link_def Let_def
  by (rule wire_field_cong, (rule wire_field_intros)+) (case_tac x; auto simp: body_format_def)

lemma wire_field_xattrwalk [wire_field_intros]:
  "wire_field (decode_xattrwalk (max_string_bytes lim)) (body_format lim Txattrwalk)"
  unfolding decode_xattrwalk_def Let_def
  by (rule wire_field_cong, (rule wire_field_intros)+) (case_tac x; auto simp: body_format_def)

lemma wire_field_xattrcreate [wire_field_intros]:
  "wire_field (decode_xattrcreate (max_string_bytes lim)) (body_format lim Txattrcreate)"
  unfolding decode_xattrcreate_def Let_def
  by (rule wire_field_cong, (rule wire_field_intros)+) (case_tac x; auto simp: body_format_def)

lemma wire_field_lock [wire_field_intros]:
  "wire_field (decode_lock (max_string_bytes lim)) (body_format lim Tlock)"
  unfolding decode_lock_def Let_def
  by (rule wire_field_cong, (rule wire_field_intros)+) (case_tac x; auto simp: lock_request_eq_iff lock_eq_iff lock_request_eta lock_eta body_format_def wire_lock_range_def)

lemma wire_field_getlock [wire_field_intros]:
  "wire_field (decode_getlock (max_string_bytes lim)) (body_format lim Tgetlock)"
  unfolding decode_getlock_def Let_def
  by (rule wire_field_cong, (rule wire_field_intros)+) (case_tac x; auto simp: lock_eq_iff body_format_def wire_lock_range_def)

lemma body_format_response: "\<not> is_request m \<Longrightarrow> \<not> body_format lim m y b"
  using is_request_request_message_type by (auto simp: body_format_def)

lemma wire_field_response:
  assumes "\<not> is_request m"
  shows "wire_field (sfail e) (body_format lim m)"
  using assms by (intro wire_field_cong [OF wire_field_sfail]) (simp add: body_format_response)

lemma wire_field_body [wire_field_intros]:
  "wire_field (decode_body lim raw m) (body_format lim m)"
  by (cases m; simp only: decode_body_def Let_def message_type.case;
      rule wire_field_intros wire_field_response)
    (simp_all add: is_request_def)

subsection \<open>Frames\<close>

text \<open>The decoder up to \<open>reader.finish()\<close>: the five header fields and the body.\<close>

definition decode_fields :: "limits \<Rightarrow> request parser" where
  "decode_fields lim =
     sbind reader_u32 (\<lambda>declared_size.
     sbind reader_u8 (\<lambda>raw_type.
     sbind (slift (map_err UnknownMessageType (message_type_try_from raw_type))) (\<lambda>message_type.
       if \<not> is_request message_type then sfail (UnexpectedResponse raw_type)
       else
         sbind reader_u16 (\<lambda>tag.
         sbind (decode_body lim raw_type message_type) (\<lambda>body.
         sreturn \<lparr>req_tag = tag, req_body = body\<rparr>)))))"

lemma guard_eq_Inr:
  "(if c then sfail e else p) r = (Inr x, t) \<longleftrightarrow> \<not> c \<and> p r = (Inr x, t)"
  by auto

lemma finish_eq_Inr:
  "(case reader_finish t of Inl e \<Rightarrow> (Inl e, t) | Inr u \<Rightarrow> (Inr v, t)) = (Inr q, r') \<longleftrightarrow>
   t = r' \<and> v = q \<and> reader_finish r' = Inr ()"
  by (auto split: sum.splits)

lemma decode_header_and_body_iff:
  "decode_header_and_body lim r = (Inr q, r') \<longleftrightarrow>
   decode_fields lim r = (Inr q, r') \<and> reader_finish r' = Inr ()"
  unfolding decode_header_and_body_def decode_fields_def
  by (auto simp: sbind_eq_Inr guard_eq_Inr finish_eq_Inr)

lemma request_eq_iff: "q = \<lparr>req_tag = t, req_body = b\<rparr> \<longleftrightarrow> t = req_tag q \<and> b = req_body q"
  by (cases q) auto

lemma wire_field_fields:
  "wire_field (decode_fields lim) (\<lambda>q b. \<exists>declared :: u32. request_ok lim (req_body q) \<and>
     b = to_le_bytes 4 declared @ [to_u8 (request_message_type (req_body q))] @
         to_le_bytes 2 (req_tag q) @ wire_request_body (req_body q))"
  unfolding decode_fields_def
  by (rule wire_field_cong, (rule wire_field_intros)+)
    (auto simp: request_eq_iff body_format_def message_type_try_from_iff if_bool_eq_disj
      is_request_request_message_type)

lemma u32_bound: "unat (w :: u32) < 2 ^ 32"
  using unsigned_less [of w] by simp

lemma validate_frame_iff:
  "validate_frame frame maximum = Inr () \<longleftrightarrow>
   7 \<le> length frame \<and> length frame \<le> unat maximum \<and>
   unat (from_le_bytes (take 4 frame) :: u32) = length frame"
  by (auto simp: validate_frame_def Let_def HEADER_SIZE_def word_less_nat_alt)

lemma declared_size_iff:
  fixes declared :: u32
  assumes "length rest + 4 < 2 ^ 32"
  shows "unat (from_le_bytes (take 4 (to_le_bytes 4 declared @ rest)) :: u32) =
           length (to_le_bytes 4 declared @ rest) \<longleftrightarrow> declared = of_nat (4 + length rest)"
proof -
  have "unat (of_nat (4 + length rest) :: u32) = 4 + length rest"
    using assms by (simp only: unat_of_nat) simp
  then show ?thesis
    by (auto simp: from_to_le_bytes word_unat_eq_iff simp del: of_nat_add)
qed

lemma wire_request_eq:
  "wire_request q = to_le_bytes 4 (of_nat (4 + length rest) :: u32) @ rest"
  if "rest = [to_u8 (request_message_type (req_body q))] @ to_le_bytes 2 (req_tag q) @
        wire_request_body (req_body q)"
  using that by (simp add: wire_request_def wire_frame_def)

text \<open>A parser meeting a format, run on a whole frame.\<close>

context wire_field
begin

lemma parse_whole:
  assumes ok: "reader_ok (reader_new frame)"
  shows "(\<exists>r'. p (reader_new frame) = (Inr x, r') \<and> reader_finish r' = Inr ()) \<longleftrightarrow> fmt x frame"
proof
  assume "fmt x frame"
  then have "p (reader_new frame) = (Inr x, reader_advance (length frame) (reader_new frame))"
    using parse_encoding [OF ok, of x frame "[]"]
    by (simp add: reader_rest_def reader_new_def)
  then show "\<exists>r'. p (reader_new frame) = (Inr x, r') \<and> reader_finish r' = Inr ()"
    by (auto simp: reader_finish_def reader_remaining_def reader_advance_def reader_new_def)
next
  assume "\<exists>r'. p (reader_new frame) = (Inr x, r') \<and> reader_finish r' = Inr ()"
  then show "fmt x frame"
    using parse_iff [OF ok]
    by (auto simp: reader_rest_def reader_new_def reader_advance_def reader_finish_def
        reader_remaining_def split: if_splits)
qed

end

text \<open>The header and the body of a request, as one field of the frame.\<close>

interpretation request_fields: wire_field "decode_fields lim"
  "\<lambda>q b. \<exists>declared :: u32. request_ok lim (req_body q) \<and>
     b = to_le_bytes 4 declared @ [to_u8 (request_message_type (req_body q))] @
         to_le_bytes 2 (req_tag q) @ wire_request_body (req_body q)"
  for lim
  by (rule wire_field_fields)

lemma decode_request_exact:
  "decode_request frame lim maximum = Inr q \<longleftrightarrow>
   request_ok lim (req_body q) \<and> frame = wire_request q \<and> length frame \<le> unat maximum"
  (is "?L \<longleftrightarrow> ?R")
proof -
  define rest where "rest = [to_u8 (request_message_type (req_body q))] @
    to_le_bytes 2 (req_tag q) @ wire_request_body (req_body q)"
  let ?valid = "validate_frame frame maximum = Inr ()"
  have "?L \<longleftrightarrow> ?valid \<and> (\<exists>r'. decode_fields lim (reader_new frame) = (Inr q, r') \<and>
      reader_finish r' = Inr ())"
    unfolding decode_request_def
    by (auto simp: decode_header_and_body_iff [symmetric] split: sum.splits)
      (metis fst_conv prod.exhaust)+
  also have "\<dots> \<longleftrightarrow> ?valid \<and> (\<exists>declared :: u32. request_ok lim (req_body q) \<and>
      frame = to_le_bytes 4 declared @ rest)"
  proof (rule conj_cong [OF refl])
    assume ?valid
    then have ok: "reader_ok (reader_new frame)"
      using u32_bound [of maximum] by (auto simp: validate_frame_iff reader_ok_def
        reader_new_def usize_max_def)
    show "(\<exists>r'. decode_fields lim (reader_new frame) = (Inr q, r') \<and> reader_finish r' = Inr ()) \<longleftrightarrow>
      (\<exists>declared :: u32. request_ok lim (req_body q) \<and> frame = to_le_bytes 4 declared @ rest)"
      unfolding request_fields.parse_whole [OF ok] rest_def by simp
  qed
  also have "\<dots> \<longleftrightarrow> ?R"
    using u32_bound [of maximum] declared_size_iff [of rest]
    by (auto simp: validate_frame_iff wire_request_eq [OF rest_def] rest_def)
  finally show ?thesis .
qed

end
