(* ===== verification/Wire_Response.thy ===== *)
theory Wire_Response
  imports Wire_Format
begin

text \<open>
  The response half of the wire format: the format of every response as a specification, the
  interface locale \<open>wire_emitter\<close> of a \<open>Writer\<close> method against a format, the proof that
  \<open>encode_response\<close> writes exactly the format within the frame bound, and the behaviour of the
  directory-record encoder.
\<close>

section \<open>The format of responses\<close>

definition wire_statfs :: "statfs \<Rightarrow> bytes" where
  "wire_statfs s =
     to_le_bytes 4 (st_ty s) @ to_le_bytes 4 (st_block_size s) @ to_le_bytes 8 (st_blocks s) @
     to_le_bytes 8 (st_blocks_free s) @ to_le_bytes 8 (st_blocks_available s) @
     to_le_bytes 8 (st_files s) @ to_le_bytes 8 (st_files_free s) @
     to_le_bytes 8 (st_filesystem_id s) @ to_le_bytes 4 (st_max_name_length s)"

definition wire_attributes :: "file_attributes \<Rightarrow> bytes" where
  "wire_attributes a =
     to_le_bytes 8 (fa_valid a) @ wire_qid (fa_qid a) @ to_le_bytes 4 (fa_mode a) @
     to_le_bytes 4 (fa_uid a) @ to_le_bytes 4 (fa_gid a) @ to_le_bytes 8 (fa_link_count a) @
     to_le_bytes 8 (fa_device a) @ to_le_bytes 8 (fa_size a) @ to_le_bytes 8 (fa_block_size a) @
     to_le_bytes 8 (fa_blocks a) @ wire_timestamp (fa_accessed a) @
     wire_timestamp (fa_modified a) @ wire_timestamp (fa_changed a) @
     wire_timestamp (fa_created a) @ to_le_bytes 8 (fa_generation a) @
     to_le_bytes 8 (fa_data_version a)"

definition wire_data :: "bytes \<Rightarrow> bytes" where
  "wire_data data = to_le_bytes 4 (of_nat (length data) :: u32) @ data"

primrec wire_response_body :: "response_body \<Rightarrow> bytes" where
  "wire_response_body (ResVersion msize version) = to_le_bytes 4 msize @ wire_string version"
| "wire_response_body (ResAuth qid) = wire_qid qid"
| "wire_response_body (ResAttach qid) = wire_qid qid"
| "wire_response_body ResFlush = []"
| "wire_response_body (ResWalk qids) =
     to_le_bytes 2 (of_nat (length qids) :: u16) @ concat (map wire_qid qids)"
| "wire_response_body ResClunk = []"
| "wire_response_body (ResLopen qid io_unit) = wire_qid qid @ to_le_bytes 4 io_unit"
| "wire_response_body (ResLcreate qid io_unit) = wire_qid qid @ to_le_bytes 4 io_unit"
| "wire_response_body (ResMkdir qid) = wire_qid qid"
| "wire_response_body (ResMknod qid) = wire_qid qid"
| "wire_response_body (ResSymlink qid) = wire_qid qid"
| "wire_response_body (ResRead data) = wire_data data"
| "wire_response_body (ResWrite n) = to_le_bytes 4 n"
| "wire_response_body (ResReaddir data) = wire_data data"
| "wire_response_body ResFsync = []"
| "wire_response_body (ResStatfs s) = wire_statfs s"
| "wire_response_body (ResGetattr a) = wire_attributes a"
| "wire_response_body ResSetattr = []"
| "wire_response_body (ResReadlink target) = wire_string target"
| "wire_response_body ResRename = []"
| "wire_response_body ResRenameAt = []"
| "wire_response_body ResRemove = []"
| "wire_response_body ResUnlinkAt = []"
| "wire_response_body ResLink = []"
| "wire_response_body (ResXattrWalk n) = to_le_bytes 8 n"
| "wire_response_body ResXattrCreate = []"
| "wire_response_body (ResLock status) = [lock_status_to_u8 status]"
| "wire_response_body (ResGetlock l) = [lock_type_to_u8 (lk_ty l)] @ wire_lock_range l"
| "wire_response_body (ResLerror e) = to_le_bytes 4 e"

text \<open>The values the encoder admits; the frame bound is separate.\<close>

primrec response_ok :: "response_body \<Rightarrow> bool" where
  "response_ok (ResVersion msize version) = (length version < 65536)"
| "response_ok (ResAuth qid) = True"
| "response_ok (ResAttach qid) = True"
| "response_ok ResFlush = True"
| "response_ok (ResWalk qids) = (length qids < 65536)"
| "response_ok ResClunk = True"
| "response_ok (ResLopen qid io_unit) = True"
| "response_ok (ResLcreate qid io_unit) = True"
| "response_ok (ResMkdir qid) = True"
| "response_ok (ResMknod qid) = True"
| "response_ok (ResSymlink qid) = True"
| "response_ok (ResRead data) = (length data < 2 ^ 32)"
| "response_ok (ResWrite n) = True"
| "response_ok (ResReaddir data) = (length data < 2 ^ 32)"
| "response_ok ResFsync = True"
| "response_ok (ResStatfs s) = True"
| "response_ok (ResGetattr a) = (fa_validate a = Inr ())"
| "response_ok ResSetattr = True"
| "response_ok (ResReadlink target) = (length target < 65536)"
| "response_ok ResRename = True"
| "response_ok ResRenameAt = True"
| "response_ok ResRemove = True"
| "response_ok ResUnlinkAt = True"
| "response_ok ResLink = True"
| "response_ok (ResXattrWalk n) = True"
| "response_ok ResXattrCreate = True"
| "response_ok (ResLock status) = True"
| "response_ok (ResGetlock l) = (length (lk_client_id l) < 65536)"
| "response_ok (ResLerror e) = True"

definition wire_response :: "response \<Rightarrow> bytes" where
  "wire_response r =
     wire_frame (response_message_type (res_body r)) (res_tag r) (wire_response_body (res_body r))"

section \<open>Writer methods against the format\<close>

definition writer_ok :: "writer \<Rightarrow> bool" where
  "writer_ok w \<longleftrightarrow> length (wr_bytes w) \<le> unat (wr_maximum w)"

definition writer_append :: "bytes \<Rightarrow> writer \<Rightarrow> writer" where
  "writer_append b w = w\<lparr>wr_bytes := wr_bytes w @ b\<rparr>"

lemma writer_append_append: "writer_append c (writer_append b w) = writer_append (b @ c) w"
  by (simp add: writer_append_def)

lemma writer_append_Nil: "writer_append [] w = w"
  by (simp add: writer_append_def)

lemma writer_ok_append:
  "writer_ok (writer_append b w) \<longleftrightarrow> length (wr_bytes w) + length b \<le> unat (wr_maximum w)"
  by (simp add: writer_ok_def writer_append_def)

text \<open>
  The method succeeds exactly when the value is admitted and the frame bound has room, and then
  it has appended exactly the encoding.
\<close>

locale wire_emitter =
  fixes m :: emitter
    and ok :: bool
    and b :: bytes
  assumes emit_iff: "writer_ok w \<Longrightarrow>
    m w = (Inr (), w') \<longleftrightarrow> ok \<and> writer_ok (writer_append b w) \<and> w' = writer_append b w"
begin

lemma emit_ok:
  assumes "writer_ok w" and "m w = (Inr u, w')"
  shows "writer_ok w'" and "wr_maximum w' = wr_maximum w"
  using assms emit_iff [of w w'] by (auto simp: writer_append_def)

end

named_theorems wire_emitter_intros

lemma wire_emitter_cong:
  "wire_emitter m ok b \<Longrightarrow> ok = ok' \<Longrightarrow> b = b' \<Longrightarrow> wire_emitter m ok' b'"
  by simp

lemma wire_emitter_sreturn [wire_emitter_intros]: "wire_emitter (sreturn ()) True []"
  by unfold_locales (auto simp: writer_append_Nil)

lemma wire_emitter_extend [wire_emitter_intros]: "wire_emitter (writer_extend b) True b"
proof
  fix w w' :: writer
  have "length (wr_bytes w) + length b \<le> unat (wr_maximum w) \<Longrightarrow>
      length (wr_bytes w) + length b \<le> usize_max"
    using u32_bound [of "wr_maximum w"] by (simp add: usize_max_def)
  then show "writer_extend b w = (Inr (), w') \<longleftrightarrow>
      True \<and> writer_ok (writer_append b w) \<and> w' = writer_append b w"
    by (auto simp: writer_extend_def writer_reserve_def sbind_eq_Inr usize_checked_add_def
        smodify_def writer_ok_def writer_append_def split: if_splits)
qed

lemma wire_emitter_u8 [wire_emitter_intros]: "wire_emitter (writer_u8 v) True [v]"
  using wire_emitter_extend [of "[v]"] by (simp add: writer_u8_def writer_extend_def)

lemma wire_emitter_ints [wire_emitter_intros]:
  "wire_emitter (writer_u16 x) True (to_le_bytes 2 x)"
  "wire_emitter (writer_u32 y) True (to_le_bytes 4 y)"
  "wire_emitter (writer_u64 z) True (to_le_bytes 8 z)"
  by (simp_all add: writer_u16_def writer_u32_def writer_u64_def wire_emitter_extend)

lemma wire_emitter_sbind [wire_emitter_intros]:
  assumes p: "wire_emitter p A b" and q: "wire_emitter q B c"
  shows "wire_emitter (sbind p (\<lambda>_. q)) (A \<and> B) (b @ c)"
proof
  fix w w' :: writer
  assume ok: "writer_ok w"
  have "sbind p (\<lambda>_. q) w = (Inr (), w') \<longleftrightarrow> (\<exists>t. p w = (Inr (), t) \<and> q t = (Inr (), w'))"
    by (simp add: sbind_eq_Inr)
  also have "\<dots> \<longleftrightarrow> A \<and> writer_ok (writer_append b w) \<and> q (writer_append b w) = (Inr (), w')"
    using wire_emitter.emit_iff [OF p ok] by auto
  also have "\<dots> \<longleftrightarrow> A \<and> writer_ok (writer_append b w) \<and> B \<and>
      writer_ok (writer_append (b @ c) w) \<and> w' = writer_append (b @ c) w"
    using wire_emitter.emit_iff [OF q] by (auto simp: writer_append_append)
  finally show "sbind p (\<lambda>_. q) w = (Inr (), w') \<longleftrightarrow>
      (A \<and> B) \<and> writer_ok (writer_append (b @ c) w) \<and> w' = writer_append (b @ c) w"
    by (auto simp: writer_ok_append)
qed

lemma wire_emitter_guard [wire_emitter_intros]:
  assumes "wire_emitter q B b"
  shows "wire_emitter (sbind (slift r) (\<lambda>_. q)) (r = Inr () \<and> B) b"
  using assms by (cases r) (auto simp: wire_emitter_def sbind_def slift_def)

lemma wire_emitter_counted [wire_emitter_intros]:
  assumes "wire_emitter (q (of_nat n)) B b"
  shows "wire_emitter (case try_from_nat n :: 'w::len word option of None \<Rightarrow> sfail e | Some c \<Rightarrow> q c)
    (n < 2 ^ LENGTH('w) \<and> B) b"
  using assms by (auto simp: wire_emitter_def try_from_nat_def)

subsection \<open>Composite fields and messages\<close>

lemma wire_emitter_string [wire_emitter_intros]:
  "wire_emitter (writer_string s) (length s < 65536) (wire_string s)"
  unfolding writer_string_def
  by (rule wire_emitter_cong, (rule wire_emitter_intros)+) (simp_all add: wire_string_def)

lemma wire_emitter_qid [wire_emitter_intros]: "wire_emitter (writer_qid q) True (wire_qid q)"
  unfolding writer_qid_def
  by (rule wire_emitter_cong, (rule wire_emitter_intros)+) (simp_all add: wire_qid_def)

lemma wire_emitter_qids [wire_emitter_intros]:
  "wire_emitter (writer_qids qs) True (concat (map wire_qid qs))"
proof (induction qs)
  case (Cons q qs)
  show ?case
    unfolding writer_qids.simps
    by (rule wire_emitter_cong, (rule wire_emitter_intros Cons.IH)+) simp_all
qed (simp add: wire_emitter_sreturn)

lemma wire_emitter_timestamp [wire_emitter_intros]:
  "wire_emitter (write_timestamp t) True (wire_timestamp t)"
  unfolding write_timestamp_def
  by (rule wire_emitter_cong, (rule wire_emitter_intros)+) (simp_all add: wire_timestamp_def)

lemma wire_emitter_lock [wire_emitter_intros]:
  "wire_emitter (write_lock l) (length (lk_client_id l) < 65536)
     ([lock_type_to_u8 (lk_ty l)] @ wire_lock_range l)"
  unfolding write_lock_def
  by (rule wire_emitter_cong, (rule wire_emitter_intros)+) (simp_all add: wire_lock_range_def)

lemma wire_emitter_walk [wire_emitter_intros]:
  "wire_emitter (write_walk qids) (length qids < 65536)
     (to_le_bytes 2 (of_nat (length qids) :: u16) @ concat (map wire_qid qids))"
  unfolding write_walk_def
  by (rule wire_emitter_cong, (rule wire_emitter_intros)+) simp_all

lemma wire_emitter_data [wire_emitter_intros]:
  "wire_emitter (write_data data) (length data < 2 ^ 32) (wire_data data)"
  unfolding write_data_def
  by (rule wire_emitter_cong, (rule wire_emitter_intros)+) (simp_all add: wire_data_def)

lemma wire_emitter_statfs [wire_emitter_intros]:
  "wire_emitter (write_statfs s) True (wire_statfs s)"
  unfolding write_statfs_def
  by (rule wire_emitter_cong, (rule wire_emitter_intros)+) (simp_all add: wire_statfs_def)

lemma wire_emitter_attributes [wire_emitter_intros]:
  "wire_emitter (write_attributes a) (fa_validate a = Inr ()) (wire_attributes a)"
  unfolding write_attributes_def
  by (rule wire_emitter_cong, (rule wire_emitter_intros)+) (simp_all add: wire_attributes_def)

lemma wire_emitter_body:
  "wire_emitter (write_body r) (response_ok r) (wire_response_body r)"
  by (cases r; simp only: write_body.simps, rule wire_emitter_cong, (rule wire_emitter_intros)+)
    simp_all

interpretation response_body: wire_emitter "write_body r" "response_ok r" "wire_response_body r"
  for r
  by (rule wire_emitter_body)

lemma length_wire_frame: "length (wire_frame m t b) = 7 + length b"
  by (simp add: wire_frame_def)

lemma writer_frame_iff:
  "writer_frame m t maximum = Inr w \<longleftrightarrow> 7 \<le> unat maximum \<and>
     w = \<lparr>wr_bytes = [0, 0, 0, 0, to_u8 m] @ to_le_bytes 2 t, wr_maximum = maximum\<rparr>"
proof -
  let ?w = "\<lparr>wr_bytes = [0, 0, 0, 0], wr_maximum = maximum\<rparr>"
  have e: "wire_emitter (sbind (writer_u8 (to_u8 m)) (\<lambda>_. writer_u16 t)) (True \<and> True)
      ([to_u8 m] @ to_le_bytes 2 t)"
    by (rule wire_emitter_intros)+
  have "writer_ok ?w" if "7 \<le> unat maximum"
    using that by (simp add: writer_ok_def)
  from wire_emitter.emit_iff [OF e this]
  have "7 \<le> unat maximum \<Longrightarrow> sbind (writer_u8 (to_u8 m)) (\<lambda>_. writer_u16 t) ?w =
      (Inr (), writer_append ([to_u8 m] @ to_le_bytes 2 t) ?w)"
    by (auto simp: writer_ok_append)
  then show ?thesis
    by (auto simp: writer_frame_def HEADER_SIZE_def word_less_nat_alt writer_append_def)
qed

lemma encode_response_exact:
  "encode_response r maximum = Inr frame \<longleftrightarrow>
   response_ok (res_body r) \<and> length (wire_response r) \<le> unat maximum \<and> frame = wire_response r"
proof (cases "7 \<le> unat maximum")
  case False
  then show ?thesis
    by (auto simp: encode_response_def wire_response_def length_wire_frame
        writer_frame_iff split: sum.splits)
next
  case True
  let ?m = "response_message_type (res_body r)" and ?b = "wire_response_body (res_body r)"
  define w where
    "w = \<lparr>wr_bytes = [0, 0, 0, 0, to_u8 ?m] @ to_le_bytes 2 (res_tag r), wr_maximum = maximum\<rparr>"
  have frame: "writer_frame ?m (res_tag r) maximum = Inr w"
    using True by (simp add: writer_frame_iff w_def)
  have ok: "writer_ok w"
    using True by (simp add: writer_ok_def w_def)
  have fit: "writer_ok (writer_append ?b w) \<longleftrightarrow> length (wire_response r) \<le> unat maximum"
    by (simp add: writer_ok_append wire_response_def length_wire_frame w_def)
  have finish: "writer_finish (writer_append ?b w) = Inr (wire_response r)"
    if "length (wire_response r) \<le> unat maximum"
    using that u32_bound [of maximum]
    by (auto simp: writer_finish_def writer_append_def try_from_nat_def wire_response_def w_def
        wire_frame_def length_wire_frame)
  have "encode_response r maximum = Inr frame \<longleftrightarrow>
      (\<exists>w'. write_body (res_body r) w = (Inr (), w') \<and> writer_finish w' = Inr frame)"
    unfolding encode_response_def frame by (auto split: sum.splits prod.splits)
  then show ?thesis
    using finish by (auto simp: response_body.emit_iff [OF ok] fit)
qed

section \<open>Directory records\<close>

definition wire_directory_entry :: "directory_entry \<Rightarrow> bytes" where
  "wire_directory_entry e = directory_record e (of_nat (length (de_name e)))"

definition directory_entry_ok :: "nat \<Rightarrow> directory_entry \<Rightarrow> bool" where
  "directory_entry_ok lim e \<longleftrightarrow>
     de_validate e = Inr () \<and> length (de_name e) \<le> lim \<and> length (de_name e) < 65536"

lemma length_wire_directory_entry: "length (wire_directory_entry e) = 24 + length (de_name e)"
  by (simp add: wire_directory_entry_def directory_record_def)

text \<open>One turn of the loop, on an admitted entry and on a rejected one.\<close>

lemma directory_loop_step:
  assumes "directory_entry_ok lim e" and "length bs \<le> m" and "m < 2 ^ 32"
  shows "directory_loop m lim bs (e # es) =
    (if length bs + length (wire_directory_entry e) > m then Inr bs
     else directory_loop m lim (bs @ wire_directory_entry e) es)"
  using assms
  by (simp add: directory_entry_ok_def length_wire_directory_entry usize_checked_add_def
      usize_max_def try_from_nat_def wire_directory_entry_def [symmetric] Let_def map_err_def)

lemma directory_loop_reject:
  assumes "\<not> directory_entry_ok lim e"
  shows "directory_loop m lim bs (e # es) \<noteq> Inr x"
  using assms
  by (auto simp: directory_entry_ok_def try_from_nat_def map_err_def split: sum.splits)

definition directory_prefix ::
  "nat \<Rightarrow> nat \<Rightarrow> bytes \<Rightarrow> directory_entry list \<Rightarrow> nat \<Rightarrow> bytes \<Rightarrow> bool" where
  "directory_prefix m lim bs es k out \<longleftrightarrow>
     k \<le> length es \<and> out = bs @ concat (map wire_directory_entry (take k es)) \<and> length out \<le> m \<and>
     (\<forall>e \<in> set (take (Suc k) es). directory_entry_ok lim e) \<and>
     (k < length es \<longrightarrow> m < length out + length (wire_directory_entry (es ! k)))"

lemma directory_prefix_Nil:
  "directory_prefix m lim bs [] k out \<longleftrightarrow> k = 0 \<and> out = bs \<and> length bs \<le> m"
  by (auto simp: directory_prefix_def)

lemma directory_prefix_0:
  "directory_prefix m lim bs (e # es) 0 out \<longleftrightarrow> out = bs \<and> length bs \<le> m \<and>
     directory_entry_ok lim e \<and> m < length bs + length (wire_directory_entry e)"
  by (auto simp: directory_prefix_def)

lemma directory_prefix_Suc:
  "directory_prefix m lim bs (e # es) (Suc k) out \<longleftrightarrow>
     directory_entry_ok lim e \<and> directory_prefix m lim (bs @ wire_directory_entry e) es k out"
  by (auto simp: directory_prefix_def)

lemma directory_prefix_length: "directory_prefix m lim bs es k out \<Longrightarrow> length bs \<le> m"
  by (auto simp: directory_prefix_def)

lemma directory_loop_exact:
  assumes "length bs \<le> m" and "m < 2 ^ 32"
  shows "directory_loop m lim bs es = Inr out \<longleftrightarrow> (\<exists>k. directory_prefix m lim bs es k out)"
  using assms(1)
proof (induction es arbitrary: bs)
  case Nil
  then show ?case by (auto simp: directory_prefix_Nil)
next
  case (Cons e es)
  let ?bs = "bs @ wire_directory_entry e"
  have ex: "(\<exists>k. directory_prefix m lim bs (e # es) k out) \<longleftrightarrow>
      directory_prefix m lim bs (e # es) 0 out \<or> (\<exists>k. directory_prefix m lim bs (e # es) (Suc k) out)"
    by (metis not0_implies_Suc)
  show ?case
  proof (cases "directory_entry_ok lim e")
    case True
    have "length ?bs \<le> m \<Longrightarrow>
        directory_loop m lim ?bs es = Inr out \<longleftrightarrow> (\<exists>k. directory_prefix m lim ?bs es k out)"
      by (rule Cons.IH)
    then show ?thesis
      using Cons.prems True directory_prefix_length [of m lim ?bs es _ out]
      unfolding directory_loop_step [OF True Cons.prems assms(2)] ex
        directory_prefix_0 directory_prefix_Suc
      by (cases "length ?bs \<le> m") (auto simp: not_le)
  next
    case False
    then show ?thesis
      unfolding ex directory_prefix_0 directory_prefix_Suc
      using directory_loop_reject by blast
  qed
qed

end
