(* ===== verification/Frame_Decoder.thy ===== *)
theory Frame_Decoder
  imports Wire_Codec
begin

text \<open>
  The incremental stream framer of \<open>crates/w9pt/src/protocol/frame.rs\<close>, the reference splitter
  that cuts a whole byte string into frames, and the proof that the framer computes the splitter
  however the stream is chunked, up to the frames lost in the call that meets an invalid header.
\<close>

section \<open>FrameDecoder\<close>

record frame_decoder =
  fd_retained :: bytes
  fd_hard_maximum :: u32
  fd_maximum_retained :: nat

definition frame_decoder_new :: "limits \<Rightarrow> frame_decoder" where
  "frame_decoder_new lim =
     \<lparr>fd_retained = [], fd_hard_maximum = max_frame_size lim,
      fd_maximum_retained = max_buffered_input_bytes lim\<rparr>"

definition frame_decoder_clear :: "frame_decoder \<Rightarrow> frame_decoder" where
  "frame_decoder_clear d = d\<lparr>fd_retained := []\<rparr>"

definition validate_declared :: "frame_decoder \<Rightarrow> u32 \<Rightarrow> u32 \<Rightarrow> decode_error + unit" where
  "validate_declared d declared maximum =
     (if declared < of_nat HEADER_SIZE then Inl (FrameTooSmall declared)
      else if declared > maximum then Inl (FrameTooLarge declared maximum)
      else if unat declared > fd_maximum_retained d
      then Inl (FrameTooLarge declared (try_from_or_max (fd_maximum_retained d)))
      else Inr ())"

definition retain :: "bytes \<Rightarrow> (frame_decoder, decode_error, unit) action" where
  "retain bs d =
     (case usize_checked_add (length (fd_retained d)) (length bs) of
        None \<Rightarrow> (Inl ArithmeticOverflow, d)
      | Some requested \<Rightarrow>
          if requested > fd_maximum_retained d
          then (Inl (FrameTooLarge (try_from_or_max requested) (try_from_or_max (fd_maximum_retained d))),
                frame_decoder_clear d)
          else (Inr (), d\<lparr>fd_retained := fd_retained d @ bs\<rparr>))"

definition declared_size :: "bytes \<Rightarrow> u32" where
  "declared_size bs = from_le_bytes (take 4 bs)"

text \<open>
  The second half of one turn of the loop: the retained bytes hold a header; take what the frame
  still needs. Returns the frame if it is complete, and the rest of the input.
\<close>

definition fill_frame ::
  "u32 \<Rightarrow> bytes \<Rightarrow> (frame_decoder, decode_error, bytes option \<times> bytes) action" where
  "fill_frame maximum input d =
     (let declared = declared_size (fd_retained d) in
      case validate_declared d declared maximum of
        Inl e \<Rightarrow> (Inl e, frame_decoder_clear d)
      | Inr _ \<Rightarrow>
          let frame_size = unat declared;
              needed = usize_wrapping_sub frame_size (length (fd_retained d));
              consumed = min needed (length input)
          in sbind (retain (take consumed input)) (\<lambda>_ d'.
               if length (fd_retained d') = frame_size
               then (Inr (Some (fd_retained d'), drop consumed input), d'\<lparr>fd_retained := []\<rparr>)
               else (Inr (None, drop consumed input), d')) d)"

text \<open>One turn of the loop on a non-empty input; \<open>None\<close> as the rest is \<open>break\<close>.\<close>

definition push_turn ::
  "u32 \<Rightarrow> bytes \<Rightarrow> (frame_decoder, decode_error, bytes option \<times> bytes option) action" where
  "push_turn maximum input d =
     (if fd_retained d = [] \<and> length input \<ge> 4 then
        (let declared = declared_size input in
         case validate_declared d declared maximum of
           Inl e \<Rightarrow> (Inl e, d)
         | Inr _ \<Rightarrow>
             let frame_size = unat declared in
             if length input \<ge> frame_size
             then (Inr (Some (take frame_size input), Some (drop frame_size input)), d)
             else sbind (retain input) (\<lambda>_. sreturn (None, None)) d)
      else if length (fd_retained d) < 4 then
        (let header_needed = 4 - length (fd_retained d);
             consumed = min header_needed (length input)
         in sbind (retain (take consumed input)) (\<lambda>_ d'.
              if length (fd_retained d') < 4 then (Inr (None, None), d')
              else sbind (fill_frame maximum (drop consumed input))
                     (\<lambda>(frame, rest). sreturn (frame, Some rest)) d') d)
      else sbind (fill_frame maximum input) (\<lambda>(frame, rest). sreturn (frame, Some rest)) d)"

lemma validate_declared_ge: "validate_declared d n maximum = Inr () \<Longrightarrow> 7 \<le> unat n"
  by (auto simp: validate_declared_def HEADER_SIZE_def word_less_nat_alt split: if_splits)

lemma retain_eq_Inr:
  "retain bs d = (Inr u, d') \<longleftrightarrow>
     length (fd_retained d) + length bs \<le> min usize_max (fd_maximum_retained d) \<and>
     d' = d\<lparr>fd_retained := fd_retained d @ bs\<rparr>"
  by (auto simp: retain_def usize_checked_add_def)

lemma fill_frame_rest:
  "fill_frame maximum input d = (Inr (frame, rest), d') \<Longrightarrow> length rest \<le> length input"
  by (auto simp: fill_frame_def Let_def sbind_eq_Inr split: sum.splits if_splits)

lemma fill_frame_shrinks:
  assumes "fill_frame maximum input d = (Inr (frame, rest), d')" and "input \<noteq> []"
  shows "length rest < length input \<or> rest = input \<and> fd_retained d' = []"
proof -
  let ?size = "unat (declared_size (fd_retained d))"
  let ?needed = "usize_wrapping_sub ?size (length (fd_retained d))"
  have ok: "length (fd_retained d) \<le> usize_max"
    using assms(1)
    by (auto simp: fill_frame_def Let_def sbind_eq_Inr retain_eq_Inr split: sum.splits if_splits)
  show ?thesis
  proof (cases "?needed = 0")
    case True
    with ok have "length (fd_retained d) = ?size"
      by (auto simp: usize_wrapping_sub_def split: if_splits)
    then show ?thesis
      using assms True
      by (auto simp: fill_frame_def Let_def sbind_eq_Inr retain_eq_Inr split: sum.splits if_splits)
  next
    case False
    then have "0 < min ?needed (length input)"
      using assms(2) by simp
    moreover have "rest = drop (min ?needed (length input)) input"
      using assms(1)
      by (auto simp: fill_frame_def Let_def sbind_eq_Inr split: sum.splits if_splits)
    ultimately show ?thesis
      using assms(2) by (simp add: min_def split: if_splits)
  qed
qed

lemma push_turn_shrinks:
  assumes "push_turn maximum input d = (Inr (frame, Some rest), d')" and "input \<noteq> []"
  shows "length rest < length input \<or>
    length rest = length input \<and> length (fd_retained d') < length (fd_retained d)"
proof -
  consider (whole) "fd_retained d = []" "4 \<le> length input"
    | (header) "length (fd_retained d) < 4" "fd_retained d = [] \<Longrightarrow> length input < 4"
    | (body) "4 \<le> length (fd_retained d)"
    by fastforce
  then show ?thesis
  proof cases
    case whole
    then show ?thesis
      using assms validate_declared_ge [of d "declared_size input" maximum]
      by (auto simp: push_turn_def Let_def sbind_eq_Inr split: sum.splits if_splits)
  next
    case header
    let ?n = "min (4 - length (fd_retained d)) (length input)"
    obtain t where "fill_frame maximum (drop ?n input) t = (Inr (frame, rest), d')"
      using assms header
      by (auto simp: push_turn_def Let_def sbind_eq_Inr split: prod.splits if_splits)
    moreover have "0 < ?n"
      using header assms(2) by simp
    ultimately show ?thesis
      using fill_frame_rest [of maximum "drop ?n input" t frame rest d'] assms(2)
      by (auto simp: neq_Nil_conv)
  next
    case body
    then have "fill_frame maximum input d = (Inr (frame, rest), d')"
      using assms by (auto simp: push_turn_def sbind_eq_Inr split: prod.splits if_splits)
    then show ?thesis
      using fill_frame_shrinks assms(2) body by fastforce
  qed
qed

function (sequential) push_loop ::
  "u32 \<Rightarrow> bytes list \<Rightarrow> bytes \<Rightarrow> (frame_decoder, decode_error, bytes list) action" where
  "push_loop maximum frames input d =
     (if input = [] then (Inr frames, d)
      else case push_turn maximum input d of
        (Inl e, d') \<Rightarrow> (Inl e, d')
      | (Inr (frame, None), d') \<Rightarrow> (Inr (frames @ case_option [] (\<lambda>f. [f]) frame), d')
      | (Inr (frame, Some rest), d') \<Rightarrow>
          push_loop maximum (frames @ case_option [] (\<lambda>f. [f]) frame) rest d')"
  by pat_completeness auto
termination
  by (relation "measures [\<lambda>(_, _, input, _). length input, \<lambda>(_, _, _, d). length (fd_retained d)]")
    (auto dest: push_turn_shrinks [OF sym])

declare push_loop.simps [simp del]

definition push :: "bytes \<Rightarrow> u32 \<Rightarrow> (frame_decoder, decode_error, bytes list) action" where
  "push input active_maximum d = push_loop (min (fd_hard_maximum d) active_maximum) [] input d"

section \<open>The reference splitter\<close>

text \<open>
  The frames at the front of a byte string, up to the first invalid header (with its error) or
  the incomplete tail. The frames before an invalid header are part of the result.
\<close>

function stream_frames :: "frame_decoder \<Rightarrow> u32 \<Rightarrow> bytes \<Rightarrow> bytes list \<times> (decode_error + bytes)" where
  "stream_frames d maximum bs =
     (if length bs < 4 then ([], Inr bs)
      else case validate_declared d (declared_size bs) maximum of
        Inl e \<Rightarrow> ([], Inl e)
      | Inr _ \<Rightarrow>
          if length bs < unat (declared_size bs) then ([], Inr bs)
          else (case stream_frames d maximum (drop (unat (declared_size bs)) bs) of
                  (frames, end_of) \<Rightarrow> (take (unat (declared_size bs)) bs # frames, end_of)))"
  by pat_completeness auto
termination
  by (relation "measure (\<lambda>(_, _, bs). length bs)") (auto dest: validate_declared_ge)

declare stream_frames.simps [simp del]

text \<open>
  What a single call can report of it: the \<open>Result\<close> of \<open>push\<close> carries either frames or an error,
  so with an error the frames found before it are gone.
\<close>

definition split_frames :: "frame_decoder \<Rightarrow> u32 \<Rightarrow> bytes \<Rightarrow> decode_error + bytes list \<times> bytes" where
  "split_frames d maximum bs =
     (case stream_frames d maximum bs of
        (frames, Inl e) \<Rightarrow> Inl e
      | (frames, Inr tail) \<Rightarrow> Inr (frames, tail))"

lemma split_frames_simps:
  "split_frames d maximum bs =
     (if length bs < 4 then Inr ([], bs)
      else case validate_declared d (declared_size bs) maximum of
        Inl e \<Rightarrow> Inl e
      | Inr _ \<Rightarrow>
          if length bs < unat (declared_size bs) then Inr ([], bs)
          else (case split_frames d maximum (drop (unat (declared_size bs)) bs) of
                  Inl e \<Rightarrow> Inl e
                | Inr (frames, tail) \<Rightarrow> Inr (take (unat (declared_size bs)) bs # frames, tail)))"
  unfolding split_frames_def
  by (subst stream_frames.simps) (simp split: sum.split prod.split)

lemma split_frames_eq_Inr:
  "split_frames d maximum bs = Inr (frames, tail) \<longleftrightarrow> stream_frames d maximum bs = (frames, Inr tail)"
  by (auto simp: split_frames_def split: prod.splits sum.splits)

lemma stream_frames_retained [simp]:
  "stream_frames (d\<lparr>fd_retained := x\<rparr>) maximum bs = stream_frames d maximum bs"
  by (induction d maximum bs rule: stream_frames.induct)
    (subst (1 2) stream_frames.simps, auto simp: validate_declared_def split: sum.splits)

lemma stream_frames_frame:
  assumes "4 \<le> length f" and "validate_declared d (declared_size f) maximum = Inr ()"
    and "length f = unat (declared_size f)"
  shows "stream_frames d maximum (f @ bs) =
    (case stream_frames d maximum bs of (frames, end_of) \<Rightarrow> (f # frames, end_of))"
proof -
  have "declared_size (f @ bs) = declared_size f"
    using assms(1) by (simp add: declared_size_def)
  then show ?thesis
    using assms by (simp add: stream_frames.simps [of _ _ "f @ bs"])
qed

lemma declared_size_append [simp]: "4 \<le> length bs \<Longrightarrow> declared_size (bs @ cs) = declared_size bs"
  by (simp add: declared_size_def)

lemma validate_declared_retained [simp]:
  "validate_declared (d\<lparr>fd_retained := x\<rparr>) n maximum = validate_declared d n maximum"
  by (simp add: validate_declared_def)

lemma split_frames_retained [simp]:
  "split_frames (d\<lparr>fd_retained := x\<rparr>) maximum bs = split_frames d maximum bs"
  by (simp add: split_frames_def)

lemma split_frames_short [simp]: "length bs < 4 \<Longrightarrow> split_frames d maximum bs = Inr ([], bs)"
  by (simp add: split_frames_simps [of _ _ bs])

lemma split_frames_invalid:
  "4 \<le> length bs \<Longrightarrow> validate_declared d (declared_size bs) maximum = Inl e \<Longrightarrow>
   split_frames d maximum bs = Inl e"
  by (simp add: split_frames_simps [of _ _ bs])

lemma split_frames_partial:
  "4 \<le> length bs \<Longrightarrow> validate_declared d (declared_size bs) maximum = Inr () \<Longrightarrow>
   length bs < unat (declared_size bs) \<Longrightarrow> split_frames d maximum bs = Inr ([], bs)"
  by (simp add: split_frames_simps [of _ _ bs])

lemma split_frames_frame:
  assumes "4 \<le> length f" and "validate_declared d (declared_size f) maximum = Inr ()"
    and "length f = unat (declared_size f)"
  shows "split_frames d maximum (f @ bs) =
    (case split_frames d maximum bs of Inl e \<Rightarrow> Inl e | Inr (frames, tail) \<Rightarrow> Inr (f # frames, tail))"
  using assms by (simp add: split_frames_simps [of _ _ "f @ bs"] split: sum.split)

section \<open>The framer computes the splitter\<close>

definition decoder_ok :: "frame_decoder \<Rightarrow> bool" where
  "decoder_ok d \<longleftrightarrow>
     4 \<le> fd_maximum_retained d \<and> fd_maximum_retained d \<le> usize_max \<and>
     length (fd_retained d) \<le> fd_maximum_retained d \<and>
     (length (fd_retained d) < 4 \<or> length (fd_retained d) < unat (declared_size (fd_retained d)))"

text \<open>What one turn did, against the splitter on the retained bytes followed by the input.\<close>

fun turn_spec :: "u32 \<Rightarrow> bytes \<Rightarrow> frame_decoder \<Rightarrow>
  (decode_error + bytes option \<times> bytes option) \<times> frame_decoder \<Rightarrow> bool" where
  "turn_spec maximum buf d (Inl e, d') \<longleftrightarrow>
     split_frames d maximum buf = Inl e \<and> d' = d\<lparr>fd_retained := []\<rparr>"
| "turn_spec maximum buf d (Inr (None, rest), d') \<longleftrightarrow>
     (rest = None \<or> rest = Some []) \<and> split_frames d maximum buf = Inr ([], buf) \<and>
     d' = d\<lparr>fd_retained := buf\<rparr> \<and> decoder_ok d'"
| "turn_spec maximum buf d (Inr (Some f, None), d') \<longleftrightarrow> False"
| "turn_spec maximum buf d (Inr (Some f, Some rest), d') \<longleftrightarrow>
     buf = f @ rest \<and> 4 \<le> length f \<and> validate_declared d (declared_size f) maximum = Inr () \<and>
     length f = unat (declared_size f) \<and> d' = d\<lparr>fd_retained := []\<rparr>"

lemma retain_ok:
  assumes "length (fd_retained d) + length bs \<le> fd_maximum_retained d" and "decoder_ok d"
  shows "retain bs d = (Inr (), d\<lparr>fd_retained := fd_retained d @ bs\<rparr>)"
  using assms by (simp add: retain_eq_Inr decoder_ok_def)

lemma validate_declared_le:
  "validate_declared d n maximum = Inr () \<Longrightarrow> unat n \<le> fd_maximum_retained d"
  by (auto simp: validate_declared_def split: if_splits)

lemma fill_frame_spec:
  assumes ok: "decoder_ok d" and h: "4 \<le> length r"
    and r: "validate_declared d (declared_size r) maximum = Inr () \<Longrightarrow> length r < unat (declared_size r)"
  shows "turn_spec maximum (r @ input) d
    (sbind (fill_frame maximum input) (\<lambda>(frame, rest). sreturn (frame, Some rest))
       (d\<lparr>fd_retained := r\<rparr>))"
proof (cases "validate_declared d (declared_size r) maximum")
  case (Inl e)
  then show ?thesis
    using h by (simp add: fill_frame_def sbind_def frame_decoder_clear_def split_frames_invalid)
next
  case (Inr u)
  let ?size = "unat (declared_size r)"
  let ?n = "min (?size - length r) (length input)"
  have valid: "validate_declared d (declared_size r) maximum = Inr ()"
    using Inr by simp
  have le: "length r < ?size" "?size \<le> fd_maximum_retained d"
    using r [OF valid] validate_declared_le [OF valid] by simp_all
  have "retain (take ?n input) (d\<lparr>fd_retained := r\<rparr>) = (Inr (), d\<lparr>fd_retained := r @ take ?n input\<rparr>)"
    using ok le by (simp add: retain_eq_Inr decoder_ok_def)
  then have run: "sbind (fill_frame maximum input) (\<lambda>(frame, rest). sreturn (frame, Some rest))
      (d\<lparr>fd_retained := r\<rparr>) =
    (if length r + ?n = ?size
     then (Inr (Some (r @ take ?n input), Some (drop ?n input)), d\<lparr>fd_retained := []\<rparr>)
     else (Inr (None, Some (drop ?n input)), d\<lparr>fd_retained := r @ take ?n input\<rparr>))"
    using le valid
    by (simp add: fill_frame_def Let_def sbind_def usize_wrapping_sub_def sreturn_def)
  show ?thesis
  proof (cases "length input < ?size - length r")
    case True
    then show ?thesis
      unfolding run using ok h le valid
      by (auto simp: min_def split_frames_partial decoder_ok_def)
  next
    case False
    then show ?thesis
      unfolding run using h le valid by (auto simp: min_def)
  qed
qed

lemma push_turn_whole:
  assumes ok: "decoder_ok d" and d: "fd_retained d = []" and n: "4 \<le> length input"
  shows "turn_spec maximum input d (push_turn maximum input d)"
proof (cases "validate_declared d (declared_size input) maximum")
  case (Inl e)
  then show ?thesis
    using assms by (simp add: push_turn_def split_frames_invalid)
next
  case (Inr u)
  let ?size = "unat (declared_size input)"
  have valid: "validate_declared d (declared_size input) maximum = Inr ()"
    using Inr by simp
  show ?thesis
  proof (cases "?size \<le> length input")
    case True
    have "declared_size (take ?size input) = declared_size input"
      using validate_declared_ge [OF valid] by (simp add: declared_size_def)
    then show ?thesis
      using True assms valid validate_declared_ge [OF valid]
      by (simp add: push_turn_def Let_def)
  next
    case False
    then have "retain input d = (Inr (), d\<lparr>fd_retained := input\<rparr>)"
      using ok d validate_declared_le [OF valid] by (simp add: retain_eq_Inr decoder_ok_def)
    then show ?thesis
      using False assms valid validate_declared_le [OF valid]
      by (simp add: push_turn_def Let_def sbind_def sreturn_def split_frames_partial
          decoder_ok_def)
  qed
qed

lemma push_turn_header:
  assumes ok: "decoder_ok d" and d: "length (fd_retained d) < 4"
    and n: "fd_retained d = [] \<Longrightarrow> length input < 4"
  shows "turn_spec maximum (fd_retained d @ input) d (push_turn maximum input d)"
proof -
  let ?n = "min (4 - length (fd_retained d)) (length input)"
  let ?r = "fd_retained d @ take ?n input"
  have ret: "retain (take ?n input) d = (Inr (), d\<lparr>fd_retained := ?r\<rparr>)"
    using ok d by (auto simp: retain_eq_Inr decoder_ok_def)
  have run: "push_turn maximum input d =
    (if length ?r < 4 then (Inr (None, None), d\<lparr>fd_retained := ?r\<rparr>)
     else sbind (fill_frame maximum (drop ?n input)) (\<lambda>(frame, rest). sreturn (frame, Some rest))
            (d\<lparr>fd_retained := ?r\<rparr>))"
    using d n ret by (auto simp: push_turn_def Let_def)
  show ?thesis
  proof (cases "length ?r < 4")
    case True
    then have "take ?n input = input"
      using d by (simp add: min_def split: if_splits)
    then show ?thesis
      unfolding run using True ok by (simp add: decoder_ok_def)
  next
    case False
    then have "length ?r = 4"
      using d by (simp add: min_def split: if_splits)
    then have "turn_spec maximum (?r @ drop ?n input) d
      (sbind (fill_frame maximum (drop ?n input)) (\<lambda>(frame, rest). sreturn (frame, Some rest))
         (d\<lparr>fd_retained := ?r\<rparr>))"
      using validate_declared_ge [of d "declared_size ?r" maximum]
      by (intro fill_frame_spec [OF ok]) simp_all
    then show ?thesis
      unfolding run if_not_P [OF False] by (simp only: append_assoc append_take_drop_id)
  qed
qed

lemma push_turn_spec:
  assumes "decoder_ok d"
  shows "turn_spec maximum (fd_retained d @ input) d (push_turn maximum input d)"
proof -
  consider (whole) "fd_retained d = []" "4 \<le> length input"
    | (header) "length (fd_retained d) < 4" "fd_retained d = [] \<Longrightarrow> length input < 4"
    | (body) "4 \<le> length (fd_retained d)"
    by fastforce
  then show ?thesis
  proof cases
    case whole
    then show ?thesis using push_turn_whole [OF assms] by simp
  next
    case header
    then show ?thesis using push_turn_header [OF assms] by blast
  next
    case body
    moreover have "length (fd_retained d) < unat (declared_size (fd_retained d))"
      using assms body by (simp add: decoder_ok_def)
    ultimately have "turn_spec maximum (fd_retained d @ input) d
      (sbind (fill_frame maximum input) (\<lambda>(frame, rest). sreturn (frame, Some rest))
         (d\<lparr>fd_retained := fd_retained d\<rparr>))"
      by (intro fill_frame_spec [OF assms]) simp_all
    then show ?thesis
      using body by (auto simp: push_turn_def)
  qed
qed

definition push_result ::
  "bytes list \<Rightarrow> frame_decoder \<Rightarrow> decode_error + bytes list \<times> bytes \<Rightarrow>
   (decode_error + bytes list) \<times> frame_decoder" where
  "push_result frames d r =
     (case r of
        Inl e \<Rightarrow> (Inl e, d\<lparr>fd_retained := []\<rparr>)
      | Inr (fs, tail) \<Rightarrow> (Inr (frames @ fs), d\<lparr>fd_retained := tail\<rparr>))"

lemma push_loop_spec:
  assumes "decoder_ok d"
    and "input \<noteq> [] \<or> split_frames d maximum (fd_retained d) = Inr ([], fd_retained d)"
  shows "push_loop maximum frames input d =
    push_result frames d (split_frames d maximum (fd_retained d @ input))"
  using assms
proof (induction maximum frames input d rule: push_loop.induct)
  case (1 maximum frames input d)
  show ?case
  proof (cases "input = []")
    case True
    then show ?thesis
      using 1 by (simp add: push_loop.simps push_result_def)
  next
    case False
    have spec: "turn_spec maximum (fd_retained d @ input) d (push_turn maximum input d)"
      using push_turn_spec 1(2) by blast
    obtain res d' where t: "push_turn maximum input d = (res, d')"
      by fastforce
    consider (fail) e where "res = Inl e" | (stop) rest where "res = Inr (None, rest)"
      | (frame) f rest where "res = Inr (Some f, Some rest)"
      using spec t by (cases res) (auto elim!: turn_spec.elims)
    then show ?thesis
    proof cases
      case fail
      then show ?thesis
        using spec t False by (simp add: push_loop.simps [of _ _ input] push_result_def)
    next
      case stop
      then show ?thesis
        using spec t False
        by (auto simp: push_loop.simps [of _ _ input] push_loop.simps [of _ _ "[]"] push_result_def)
    next
      case frame
      then have s: "fd_retained d @ input = f @ rest" "4 \<le> length f"
        "validate_declared d (declared_size f) maximum = Inr ()"
        "length f = unat (declared_size f)" and d': "d' = d\<lparr>fd_retained := []\<rparr>"
        using spec t by simp_all
      have "decoder_ok d'"
        using 1(2) by (simp add: d' decoder_ok_def)
      then have "push_loop maximum (frames @ [f]) rest d' =
          push_result (frames @ [f]) d' (split_frames d' maximum (fd_retained d' @ rest))"
        using 1(1) [OF False t [symmetric] frame refl refl] d' by simp
      then show ?thesis
        unfolding s(1) split_frames_frame [OF s(2-4)]
        using False t frame d'
        by (auto simp: push_loop.simps [of _ _ input] push_result_def split: sum.splits)
    qed
  qed
qed

section \<open>Streams of chunks\<close>

text \<open>
  Consecutive calls of \<open>push\<close> by a caller that keeps the frames of every call and stops at the
  first error: the frames delivered, how the calls ended, and the decoder left behind.
\<close>

fun push_chunks :: "u32 \<Rightarrow> bytes list \<Rightarrow> frame_decoder \<Rightarrow>
  (bytes list \<times> (decode_error + unit)) \<times> frame_decoder" where
  "push_chunks active_maximum [] d = (([], Inr ()), d)"
| "push_chunks active_maximum (chunk # chunks) d =
     (case push chunk active_maximum d of
        (Inl e, d') \<Rightarrow> (([], Inl e), d')
      | (Inr frames, d') \<Rightarrow>
          (case push_chunks active_maximum chunks d' of
             ((later, end_of), d'') \<Rightarrow> ((frames @ later, end_of), d'')))"

lemma split_frames_tail:
  assumes "split_frames d maximum bs = Inr (frames, tail)" and "4 \<le> fd_maximum_retained d"
  shows "length tail < 4 \<or> length tail < unat (declared_size tail)"
    and "length tail \<le> fd_maximum_retained d"
    and "split_frames d maximum tail = Inr ([], tail)"
    and "concat frames @ tail = bs"
  using assms
proof (induction d maximum bs arbitrary: frames rule: stream_frames.induct)
  case (1 d maximum bs)
  note [simp] = split_frames_simps [of d maximum bs]
  {
    case 1
    then show ?case using "1.IH"(1) by (auto split: if_splits sum.splits)
  next
    case 2
    then show ?case
      using "1.IH"(2) validate_declared_le [of d "declared_size bs" maximum]
      by (auto split: if_splits sum.splits)
  next
    case 3
    then show ?case using "1.IH"(3) by (auto simp: split_frames_partial split: if_splits sum.splits)
  next
    case 4
    then show ?case using "1.IH"(4) by (auto split: if_splits sum.splits)
  }
qed

lemma stream_frames_append:
  "stream_frames d maximum (a @ b) =
    (case stream_frames d maximum a of
       (frames, Inl e) \<Rightarrow> (frames, Inl e)
     | (frames, Inr tail) \<Rightarrow>
         (case stream_frames d maximum (tail @ b) of (later, end_of) \<Rightarrow> (frames @ later, end_of)))"
proof (induction d maximum a rule: stream_frames.induct)
  case (1 d maximum a)
  let ?size = "unat (declared_size a)"
  consider (short) "length a < 4"
    | (invalid) e where "4 \<le> length a" "validate_declared d (declared_size a) maximum = Inl e"
    | (partial) "4 \<le> length a" "validate_declared d (declared_size a) maximum = Inr ()"
        "length a < ?size"
    | (frame) "4 \<le> length a" "validate_declared d (declared_size a) maximum = Inr ()"
        "?size \<le> length a"
    by (cases "validate_declared d (declared_size a) maximum") (use le_less_linear in auto)
  then show ?case
  proof cases
    case invalid
    then show ?thesis by (simp add: stream_frames.simps [of _ _ a] stream_frames.simps [of _ _ "a @ b"])
  next
    case frame
    define f r where "f = take ?size a" and "r = drop ?size a"
    have f: "4 \<le> length f" "validate_declared d (declared_size f) maximum = Inr ()"
      "length f = unat (declared_size f)"
      using frame validate_declared_ge [OF frame(2)] by (simp_all add: f_def declared_size_def)
    have "stream_frames d maximum (r @ b) = (case stream_frames d maximum r of
        (frames, Inl e) \<Rightarrow> (frames, Inl e)
      | (frames, Inr tail) \<Rightarrow>
          (case stream_frames d maximum (tail @ b) of (later, end_of) \<Rightarrow> (frames @ later, end_of)))"
      using 1 frame unfolding r_def by (simp add: not_less)
    moreover have a: "a = f @ r"
      by (simp add: f_def r_def)
    ultimately show ?thesis
      unfolding a append_assoc stream_frames_frame [OF f]
      by (simp split: prod.splits sum.splits)
  qed (simp_all add: stream_frames.simps [of _ _ a])
qed

definition stream_ok :: "u32 \<Rightarrow> frame_decoder \<Rightarrow> bool" where
  "stream_ok active_maximum d \<longleftrightarrow> decoder_ok d \<and>
     split_frames d (min (fd_hard_maximum d) active_maximum) (fd_retained d) = Inr ([], fd_retained d)"

lemma push_spec:
  assumes "decoder_ok d" and "input \<noteq> [] \<or> stream_ok active_maximum d"
  shows "push input active_maximum d =
    push_result [] d (split_frames d (min (fd_hard_maximum d) active_maximum) (fd_retained d @ input))"
  using assms push_loop_spec by (auto simp: push_def stream_ok_def)

lemma decoder_ok_tail:
  assumes "decoder_ok d" and "split_frames d maximum bs = Inr (frames, tail)"
  shows "decoder_ok (d\<lparr>fd_retained := tail\<rparr>)"
  using assms split_frames_tail [OF assms(2)] by (auto simp: decoder_ok_def)

lemma decoder_ok_clear: "decoder_ok d \<Longrightarrow> decoder_ok (d\<lparr>fd_retained := []\<rparr>)"
  by (simp add: decoder_ok_def)

lemma keeps_push: "keeps decoder_ok (push input active_maximum)"
proof
  fix d assume ok: "decoder_ok d"
  show "decoder_ok (snd (push input active_maximum d))"
  proof (cases "input = []")
    case True
    then show ?thesis
      using ok by (simp add: push_def push_loop.simps)
  next
    case False
    then show ?thesis
      using ok by (auto simp: push_spec push_result_def decoder_ok_tail decoder_ok_clear
          split: sum.splits)
  qed
qed

lemma push_keeps_bounds:
  assumes "decoder_ok d"
  shows "fd_hard_maximum (snd (push input m d)) = fd_hard_maximum d"
    and "fd_maximum_retained (snd (push input m d)) = fd_maximum_retained d"
proof -
  have "\<exists>x. snd (push input m d) = d\<lparr>fd_retained := x\<rparr>"
  proof (cases "input = []")
    case True
    then have "snd (push input m d) = d\<lparr>fd_retained := fd_retained d\<rparr>"
      by (simp add: push_def push_loop.simps)
    then show ?thesis by blast
  next
    case False
    then show ?thesis
      using assms by (auto simp: push_spec push_result_def split: sum.splits prod.splits)
  qed
  then show "fd_hard_maximum (snd (push input m d)) = fd_hard_maximum d"
    "fd_maximum_retained (snd (push input m d)) = fd_maximum_retained d"
    by auto
qed

lemma stream_ok_tail:
  assumes "stream_ok m d"
    and "stream_frames d (min (fd_hard_maximum d) m) bs = (frames, Inr tail)"
  shows "stream_ok m (d\<lparr>fd_retained := tail\<rparr>)"
proof -
  have split: "split_frames d (min (fd_hard_maximum d) m) bs = Inr (frames, tail)"
    using assms(2) by (simp add: split_frames_eq_Inr)
  have ok: "decoder_ok d"
    using assms(1) by (simp add: stream_ok_def)
  then have "4 \<le> fd_maximum_retained d"
    by (simp add: decoder_ok_def)
  then show ?thesis
    using decoder_ok_tail [OF ok split] split_frames_tail(3) [OF split] by (simp add: stream_ok_def)
qed

lemma push_frames:
  assumes "stream_ok m d"
    and "stream_frames d (min (fd_hard_maximum d) m) (fd_retained d @ chunk) = (frames, end_of)"
  shows "push chunk m d =
    (case end_of of
       Inl e \<Rightarrow> (Inl e, d\<lparr>fd_retained := []\<rparr>)
     | Inr tail \<Rightarrow> (Inr frames, d\<lparr>fd_retained := tail\<rparr>))"
  using push_spec [of d chunk m] assms
  by (simp add: stream_ok_def push_result_def split_frames_def split: sum.splits)

text \<open>On a stream whose headers are all valid, every chunking delivers the same frames.\<close>

lemma push_chunks_complete:
  assumes "stream_ok m d"
    and "stream_frames d (min (fd_hard_maximum d) m) (fd_retained d @ concat chunks) = (frames, Inr tail)"
  shows "push_chunks m chunks d = ((frames, Inr ()), d\<lparr>fd_retained := tail\<rparr>)"
  using assms
proof (induction chunks arbitrary: d frames)
  case Nil
  then show ?case by (auto simp: stream_ok_def split_frames_eq_Inr)
next
  case (Cons chunk chunks)
  let ?split = "stream_frames d (min (fd_hard_maximum d) m)"
  obtain first t later where split: "?split (fd_retained d @ chunk) = (first, Inr t)"
    "?split (t @ concat chunks) = (later, Inr tail)" "frames = first @ later"
    using Cons.prems(2) stream_frames_append [of d _ "fd_retained d @ chunk" "concat chunks"]
    by (auto split: prod.splits sum.splits)
  then show ?case
    using Cons.IH [OF stream_ok_tail [OF Cons.prems(1) split(1)]] push_frames [OF Cons.prems(1) split(1)]
    by simp
qed

text \<open>
  On an invalid header the calls deliver the frames completed by the chunks before the one that
  completes the header; the frames completed within that chunk are lost.
\<close>

lemma push_chunks_invalid:
  assumes "stream_ok m d"
    and "stream_frames d (min (fd_hard_maximum d) m) (fd_retained d @ concat chunks) = (frames, Inl e)"
  shows "\<exists>before bad after delivered lost tail.
    chunks = before @ bad # after \<and> frames = delivered @ lost \<and>
    stream_frames d (min (fd_hard_maximum d) m) (fd_retained d @ concat before) =
      (delivered, Inr tail) \<and>
    stream_frames d (min (fd_hard_maximum d) m) (fd_retained d @ concat before @ bad) =
      (frames, Inl e) \<and>
    push_chunks m chunks d = ((delivered, Inl e), d\<lparr>fd_retained := []\<rparr>)"
  using assms
proof (induction chunks arbitrary: d frames)
  case Nil
  then show ?case by (simp add: stream_ok_def split_frames_eq_Inr)
next
  case (Cons chunk chunks)
  let ?split = "stream_frames d (min (fd_hard_maximum d) m)"
  have retained: "?split (fd_retained d) = ([], Inr (fd_retained d))"
    using Cons.prems(1) by (simp add: stream_ok_def split_frames_eq_Inr)
  obtain first end_of where first: "?split (fd_retained d @ chunk) = (first, end_of)"
    by fastforce
  show ?case
  proof (cases end_of)
    case (Inl e')
    then have "first = frames" "e' = e"
      using first Cons.prems(2) stream_frames_append [of d _ "fd_retained d @ chunk" "concat chunks"]
      by simp_all
    then show ?thesis
      using Inl first retained push_frames [OF Cons.prems(1) first]
      by (intro exI [of _ "[]"] exI [of _ chunk] exI [of _ chunks] exI [of _ frames]
          exI [of _ "fd_retained d"]) simp
  next
    case (Inr t)
    then have split: "?split (fd_retained d @ chunk) = (first, Inr t)"
      using first by simp
    obtain later where later: "?split (t @ concat chunks) = (later, Inl e)" "frames = first @ later"
      using split Cons.prems(2) stream_frames_append [of d _ "fd_retained d @ chunk" "concat chunks"]
      by (auto split: prod.splits)
    obtain before bad after delivered lost tail where rest: "chunks = before @ bad # after"
      "later = delivered @ lost" "?split (t @ concat before) = (delivered, Inr tail)"
      "?split (t @ concat before @ bad) = (later, Inl e)"
      "push_chunks m chunks (d\<lparr>fd_retained := t\<rparr>) = ((delivered, Inl e), d\<lparr>fd_retained := []\<rparr>)"
      using Cons.IH [OF stream_ok_tail [OF Cons.prems(1) split]] later(1) by auto
    have "?split (fd_retained d @ chunk @ x) = (case ?split (t @ x) of (fs, r) \<Rightarrow> (first @ fs, r))" for x
      using split stream_frames_append [of d _ "fd_retained d @ chunk" x] by simp
    then show ?thesis
      using rest later push_frames [OF Cons.prems(1) split]
      by (intro exI [of _ "chunk # before"] exI [of _ bad] exI [of _ after]
          exI [of _ "first @ delivered"] exI [of _ lost] exI [of _ tail]) simp
  qed
qed

lemma decoder_ok_new:
  assumes "limits_validate lim = Inr ()" and "max_buffered_input_bytes lim \<le> usize_max"
  shows "stream_ok m (frame_decoder_new lim)"
proof -
  have "7 \<le> max_buffered_input_bytes lim"
    using assms(1)
    by (auto simp: limits_validate_def MIN_FRAME_SIZE_def word_less_nat_alt
        split: if_splits option.splits)
  then show ?thesis
    using assms(2) by (simp add: stream_ok_def decoder_ok_def frame_decoder_new_def)
qed

text \<open>A frame the decoder admits: its declared size is its length and within every bound.\<close>

definition frame_ok :: "limits \<Rightarrow> u32 \<Rightarrow> bytes \<Rightarrow> bool" where
  "frame_ok lim m f \<longleftrightarrow>
     7 \<le> length f \<and> unat (declared_size f) = length f \<and> length f \<le> unat m \<and>
     length f \<le> unat (max_frame_size lim) \<and> length f \<le> max_buffered_input_bytes lim"

lemma split_frames_frames:
  assumes "\<forall>f \<in> set frames. frame_ok lim m f" and "fd_maximum_retained d = max_buffered_input_bytes lim"
    and "fd_hard_maximum d = max_frame_size lim"
  shows "split_frames d (min (fd_hard_maximum d) m) (concat frames) = Inr (frames, [])"
  using assms(1)
proof (induction frames)
  case (Cons f frames)
  then have "validate_declared d (declared_size f) (min (fd_hard_maximum d) m) = Inr ()"
    using assms(2,3)
    by (auto simp: frame_ok_def validate_declared_def HEADER_SIZE_def word_less_nat_alt
        min_def)
  then show ?case
    using Cons by (simp add: split_frames_frame frame_ok_def)
qed simp

end
