(* ===== verification/Wire_Properties.thy ===== *)
theory Wire_Properties
  imports Wire_Response Frame_Decoder
begin

text \<open>
  The properties of the protocol layer: message numbers, the request decoder and the response
  encoder against the wire format, the directory-record encoder, and the stream framer, alone
  and composed with the decoder.
\<close>

section \<open>Concrete values for the witnesses\<close>

definition sample_version :: request where
  "sample_version = \<lparr>req_tag = NOTAG, req_body = ReqVersion 8192 VERSION_9P2000_L\<rparr>"

definition sample_clunk :: request where
  "sample_clunk = \<lparr>req_tag = 1, req_body = ReqClunk 7\<rparr>"

lemma wire_sample_clunk: "wire_request sample_clunk = [11, 0, 0, 0, 120, 1, 0, 7, 0, 0, 0]"
  by code_simp

lemma wire_sample_version:
  "wire_request sample_version =
     [21, 0, 0, 0, 100, 255, 255, 0, 32, 0, 0, 8, 0, 57, 80, 50, 48, 48, 48, 46, 76]"
  by code_simp

lemma limits_default_ok:
  "limits_validate limits_default = Inr ()" "limits_usize limits_default"
  "max_frame_size limits_default = 1048576" "max_buffered_input_bytes limits_default = 1048576"
  by (simp_all add: limits_validate_def limits_usize_def limits_default_def MIN_FRAME_SIZE_def
      usize_max_def first_zero_def)

lemmas default_decoder = frame_decoder_new_def limits_default_ok

section \<open>Message numbers\<close>

text \<open>
  C19: The wire number of a message type is one of the assigned numbers and determines the type:
  the decoder of \<open>message_type.rs\<close> accepts a byte exactly when some type has that number, and
  yields that type. Every request type is listed exactly once in the operation matrix, its
  response is not a request, and the response's number is the successor of the request's.
\<close>

theorem message_numbers:
  "(message_type_try_from v = Inr m \<longleftrightarrow> v = to_u8 m) \<and>
   distinct (map os_request OPERATION_MATRIX) \<and>
   (is_request r \<longleftrightarrow> r \<in> set (map os_request OPERATION_MATRIX)) \<and>
   list_all (\<lambda>spec. \<not> is_request (os_response spec) \<and>
     to_u8 (os_response spec) = to_u8 (os_request spec) + 1) OPERATION_MATRIX"
proof (intro conjI)
  show "distinct (map os_request OPERATION_MATRIX)"
    by (simp add: OPERATION_MATRIX_def)
  show "is_request r \<longleftrightarrow> r \<in> set (map os_request OPERATION_MATRIX)"
    by (cases r) (simp_all add: is_request_def OPERATION_MATRIX_def)
  show "list_all (\<lambda>spec. \<not> is_request (os_response spec) \<and>
     to_u8 (os_response spec) = to_u8 (os_request spec) + 1) OPERATION_MATRIX"
    by (simp add: OPERATION_MATRIX_def is_request_def)
qed (rule message_type_try_from_iff)

section \<open>The codec against the wire format\<close>

text \<open>
  C1: \<open>decode_request\<close> accepts a frame exactly when it is the wire encoding of a request that
  the configured limits admit and that fits the negotiated size, and returns that request.
\<close>

theorem decode_request_format:
  "decode_request frame lim maximum = Inr q \<longleftrightarrow>
   request_ok lim (req_body q) \<and> frame = wire_request q \<and> length frame \<le> unat maximum"
  by (rule decode_request_exact)

text \<open>
  C4: \<open>encode_response\<close> succeeds exactly when the response is representable and its encoding fits
  the frame bound, and then produces exactly the wire encoding; so an emitted frame never
  exceeds the negotiated size.
\<close>

theorem encode_response_format:
  "encode_response r maximum = Inr frame \<longleftrightarrow>
   response_ok (res_body r) \<and> length (wire_response r) \<le> unat maximum \<and> frame = wire_response r"
  by (rule encode_response_exact)

text \<open>
  C17: \<open>encode_directory_entries\<close> emits the records of the longest prefix of the entries that fits
  the byte bound, and succeeds exactly when every entry it had to look at is valid: the emitted
  ones and the first one left out.
\<close>

theorem encode_directory_entries_longest_prefix:
  assumes "maximum_data_bytes < 2 ^ 32"
  shows "encode_directory_entries entries maximum_data_bytes maximum_string_bytes = Inr data \<longleftrightarrow>
    (\<exists>k \<le> length entries.
       data = concat (map wire_directory_entry (take k entries)) \<and>
       length data \<le> maximum_data_bytes \<and>
       (\<forall>e \<in> set (take (Suc k) entries). directory_entry_ok maximum_string_bytes e) \<and>
       (k < length entries \<longrightarrow>
          maximum_data_bytes < length data + length (wire_directory_entry (entries ! k))))"
  unfolding encode_directory_entries_def
  using directory_loop_exact [of "[]" maximum_data_bytes maximum_string_bytes entries data] assms
  by (auto simp: directory_prefix_def)

definition sample_entry :: directory_entry where
  "sample_entry =
     \<lparr>de_qid = \<lparr>qid_ty = 0, qid_version = 0, qid_path = 5\<rparr>, de_offset = 1, de_ty = 8, de_name = [97]\<rparr>"

theorem encode_directory_entries_longest_prefix_witness:
  "(30 :: nat) < 2 ^ 32 \<and>
   encode_directory_entries [sample_entry, sample_entry] 30 16 = Inr (wire_directory_entry sample_entry)"
proof -
  have "length (wire_directory_entry sample_entry) = 25"
    by (simp add: length_wire_directory_entry sample_entry_def)
  moreover have "directory_entry_ok 16 sample_entry"
    by (simp add: directory_entry_ok_def sample_entry_def de_validate_def validate_component_def)
  ultimately have "\<exists>k \<le> length [sample_entry, sample_entry].
      wire_directory_entry sample_entry =
        concat (map wire_directory_entry (take k [sample_entry, sample_entry])) \<and>
      length (wire_directory_entry sample_entry) \<le> 30 \<and>
      (\<forall>e \<in> set (take (Suc k) [sample_entry, sample_entry]). directory_entry_ok 16 e) \<and>
      (k < length [sample_entry, sample_entry] \<longrightarrow>
         30 < length (wire_directory_entry sample_entry) +
           length (wire_directory_entry ([sample_entry, sample_entry] ! k)))"
    by (intro exI [of _ 1]) simp
  then show ?thesis
    by (subst encode_directory_entries_longest_prefix) simp_all
qed

section \<open>Framing\<close>

text \<open>
  C11: A caller keeps the frames of every call and stops at the first error. If every header of the
  stream is valid, then for every way of cutting it into chunks the frames delivered and the
  incomplete tail retained are those of the whole stream. If a header is invalid, every way of
  cutting reports the same error and leaves an empty decoder, and the frames delivered are those
  completed by the chunks before the one in which the header is completed: the valid frames that
  this chunk completes in front of the header are lost.
\<close>

theorem push_chunks_reference:
  assumes "limits_validate lim = Inr ()" and "limits_usize lim"
  shows "let d = frame_decoder_new lim; split = stream_frames d (min (max_frame_size lim) m) in
    case split (concat chunks) of
      (frames, Inr tail) \<Rightarrow> push_chunks m chunks d = ((frames, Inr ()), d\<lparr>fd_retained := tail\<rparr>)
    | (frames, Inl e) \<Rightarrow>
        \<exists>before bad after delivered lost tail.
          chunks = before @ bad # after \<and> frames = delivered @ lost \<and>
          split (concat before) = (delivered, Inr tail) \<and>
          split (concat before @ bad) = (frames, Inl e) \<and>
          push_chunks m chunks d = ((delivered, Inl e), d)"
proof -
  define d where "d = frame_decoder_new lim"
  have clear: "d\<lparr>fd_retained := []\<rparr> = d"
    by (simp add: d_def frame_decoder_new_def)
  have "stream_ok m d"
    using assms decoder_ok_new by (simp add: d_def limits_usize_def)
  moreover have "fd_hard_maximum d = max_frame_size lim" "fd_retained d = []"
    by (simp_all add: d_def frame_decoder_new_def)
  ultimately show ?thesis
    using push_chunks_complete [of m d chunks] push_chunks_invalid [of m d chunks, unfolded clear]
    by (simp add: d_def [symmetric] Let_def split: prod.split sum.split)
qed

theorem push_chunks_reference_witness:
  "push_chunks 64 [[11, 0], [0, 0, 120, 1, 0, 7, 0, 0], [0, 9]] (frame_decoder_new limits_default) =
     (([[11, 0, 0, 0, 120, 1, 0, 7, 0, 0, 0]], Inr ()),
      (frame_decoder_new limits_default)\<lparr>fd_retained := [9]\<rparr>)"
proof -
  have "stream_frames (frame_decoder_new limits_default) (min (max_frame_size limits_default) 64)
      [11, 0, 0, 0, 120, 1, 0, 7, 0, 0, 0, 9] = ([[11, 0, 0, 0, 120, 1, 0, 7, 0, 0, 0]], Inr [9])"
    by (simp add: stream_frames.simps default_decoder declared_size_def validate_declared_def
        HEADER_SIZE_def)
  then show ?thesis
    using push_chunks_reference [of limits_default 64 "[[11, 0], [0, 0, 120, 1, 0, 7, 0, 0], [0, 9]]"]
      limits_default_ok by (simp add: Let_def)
qed

text \<open>
  C31: An admitted frame in front of an invalid header is delivered when the two arrive in separate
  calls and lost when they arrive in one.
\<close>

theorem push_error_loses_frames:
  assumes "limits_validate lim = Inr ()" and "limits_usize lim"
    and "frame_ok lim m f" and "4 \<le> length header"
    and "validate_declared (frame_decoder_new lim) (declared_size header) (min (max_frame_size lim) m) =
      Inl e"
  shows "push_chunks m [f, header] (frame_decoder_new lim) = (([f], Inl e), frame_decoder_new lim) \<and>
    push_chunks m [f @ header] (frame_decoder_new lim) = (([], Inl e), frame_decoder_new lim)"
proof -
  let ?d = "frame_decoder_new lim"
  let ?max = "min (max_frame_size lim) m"
  have ok: "stream_ok m ?d"
    using assms decoder_ok_new by (simp add: limits_usize_def)
  have clear: "?d\<lparr>fd_retained := []\<rparr> = ?d"
    by (simp add: frame_decoder_new_def)
  have d: "fd_hard_maximum ?d = max_frame_size lim" "fd_retained ?d = []"
    by (simp_all add: frame_decoder_new_def)
  have f: "stream_frames ?d ?max f = ([f], Inr [])"
    using split_frames_frames [of "[f]" lim m ?d] assms(3) d
    by (simp add: split_frames_eq_Inr frame_decoder_new_def)
  have h: "stream_frames ?d ?max header = ([], Inl e)"
    using assms(4,5) by (simp add: stream_frames.simps)
  have "stream_frames ?d ?max (f @ header) = ([f], Inl e)"
    using f h by (simp add: stream_frames_append [of _ _ f header])
  then show ?thesis
    using push_frames [OF ok] f h by (simp add: d clear)
qed

theorem push_error_loses_frames_witness:
  "push_chunks 64 [[7, 0, 0, 0, 108, 1, 0], [0, 0, 0, 0]] (frame_decoder_new limits_default) =
     (([[7, 0, 0, 0, 108, 1, 0]], Inl (FrameTooSmall 0)), frame_decoder_new limits_default) \<and>
   push_chunks 64 [[7, 0, 0, 0, 108, 1, 0, 0, 0, 0, 0]] (frame_decoder_new limits_default) =
     (([], Inl (FrameTooSmall 0)), frame_decoder_new limits_default)"
  using push_error_loses_frames [of limits_default 64 "[7, 0, 0, 0, 108, 1, 0]" "[0, 0, 0, 0]"
      "FrameTooSmall 0"]
  by (simp add: limits_default_ok frame_ok_def declared_size_def default_decoder
      validate_declared_def HEADER_SIZE_def)

text \<open>
  C18: Whatever is pushed under whatever negotiated sizes, the decoder never retains more than the
  configured bound, and what it retains is an incomplete frame: either fewer than four bytes or
  fewer than the declared size.
\<close>

theorem push_retains_incomplete:
  assumes "decoder_ok d"
  shows "decoder_ok (snd (push input active_maximum d)) \<and>
    length (fd_retained (snd (push input active_maximum d))) \<le> fd_maximum_retained d"
  using keepsD [OF keeps_push assms, of input active_maximum]
    push_keeps_bounds(2) [OF assms, of input active_maximum]
  by (simp add: decoder_ok_def)

theorem push_retains_incomplete_witness:
  "decoder_ok (frame_decoder_new limits_default) \<and>
   decoder_ok (snd (push [11, 0, 0, 0, 120] 64 (frame_decoder_new limits_default)))"
proof -
  have "decoder_ok (frame_decoder_new limits_default)"
    by (simp add: decoder_ok_def default_decoder usize_max_def)
  then show ?thesis
    using push_retains_incomplete by blast
qed

text \<open>
  C6: Any sequence of admitted requests, encoded, concatenated and delivered in arbitrary chunks,
  comes out of the framer and the decoder as the same sequence, with nothing retained.
\<close>

theorem request_stream_roundtrip:
  assumes lim: "limits_validate lim = Inr ()" "limits_usize lim" and m: "m \<le> max_frame_size lim"
    and ok: "\<forall>q \<in> set requests. request_ok lim (req_body q) \<and> length (wire_request q) \<le> unat m"
    and chunks: "concat chunks = concat (map wire_request requests)"
  shows "\<exists>frames.
    push_chunks m chunks (frame_decoder_new lim) = ((frames, Inr ()), frame_decoder_new lim) \<and>
    map (\<lambda>f. decode_request f lim m) frames = map Inr requests"
proof -
  let ?d = "frame_decoder_new lim"
  have frame: "frame_ok lim m (wire_request q)" if "q \<in> set requests" for q
  proof -
    have "decode_request (wire_request q) lim m = Inr q"
      using ok that by (simp add: decode_request_exact)
    then have "validate_frame (wire_request q) m = Inr ()"
      by (auto simp: decode_request_def split: sum.splits)
    then show ?thesis
      using m lim by (auto simp: frame_ok_def validate_frame_iff declared_size_def word_le_nat_alt
          limits_validate_def split: if_splits option.splits)
  qed
  have "split_frames ?d (min (fd_hard_maximum ?d) m) (concat (map wire_request requests)) =
      Inr (map wire_request requests, [])"
    using frame by (intro split_frames_frames [of _ lim]) (auto simp: frame_decoder_new_def)
  moreover have "stream_ok m ?d"
    using lim decoder_ok_new by (simp add: limits_usize_def)
  ultimately have "push_chunks m chunks ?d = ((map wire_request requests, Inr ()), ?d)"
    using push_chunks_complete [of m ?d chunks "map wire_request requests" "[]"]
    by (simp add: chunks split_frames_eq_Inr) (simp add: frame_decoder_new_def)
  moreover have "map (\<lambda>f. decode_request f lim m) (map wire_request requests) = map Inr requests"
    using ok by (simp add: decode_request_exact)
  ultimately show ?thesis
    by blast
qed

theorem request_stream_roundtrip_witness:
  "\<exists>frames.
    push_chunks 64 [[11, 0, 0], [0, 120, 1, 0, 7, 0, 0, 0, 11, 0, 0, 0, 120, 1, 0, 7, 0, 0, 0]]
      (frame_decoder_new limits_default) = ((frames, Inr ()), frame_decoder_new limits_default) \<and>
    map (\<lambda>f. decode_request f limits_default 64) frames = map Inr [sample_clunk, sample_clunk]"
  using request_stream_roundtrip [of limits_default 64 "[sample_clunk, sample_clunk]"
      "[[11, 0, 0], [0, 120, 1, 0, 7, 0, 0, 0, 11, 0, 0, 0, 120, 1, 0, 7, 0, 0, 0]]"]
  by (simp add: wire_sample_clunk limits_default_ok) (simp add: sample_clunk_def)

end
