(* ===== verification/Fs_Boundary.thy ===== *)
theory Fs_Boundary
  imports Wire_Codec
begin

text \<open>
  The backend-neutral filesystem boundary of \<open>crates/w9pt/src/filesystem/\<close>: opaque handles,
  the capabilities of an attached export (\<open>capability.rs\<close>), the semantic operations a session
  emits (\<open>request.rs\<close>) and their typed results (\<open>response.rs\<close>).
\<close>

section \<open>Handles and contexts (types.rs)\<close>

type_synonym object_handle = u128
type_synonym open_handle = u128
type_synonym xattr_handle = u128
type_synonym principal_id = rstring
type_synonym export_id = rstring

record request_context =
  rc_session_id :: session_id
  rc_principal :: principal_id
  rc_export :: export_id

text \<open>\<open>FilesystemError\<close> wraps the errno it exposes.\<close>

type_synonym filesystem_error = linux_errno

section \<open>Capabilities (capability.rs)\<close>

datatype (plugins only: code) capability =
    CapWalk
  | CapOpen
  | CapCreate
  | CapMkdir
  | CapMknod
  | CapSymlink
  | CapRead
  | CapWrite
  | CapReaddir
  | CapFsync
  | CapStatfs
  | CapGetattr
  | CapSetattr
  | CapReadlink
  | CapRename
  | CapRenameAt
  | CapRemove
  | CapUnlinkAt
  | CapLink
  | CapXattr
  | CapLock
  | CapStableIdentity
  | CapAtomicAuthorization
  | CapAtomicNamespace
  | CapAtomicSetattr
  | CapPositionedIo
  | CapOpenUnlinked
  | CapDurableData
  | CapDurableMetadata
  | CapCrossSessionLocks
  | CapCancellation

primrec capability_index :: "capability \<Rightarrow> nat" where
  "capability_index CapWalk = 0"
| "capability_index CapOpen = 1"
| "capability_index CapCreate = 2"
| "capability_index CapMkdir = 3"
| "capability_index CapMknod = 4"
| "capability_index CapSymlink = 5"
| "capability_index CapRead = 6"
| "capability_index CapWrite = 7"
| "capability_index CapReaddir = 8"
| "capability_index CapFsync = 9"
| "capability_index CapStatfs = 10"
| "capability_index CapGetattr = 11"
| "capability_index CapSetattr = 12"
| "capability_index CapReadlink = 13"
| "capability_index CapRename = 14"
| "capability_index CapRenameAt = 15"
| "capability_index CapRemove = 16"
| "capability_index CapUnlinkAt = 17"
| "capability_index CapLink = 18"
| "capability_index CapXattr = 19"
| "capability_index CapLock = 20"
| "capability_index CapStableIdentity = 21"
| "capability_index CapAtomicAuthorization = 22"
| "capability_index CapAtomicNamespace = 23"
| "capability_index CapAtomicSetattr = 24"
| "capability_index CapPositionedIo = 25"
| "capability_index CapOpenUnlinked = 26"
| "capability_index CapDurableData = 27"
| "capability_index CapDurableMetadata = 28"
| "capability_index CapCrossSessionLocks = 29"
| "capability_index CapCancellation = 30"

definition ALL_CAPABILITIES :: "capability list" where
  "ALL_CAPABILITIES =
     [CapWalk, CapOpen, CapCreate, CapMkdir, CapMknod, CapSymlink, CapRead, CapWrite, CapReaddir, CapFsync, CapStatfs, CapGetattr, CapSetattr, CapReadlink, CapRename, CapRenameAt, CapRemove, CapUnlinkAt, CapLink, CapXattr, CapLock, CapStableIdentity, CapAtomicAuthorization, CapAtomicNamespace, CapAtomicSetattr, CapPositionedIo, CapOpenUnlinked, CapDurableData, CapDurableMetadata, CapCrossSessionLocks, CapCancellation]"

type_synonym capability_set = u128

definition capability_bit :: "capability \<Rightarrow> u128" where
  "capability_bit c = push_bit (capability_index c) 1"

definition CapabilitySet_NONE :: capability_set where
  "CapabilitySet_NONE = 0"

definition CapabilitySet_ALL :: capability_set where
  "CapabilitySet_ALL = push_bit (length ALL_CAPABILITIES) 1 - 1"

definition from_capabilities :: "capability list \<Rightarrow> capability_set" where
  "from_capabilities cs = foldl (\<lambda>bits c. bits OR capability_bit c) 0 cs"

definition capability_contains :: "capability_set \<Rightarrow> capability \<Rightarrow> bool" where
  "capability_contains s c \<longleftrightarrow> s AND capability_bit c \<noteq> 0"

definition capability_with :: "capability_set \<Rightarrow> capability \<Rightarrow> capability_set" where
  "capability_with s c = s OR capability_bit c"

section \<open>Semantic operations (request.rs)\<close>

datatype (plugins only: code) filesystem_operation =
    FsWalk object_handle "rstring list" \<comment> \<open>start, names\<close>
  | FsRelease object_handle "open_handle option" "xattr_handle option" \<comment> \<open>object, open, xattr\<close>
  | FsOpen object_handle open_flags \<comment> \<open>object, flags\<close>
  | FsCreate object_handle rstring open_flags u32 u32 \<comment> \<open>directory, name, flags, mode, gid\<close>
  | FsMkdir object_handle rstring u32 u32 \<comment> \<open>directory, name, mode, gid\<close>
  | FsMknod object_handle rstring u32 u32 u32 u32 \<comment> \<open>directory, name, mode, major, minor, gid\<close>
  | FsSymlink object_handle rstring rstring u32 \<comment> \<open>directory, name, target, gid\<close>
  | FsRead open_handle u64 u32 \<comment> \<open>open, offset, count\<close>
  | FsWrite open_handle u64 bytes \<comment> \<open>open, offset, data\<close>
  | FsReadDir open_handle u64 u32 \<comment> \<open>open, offset, count\<close>
  | FsFsync open_handle bool \<comment> \<open>open, data_only\<close>
  | FsStatfs object_handle
  | FsGetattr object_handle getattr_mask
  | FsSetattr object_handle set_attributes
  | FsReadlink object_handle
  | FsRename object_handle object_handle rstring \<comment> \<open>object, directory, name\<close>
  | FsRenameAt object_handle rstring object_handle rstring \<comment> \<open>old_directory, old_name, new_directory, new_name\<close>
  | FsRemove object_handle "open_handle option" "xattr_handle option" \<comment> \<open>object, open, xattr\<close>
  | FsUnlinkAt object_handle rstring unlink_flags \<comment> \<open>directory, name, flags\<close>
  | FsLink object_handle object_handle rstring \<comment> \<open>directory, target, name\<close>
  | FsXattrWalk object_handle rstring
  | FsXattrCreate object_handle rstring u64 xattr_flags \<comment> \<open>object, name, size, flags\<close>
  | FsXattrRead xattr_handle u64 u32 \<comment> \<open>xattr, offset, count\<close>
  | FsXattrWrite xattr_handle u64 bytes \<comment> \<open>xattr, offset, data\<close>
  | FsXattrCommit xattr_handle u64 \<comment> \<open>xattr, expected_size\<close>
  | FsLock open_handle lock_request
  | FsGetlock open_handle lock

datatype (plugins only: code) filesystem_result_kind =
    KWalked
  | KReleased
  | KOpened
  | KCreated
  | KDirectoryCreated
  | KNodeCreated
  | KSymlinkCreated
  | KRead
  | KWritten
  | KDirectoryRead
  | KSynced
  | KStatfs
  | KAttributes
  | KAttributesSet
  | KLinkTarget
  | KRenamed
  | KRenamedAt
  | KRemoved
  | KUnlinked
  | KLinked
  | KXattrWalked
  | KXattrCreated
  | KXattrRead
  | KXattrWritten
  | KXattrCommitted
  | KLocked
  | KLockQueried

primrec operation_expected_result :: "filesystem_operation \<Rightarrow> filesystem_result_kind" where
  "operation_expected_result (FsWalk a1 a2) = KWalked"
| "operation_expected_result (FsRelease a1 a2 a3) = KReleased"
| "operation_expected_result (FsOpen a1 a2) = KOpened"
| "operation_expected_result (FsCreate a1 a2 a3 a4 a5) = KCreated"
| "operation_expected_result (FsMkdir a1 a2 a3 a4) = KDirectoryCreated"
| "operation_expected_result (FsMknod a1 a2 a3 a4 a5 a6) = KNodeCreated"
| "operation_expected_result (FsSymlink a1 a2 a3 a4) = KSymlinkCreated"
| "operation_expected_result (FsRead a1 a2 a3) = KRead"
| "operation_expected_result (FsWrite a1 a2 a3) = KWritten"
| "operation_expected_result (FsReadDir a1 a2 a3) = KDirectoryRead"
| "operation_expected_result (FsFsync a1 a2) = KSynced"
| "operation_expected_result (FsStatfs a1) = KStatfs"
| "operation_expected_result (FsGetattr a1 a2) = KAttributes"
| "operation_expected_result (FsSetattr a1 a2) = KAttributesSet"
| "operation_expected_result (FsReadlink a1) = KLinkTarget"
| "operation_expected_result (FsRename a1 a2 a3) = KRenamed"
| "operation_expected_result (FsRenameAt a1 a2 a3 a4) = KRenamedAt"
| "operation_expected_result (FsRemove a1 a2 a3) = KRemoved"
| "operation_expected_result (FsUnlinkAt a1 a2 a3) = KUnlinked"
| "operation_expected_result (FsLink a1 a2 a3) = KLinked"
| "operation_expected_result (FsXattrWalk a1 a2) = KXattrWalked"
| "operation_expected_result (FsXattrCreate a1 a2 a3 a4) = KXattrCreated"
| "operation_expected_result (FsXattrRead a1 a2 a3) = KXattrRead"
| "operation_expected_result (FsXattrWrite a1 a2 a3) = KXattrWritten"
| "operation_expected_result (FsXattrCommit a1 a2) = KXattrCommitted"
| "operation_expected_result (FsLock a1 a2) = KLocked"
| "operation_expected_result (FsGetlock a1 a2) = KLockQueried"

primrec operation_retained_bytes :: "filesystem_operation \<Rightarrow> nat" where
  "operation_retained_bytes (FsWalk a1 a2) = sum_list (map length a2)"
| "operation_retained_bytes (FsRelease a1 a2 a3) = 0"
| "operation_retained_bytes (FsOpen a1 a2) = 0"
| "operation_retained_bytes (FsCreate a1 a2 a3 a4 a5) = length a2"
| "operation_retained_bytes (FsMkdir a1 a2 a3 a4) = length a2"
| "operation_retained_bytes (FsMknod a1 a2 a3 a4 a5 a6) = length a2"
| "operation_retained_bytes (FsSymlink a1 a2 a3 a4) = usize_saturating_add (length a2) (length a3)"
| "operation_retained_bytes (FsRead a1 a2 a3) = 0"
| "operation_retained_bytes (FsWrite a1 a2 a3) = length a3"
| "operation_retained_bytes (FsReadDir a1 a2 a3) = 0"
| "operation_retained_bytes (FsFsync a1 a2) = 0"
| "operation_retained_bytes (FsStatfs a1) = 0"
| "operation_retained_bytes (FsGetattr a1 a2) = 0"
| "operation_retained_bytes (FsSetattr a1 a2) = 0"
| "operation_retained_bytes (FsReadlink a1) = 0"
| "operation_retained_bytes (FsRename a1 a2 a3) = length a3"
| "operation_retained_bytes (FsRenameAt a1 a2 a3 a4) = usize_saturating_add (length a2) (length a4)"
| "operation_retained_bytes (FsRemove a1 a2 a3) = 0"
| "operation_retained_bytes (FsUnlinkAt a1 a2 a3) = length a2"
| "operation_retained_bytes (FsLink a1 a2 a3) = length a3"
| "operation_retained_bytes (FsXattrWalk a1 a2) = length a2"
| "operation_retained_bytes (FsXattrCreate a1 a2 a3 a4) = length a2"
| "operation_retained_bytes (FsXattrRead a1 a2 a3) = 0"
| "operation_retained_bytes (FsXattrWrite a1 a2 a3) = length a3"
| "operation_retained_bytes (FsXattrCommit a1 a2) = 0"
| "operation_retained_bytes (FsLock a1 a2) = length (lk_client_id (lr_lock a2))"
| "operation_retained_bytes (FsGetlock a1 a2) = length (lk_client_id a2)"

record filesystem_request =
  fr_context :: request_context
  fr_operation :: filesystem_operation

definition request_expected_result :: "filesystem_request \<Rightarrow> filesystem_result_kind" where
  "request_expected_result r = operation_expected_result (fr_operation r)"

definition request_retained_bytes :: "filesystem_request \<Rightarrow> nat" where
  "request_retained_bytes r =
     usize_saturating_add
       (usize_saturating_add (length (rc_principal (fr_context r))) (length (rc_export (fr_context r))))
       (operation_retained_bytes (fr_operation r))"

text \<open>The \<open>required\<close> slice of \<open>require_for\<close>; \<open>Release\<close> returns before the loop.\<close>

primrec required_capabilities :: "filesystem_operation \<Rightarrow> capability list" where
  "required_capabilities (FsWalk a1 a2) =
     [CapWalk, CapStableIdentity, CapAtomicAuthorization]"
| "required_capabilities (FsRelease a1 a2 a3) =
     []"
| "required_capabilities (FsOpen a1 a2) =
     [CapOpen, CapStableIdentity, CapAtomicAuthorization, CapOpenUnlinked]"
| "required_capabilities (FsCreate a1 a2 a3 a4 a5) =
     [CapCreate, CapStableIdentity, CapAtomicAuthorization, CapAtomicNamespace, CapOpenUnlinked]"
| "required_capabilities (FsMkdir a1 a2 a3 a4) =
     [CapMkdir, CapAtomicAuthorization, CapAtomicNamespace]"
| "required_capabilities (FsMknod a1 a2 a3 a4 a5 a6) =
     [CapMknod, CapAtomicAuthorization, CapAtomicNamespace]"
| "required_capabilities (FsSymlink a1 a2 a3 a4) =
     [CapSymlink, CapAtomicAuthorization, CapAtomicNamespace]"
| "required_capabilities (FsRead a1 a2 a3) =
     [CapRead, CapAtomicAuthorization, CapPositionedIo]"
| "required_capabilities (FsWrite a1 a2 a3) =
     [CapWrite, CapAtomicAuthorization, CapPositionedIo]"
| "required_capabilities (FsReadDir a1 a2 a3) =
     [CapReaddir, CapAtomicAuthorization]"
| "required_capabilities (FsFsync a1 a2) =
     (if a2 then [CapFsync, CapDurableData] else [CapFsync, CapDurableData, CapDurableMetadata])"
| "required_capabilities (FsStatfs a1) =
     [CapStatfs, CapAtomicAuthorization]"
| "required_capabilities (FsGetattr a1 a2) =
     [CapGetattr, CapAtomicAuthorization]"
| "required_capabilities (FsSetattr a1 a2) =
     [CapSetattr, CapAtomicAuthorization, CapAtomicSetattr]"
| "required_capabilities (FsReadlink a1) =
     [CapReadlink, CapAtomicAuthorization]"
| "required_capabilities (FsRename a1 a2 a3) =
     [CapRename, CapAtomicAuthorization, CapAtomicNamespace]"
| "required_capabilities (FsRenameAt a1 a2 a3 a4) =
     [CapRenameAt, CapAtomicAuthorization, CapAtomicNamespace]"
| "required_capabilities (FsRemove a1 a2 a3) =
     [CapRemove, CapAtomicAuthorization, CapAtomicNamespace, CapOpenUnlinked]"
| "required_capabilities (FsUnlinkAt a1 a2 a3) =
     [CapUnlinkAt, CapAtomicAuthorization, CapAtomicNamespace, CapOpenUnlinked]"
| "required_capabilities (FsLink a1 a2 a3) =
     [CapLink, CapAtomicAuthorization, CapAtomicNamespace]"
| "required_capabilities (FsXattrWalk a1 a2) =
     [CapXattr, CapAtomicAuthorization]"
| "required_capabilities (FsXattrCreate a1 a2 a3 a4) =
     [CapXattr, CapAtomicAuthorization]"
| "required_capabilities (FsXattrRead a1 a2 a3) =
     [CapXattr, CapAtomicAuthorization]"
| "required_capabilities (FsXattrWrite a1 a2 a3) =
     [CapXattr, CapAtomicAuthorization]"
| "required_capabilities (FsXattrCommit a1 a2) =
     [CapXattr, CapAtomicAuthorization]"
| "required_capabilities (FsLock a1 a2) =
     [CapLock, CapAtomicAuthorization, CapCrossSessionLocks]"
| "required_capabilities (FsGetlock a1 a2) =
     [CapLock, CapAtomicAuthorization, CapCrossSessionLocks]"

definition require_for :: "capability_set \<Rightarrow> filesystem_operation \<Rightarrow> capability + unit" where
  "require_for s operation =
     (case List.find (\<lambda>c. \<not> capability_contains s c) (required_capabilities operation) of
        Some missing \<Rightarrow> Inl missing
      | None \<Rightarrow> Inr ())"

section \<open>Results (response.rs)\<close>

record attach_result =
  ar_principal :: principal_id
  ar_export :: export_id
  ar_root :: object_handle
  ar_qid :: qid
  ar_capabilities :: capability_set

record walk_element =
  we_object :: object_handle
  we_qid :: qid

record walk_result =
  wk_elements :: "walk_element list"

record open_result =
  or_qid :: qid
  or_open :: open_handle
  or_io_unit :: u32

record create_result =
  cr_object :: object_handle
  cr_qid :: qid
  cr_open :: open_handle
  cr_io_unit :: u32

record node_result =
  nr_object :: object_handle
  nr_qid :: qid

record xattr_walk_result =
  xw_xattr :: xattr_handle
  xw_size :: u64

record xattr_create_result =
  xc_xattr :: xattr_handle

datatype (plugins only: code) filesystem_result =
    FrWalked walk_result
  | FrReleased
  | FrOpened open_result
  | FrCreated create_result
  | FrDirectoryCreated node_result
  | FrNodeCreated node_result
  | FrSymlinkCreated node_result
  | FrRead bytes
  | FrWritten u32
  | FrDirectoryRead "directory_entry list"
  | FrSynced
  | FrStatfs statfs
  | FrAttributes file_attributes
  | FrAttributesSet
  | FrLinkTarget rstring
  | FrRenamed
  | FrRenamedAt
  | FrRemoved
  | FrUnlinked
  | FrLinked
  | FrXattrWalked xattr_walk_result
  | FrXattrCreated xattr_create_result
  | FrXattrRead bytes
  | FrXattrWritten u32
  | FrXattrCommitted
  | FrLocked lock_status
  | FrLockQueried lock

primrec result_kind :: "filesystem_result \<Rightarrow> filesystem_result_kind" where
  "result_kind (FrWalked r) = KWalked"
| "result_kind FrReleased = KReleased"
| "result_kind (FrOpened r) = KOpened"
| "result_kind (FrCreated r) = KCreated"
| "result_kind (FrDirectoryCreated r) = KDirectoryCreated"
| "result_kind (FrNodeCreated r) = KNodeCreated"
| "result_kind (FrSymlinkCreated r) = KSymlinkCreated"
| "result_kind (FrRead r) = KRead"
| "result_kind (FrWritten r) = KWritten"
| "result_kind (FrDirectoryRead r) = KDirectoryRead"
| "result_kind FrSynced = KSynced"
| "result_kind (FrStatfs r) = KStatfs"
| "result_kind (FrAttributes r) = KAttributes"
| "result_kind FrAttributesSet = KAttributesSet"
| "result_kind (FrLinkTarget r) = KLinkTarget"
| "result_kind FrRenamed = KRenamed"
| "result_kind FrRenamedAt = KRenamedAt"
| "result_kind FrRemoved = KRemoved"
| "result_kind FrUnlinked = KUnlinked"
| "result_kind FrLinked = KLinked"
| "result_kind (FrXattrWalked r) = KXattrWalked"
| "result_kind (FrXattrCreated r) = KXattrCreated"
| "result_kind (FrXattrRead r) = KXattrRead"
| "result_kind (FrXattrWritten r) = KXattrWritten"
| "result_kind FrXattrCommitted = KXattrCommitted"
| "result_kind (FrLocked r) = KLocked"
| "result_kind (FrLockQueried r) = KLockQueried"

section \<open>Capability sets\<close>

lemma capability_index_less: "capability_index c < 31"
  by (cases c) simp_all

lemma capability_index_inject: "capability_index c = capability_index d \<longleftrightarrow> c = d"
  by (cases c; cases d) simp_all

lemma bit_capability_bit: "bit (capability_bit c) n \<longleftrightarrow> n = capability_index c"
  using capability_index_less [of c] by (auto simp: capability_bit_def bit_exp_iff)

lemma capability_contains_iff_bit: "capability_contains s c \<longleftrightarrow> bit s (capability_index c)"
  using capability_index_less [of c]
  by (auto simp: capability_contains_def bit_eq_iff [of _ "0 :: u128"] bit_and_iff bit_capability_bit)

lemma capability_contains_NONE [simp]: "\<not> capability_contains CapabilitySet_NONE c"
  by (simp add: capability_contains_def CapabilitySet_NONE_def)

lemma capability_contains_with:
  "capability_contains (capability_with s d) c \<longleftrightarrow> c = d \<or> capability_contains s c"
  by (auto simp: capability_contains_iff_bit capability_with_def bit_or_iff bit_capability_bit
      capability_index_inject)

lemma from_capabilities_append:
  "from_capabilities (cs @ [c]) = capability_with (from_capabilities cs) c"
  by (simp add: from_capabilities_def capability_with_def)

lemma capability_contains_from: "capability_contains (from_capabilities cs) c \<longleftrightarrow> c \<in> set cs"
proof (induction cs rule: rev_induct)
  case Nil
  then show ?case
    using capability_contains_NONE by (simp add: from_capabilities_def CapabilitySet_NONE_def)
next
  case (snoc d cs)
  then show ?case
    by (auto simp: from_capabilities_append capability_contains_with)
qed

lemma require_for_iff:
  "require_for s op = Inr () \<longleftrightarrow> (\<forall>c \<in> set (required_capabilities op). capability_contains s c)"
  by (auto simp: require_for_def find_None_iff find_Some_iff split: option.splits)

end
