(* ===== verification/Session_Effects.thy ===== *)
theory Session_Effects
  imports Fs_Boundary
begin

text \<open>
  The vocabulary of a session: the effects it emits and the completions it consumes
  (\<open>effect.rs\<close>), resource accounting (\<open>limits.rs\<close>), the session error domains (\<open>error.rs\<close>),
  configuration (\<open>config.rs\<close>), fid states (\<open>session/fid.rs\<close>) and pending operations
  (\<open>session/pending.rs\<close>).
\<close>

section \<open>Accounting (limits.rs)\<close>

datatype (plugins only: code) limit_kind =
    BufferedInput | FrameLimit | QueuedEffects | QueuedEffectBytes | InFlightTags | Fids
  | WalkElements | StringBytes | PendingWriteBytes

record limit_exceeded =
  le_kind :: limit_kind
  le_limit :: nat
  le_requested :: nat

record accounting =
  acc_queued_effects :: nat
  acc_queued_effect_bytes :: nat
  acc_in_flight_tags :: nat
  acc_fids :: nat
  acc_pending_write_bytes :: nat

definition accounting_default :: accounting where
  "accounting_default =
     \<lparr>acc_queued_effects = 0, acc_queued_effect_bytes = 0, acc_in_flight_tags = 0,
      acc_fids = 0, acc_pending_write_bytes = 0\<rparr>"

text \<open>The counter as \<open>reserve\<close> leaves it; on an error it is unchanged.\<close>

definition reserve :: "nat \<Rightarrow> nat \<Rightarrow> nat \<Rightarrow> limit_kind \<Rightarrow> limit_exceeded + nat" where
  "reserve current amount limit kind =
     (case usize_checked_add current amount of
        None \<Rightarrow> Inl \<lparr>le_kind = kind, le_limit = limit, le_requested = usize_max\<rparr>
      | Some requested \<Rightarrow>
          if requested > limit
          then Inl \<lparr>le_kind = kind, le_limit = limit, le_requested = requested\<rparr>
          else Inr requested)"

definition release :: "nat \<Rightarrow> nat \<Rightarrow> nat" where
  "release current amount = current - amount"

section \<open>Errors (error.rs)\<close>

datatype (plugins only: code) session_error =
    InvalidConfig invalid_limits
  | DecodeFailed decode_error
  | EncodeFailed encode_error
  | Closing
  | Limit limit_exceeded
  | OperationIdExhausted

datatype (plugins only: code) session_state_error =
    NotNegotiated | DuplicateTag | InvalidTag | UnknownFid | DuplicateFid | FidAlreadyOpen
  | FidNotOpen | WrongFidKind | Unsupported | InvalidRequest | ResourceExhaustedState

primrec state_errno :: "session_state_error \<Rightarrow> linux_errno" where
  "state_errno NotNegotiated = EPROTO"
| "state_errno DuplicateTag = EINVAL"
| "state_errno InvalidTag = EINVAL"
| "state_errno UnknownFid = EBADF"
| "state_errno DuplicateFid = EEXIST"
| "state_errno FidAlreadyOpen = EINVAL"
| "state_errno FidNotOpen = EBADF"
| "state_errno WrongFidKind = EINVAL"
| "state_errno Unsupported = EOPNOTSUPP"
| "state_errno InvalidRequest = EINVAL"
| "state_errno ResourceExhaustedState = ENOMEM"

datatype (plugins only: code) completion_error =
    UnknownOperation operation_id
  | DuplicateOperation operation_id
  | WrongKind operation_id string string \<comment> \<open>operation_id, expected, actual\<close>

datatype (plugins only: code) close_reason =
    MalformedInput decode_error
  | HostShutdown
  | ProtocolViolation string
  | ResourceExhausted

section \<open>Configuration (config.rs)\<close>

record session_config =
  cfg_limits :: limits

definition session_config_new :: "limits \<Rightarrow> invalid_limits + session_config" where
  "session_config_new lim =
     (case limits_validate lim of Inl e \<Rightarrow> Inl e | Inr _ \<Rightarrow> Inr \<lparr>cfg_limits = lim\<rparr>)"

record session_context =
  sc_session_id :: session_id
  sc_transport_principal :: "rstring option"

definition session_context_new :: "session_id \<Rightarrow> session_context" where
  "session_context_new i = \<lparr>sc_session_id = i, sc_transport_principal = None\<rparr>"

definition with_transport_principal :: "rstring \<Rightarrow> session_context \<Rightarrow> session_context" where
  "with_transport_principal p c = c\<lparr>sc_transport_principal := Some p\<rparr>"

section \<open>Effects and completions (effect.rs)\<close>

type_synonym auth_handle = u128

datatype (plugins only: code) cancel_kind = CancelFilesystem | CancelPolicy

datatype (plugins only: code) policy_request =
    StartAuth fid user_identity rstring "rstring option" \<comment> \<open>afid, identity, export, principal\<close>
  | ReadAuth auth_handle u64 u32 \<comment> \<open>handle, offset, count\<close>
  | WriteAuth auth_handle u64 bytes \<comment> \<open>handle, offset, data\<close>
  | ClunkAuth auth_handle
  | AttachExport fid "auth_handle option" user_identity rstring "rstring option"

datatype (plugins only: code) policy_result_kind = PkAuthStarted | PkAuthRead | PkAuthWritten | PkAuthClunked | PkAttached

primrec policy_expected_result :: "policy_request \<Rightarrow> policy_result_kind" where
  "policy_expected_result (StartAuth afid identity export_name tp) = PkAuthStarted"
| "policy_expected_result (ReadAuth handle offset n) = PkAuthRead"
| "policy_expected_result (WriteAuth handle offset data) = PkAuthWritten"
| "policy_expected_result (ClunkAuth handle) = PkAuthClunked"
| "policy_expected_result (AttachExport fid auth identity export_name tp) = PkAttached"

definition identity_retained_bytes :: "user_identity \<Rightarrow> rstring \<Rightarrow> rstring option \<Rightarrow> nat" where
  "identity_retained_bytes identity export_name tp =
     usize_saturating_add
       (usize_saturating_add (length (ui_name identity)) (length export_name))
       (case tp of None \<Rightarrow> 0 | Some p \<Rightarrow> length p)"

primrec policy_retained_bytes :: "policy_request \<Rightarrow> nat" where
  "policy_retained_bytes (StartAuth afid identity export_name tp) =
     identity_retained_bytes identity export_name tp"
| "policy_retained_bytes (ReadAuth handle offset n) = 0"
| "policy_retained_bytes (WriteAuth handle offset data) = length data"
| "policy_retained_bytes (ClunkAuth handle) = 0"
| "policy_retained_bytes (AttachExport fid auth identity export_name tp) =
     identity_retained_bytes identity export_name tp"

datatype (plugins only: code) policy_result =
    AuthStarted qid auth_handle
  | AuthReadData bytes
  | AuthWritten u32
  | AuthClunked
  | Attached attach_result

primrec kind_of_policy :: "policy_result \<Rightarrow> policy_result_kind" where
  "kind_of_policy (AuthStarted qid handle) = PkAuthStarted"
| "kind_of_policy (AuthReadData data) = PkAuthRead"
| "kind_of_policy (AuthWritten n) = PkAuthWritten"
| "kind_of_policy AuthClunked = PkAuthClunked"
| "kind_of_policy (Attached r) = PkAttached"

type_synonym policy_error = linux_errno

datatype (plugins only: code) effect =
    SendFrame bytes
  | FilesystemEffect operation_id filesystem_request
  | PolicyEffect operation_id policy_request
  | CancelEffect operation_id cancel_kind
  | CloseSession close_reason

primrec effect_retained_bytes :: "effect \<Rightarrow> nat" where
  "effect_retained_bytes (SendFrame bs) = length bs"
| "effect_retained_bytes (FilesystemEffect i r) = request_retained_bytes r"
| "effect_retained_bytes (PolicyEffect i r) = policy_retained_bytes r"
| "effect_retained_bytes (CancelEffect i k) = 0"
| "effect_retained_bytes (CloseSession r) = 0"

datatype (plugins only: code) completion =
    CompFilesystem operation_id "filesystem_error + filesystem_result"
  | CompPolicy operation_id "policy_error + policy_result"
  | CompCancelled operation_id cancel_kind

primrec completion_operation_id :: "completion \<Rightarrow> operation_id" where
  "completion_operation_id (CompFilesystem i r) = i"
| "completion_operation_id (CompPolicy i r) = i"
| "completion_operation_id (CompCancelled i k) = i"

datatype (plugins only: code) completion_kind =
    CkFilesystem filesystem_result_kind
  | CkFilesystemError
  | CkPolicy policy_result_kind
  | CkPolicyError
  | CkCancelled cancel_kind

primrec kind_of_completion :: "completion \<Rightarrow> completion_kind" where
  "kind_of_completion (CompFilesystem i r) =
     (case r of Inr x \<Rightarrow> CkFilesystem (result_kind x) | Inl e \<Rightarrow> CkFilesystemError)"
| "kind_of_completion (CompPolicy i r) =
     (case r of Inr x \<Rightarrow> CkPolicy (kind_of_policy x) | Inl e \<Rightarrow> CkPolicyError)"
| "kind_of_completion (CompCancelled i k) = CkCancelled k"

text \<open>\<open>OperationIdAllocator\<close> is its \<open>next\<close> field: \<open>None\<close> after \<open>u64::MAX\<close> was issued.\<close>

type_synonym operation_id_allocator = "u64 option"

definition allocator_new :: operation_id_allocator where
  "allocator_new = Some 1"

definition allocate :: "(operation_id_allocator, session_error, operation_id) action" where
  "allocate nxt =
     (case nxt of
        None \<Rightarrow> (Inl OperationIdExhausted, nxt)
      | Some v \<Rightarrow> (Inr v, checked_add v 1))"

section \<open>Fid states (session/fid.rs)\<close>

datatype (plugins only: code) xattr_mode =
    XattrReadMode u64 \<comment> \<open>size\<close>
  | XattrWriteMode u64 u64 \<comment> \<open>expected_size, written\<close>

record xattr_state =
  xs_handle :: xattr_handle
  xs_mode :: xattr_mode

record object_fid =
  of_object :: object_handle
  of_qid :: qid
  of_context :: request_context
  of_capabilities :: capability_set
  of_open :: "open_handle option"
  of_xattr :: "xattr_state option"

datatype (plugins only: code) fid_state =
    FidPending
  | FidAuth qid auth_handle
  | FidObject object_fid

section \<open>Pending operations (session/pending.rs)\<close>

datatype (plugins only: code) expected_completion =
    ExpectFilesystem filesystem_result_kind
  | ExpectPolicy policy_result_kind

primrec expected_name :: "expected_completion \<Rightarrow> string" where
  "expected_name (ExpectFilesystem k) = ''matching filesystem result or error''"
| "expected_name (ExpectPolicy k) = ''matching policy result or error''"

primrec completion_kind_name :: "completion \<Rightarrow> string" where
  "completion_kind_name (CompFilesystem i r) = ''filesystem completion''"
| "completion_kind_name (CompPolicy i r) = ''policy completion''"
| "completion_kind_name (CompCancelled i k) =
     (case k of CancelFilesystem \<Rightarrow> ''filesystem cancellation''
      | CancelPolicy \<Rightarrow> ''policy cancellation'')"

fun completion_matches :: "expected_completion \<Rightarrow> completion \<Rightarrow> bool" where
  "completion_matches (ExpectFilesystem expected) (CompFilesystem i (Inr actual)) =
     (expected = result_kind actual)"
| "completion_matches (ExpectFilesystem expected) (CompFilesystem i (Inl e)) = True"
| "completion_matches (ExpectFilesystem expected) (CompCancelled i CancelFilesystem) = True"
| "completion_matches (ExpectPolicy expected) (CompPolicy i (Inl e)) = True"
| "completion_matches (ExpectPolicy expected) (CompCancelled i CancelPolicy) = True"
| "completion_matches (ExpectPolicy expected) (CompPolicy i (Inr actual)) =
     (expected = kind_of_policy actual)"
| "completion_matches _ _ = False"

definition expected_validate :: "expected_completion \<Rightarrow> completion \<Rightarrow> completion_error + unit" where
  "expected_validate expected completion =
     (if completion_matches expected completion then Inr ()
      else Inl (WrongKind (completion_operation_id completion) (expected_name expected)
                  (completion_kind_name completion)))"

datatype (plugins only: code) continuation =
    ContNoState response_body
  | ContAuthStart fid
  | ContAttach fid
  | ContAuthRead u32
  | ContAuthWrite u32
  | ContAuthClunk fid
  | ContWalk fid fid object_fid nat \<comment> \<open>source_fid, new_fid, source, requested\<close>
  | ContReleaseFid fid
  | ContRemoveFid fid
  | ContOpen fid object_fid
  | ContCreate fid object_fid
  | ContRead u32
  | ContWrite u32
  | ContStatfs
  | ContGetattr
  | ContSetattr
  | ContReadlink
  | ContReaddir u32
  | ContMkdir
  | ContMknod
  | ContSymlink
  | ContXattrWalk fid object_fid \<comment> \<open>new_fid, source\<close>
  | ContXattrCreate fid object_fid u64 \<comment> \<open>fid, original, expected_size\<close>
  | ContXattrRead u32
  | ContXattrWrite fid object_fid u32 \<comment> \<open>fid, original, requested\<close>
  | ContXattrCommitFid fid
  | ContXattrAbortFid fid linux_errno
  | ContFsync
  | ContLock
  | ContGetlock

record pending_operation =
  po_operation_id :: operation_id
  po_expected :: expected_completion
  po_kind :: cancel_kind
  po_continuation :: continuation
  po_response_suppressed :: bool
  po_cancellation_requested :: bool
  po_flush_waiters :: "tag list"
  po_write_bytes :: nat

record flush_state =
  fs_response_suppressed :: bool
  fs_waiters :: "tag list"

definition flush_state_default :: flush_state where
  "flush_state_default = \<lparr>fs_response_suppressed = False, fs_waiters = []\<rparr>"

end
