(* ===== verification/Session_State.thy ===== *)
theory Session_State
  imports Session_Effects Frame_Decoder
begin

text \<open>
  The state of one connection (\<open>Session\<close> of \<open>crates/w9pt/src/session/mod.rs\<close>) and the internal
  methods every handler is built from: effect queueing, fid claims, cleanup, rollback and the
  emission of external operations.
\<close>

section \<open>State\<close>

datatype (plugins only: code) cleanup_action =
    CleanupCancel operation_id cancel_kind
  | CleanupPolicy policy_request
  | CleanupFilesystem filesystem_request

text \<open>
  The order in which a \<open>HashMap\<close> is iterated is not fixed by the source; it is the hasher of the
  state, constrained only to visit every entry exactly once.
\<close>

record hasher =
  pending_order :: "(tag \<times> pending_operation) list \<Rightarrow> (tag \<times> pending_operation) list"
  fid_order :: "(fid \<times> fid_state) list \<Rightarrow> (fid \<times> fid_state) list"

definition hasher_ok :: "hasher \<Rightarrow> bool" where
  "hasher_ok h \<longleftrightarrow> (\<forall>xs. mset (pending_order h xs) = mset xs) \<and> (\<forall>xs. mset (fid_order h xs) = mset xs)"

definition hasher_insertion :: hasher where
  "hasher_insertion = \<lparr>pending_order = (\<lambda>xs. xs), fid_order = (\<lambda>xs. xs)\<rparr>"

record session =
  ss_config :: session_config
  ss_context :: session_context
  ss_decoder :: frame_decoder
  ss_negotiated_msize :: "u32 option"
  ss_effects :: "effect list"
  ss_accounting :: accounting
  ss_operation_ids :: operation_id_allocator
  ss_pending_by_tag :: "(tag, pending_operation) hmap"
  ss_flushes :: "(tag, flush_state) hmap"
  ss_tag_by_operation :: "(operation_id, tag) hmap"
  ss_abandoned_operations :: "(operation_id, expected_completion) hmap"
  ss_last_issued_operation_id :: u64
  ss_fids :: "(fid, fid_state) hmap"
  ss_cleanup :: "cleanup_action list"
  ss_cleanup_started :: bool
  ss_terminal_reason :: "close_reason option"
  ss_terminal_effect_delivered :: bool
  ss_hasher :: hasher

type_synonym 'a session_method = "(session, session_error, 'a) action"

abbreviation session_limits :: "session \<Rightarrow> limits" where
  "session_limits s \<equiv> cfg_limits (ss_config s)"

definition session_new :: "hasher \<Rightarrow> session_config \<Rightarrow> session_context \<Rightarrow> session_error + session" where
  "session_new h config ctx =
     (case limits_validate (cfg_limits config) of
        Inl e \<Rightarrow> Inl (InvalidConfig e)
      | Inr _ \<Rightarrow> Inr
          \<lparr>ss_config = config,
           ss_context = ctx,
           ss_decoder = frame_decoder_new (cfg_limits config),
           ss_negotiated_msize = None,
           ss_effects = [],
           ss_accounting = accounting_default,
           ss_operation_ids = allocator_new,
           ss_pending_by_tag = [],
           ss_flushes = [],
           ss_tag_by_operation = [],
           ss_abandoned_operations = [],
           ss_last_issued_operation_id = 0,
           ss_fids = [],
           ss_cleanup = [],
           ss_cleanup_started = False,
           ss_terminal_reason = None,
           ss_terminal_effect_delivered = False,
           ss_hasher = h\<rparr>)"

datatype session_status = StatusActive | StatusClosing | StatusDrained

definition session_status_of :: "session \<Rightarrow> session_status" where
  "session_status_of s =
     (if ss_terminal_reason s = None then StatusActive
      else if ss_effects s = [] \<and> ss_pending_by_tag s = [] \<and> ss_flushes s = [] \<and>
              ss_abandoned_operations s = [] \<and> ss_cleanup s = [] \<and> ss_terminal_effect_delivered s
      then StatusDrained
      else StatusClosing)"

definition is_quiescent :: "session \<Rightarrow> bool" where
  "is_quiescent s \<longleftrightarrow>
     length (fd_retained (ss_decoder s)) = 0 \<and> ss_effects s = [] \<and> ss_pending_by_tag s = [] \<and>
     ss_flushes s = [] \<and> ss_abandoned_operations s = [] \<and> ss_cleanup s = []"

definition in_flight_requests :: "session \<Rightarrow> nat" where
  "in_flight_requests s = length (ss_pending_by_tag s) + length (ss_flushes s)"

definition fid_count :: "session \<Rightarrow> nat" where
  "fid_count s = length (ss_fids s)"

definition active_msize :: "session \<Rightarrow> u32" where
  "active_msize s =
     (case ss_negotiated_msize s of Some msize \<Rightarrow> msize | None \<Rightarrow> max_frame_size (session_limits s))"

definition ensure_active :: "unit session_method" where
  "ensure_active s = (if ss_terminal_reason s \<noteq> None then (Inl Closing, s) else (Inr (), s))"

section \<open>Queueing effects\<close>

definition queue_effect :: "effect \<Rightarrow> unit session_method" where
  "queue_effect e s =
     (let acc = ss_accounting s; lim = session_limits s in
      case reserve (acc_queued_effects acc) 1 (max_queued_effects lim) QueuedEffects of
        Inl err \<Rightarrow> (Inl (Limit err), s)
      | Inr n \<Rightarrow>
          (case reserve (acc_queued_effect_bytes acc) (effect_retained_bytes e)
                  (max_queued_effect_bytes lim) QueuedEffectBytes of
             Inl err \<Rightarrow> (Inl (Limit err), s\<lparr>ss_accounting := acc\<lparr>acc_queued_effects := release n 1\<rparr>\<rparr>)
           | Inr m \<Rightarrow>
               (Inr (),
                s\<lparr>ss_accounting := acc\<lparr>acc_queued_effects := n, acc_queued_effect_bytes := m\<rparr>,
                  ss_effects := ss_effects s @ [e]\<rparr>)))"

definition queue_response :: "response \<Rightarrow> unit session_method" where
  "queue_response r s =
     (case encode_response r (active_msize s) of
        Inl e \<Rightarrow> (Inl (EncodeFailed e), s)
      | Inr bs \<Rightarrow> queue_effect (SendFrame bs) s)"

definition respond :: "tag \<Rightarrow> response_body \<Rightarrow> unit session_method" where
  "respond tag body = queue_response \<lparr>res_tag = tag, res_body = body\<rparr>"

definition queue_state_error :: "tag \<Rightarrow> session_state_error \<Rightarrow> unit session_method" where
  "queue_state_error tag error = respond tag (ResLerror (state_errno error))"

section \<open>Fids\<close>

definition object_fid :: "tag \<Rightarrow> fid \<Rightarrow> object_fid option session_method" where
  "object_fid tag fid s =
     (case hm_get (ss_fids s) fid of
        None \<Rightarrow> sbind (queue_state_error tag UnknownFid) (\<lambda>_. sreturn None) s
      | Some st \<Rightarrow>
          (case st of
             FidObject object \<Rightarrow>
               if of_xattr object = None then (Inr (Some object), s)
               else sbind (queue_state_error tag WrongFidKind) (\<lambda>_. sreturn None) s
           | _ \<Rightarrow> sbind (queue_state_error tag WrongFidKind) (\<lambda>_. sreturn None) s))"

definition directory_fid :: "tag \<Rightarrow> fid \<Rightarrow> object_fid option session_method" where
  "directory_fid tag fid =
     sbind (object_fid tag fid) (\<lambda>found.
       case found of
         None \<Rightarrow> sreturn None
       | Some object \<Rightarrow>
           if \<not> contains_bits (qid_ty (of_qid object)) QidType_DIRECTORY
           then sbind (respond tag (ResLerror ENOTDIR)) (\<lambda>_. sreturn None)
           else sreturn (Some object))"

definition claim_fid :: "tag \<Rightarrow> fid \<Rightarrow> bool session_method" where
  "claim_fid tag fid s =
     (if hm_contains (ss_fids s) fid
      then sbind (queue_state_error tag DuplicateFid) (\<lambda>_. sreturn False) s
      else case reserve (acc_fids (ss_accounting s)) 1 (max_fids (session_limits s)) Fids of
        Inl err \<Rightarrow> (Inl (Limit err), s)
      | Inr n \<Rightarrow>
          (Inr True,
           s\<lparr>ss_accounting := (ss_accounting s)\<lparr>acc_fids := n\<rparr>,
             ss_fids := hm_insert fid FidPending (ss_fids s)\<rparr>))"

definition retire_fid :: "fid \<Rightarrow> session \<Rightarrow> session" where
  "retire_fid fid s =
     (if hm_contains (ss_fids s) fid
      then s\<lparr>ss_fids := hm_remove fid (ss_fids s),
             ss_accounting := (ss_accounting s)\<lparr>acc_fids := release (acc_fids (ss_accounting s)) 1\<rparr>\<rparr>
      else s)"

definition insert_fid :: "fid \<Rightarrow> fid_state \<Rightarrow> session \<Rightarrow> session" where
  "insert_fid fid st s = s\<lparr>ss_fids := hm_insert fid st (ss_fids s)\<rparr>"

section \<open>Cleanup\<close>

definition drain_fid :: "session \<Rightarrow> fid \<times> fid_state \<Rightarrow> session" where
  "drain_fid s entry =
     (let s1 = s\<lparr>ss_accounting := (ss_accounting s)\<lparr>acc_fids := release (acc_fids (ss_accounting s)) 1\<rparr>\<rparr> in
      case snd entry of
        FidAuth qid handle \<Rightarrow> s1\<lparr>ss_cleanup := ss_cleanup s1 @ [CleanupPolicy (ClunkAuth handle)]\<rparr>
      | FidObject object \<Rightarrow>
          s1\<lparr>ss_cleanup := ss_cleanup s1 @
             [CleanupFilesystem
                \<lparr>fr_context = of_context object,
                 fr_operation = FsRelease (of_object object) (of_open object)
                                  (map_option xs_handle (of_xattr object))\<rparr>]\<rparr>
      | FidPending \<Rightarrow> s1)"

definition drain_fids_to_cleanup :: "session \<Rightarrow> session" where
  "drain_fids_to_cleanup s =
     foldl drain_fid (s\<lparr>ss_fids := []\<rparr>) (fid_order (ss_hasher s) (ss_fids s))"

definition cancel_for_close :: "session \<Rightarrow> tag \<times> pending_operation \<Rightarrow> session" where
  "cancel_for_close s entry =
     (let (tag, p) = entry in
      s\<lparr>ss_pending_by_tag :=
          hm_insert tag (p\<lparr>po_response_suppressed := True, po_cancellation_requested := True\<rparr>)
            (ss_pending_by_tag s),
        ss_cleanup := ss_cleanup s @
          (if po_cancellation_requested p then []
           else [CleanupCancel (po_operation_id p) (po_kind p)])\<rparr>)"

definition start_cleanup :: "session \<Rightarrow> session" where
  "start_cleanup s =
     (if ss_cleanup_started s then s
      else
        let s1 = s\<lparr>ss_cleanup_started := True, ss_decoder := frame_decoder_clear (ss_decoder s)\<rparr>;
            s2 = foldl cancel_for_close s1 (pending_order (ss_hasher s1) (ss_pending_by_tag s1));
            s3 = s2\<lparr>ss_flushes :=
                   map (\<lambda>(t, f). (t, f\<lparr>fs_response_suppressed := True\<rparr>)) (ss_flushes s2)\<rparr>
        in drain_fids_to_cleanup s3)"

definition fail_decode :: "decode_error \<Rightarrow> session \<Rightarrow> session" where
  "fail_decode error s =
     start_cleanup
       (s\<lparr>ss_decoder := frame_decoder_clear (ss_decoder s),
          ss_terminal_reason := Some (MalformedInput error)\<rparr>)"

definition fail_protocol :: "string \<Rightarrow> session \<Rightarrow> session" where
  "fail_protocol reason s =
     start_cleanup
       (s\<lparr>ss_decoder := frame_decoder_clear (ss_decoder s),
          ss_terminal_reason := Some (ProtocolViolation reason)\<rparr>)"

definition begin_close :: "session \<Rightarrow> session" where
  "begin_close s =
     start_cleanup
       (if ss_terminal_reason s = None then s\<lparr>ss_terminal_reason := Some HostShutdown\<rparr> else s)"

definition transport_closed :: "session \<Rightarrow> session" where
  "transport_closed s = begin_close s"

section \<open>Rollback\<close>

definition rollback_walk :: "fid \<Rightarrow> fid \<Rightarrow> object_fid \<Rightarrow> session \<Rightarrow> session" where
  "rollback_walk source_fid new_fid source s =
     (if source_fid = new_fid then insert_fid source_fid (FidObject source) s
      else retire_fid new_fid s)"

primrec rollback_continuation :: "continuation \<Rightarrow> session \<Rightarrow> session" where
  "rollback_continuation (ContAuthStart fid) s = retire_fid fid s"
| "rollback_continuation (ContAttach fid) s = retire_fid fid s"
| "rollback_continuation (ContAuthClunk fid) s = retire_fid fid s"
| "rollback_continuation (ContWalk source_fid new_fid source requested) s =
     rollback_walk source_fid new_fid source s"
| "rollback_continuation (ContReleaseFid fid) s = retire_fid fid s"
| "rollback_continuation (ContRemoveFid fid) s = retire_fid fid s"
| "rollback_continuation (ContOpen fid original) s = insert_fid fid (FidObject original) s"
| "rollback_continuation (ContCreate fid original) s = insert_fid fid (FidObject original) s"
| "rollback_continuation (ContNoState body) s = s"
| "rollback_continuation (ContAuthRead m) s = s"
| "rollback_continuation (ContAuthWrite m) s = s"
| "rollback_continuation (ContRead m) s = s"
| "rollback_continuation (ContWrite m) s = s"
| "rollback_continuation ContStatfs s = s"
| "rollback_continuation ContGetattr s = s"
| "rollback_continuation ContSetattr s = s"
| "rollback_continuation ContReadlink s = s"
| "rollback_continuation (ContReaddir m) s = s"
| "rollback_continuation ContMkdir s = s"
| "rollback_continuation ContMknod s = s"
| "rollback_continuation ContSymlink s = s"
| "rollback_continuation (ContXattrRead m) s = s"
| "rollback_continuation ContFsync s = s"
| "rollback_continuation ContLock s = s"
| "rollback_continuation ContGetlock s = s"
| "rollback_continuation (ContXattrWalk new_fid source) s = retire_fid new_fid s"
| "rollback_continuation (ContXattrCreate fid original expected_size) s =
     insert_fid fid (FidObject original) s"
| "rollback_continuation (ContXattrWrite fid original requested) s =
     insert_fid fid (FidObject original) s"
| "rollback_continuation (ContXattrCommitFid fid) s = retire_fid fid s"
| "rollback_continuation (ContXattrAbortFid fid errno) s = retire_fid fid s"

section \<open>Emitting operations\<close>

definition release_in_flight :: "session \<Rightarrow> session" where
  "release_in_flight s =
     s\<lparr>ss_accounting := (ss_accounting s)\<lparr>acc_in_flight_tags := release (acc_in_flight_tags (ss_accounting s)) 1\<rparr>\<rparr>"

definition release_write_bytes :: "nat \<Rightarrow> session \<Rightarrow> session" where
  "release_write_bytes n s =
     s\<lparr>ss_accounting := (ss_accounting s)\<lparr>acc_pending_write_bytes := release (acc_pending_write_bytes (ss_accounting s)) n\<rparr>\<rparr>"

definition reserve_in_flight :: "unit session_method" where
  "reserve_in_flight s =
     (case reserve (acc_in_flight_tags (ss_accounting s)) 1 (max_in_flight_tags (session_limits s))
             InFlightTags of
        Inl err \<Rightarrow> (Inl (Limit err), s)
      | Inr n \<Rightarrow> (Inr (), s\<lparr>ss_accounting := (ss_accounting s)\<lparr>acc_in_flight_tags := n\<rparr>\<rparr>))"

definition reserve_write_bytes :: "nat \<Rightarrow> unit session_method" where
  "reserve_write_bytes amount s =
     (case reserve (acc_pending_write_bytes (ss_accounting s)) amount
             (max_pending_write_bytes (session_limits s)) PendingWriteBytes of
        Inl err \<Rightarrow> (Inl (Limit err), s)
      | Inr n \<Rightarrow> (Inr (), s\<lparr>ss_accounting := (ss_accounting s)\<lparr>acc_pending_write_bytes := n\<rparr>\<rparr>))"

definition allocate_id :: "operation_id session_method" where
  "allocate_id s =
     (case allocate (ss_operation_ids s) of (r, ids) \<Rightarrow> (r, s\<lparr>ss_operation_ids := ids\<rparr>))"

text \<open>
  \<open>emit_operation\<close>: reserve a tag and the write bytes, take a fresh id, queue the effect and
  record the pending operation; every failure releases what was reserved before it, and an id
  taken for an effect that could not be queued stays burned.
\<close>

definition emit_operation ::
  "tag \<Rightarrow> expected_completion \<Rightarrow> cancel_kind \<Rightarrow> continuation \<Rightarrow> nat \<Rightarrow> (operation_id \<Rightarrow> effect) \<Rightarrow>
   unit session_method" where
  "emit_operation tag expected kind continuation write_bytes make_effect s =
     (if hm_contains (ss_pending_by_tag s) tag then queue_state_error tag DuplicateTag s
      else
        sbind reserve_in_flight (\<lambda>_.
        sbind (on_err (reserve_write_bytes write_bytes) release_in_flight) (\<lambda>_.
        sbind (on_err allocate_id (\<lambda>s. release_write_bytes write_bytes (release_in_flight s)))
          (\<lambda>operation_id.
        sbind (on_err (queue_effect (make_effect operation_id))
                 (\<lambda>s. (release_write_bytes write_bytes (release_in_flight s))
                        \<lparr>ss_last_issued_operation_id := operation_id\<rparr>)) (\<lambda>_.
        smodify (\<lambda>s.
          s\<lparr>ss_last_issued_operation_id := operation_id,
            ss_pending_by_tag :=
              hm_insert tag
                \<lparr>po_operation_id = operation_id, po_expected = expected, po_kind = kind,
                 po_continuation = continuation, po_response_suppressed = False,
                 po_cancellation_requested = False, po_flush_waiters = [],
                 po_write_bytes = write_bytes\<rparr>
                (ss_pending_by_tag s),
            ss_tag_by_operation := hm_insert operation_id tag (ss_tag_by_operation s)\<rparr>))))) s)"

definition emit_filesystem ::
  "tag \<Rightarrow> filesystem_request \<Rightarrow> continuation \<Rightarrow> nat \<Rightarrow> unit session_method" where
  "emit_filesystem tag request continuation write_bytes =
     emit_operation tag (ExpectFilesystem (request_expected_result request)) CancelFilesystem
       continuation write_bytes (\<lambda>operation_id. FilesystemEffect operation_id request)"

definition emit_filesystem_checked ::
  "tag \<Rightarrow> request_context \<Rightarrow> capability_set \<Rightarrow> filesystem_operation \<Rightarrow> continuation \<Rightarrow> nat \<Rightarrow>
   unit session_method" where
  "emit_filesystem_checked tag ctx capabilities operation continuation write_bytes s =
     (case require_for capabilities operation of
        Inl missing \<Rightarrow> queue_state_error tag Unsupported (rollback_continuation continuation s)
      | Inr _ \<Rightarrow>
          emit_filesystem tag \<lparr>fr_context = ctx, fr_operation = operation\<rparr> continuation write_bytes s)"

definition emit_policy :: "tag \<Rightarrow> policy_request \<Rightarrow> continuation \<Rightarrow> nat \<Rightarrow> unit session_method" where
  "emit_policy tag request continuation write_bytes =
     emit_operation tag (ExpectPolicy (policy_expected_result request)) CancelPolicy
       continuation write_bytes (\<lambda>operation_id. PolicyEffect operation_id request)"

section \<open>Closed forms of the cleanup loops\<close>

definition fid_cleanup :: "fid \<times> fid_state \<Rightarrow> cleanup_action list" where
  "fid_cleanup entry =
     (case snd entry of
        FidAuth qid handle \<Rightarrow> [CleanupPolicy (ClunkAuth handle)]
      | FidObject object \<Rightarrow>
          [CleanupFilesystem
             \<lparr>fr_context = of_context object,
              fr_operation = FsRelease (of_object object) (of_open object)
                               (map_option xs_handle (of_xattr object))\<rparr>]
      | FidPending \<Rightarrow> [])"

lemma foldl_drain_fid:
  "foldl drain_fid s entries =
     s\<lparr>ss_cleanup := ss_cleanup s @ concat (map fid_cleanup entries),
       ss_accounting := (ss_accounting s)
         \<lparr>acc_fids := acc_fids (ss_accounting s) - length entries\<rparr>\<rparr>"
proof (induction entries arbitrary: s)
  case (Cons entry entries)
  then show ?case
    by (simp add: drain_fid_def fid_cleanup_def release_def Let_def split: fid_state.splits)
qed simp

lemma drain_fids_eq:
  "drain_fids_to_cleanup s =
     s\<lparr>ss_fids := [],
       ss_cleanup := ss_cleanup s @ concat (map fid_cleanup (fid_order (ss_hasher s) (ss_fids s))),
       ss_accounting := (ss_accounting s)
         \<lparr>acc_fids := acc_fids (ss_accounting s) - length (fid_order (ss_hasher s) (ss_fids s))\<rparr>\<rparr>"
  by (simp add: drain_fids_to_cleanup_def foldl_drain_fid)

definition suppress :: "pending_operation \<Rightarrow> pending_operation" where
  "suppress p = p\<lparr>po_response_suppressed := True, po_cancellation_requested := True\<rparr>"

definition close_cancel :: "tag \<times> pending_operation \<Rightarrow> cleanup_action list" where
  "close_cancel entry =
     (if po_cancellation_requested (snd entry) then []
      else [CleanupCancel (po_operation_id (snd entry)) (po_kind (snd entry))])"

lemma foldl_cancel_for_close:
  "foldl cancel_for_close s entries =
     s\<lparr>ss_pending_by_tag := foldl (\<lambda>m e. hm_insert (fst e) (suppress (snd e)) m) (ss_pending_by_tag s) entries,
       ss_cleanup := ss_cleanup s @ concat (map close_cancel entries)\<rparr>"
  by (induction entries arbitrary: s)
    (simp_all add: cancel_for_close_def close_cancel_def suppress_def case_prod_beta Let_def)

lemma hm_insert_known:
  assumes "hm_ok m" and "hm_get m k \<noteq> None"
  shows "hm_insert k v m = map (\<lambda>e. if fst e = k then (k, v) else e) m"
proof -
  have "distinct (map fst m) \<Longrightarrow> k \<in> fst ` set m \<Longrightarrow>
      AList.update k v m = map (\<lambda>e. if fst e = k then (k, v) else e) m"
  proof (induction m)
    case (Cons e m)
    have "m = map (\<lambda>e. if fst e = k then (k, v) else e) m" if "k \<notin> fst ` set m"
      using that by (induction m) auto
    then show ?case
      using Cons by (cases e) auto
  qed simp
  then show ?thesis
    using assms by (simp add: hm_insert_def hm_ok_def hm_get_None_iff)
qed

lemma foldl_hm_insert_map:
  assumes "hm_ok m" and "set entries \<subseteq> set m" and "distinct (map fst entries)"
  shows "foldl (\<lambda>m e. hm_insert (fst e) (f (snd e)) m) m entries =
    map (\<lambda>e. if fst e \<in> fst ` set entries then (fst e, f (snd e)) else e) m"
  using assms(2,3)
proof (induction entries rule: rev_induct)
  case (snoc e entries)
  let ?g = "\<lambda>x. if fst x \<in> fst ` set entries then (fst x, f (snd x)) else x"
  have keys: "map fst (map ?g m) = map fst m"
    by simp
  have ok: "hm_ok (map ?g m)"
    using assms(1) unfolding hm_ok_def keys .
  have e: "e \<in> set m"
    using snoc.prems by simp
  then have get: "hm_get (map ?g m) (fst e) \<noteq> None"
    unfolding hm_get_None_iff list.set_map [symmetric] keys by simp
  have only: "x = e" if "x \<in> set m" "fst x = fst e" for x
    using that e assms(1) by (auto simp: hm_ok_def dest: eq_key_imp_eq_value) (metis eq_key_imp_eq_value prod.collapse)
  have "foldl (\<lambda>m e. hm_insert (fst e) (f (snd e)) m) m (entries @ [e]) =
      map (\<lambda>x. if fst x = fst e then (fst e, f (snd e)) else x) (map ?g m)"
    using snoc by (simp add: hm_insert_known [OF ok get])
  also have "\<dots> = map (\<lambda>x. if fst x \<in> fst ` set (entries @ [e]) then (fst x, f (snd x)) else x) m"
    using only by auto
  finally show ?case .
qed simp

lemma start_cleanup_eq:
  assumes "hm_ok (ss_pending_by_tag s)" and "hasher_ok (ss_hasher s)" and "\<not> ss_cleanup_started s"
  shows "start_cleanup s = drain_fids_to_cleanup
     (s\<lparr>ss_cleanup_started := True, ss_decoder := frame_decoder_clear (ss_decoder s),
        ss_pending_by_tag := map (\<lambda>e. (fst e, suppress (snd e))) (ss_pending_by_tag s),
        ss_cleanup := ss_cleanup s @
          concat (map close_cancel (pending_order (ss_hasher s) (ss_pending_by_tag s))),
        ss_flushes := map (\<lambda>(t, f). (t, f\<lparr>fs_response_suppressed := True\<rparr>)) (ss_flushes s)\<rparr>)"
proof -
  let ?m = "ss_pending_by_tag s"
  let ?xs = "pending_order (ss_hasher s) ?m"
  have "mset ?xs = mset ?m"
    using assms(2) by (simp add: hasher_ok_def)
  then have "set ?xs = set ?m" and "distinct (map fst ?xs)"
    using assms(1) by (auto simp: hm_ok_def dest: mset_eq_setD)
      (metis distinct_map mset_eq_imp_distinct_iff mset_eq_setD)
  then have "foldl (\<lambda>m e. hm_insert (fst e) (suppress (snd e)) m) ?m ?xs =
      map (\<lambda>e. (fst e, suppress (snd e))) ?m"
    using foldl_hm_insert_map [OF assms(1), of ?xs suppress] by simp
  then show ?thesis
    using assms(3) by (simp add: start_cleanup_def Let_def foldl_cancel_for_close)
qed

end
