(* ===== verification/Session_Handlers.thy ===== *)
theory Session_Handlers
  imports Session_State
begin

text \<open>
  The request handlers of \<open>crates/w9pt/src/session/mod.rs\<close>, one definition per \<open>handle_*\<close>
  method, the dispatcher and the two input entry points \<open>receive_bytes\<close> and \<open>receive_frame\<close>.
\<close>

section \<open>Shared match arms\<close>

text \<open>\<open>let object = match self.object_fid(tag, fid)? { Some(o) => o, None => return Ok(()) }\<close>\<close>

definition with_object :: "tag \<Rightarrow> fid \<Rightarrow> (object_fid \<Rightarrow> unit session_method) \<Rightarrow> unit session_method" where
  "with_object tag fid k =
     sbind (object_fid tag fid) (\<lambda>found. case found of Some object \<Rightarrow> k object | None \<Rightarrow> sreturn ())"

definition with_directory :: "tag \<Rightarrow> fid \<Rightarrow> (object_fid \<Rightarrow> unit session_method) \<Rightarrow> unit session_method" where
  "with_directory tag fid k =
     sbind (directory_fid tag fid) (\<lambda>found. case found of Some object \<Rightarrow> k object | None \<Rightarrow> sreturn ())"

text \<open>
  \<open>match self.fids.get(&fid)\<close> with an object taken whatever its xattr state, another state
  answered \<open>WrongFidKind\<close> and an absent fid answered \<open>UnknownFid\<close>.
\<close>

definition with_fid :: "tag \<Rightarrow> fid \<Rightarrow> (object_fid \<Rightarrow> unit session_method) \<Rightarrow> unit session_method" where
  "with_fid tag fid k s =
     (case hm_get (ss_fids s) fid of
        None \<Rightarrow> queue_state_error tag UnknownFid s
      | Some st \<Rightarrow>
          (case st of
             FidObject object \<Rightarrow> k object s
           | _ \<Rightarrow> queue_state_error tag WrongFidKind s))"

text \<open>
  \<open>self.fids.insert(fid, Pending)\<close>, then \<open>if let Err(error) = emit { self.fids.insert(fid,
  original); return Err(error) }\<close>.
\<close>

definition with_pending_fid :: "fid \<Rightarrow> fid_state \<Rightarrow> unit session_method \<Rightarrow> unit session_method" where
  "with_pending_fid fid original emit s = on_err emit (insert_fid fid original) (insert_fid fid FidPending s)"

text \<open>
  \<open>if !self.claim_fid(tag, fid)? { return Ok(()) }\<close>, then the emission, which gives the fid back
  when it fails.
\<close>

definition with_claimed_fid ::
  "tag \<Rightarrow> fid \<Rightarrow> unit session_method \<Rightarrow> (session \<Rightarrow> session) \<Rightarrow> unit session_method" where
  "with_claimed_fid tag fid emit undo =
     sbind (claim_fid tag fid) (\<lambda>claimed. if claimed then on_err emit undo else sreturn ())"

definition object_request :: "object_fid \<Rightarrow> filesystem_operation \<Rightarrow> filesystem_request" where
  "object_request object operation = \<lparr>fr_context = of_context object, fr_operation = operation\<rparr>"

definition emit_object_checked ::
  "tag \<Rightarrow> object_fid \<Rightarrow> filesystem_operation \<Rightarrow> continuation \<Rightarrow> nat \<Rightarrow> unit session_method" where
  "emit_object_checked tag object operation continuation write_bytes =
     emit_filesystem_checked tag (of_context object) (of_capabilities object) operation
       continuation write_bytes"

section \<open>Flush\<close>

definition hm_modify :: "'k \<Rightarrow> ('v \<Rightarrow> 'v) \<Rightarrow> ('k, 'v) hmap \<Rightarrow> ('k, 'v) hmap" where
  "hm_modify k f m = (case hm_get m k of None \<Rightarrow> m | Some v \<Rightarrow> hm_insert k (f v) m)"

text \<open>
  The \<open>expect\<close>s of the source look up a key that was found at the top of the same branch.
\<close>

definition handle_flush :: "tag \<Rightarrow> tag \<Rightarrow> unit session_method" where
  "handle_flush tag old_tag s =
     (case hm_get (ss_pending_by_tag s) old_tag of
        Some target \<Rightarrow>
          sbind reserve_in_flight (\<lambda>_.
          sbind (if po_cancellation_requested target then sreturn ()
                 else on_err (queue_effect (CancelEffect (po_operation_id target) (po_kind target)))
                        release_in_flight) (\<lambda>_.
          smodify (\<lambda>s.
            s\<lparr>ss_pending_by_tag :=
                hm_modify old_tag
                  (\<lambda>p. p\<lparr>po_response_suppressed := True, po_cancellation_requested := True,
                         po_flush_waiters := po_flush_waiters p @ [tag]\<rparr>)
                  (ss_pending_by_tag s),
              ss_flushes := hm_insert tag flush_state_default (ss_flushes s)\<rparr>))) s
      | None \<Rightarrow>
          if hm_contains (ss_flushes s) old_tag then
            sbind reserve_in_flight (\<lambda>_.
            smodify (\<lambda>s.
              s\<lparr>ss_flushes :=
                  hm_modify old_tag
                    (\<lambda>f. f\<lparr>fs_response_suppressed := True, fs_waiters := fs_waiters f @ [tag]\<rparr>)
                    (hm_insert tag flush_state_default (ss_flushes s))\<rparr>)) s
          else respond tag ResFlush s)"

section \<open>Operations on open files\<close>

definition handle_fsync :: "tag \<Rightarrow> fid \<Rightarrow> bool \<Rightarrow> unit session_method" where
  "handle_fsync tag fid data_only =
     with_object tag fid (\<lambda>object.
       case of_open object of
         None \<Rightarrow> queue_state_error tag FidNotOpen
       | Some opn \<Rightarrow> emit_object_checked tag object (FsFsync opn data_only) ContFsync 0)"

definition handle_lock :: "tag \<Rightarrow> fid \<Rightarrow> lock_request \<Rightarrow> unit session_method" where
  "handle_lock tag fid l =
     with_object tag fid (\<lambda>object.
       case of_open object of
         None \<Rightarrow> queue_state_error tag FidNotOpen
       | Some opn \<Rightarrow> emit_object_checked tag object (FsLock opn l) ContLock 0)"

definition handle_getlock :: "tag \<Rightarrow> fid \<Rightarrow> lock \<Rightarrow> unit session_method" where
  "handle_getlock tag fid l =
     with_object tag fid (\<lambda>object.
       case of_open object of
         None \<Rightarrow> queue_state_error tag FidNotOpen
       | Some opn \<Rightarrow> emit_object_checked tag object (FsGetlock opn l) ContGetlock 0)"

section \<open>Extended attributes\<close>

definition handle_xattr_walk :: "tag \<Rightarrow> fid \<Rightarrow> fid \<Rightarrow> rstring \<Rightarrow> unit session_method" where
  "handle_xattr_walk tag fid new_fid name =
     (if fid = new_fid then queue_state_error tag InvalidRequest
      else with_object tag fid (\<lambda>source.
        let operation = FsXattrWalk (of_object source) name in
        case require_for (of_capabilities source) operation of
          Inl missing \<Rightarrow> queue_state_error tag Unsupported
        | Inr _ \<Rightarrow>
            with_claimed_fid tag new_fid
              (emit_filesystem tag (object_request source operation) (ContXattrWalk new_fid source) 0)
              (retire_fid new_fid)))"

definition handle_xattr_create ::
  "tag \<Rightarrow> fid \<Rightarrow> rstring \<Rightarrow> u64 \<Rightarrow> xattr_flags \<Rightarrow> unit session_method" where
  "handle_xattr_create tag fid name sz flags =
     with_object tag fid (\<lambda>original.
       if of_open original \<noteq> None then queue_state_error tag FidAlreadyOpen
       else
         let operation = FsXattrCreate (of_object original) name sz flags in
         case require_for (of_capabilities original) operation of
           Inl missing \<Rightarrow> queue_state_error tag Unsupported
         | Inr _ \<Rightarrow>
             with_pending_fid fid (FidObject original)
               (emit_filesystem tag (object_request original operation)
                  (ContXattrCreate fid original sz) 0))"

section \<open>Directories and metadata\<close>

definition io_maximum :: "u32 \<Rightarrow> session \<Rightarrow> u32" where
  "io_maximum n s = min n (saturating_sub (active_msize s) 11)"

definition handle_readdir :: "tag \<Rightarrow> fid \<Rightarrow> u64 \<Rightarrow> u32 \<Rightarrow> unit session_method" where
  "handle_readdir tag fid offset n =
     with_fid tag fid (\<lambda>object.
       case of_open object of
         None \<Rightarrow> queue_state_error tag FidNotOpen
       | Some opn \<Rightarrow>
           if \<not> contains_bits (qid_ty (of_qid object)) QidType_DIRECTORY \<or> of_xattr object \<noteq> None
           then respond tag (ResLerror ENOTDIR)
           else (\<lambda>s.
             let maximum = io_maximum n s in
             emit_object_checked tag object (FsReadDir opn offset maximum) (ContReaddir maximum) 0 s))"

definition handle_mkdir :: "tag \<Rightarrow> fid \<Rightarrow> rstring \<Rightarrow> u32 \<Rightarrow> u32 \<Rightarrow> unit session_method" where
  "handle_mkdir tag directory name mode gid =
     with_directory tag directory (\<lambda>parent.
       emit_object_checked tag parent (FsMkdir (of_object parent) name mode gid) ContMkdir 0)"

definition handle_mknod ::
  "tag \<Rightarrow> fid \<Rightarrow> rstring \<Rightarrow> u32 \<Rightarrow> u32 \<Rightarrow> u32 \<Rightarrow> u32 \<Rightarrow> unit session_method" where
  "handle_mknod tag directory name mode major minor gid =
     with_directory tag directory (\<lambda>parent.
       emit_object_checked tag parent (FsMknod (of_object parent) name mode major minor gid)
         ContMknod 0)"

definition handle_symlink :: "tag \<Rightarrow> fid \<Rightarrow> rstring \<Rightarrow> rstring \<Rightarrow> u32 \<Rightarrow> unit session_method" where
  "handle_symlink tag directory name target gid =
     with_directory tag directory (\<lambda>parent.
       emit_object_checked tag parent (FsSymlink (of_object parent) name target gid) ContSymlink 0)"

definition handle_link :: "tag \<Rightarrow> fid \<Rightarrow> fid \<Rightarrow> rstring \<Rightarrow> unit session_method" where
  "handle_link tag directory target_fid name =
     with_directory tag directory (\<lambda>parent.
     with_object tag target_fid (\<lambda>target.
       if of_context parent \<noteq> of_context target then respond tag (ResLerror EXDEV)
       else emit_object_checked tag parent (FsLink (of_object parent) (of_object target) name)
              (ContNoState ResLink) 0))"

definition handle_rename :: "tag \<Rightarrow> fid \<Rightarrow> fid \<Rightarrow> rstring \<Rightarrow> unit session_method" where
  "handle_rename tag fid directory name =
     with_object tag fid (\<lambda>object.
     with_directory tag directory (\<lambda>parent.
       if of_context object \<noteq> of_context parent then respond tag (ResLerror EXDEV)
       else emit_object_checked tag object (FsRename (of_object object) (of_object parent) name)
              (ContNoState ResRename) 0))"

definition handle_rename_at ::
  "tag \<Rightarrow> fid \<Rightarrow> rstring \<Rightarrow> fid \<Rightarrow> rstring \<Rightarrow> unit session_method" where
  "handle_rename_at tag old_directory old_name new_directory new_name =
     with_directory tag old_directory (\<lambda>old_parent.
     with_directory tag new_directory (\<lambda>new_parent.
       if of_context old_parent \<noteq> of_context new_parent then respond tag (ResLerror EXDEV)
       else emit_object_checked tag old_parent
              (FsRenameAt (of_object old_parent) old_name (of_object new_parent) new_name)
              (ContNoState ResRenameAt) 0))"

definition handle_unlink_at :: "tag \<Rightarrow> fid \<Rightarrow> rstring \<Rightarrow> unlink_flags \<Rightarrow> unit session_method" where
  "handle_unlink_at tag directory name flags =
     with_directory tag directory (\<lambda>parent.
       emit_object_checked tag parent (FsUnlinkAt (of_object parent) name flags)
         (ContNoState ResUnlinkAt) 0)"

definition handle_statfs :: "tag \<Rightarrow> fid \<Rightarrow> unit session_method" where
  "handle_statfs tag fid =
     with_fid tag fid (\<lambda>object.
       emit_object_checked tag object (FsStatfs (of_object object)) ContStatfs 0)"

definition handle_getattr :: "tag \<Rightarrow> fid \<Rightarrow> getattr_mask \<Rightarrow> unit session_method" where
  "handle_getattr tag fid m =
     with_fid tag fid (\<lambda>object.
       emit_object_checked tag object (FsGetattr (of_object object) m) ContGetattr 0)"

definition handle_setattr :: "tag \<Rightarrow> fid \<Rightarrow> set_attributes \<Rightarrow> unit session_method" where
  "handle_setattr tag fid attributes =
     with_fid tag fid (\<lambda>object.
       emit_object_checked tag object (FsSetattr (of_object object) attributes) ContSetattr 0)"

definition handle_readlink :: "tag \<Rightarrow> fid \<Rightarrow> unit session_method" where
  "handle_readlink tag fid =
     with_fid tag fid (\<lambda>object.
       if of_xattr object \<noteq> None then queue_state_error tag WrongFidKind
       else emit_object_checked tag object (FsReadlink (of_object object)) ContReadlink 0)"

section \<open>Opening and creating\<close>

definition handle_open :: "tag \<Rightarrow> fid \<Rightarrow> open_flags \<Rightarrow> unit session_method" where
  "handle_open tag fid flags =
     with_fid tag fid (\<lambda>object.
       if of_open object \<noteq> None \<or> of_xattr object \<noteq> None then queue_state_error tag FidAlreadyOpen
       else
         let operation = FsOpen (of_object object) flags in
         case require_for (of_capabilities object) operation of
           Inl missing \<Rightarrow> queue_state_error tag Unsupported
         | Inr _ \<Rightarrow>
             with_pending_fid fid (FidObject object)
               (emit_filesystem tag (object_request object operation) (ContOpen fid object) 0))"

definition handle_create ::
  "tag \<Rightarrow> fid \<Rightarrow> rstring \<Rightarrow> open_flags \<Rightarrow> u32 \<Rightarrow> u32 \<Rightarrow> unit session_method" where
  "handle_create tag fid name flags mode gid =
     with_fid tag fid (\<lambda>object.
       if of_open object \<noteq> None \<or> of_xattr object \<noteq> None then queue_state_error tag FidAlreadyOpen
       else
         let operation = FsCreate (of_object object) name flags mode gid in
         case require_for (of_capabilities object) operation of
           Inl missing \<Rightarrow> queue_state_error tag Unsupported
         | Inr _ \<Rightarrow>
             with_pending_fid fid (FidObject object)
               (emit_filesystem tag (object_request object operation) (ContCreate fid object) 0))"

section \<open>Reading and writing\<close>

definition handle_xattr_read ::
  "tag \<Rightarrow> object_fid \<Rightarrow> xattr_state \<Rightarrow> u64 \<Rightarrow> u32 \<Rightarrow> unit session_method" where
  "handle_xattr_read tag object xattr offset n s =
     (case xs_mode xattr of
        XattrWriteMode expected_size written \<Rightarrow> queue_state_error tag WrongFidKind s
      | XattrReadMode sz \<Rightarrow>
          if offset \<ge> sz then respond tag (ResRead []) s
          else
            let remaining = sz - offset;
                maximum = min (io_maximum n s) (try_from_or_max (unat remaining))
            in emit_object_checked tag object (FsXattrRead (xs_handle xattr) offset maximum)
                 (ContXattrRead maximum) 0 s)"

definition handle_file_read :: "tag \<Rightarrow> fid \<Rightarrow> u64 \<Rightarrow> u32 \<Rightarrow> unit session_method" where
  "handle_file_read tag fid offset n =
     with_fid tag fid (\<lambda>object.
       case of_xattr object of
         Some xattr \<Rightarrow> handle_xattr_read tag object xattr offset n
       | None \<Rightarrow>
           (case of_open object of
              None \<Rightarrow> queue_state_error tag FidNotOpen
            | Some opn \<Rightarrow> (\<lambda>s.
                let maximum = io_maximum n s in
                if checked_add offset (ucast maximum) = None then respond tag (ResLerror EOVERFLOW) s
                else emit_object_checked tag object (FsRead opn offset maximum) (ContRead maximum) 0 s)))"

definition handle_xattr_write ::
  "tag \<Rightarrow> fid \<Rightarrow> object_fid \<Rightarrow> xattr_state \<Rightarrow> u64 \<Rightarrow> bytes \<Rightarrow> unit session_method" where
  "handle_xattr_write tag fid object xattr offset data =
     (case xs_mode xattr of
        XattrReadMode sz \<Rightarrow> queue_state_error tag WrongFidKind
      | XattrWriteMode expected_size written \<Rightarrow>
          (case checked_add offset (of_nat (length data)) of
             None \<Rightarrow> respond tag (ResLerror EOVERFLOW)
           | Some stop \<Rightarrow>
               if offset \<noteq> written \<or> stop > expected_size then queue_state_error tag InvalidRequest
               else
                 let requested = try_from_or_max (length data);
                     operation = FsXattrWrite (xs_handle xattr) offset data
                 in case require_for (of_capabilities object) operation of
                      Inl missing \<Rightarrow> queue_state_error tag Unsupported
                    | Inr _ \<Rightarrow>
                        with_pending_fid fid (FidObject object)
                          (emit_filesystem tag (object_request object operation)
                             (ContXattrWrite fid object requested) (length data))))"

definition handle_file_write :: "tag \<Rightarrow> fid \<Rightarrow> u64 \<Rightarrow> bytes \<Rightarrow> unit session_method" where
  "handle_file_write tag fid offset data =
     with_fid tag fid (\<lambda>object.
       case of_xattr object of
         Some xattr \<Rightarrow> handle_xattr_write tag fid object xattr offset data
       | None \<Rightarrow>
           (case of_open object of
              None \<Rightarrow> queue_state_error tag FidNotOpen
            | Some opn \<Rightarrow>
                if checked_add offset (of_nat (length data)) = None then respond tag (ResLerror EOVERFLOW)
                else
                  let requested = try_from_or_max (length data) in
                  emit_object_checked tag object (FsWrite opn offset data) (ContWrite requested)
                    (length data)))"

section \<open>Walking, clunking and removing\<close>

definition handle_walk :: "tag \<Rightarrow> fid \<Rightarrow> fid \<Rightarrow> rstring list \<Rightarrow> unit session_method" where
  "handle_walk tag source_fid new_fid names =
     with_fid tag source_fid (\<lambda>source.
       if of_open source \<noteq> None \<or> of_xattr source \<noteq> None then queue_state_error tag FidAlreadyOpen
       else if names = [] then
         (if new_fid \<noteq> source_fid then
            sbind (claim_fid tag new_fid) (\<lambda>claimed.
              if claimed then
                sbind (smodify (insert_fid new_fid (FidObject source))) (\<lambda>_. respond tag (ResWalk []))
              else sreturn ())
          else respond tag (ResWalk []))
       else
         let operation = FsWalk (of_object source) names;
             continuation = ContWalk source_fid new_fid source (length names);
             emit = emit_filesystem tag (object_request source operation) continuation 0
         in case require_for (of_capabilities source) operation of
              Inl missing \<Rightarrow> queue_state_error tag Unsupported
            | Inr _ \<Rightarrow>
                if new_fid = source_fid then
                  sbind (smodify (insert_fid source_fid FidPending))
                    (\<lambda>_. on_err emit (rollback_continuation continuation))
                else with_claimed_fid tag new_fid emit (rollback_continuation continuation))"

text \<open>The clunk of a fid that is not an xattr being written.\<close>

definition clunk_release :: "tag \<Rightarrow> fid \<Rightarrow> object_fid \<Rightarrow> unit session_method" where
  "clunk_release tag fid object =
     with_pending_fid fid (FidObject object)
       (emit_filesystem tag
          (object_request object
             (FsRelease (of_object object) (of_open object)
                (map_option xs_handle (of_xattr object))))
          (ContReleaseFid fid) 0)"

definition handle_object_clunk :: "tag \<Rightarrow> fid \<Rightarrow> unit session_method" where
  "handle_object_clunk tag fid =
     with_fid tag fid (\<lambda>object.
       case of_xattr object of
         None \<Rightarrow> clunk_release tag fid object
       | Some xattr \<Rightarrow>
           (case xs_mode xattr of
              XattrReadMode sz \<Rightarrow> clunk_release tag fid object
            | XattrWriteMode expected_size written \<Rightarrow>
                let (operation, continuation) =
                  (if written = expected_size
                   then (FsXattrCommit (xs_handle xattr) expected_size, ContXattrCommitFid fid)
                   else (FsRelease (of_object object) (of_open object) (Some (xs_handle xattr)),
                         ContXattrAbortFid fid EINVAL))
                in (case require_for (of_capabilities object) operation of
                      Inl missing \<Rightarrow> queue_state_error tag Unsupported
                    | Inr _ \<Rightarrow>
                        with_pending_fid fid (FidObject object)
                          (emit_filesystem tag (object_request object operation) continuation 0))))"

definition handle_remove :: "tag \<Rightarrow> fid \<Rightarrow> unit session_method" where
  "handle_remove tag fid =
     with_fid tag fid (\<lambda>object.
       if of_xattr object \<noteq> None then queue_state_error tag WrongFidKind
       else
         let operation = FsRemove (of_object object) (of_open object)
                           (map_option xs_handle (of_xattr object))
         in case require_for (of_capabilities object) operation of
              Inl missing \<Rightarrow> queue_state_error tag Unsupported
            | Inr _ \<Rightarrow>
                with_pending_fid fid (FidObject object)
                  (emit_filesystem tag (object_request object operation) (ContRemoveFid fid) 0))"

section \<open>Authentication and attachment\<close>

definition handle_auth :: "tag \<Rightarrow> fid \<Rightarrow> rstring \<Rightarrow> rstring \<Rightarrow> u32 \<Rightarrow> unit session_method" where
  "handle_auth tag afid uname aname n_uname s =
     (if afid = NOFID then queue_state_error tag InvalidRequest s
      else
        with_claimed_fid tag afid
          (emit_policy tag
             (StartAuth afid (from_wire uname n_uname) aname (sc_transport_principal (ss_context s)))
             (ContAuthStart afid) 0)
          (retire_fid afid) s)"

definition handle_attach ::
  "tag \<Rightarrow> fid \<Rightarrow> fid \<Rightarrow> rstring \<Rightarrow> rstring \<Rightarrow> u32 \<Rightarrow> unit session_method" where
  "handle_attach tag fid afid uname aname n_uname s =
     (if fid = NOFID then queue_state_error tag InvalidRequest s
      else
        let attach = (\<lambda>auth.
          with_claimed_fid tag fid
            (emit_policy tag
               (AttachExport fid auth (from_wire uname n_uname) aname
                  (sc_transport_principal (ss_context s)))
               (ContAttach fid) 0)
            (retire_fid fid) s)
        in if afid = NOFID then attach None
           else case hm_get (ss_fids s) afid of
             None \<Rightarrow> queue_state_error tag UnknownFid s
           | Some st \<Rightarrow>
               (case st of
                  FidAuth qid handle \<Rightarrow> attach (Some handle)
                | _ \<Rightarrow> queue_state_error tag WrongFidKind s))"

definition with_auth ::
  "tag \<Rightarrow> fid \<Rightarrow> (qid \<Rightarrow> auth_handle \<Rightarrow> unit session_method) \<Rightarrow> unit session_method" where
  "with_auth tag fid k s =
     (case hm_get (ss_fids s) fid of
        Some (FidAuth qid handle) \<Rightarrow> k qid handle s
      | _ \<Rightarrow> queue_state_error tag UnknownFid s)"

definition handle_auth_read :: "tag \<Rightarrow> fid \<Rightarrow> u64 \<Rightarrow> u32 \<Rightarrow> unit session_method" where
  "handle_auth_read tag fid offset n =
     with_auth tag fid (\<lambda>qid handle s.
       let maximum = io_maximum n s in
       emit_policy tag (ReadAuth handle offset maximum) (ContAuthRead maximum) 0 s)"

definition handle_auth_write :: "tag \<Rightarrow> fid \<Rightarrow> u64 \<Rightarrow> bytes \<Rightarrow> unit session_method" where
  "handle_auth_write tag fid offset data =
     with_auth tag fid (\<lambda>qid handle.
       emit_policy tag (WriteAuth handle offset data) (ContAuthWrite (try_from_or_max (length data)))
         (length data))"

definition handle_auth_clunk :: "tag \<Rightarrow> fid \<Rightarrow> unit session_method" where
  "handle_auth_clunk tag fid =
     with_auth tag fid (\<lambda>qid handle.
       with_pending_fid fid (FidAuth qid handle)
         (emit_policy tag (ClunkAuth handle) (ContAuthClunk fid) 0))"

section \<open>Version negotiation\<close>

definition abandon_pending :: "session \<Rightarrow> tag \<times> pending_operation \<Rightarrow> session" where
  "abandon_pending s entry =
     (let request = snd entry;
          s1 = release_write_bytes (po_write_bytes request) (release_in_flight s)
      in s1\<lparr>ss_abandoned_operations :=
              hm_insert (po_operation_id request) (po_expected request) (ss_abandoned_operations s1),
            ss_cleanup :=
              ss_cleanup s1 @ [CleanupCancel (po_operation_id request) (po_kind request)]\<rparr>)"

definition reset_for_version :: "session \<Rightarrow> session" where
  "reset_for_version s =
     (let flush_count = length (ss_flushes s);
          s1 = s\<lparr>ss_negotiated_msize := None,
                 ss_decoder := frame_decoder_clear (ss_decoder s),
                 ss_flushes := [],
                 ss_accounting := (ss_accounting s)
                   \<lparr>acc_in_flight_tags := release (acc_in_flight_tags (ss_accounting s)) flush_count\<rparr>\<rparr>;
          pending = ss_pending_by_tag s1;
          s2 = s1\<lparr>ss_pending_by_tag := [], ss_tag_by_operation := []\<rparr>;
          s3 = foldl abandon_pending s2 (pending_order (ss_hasher s2) pending)
      in drain_fids_to_cleanup s3)"

definition MINIMUM_NEGOTIATED_MSIZE :: u32 where
  "MINIMUM_NEGOTIATED_MSIZE = 21"

definition handle_version :: "tag \<Rightarrow> u32 \<Rightarrow> rstring \<Rightarrow> unit session_method" where
  "handle_version tag requested_msize version s =
     (if tag \<noteq> NOTAG then queue_state_error tag InvalidTag s
      else if requested_msize < MINIMUM_NEGOTIATED_MSIZE
      then (Inr (), fail_protocol ''Tversion msize cannot contain Rversion'' s)
      else
        let s1 = reset_for_version s;
            effective = min requested_msize (max_frame_size (session_limits s1));
            accepted = (version = VERSION_9P2000_L);
            s2 = s1\<lparr>ss_negotiated_msize := (if accepted then Some effective else None)\<rparr>
        in respond tag
             (ResVersion effective
                (if accepted then VERSION_9P2000_L else bytes_of_string ''unknown'')) s2)"

section \<open>Dispatch\<close>

definition is_auth_fid :: "fid \<Rightarrow> session \<Rightarrow> bool" where
  "is_auth_fid fid s =
     (case hm_get (ss_fids s) fid of
        None \<Rightarrow> False
      | Some st \<Rightarrow> (case st of FidAuth qid handle \<Rightarrow> True | _ \<Rightarrow> False))"

text \<open>The arms of \<open>match request.body\<close> once a version is negotiated.\<close>

primrec dispatch_body :: "request_body \<Rightarrow> tag \<Rightarrow> unit session_method" where
  "dispatch_body (ReqVersion msize version) tag = handle_version tag msize version"
| "dispatch_body (ReqAuth afid uname aname n_uname) tag = handle_auth tag afid uname aname n_uname"
| "dispatch_body (ReqAttach fid afid uname aname n_uname) tag =
     handle_attach tag fid afid uname aname n_uname"
| "dispatch_body (ReqFlush old_tag) tag = handle_flush tag old_tag"
| "dispatch_body (ReqRead fid offset n) tag =
     (\<lambda>s. if is_auth_fid fid s then handle_auth_read tag fid offset n s
          else handle_file_read tag fid offset n s)"
| "dispatch_body (ReqWrite fid offset data) tag =
     (\<lambda>s. if is_auth_fid fid s then handle_auth_write tag fid offset data s
          else handle_file_write tag fid offset data s)"
| "dispatch_body (ReqClunk fid) tag =
     (\<lambda>s. if is_auth_fid fid s then handle_auth_clunk tag fid s else handle_object_clunk tag fid s)"
| "dispatch_body (ReqLopen fid flags) tag = handle_open tag fid flags"
| "dispatch_body (ReqLcreate fid name flags mode gid) tag = handle_create tag fid name flags mode gid"
| "dispatch_body (ReqStatfs fid) tag = handle_statfs tag fid"
| "dispatch_body (ReqGetattr fid m) tag = handle_getattr tag fid m"
| "dispatch_body (ReqSetattr fid attributes) tag = handle_setattr tag fid attributes"
| "dispatch_body (ReqReadlink fid) tag = handle_readlink tag fid"
| "dispatch_body (ReqReaddir fid offset n) tag = handle_readdir tag fid offset n"
| "dispatch_body (ReqMkdir directory name mode gid) tag = handle_mkdir tag directory name mode gid"
| "dispatch_body (ReqMknod directory name mode major minor gid) tag =
     handle_mknod tag directory name mode major minor gid"
| "dispatch_body (ReqSymlink directory name target gid) tag =
     handle_symlink tag directory name target gid"
| "dispatch_body (ReqLink directory target name) tag = handle_link tag directory target name"
| "dispatch_body (ReqRename fid directory name) tag = handle_rename tag fid directory name"
| "dispatch_body (ReqRenameAt old_directory old_name new_directory new_name) tag =
     handle_rename_at tag old_directory old_name new_directory new_name"
| "dispatch_body (ReqUnlinkAt directory name flags) tag = handle_unlink_at tag directory name flags"
| "dispatch_body (ReqXattrWalk fid new_fid name) tag = handle_xattr_walk tag fid new_fid name"
| "dispatch_body (ReqXattrCreate fid name sz flags) tag = handle_xattr_create tag fid name sz flags"
| "dispatch_body (ReqFsync fid data_only) tag = handle_fsync tag fid data_only"
| "dispatch_body (ReqLock fid l) tag = handle_lock tag fid l"
| "dispatch_body (ReqGetlock fid l) tag = handle_getlock tag fid l"
| "dispatch_body (ReqWalk fid new_fid names) tag = handle_walk tag fid new_fid names"
| "dispatch_body (ReqRemove fid) tag = handle_remove tag fid"

definition dispatch :: "request \<Rightarrow> unit session_method" where
  "dispatch request s =
     (let tag = req_tag request; is_version = (request_message_type (req_body request) = Tversion) in
      if \<not> is_version \<and> tag = NOTAG
      then (Inr (), fail_protocol ''NOTAG is reserved for Tversion'' s)
      else if \<not> is_version \<and> (hm_contains (ss_pending_by_tag s) tag \<or> hm_contains (ss_flushes s) tag)
      then queue_state_error tag DuplicateTag s
      else if \<not> is_version \<and> ss_negotiated_msize s = None
      then queue_state_error tag NotNegotiated s
      else dispatch_body (req_body request) tag s)"

section \<open>Input\<close>

definition receive_decoded_frame :: "bytes \<Rightarrow> unit session_method" where
  "receive_decoded_frame frame s =
     (case decode_request frame (session_limits s) (active_msize s) of
        Inl error \<Rightarrow> (Inl (DecodeFailed error), fail_decode error s)
      | Inr request \<Rightarrow> dispatch request s)"

fun receive_frames :: "bytes list \<Rightarrow> unit session_method" where
  "receive_frames [] = sreturn ()"
| "receive_frames (frame # frames) =
     sbind (receive_decoded_frame frame) (\<lambda>_ s.
       if ss_terminal_reason s \<noteq> None then (Inr (), s) else receive_frames frames s)"

definition receive_bytes :: "bytes \<Rightarrow> unit session_method" where
  "receive_bytes bs =
     sbind ensure_active (\<lambda>_ s.
       case push bs (active_msize s) (ss_decoder s) of
         (Inl error, decoder) \<Rightarrow>
           (Inl (DecodeFailed error), fail_decode error (s\<lparr>ss_decoder := decoder\<rparr>))
       | (Inr frames, decoder) \<Rightarrow> receive_frames frames (s\<lparr>ss_decoder := decoder\<rparr>))"

definition receive_frame :: "bytes \<Rightarrow> unit session_method" where
  "receive_frame frame = sbind ensure_active (\<lambda>_. receive_decoded_frame frame)"

end
