(* ===== verification/Session_Complete.thy ===== *)
theory Session_Complete
  imports Session_Handlers
begin

text \<open>
  The completion half of \<open>crates/w9pt/src/session/mod.rs\<close>: terminal results of external
  operations, the flush cascade, the polling of effects, and the steps a host drives a session
  with.
\<close>

section \<open>Successful results\<close>

text \<open>The last arm of both matches: the result does not fit the continuation.\<close>

definition finish_mismatch :: "continuation \<Rightarrow> session \<Rightarrow> response_body \<times> session" where
  "finish_mismatch continuation s = (ResLerror EIO, rollback_continuation continuation s)"

definition finish_policy_success ::
  "continuation \<Rightarrow> policy_result \<Rightarrow> session \<Rightarrow> response_body \<times> session" where
  "finish_policy_success continuation result s =
     (case continuation of
        ContAuthStart fid \<Rightarrow>
          (case result of
             AuthStarted qid handle \<Rightarrow> (ResAuth qid, insert_fid fid (FidAuth qid handle) s)
           | _ \<Rightarrow> finish_mismatch continuation s)
      | ContAttach fid \<Rightarrow>
          (case result of
             Attached attach \<Rightarrow>
               (ResAttach (ar_qid attach),
                insert_fid fid
                  (FidObject
                     \<lparr>of_object = ar_root attach, of_qid = ar_qid attach,
                      of_context =
                        \<lparr>rc_session_id = sc_session_id (ss_context s),
                         rc_principal = ar_principal attach, rc_export = ar_export attach\<rparr>,
                      of_capabilities = ar_capabilities attach, of_open = None, of_xattr = None\<rparr>) s)
           | _ \<Rightarrow> finish_mismatch continuation s)
      | ContAuthRead maximum \<Rightarrow>
          (case result of
             AuthReadData data \<Rightarrow>
               (if length data \<le> unat maximum then ResRead data else ResLerror EIO, s)
           | _ \<Rightarrow> finish_mismatch continuation s)
      | ContAuthWrite requested \<Rightarrow>
          (case result of
             AuthWritten n \<Rightarrow> (if n \<le> requested then ResWrite n else ResLerror EIO, s)
           | _ \<Rightarrow> finish_mismatch continuation s)
      | ContAuthClunk fid \<Rightarrow>
          (case result of
             AuthClunked \<Rightarrow> (ResClunk, retire_fid fid s)
           | _ \<Rightarrow> finish_mismatch continuation s)
      | ContNoState body \<Rightarrow> (body, s)
      | _ \<Rightarrow> finish_mismatch continuation s)"

definition clamp_io_unit :: "u32 \<Rightarrow> session \<Rightarrow> u32" where
  "clamp_io_unit io_unit s =
     min io_unit (saturating_sub (active_msize s) (try_from_or_max IO_HEADER_SIZE))"

definition finish_walk ::
  "fid \<Rightarrow> fid \<Rightarrow> object_fid \<Rightarrow> nat \<Rightarrow> walk_element list \<Rightarrow> session \<Rightarrow> response_body \<times> session" where
  "finish_walk source_fid new_fid source requested elements s =
     (if elements = [] \<or> length elements > requested
      then (ResLerror (if elements = [] then ENOENT else EIO),
            rollback_walk source_fid new_fid source s)
      else
        (ResWalk (map we_qid elements),
         insert_fid new_fid
           (FidObject (source\<lparr>of_object := we_object (last elements), of_qid := we_qid (last elements),
                             of_open := None, of_xattr := None\<rparr>)) s))"

definition finish_readlink :: "rstring \<Rightarrow> session \<Rightarrow> response_body" where
  "finish_readlink target s =
     (let encoded_size = usize_saturating_add 9 (length target) in
      if length target \<le> max_string_bytes (session_limits s) \<and> encoded_size \<le> unat (active_msize s)
      then ResReadlink target else ResLerror EIO)"

definition finish_readdir :: "u32 \<Rightarrow> directory_entry list \<Rightarrow> session \<Rightarrow> response_body" where
  "finish_readdir maximum entries s =
     (case encode_directory_entries entries (unat maximum) (max_string_bytes (session_limits s)) of
        Inr data \<Rightarrow> ResReaddir data
      | Inl _ \<Rightarrow> ResLerror EIO)"

definition advance_xattr :: "u32 \<Rightarrow> object_fid \<Rightarrow> object_fid" where
  "advance_xattr n original =
     (case of_xattr original of
        None \<Rightarrow> original
      | Some x \<Rightarrow>
          (case xs_mode x of
             XattrReadMode sz \<Rightarrow> original
           | XattrWriteMode expected_size written \<Rightarrow>
               original\<lparr>of_xattr :=
                 Some (x\<lparr>xs_mode := XattrWriteMode expected_size (saturating_add written (ucast n))\<rparr>)\<rparr>))"

definition finish_filesystem_success ::
  "continuation \<Rightarrow> filesystem_result \<Rightarrow> session \<Rightarrow> response_body \<times> session" where
  "finish_filesystem_success continuation result s =
     (case continuation of
        ContWalk source_fid new_fid source requested \<Rightarrow>
          (case result of
             FrWalked w \<Rightarrow> finish_walk source_fid new_fid source requested (wk_elements w) s
           | _ \<Rightarrow> finish_mismatch continuation s)
      | ContReleaseFid fid \<Rightarrow>
          (case result of
             FrReleased \<Rightarrow> (ResClunk, retire_fid fid s)
           | _ \<Rightarrow> finish_mismatch continuation s)
      | ContRemoveFid fid \<Rightarrow>
          (case result of
             FrRemoved \<Rightarrow> (ResRemove, retire_fid fid s)
           | _ \<Rightarrow> finish_mismatch continuation s)
      | ContOpen fid original \<Rightarrow>
          (case result of
             FrOpened opened \<Rightarrow>
               (ResLopen (or_qid opened) (clamp_io_unit (or_io_unit opened) s),
                insert_fid fid
                  (FidObject (original\<lparr>of_qid := or_qid opened, of_open := Some (or_open opened),
                                       of_xattr := None\<rparr>)) s)
           | _ \<Rightarrow> finish_mismatch continuation s)
      | ContCreate fid original \<Rightarrow>
          (case result of
             FrCreated created \<Rightarrow>
               (ResLcreate (cr_qid created) (clamp_io_unit (cr_io_unit created) s),
                insert_fid fid
                  (FidObject (original\<lparr>of_object := cr_object created, of_qid := cr_qid created,
                                       of_open := Some (cr_open created), of_xattr := None\<rparr>)) s)
           | _ \<Rightarrow> finish_mismatch continuation s)
      | ContRead maximum \<Rightarrow>
          (case result of
             FrRead data \<Rightarrow> (if length data \<le> unat maximum then ResRead data else ResLerror EIO, s)
           | _ \<Rightarrow> finish_mismatch continuation s)
      | ContWrite requested \<Rightarrow>
          (case result of
             FrWritten n \<Rightarrow> (if n \<le> requested then ResWrite n else ResLerror EIO, s)
           | _ \<Rightarrow> finish_mismatch continuation s)
      | ContStatfs \<Rightarrow>
          (case result of
             FrStatfs st \<Rightarrow> (ResStatfs st, s)
           | _ \<Rightarrow> finish_mismatch continuation s)
      | ContGetattr \<Rightarrow>
          (case result of
             FrAttributes attributes \<Rightarrow>
               (if fa_validate attributes = Inr () then ResGetattr attributes else ResLerror EIO, s)
           | _ \<Rightarrow> finish_mismatch continuation s)
      | ContSetattr \<Rightarrow>
          (case result of
             FrAttributesSet \<Rightarrow> (ResSetattr, s)
           | _ \<Rightarrow> finish_mismatch continuation s)
      | ContReadlink \<Rightarrow>
          (case result of
             FrLinkTarget target \<Rightarrow> (finish_readlink target s, s)
           | _ \<Rightarrow> finish_mismatch continuation s)
      | ContReaddir maximum \<Rightarrow>
          (case result of
             FrDirectoryRead entries \<Rightarrow> (finish_readdir maximum entries s, s)
           | _ \<Rightarrow> finish_mismatch continuation s)
      | ContMkdir \<Rightarrow>
          (case result of
             FrDirectoryCreated node \<Rightarrow> (ResMkdir (nr_qid node), s)
           | _ \<Rightarrow> finish_mismatch continuation s)
      | ContMknod \<Rightarrow>
          (case result of
             FrNodeCreated node \<Rightarrow> (ResMknod (nr_qid node), s)
           | _ \<Rightarrow> finish_mismatch continuation s)
      | ContSymlink \<Rightarrow>
          (case result of
             FrSymlinkCreated node \<Rightarrow> (ResSymlink (nr_qid node), s)
           | _ \<Rightarrow> finish_mismatch continuation s)
      | ContXattrWalk new_fid source \<Rightarrow>
          (case result of
             FrXattrWalked walked \<Rightarrow>
               (ResXattrWalk (xw_size walked),
                insert_fid new_fid
                  (FidObject (source\<lparr>of_open := None,
                     of_xattr := Some \<lparr>xs_handle = xw_xattr walked,
                                       xs_mode = XattrReadMode (xw_size walked)\<rparr>\<rparr>)) s)
           | _ \<Rightarrow> finish_mismatch continuation s)
      | ContXattrCreate fid original expected_size \<Rightarrow>
          (case result of
             FrXattrCreated created \<Rightarrow>
               (ResXattrCreate,
                insert_fid fid
                  (FidObject (original\<lparr>of_open := None,
                     of_xattr := Some \<lparr>xs_handle = xc_xattr created,
                                       xs_mode = XattrWriteMode expected_size 0\<rparr>\<rparr>)) s)
           | _ \<Rightarrow> finish_mismatch continuation s)
      | ContXattrRead maximum \<Rightarrow>
          (case result of
             FrXattrRead data \<Rightarrow> (if length data \<le> unat maximum then ResRead data else ResLerror EIO, s)
           | _ \<Rightarrow> finish_mismatch continuation s)
      | ContXattrWrite fid original requested \<Rightarrow>
          (case result of
             FrXattrWritten n \<Rightarrow>
               if n > requested then (ResLerror EIO, insert_fid fid (FidObject original) s)
               else (ResWrite n, insert_fid fid (FidObject (advance_xattr n original)) s)
           | _ \<Rightarrow> finish_mismatch continuation s)
      | ContXattrCommitFid fid \<Rightarrow>
          (case result of
             FrXattrCommitted \<Rightarrow> (ResClunk, retire_fid fid s)
           | _ \<Rightarrow> finish_mismatch continuation s)
      | ContXattrAbortFid fid errno \<Rightarrow>
          (case result of
             FrReleased \<Rightarrow> (ResLerror errno, retire_fid fid s)
           | _ \<Rightarrow> finish_mismatch continuation s)
      | ContFsync \<Rightarrow>
          (case result of
             FrSynced \<Rightarrow> (ResFsync, s)
           | _ \<Rightarrow> finish_mismatch continuation s)
      | ContLock \<Rightarrow>
          (case result of
             FrLocked status \<Rightarrow> (ResLock status, s)
           | _ \<Rightarrow> finish_mismatch continuation s)
      | ContGetlock \<Rightarrow>
          (case result of
             FrLockQueried l \<Rightarrow> (ResGetlock l, s)
           | _ \<Rightarrow> finish_mismatch continuation s)
      | ContNoState body \<Rightarrow> (body, s)
      | _ \<Rightarrow> finish_mismatch continuation s)"

section \<open>The flush cascade\<close>

lemma length_flushes_start_cleanup: "length (ss_flushes (start_cleanup s)) = length (ss_flushes s)"
  by (simp add: start_cleanup_def Let_def drain_fids_eq foldl_cancel_for_close)

lemma flushes_queue_effect: "ss_flushes (snd (queue_effect e s)) = ss_flushes s"
  by (simp add: queue_effect_def Let_def split: sum.splits)

lemma flushes_respond: "ss_flushes (snd (respond tag body s)) = ss_flushes s"
  by (simp add: respond_def queue_response_def flushes_queue_effect split: sum.splits)

text \<open>\<open>if ... && self.queue_response(..).is_err() { self.fail_protocol(reason) }\<close>\<close>

definition respond_or_fail :: "bool \<Rightarrow> tag \<Rightarrow> response_body \<Rightarrow> string \<Rightarrow> session \<Rightarrow> session" where
  "respond_or_fail suppressed tag body reason s =
     (if suppressed then s
      else case respond tag body s of
        (Inl e, s') \<Rightarrow> fail_protocol reason s'
      | (Inr u, s') \<Rightarrow> s')"

text \<open>The body of \<open>finish_flush\<close> up to its loop over the waiters.\<close>

definition finish_one_flush :: "tag \<Rightarrow> flush_state \<Rightarrow> session \<Rightarrow> session" where
  "finish_one_flush tag flush s =
     respond_or_fail (fs_response_suppressed flush) tag ResFlush ''Rflush could not be queued''
       (release_in_flight (s\<lparr>ss_flushes := hm_remove tag (ss_flushes s)\<rparr>))"

lemma length_flushes_respond_or_fail:
  "length (ss_flushes (respond_or_fail b tag body reason s)) = length (ss_flushes s)"
  using flushes_respond [of tag body s]
  by (auto simp: respond_or_fail_def fail_protocol_def length_flushes_start_cleanup
      split: prod.splits sum.splits)

lemma length_hm_remove_less: "hm_get m k = Some v \<Longrightarrow> length (hm_remove k m) < length m"
  by (induction m) (auto simp: hm_get_def hm_remove_def le_imp_less_Suc length_delete_le split: if_splits)

lemma length_flushes_finish_one:
  "hm_get (ss_flushes s) tag = Some flush \<Longrightarrow>
   length (ss_flushes (finish_one_flush tag flush s)) < length (ss_flushes s)"
  by (simp add: finish_one_flush_def length_flushes_respond_or_fail release_in_flight_def
      length_hm_remove_less)

text \<open>
  \<open>finish_flush\<close> on each tag of a list in turn. The recursive calls of the source on the waiters
  of a flush come before the next tag, so they are prepended to the list.
\<close>

function finish_flushes :: "tag list \<Rightarrow> session \<Rightarrow> session" where
  "finish_flushes [] s = s"
| "finish_flushes (tag # tags) s =
     (case hm_get (ss_flushes s) tag of
        None \<Rightarrow> finish_flushes tags s
      | Some flush \<Rightarrow> finish_flushes (fs_waiters flush @ tags) (finish_one_flush tag flush s))"
  by pat_completeness auto
termination
  by (relation "measures [\<lambda>(tags, s). length (ss_flushes s), \<lambda>(tags, s). length tags]")
    (auto simp: length_flushes_finish_one)

section \<open>Completion\<close>

definition finish_body :: "continuation \<Rightarrow> completion \<Rightarrow> session \<Rightarrow> response_body \<times> session" where
  "finish_body continuation completion s =
     (case completion of
        CompFilesystem i result \<Rightarrow>
          (case result of
             Inl errno \<Rightarrow> (ResLerror errno, rollback_continuation continuation s)
           | Inr r \<Rightarrow> finish_filesystem_success continuation r s)
      | CompPolicy i result \<Rightarrow>
          (case result of
             Inl errno \<Rightarrow> (ResLerror errno, rollback_continuation continuation s)
           | Inr r \<Rightarrow> finish_policy_success continuation r s)
      | CompCancelled i kind \<Rightarrow> (ResLerror ECANCELED, rollback_continuation continuation s))"

definition finish_pending :: "tag \<Rightarrow> pending_operation \<Rightarrow> completion \<Rightarrow> session \<Rightarrow> session" where
  "finish_pending tag pending completion s =
     (let (body, s1) = finish_body (po_continuation pending) completion s;
          s2 = (if ss_terminal_reason s1 \<noteq> None then drain_fids_to_cleanup s1 else s1);
          s3 = respond_or_fail (po_response_suppressed pending) tag body
                 ''terminal completion response could not be queued'' s2
      in finish_flushes (po_flush_waiters pending) s3)"

text \<open>\<open>None\<close> is the panic of an \<open>expect\<close>.\<close>

definition complete :: "completion \<Rightarrow> session \<Rightarrow> ((completion_error + unit) \<times> session) option" where
  "complete completion s =
     (let operation_id = completion_operation_id completion in
      case hm_get (ss_tag_by_operation s) operation_id of
        Some tag \<Rightarrow>
          (case hm_get (ss_pending_by_tag s) tag of
             None \<Rightarrow> None
           | Some pending \<Rightarrow>
               (case expected_validate (po_expected pending) completion of
                  Inl e \<Rightarrow> Some (Inl e, s)
                | Inr _ \<Rightarrow>
                    let s1 = s\<lparr>ss_tag_by_operation := hm_remove operation_id (ss_tag_by_operation s),
                               ss_pending_by_tag := hm_remove tag (ss_pending_by_tag s)\<rparr>;
                        s2 = release_write_bytes (po_write_bytes pending) (release_in_flight s1)
                    in Some (Inr (), finish_pending tag pending completion s2)))
      | None \<Rightarrow>
          (case hm_get (ss_abandoned_operations s) operation_id of
             Some expected \<Rightarrow>
               (case expected_validate expected completion of
                  Inl e \<Rightarrow> Some (Inl e, s)
                | Inr _ \<Rightarrow>
                    Some (Inr (),
                      s\<lparr>ss_abandoned_operations := hm_remove operation_id (ss_abandoned_operations s)\<rparr>))
           | None \<Rightarrow>
               if operation_id \<le> ss_last_issued_operation_id s
               then Some (Inl (DuplicateOperation operation_id), s)
               else Some (Inl (UnknownOperation operation_id), s)))"

section \<open>Polling\<close>

definition issue_cleanup ::
  "expected_completion \<Rightarrow> (operation_id \<Rightarrow> effect) \<Rightarrow> session \<Rightarrow> effect option \<times> session" where
  "issue_cleanup expected make_effect s =
     (case allocate_id s of
        (Inl e, s') \<Rightarrow> (None, s'\<lparr>ss_terminal_reason := Some ResourceExhausted\<rparr>)
      | (Inr operation_id, s') \<Rightarrow>
          (Some (make_effect operation_id),
           s'\<lparr>ss_last_issued_operation_id := operation_id,
              ss_abandoned_operations :=
                hm_insert operation_id expected (ss_abandoned_operations s')\<rparr>))"

definition cleanup_effect :: "cleanup_action \<Rightarrow> session \<Rightarrow> effect option \<times> session" where
  "cleanup_effect action s =
     (case action of
        CleanupCancel operation_id kind \<Rightarrow> (Some (CancelEffect operation_id kind), s)
      | CleanupPolicy request \<Rightarrow>
          issue_cleanup (ExpectPolicy (policy_expected_result request))
            (\<lambda>operation_id. PolicyEffect operation_id request) s
      | CleanupFilesystem request \<Rightarrow>
          issue_cleanup (ExpectFilesystem (request_expected_result request))
            (\<lambda>operation_id. FilesystemEffect operation_id request) s)"

definition poll_effect :: "session \<Rightarrow> effect option \<times> session" where
  "poll_effect s =
     (case ss_effects s of
        effect # effects \<Rightarrow>
          (Some effect,
           s\<lparr>ss_effects := effects,
             ss_accounting := (ss_accounting s)
               \<lparr>acc_queued_effects := release (acc_queued_effects (ss_accounting s)) 1,
                acc_queued_effect_bytes :=
                  release (acc_queued_effect_bytes (ss_accounting s)) (effect_retained_bytes effect)\<rparr>\<rparr>)
      | [] \<Rightarrow>
          (case ss_cleanup s of
             action # actions \<Rightarrow> cleanup_effect action (s\<lparr>ss_cleanup := actions\<rparr>)
           | [] \<Rightarrow>
               (case ss_terminal_reason s of
                  Some reason \<Rightarrow>
                    if \<not> ss_terminal_effect_delivered s
                    then (Some (CloseSession reason), s\<lparr>ss_terminal_effect_delivered := True\<rparr>)
                    else (None, s)
                | None \<Rightarrow> (None, s))))"

section \<open>Steps\<close>

text \<open>
  What a host does with a session: input, completions, polling and shutdown, and between them any
  change of the iteration order of the hash maps.
\<close>

inductive session_step :: "session \<Rightarrow> session \<Rightarrow> bool" where
  step_receive_bytes: "session_step s (snd (receive_bytes bs s))"
| step_receive_frame: "session_step s (snd (receive_frame frame s))"
| step_complete: "complete completion s = Some (r, s') \<Longrightarrow> session_step s s'"
| step_poll: "session_step s (snd (poll_effect s))"
| step_begin_close: "session_step s (begin_close s)"
| step_rehash: "hasher_ok h \<Longrightarrow> session_step s (s\<lparr>ss_hasher := h\<rparr>)"

inductive session_reachable :: "session \<Rightarrow> bool" where
  reachable_new: "hasher_ok h \<Longrightarrow> limits_usize (cfg_limits config) \<Longrightarrow>
    session_new h config ctx = Inr s \<Longrightarrow> session_reachable s"
| reachable_step: "session_reachable s \<Longrightarrow> session_step s s' \<Longrightarrow> session_reachable s'"

end
