(* ===== verification/Session_Invariant.thy ===== *)
theory Session_Invariant
  imports Session_Complete
begin

text \<open>
  The invariant of a session and the proof that every internal method keeps it. The invariant is
  a conjunction of predicates on the fields they constrain, so that a method only has to be
  checked against the fields it changes. Two parameters describe the states between the steps
  of one method: \<open>H\<close> are the fids that are claimed but not yet owned by a pending operation, and
  \<open>Q\<close> the flush tags that wait on the cascade's work list.
\<close>

section \<open>Triples\<close>

text \<open>\<open>hoare P m Q E\<close>: from \<open>P\<close>, a normal return satisfies \<open>Q\<close> and an \<open>Err\<close> satisfies \<open>E\<close>.\<close>

definition hoare ::
  "('s \<Rightarrow> bool) \<Rightarrow> ('s, 'e, 'a) action \<Rightarrow> ('a \<Rightarrow> 's \<Rightarrow> bool) \<Rightarrow> ('s \<Rightarrow> bool) \<Rightarrow> bool" where
  "hoare P m Q E \<longleftrightarrow>
     (\<forall>s. P s \<longrightarrow> (case m s of (Inr x, s') \<Rightarrow> Q x s' | (Inl e, s') \<Rightarrow> E s'))"

named_theorems hoare_intros

lemma hoareI:
  assumes "\<And>s x s'. P s \<Longrightarrow> m s = (Inr x, s') \<Longrightarrow> Q x s'"
    and "\<And>s e s'. P s \<Longrightarrow> m s = (Inl e, s') \<Longrightarrow> E s'"
  shows "hoare P m Q E"
  using assms by (auto simp: hoare_def split: prod.splits sum.splits)

lemma hoare_snd:
  assumes "hoare P m (\<lambda>_. R) R" and "P s"
  shows "R (snd (m s))"
  using assms by (cases "m s"; cases "fst (m s)") (fastforce simp: hoare_def dest: spec [of _ s])+

lemma hoare_pre: "hoare P m Q E \<Longrightarrow> (\<And>s. P' s \<Longrightarrow> P s) \<Longrightarrow> hoare P' m Q E"
  by (simp add: hoare_def)

lemma hoare_sreturn: "(\<And>s. P s \<Longrightarrow> Q x s) \<Longrightarrow> hoare P (sreturn x) Q E"
  by (simp add: hoare_def sreturn_def)

lemma hoare_smodify: "(\<And>s. P s \<Longrightarrow> Q () (f s)) \<Longrightarrow> hoare P (smodify f) Q E"
  by (simp add: hoare_def smodify_def)

lemma hoare_sbind:
  assumes "hoare P m R E" and "\<And>x. hoare (R x) (f x) Q E"
  shows "hoare P (sbind m f) Q E"
  using assms by (fastforce simp: hoare_def sbind_def split: prod.splits sum.splits)

lemma hoare_on_err:
  assumes "hoare P m Q E" and "\<And>s. E s \<Longrightarrow> E' (undo s)"
  shows "hoare P (on_err m undo) Q E'"
  using assms by (fastforce simp: hoare_def on_err_def split: prod.splits sum.splits)

lemma hoare_if:
  assumes "c \<Longrightarrow> hoare P m Q E" and "\<not> c \<Longrightarrow> hoare P n Q E"
  shows "hoare P (if c then m else n) Q E"
  using assms by simp

section \<open>Continuations\<close>

text \<open>The fid a pending operation holds in state \<open>Pending\<close>.\<close>

primrec continuation_fid :: "continuation \<Rightarrow> fid option" where
  "continuation_fid (ContAuthStart f) = Some f"
| "continuation_fid (ContAttach f) = Some f"
| "continuation_fid (ContAuthClunk f) = Some f"
| "continuation_fid (ContWalk sf nf src req) = Some nf"
| "continuation_fid (ContReleaseFid f) = Some f"
| "continuation_fid (ContRemoveFid f) = Some f"
| "continuation_fid (ContOpen f o1) = Some f"
| "continuation_fid (ContCreate f o1) = Some f"
| "continuation_fid (ContNoState body) = None"
| "continuation_fid (ContAuthRead m) = None"
| "continuation_fid (ContAuthWrite m) = None"
| "continuation_fid (ContRead m) = None"
| "continuation_fid (ContWrite m) = None"
| "continuation_fid ContStatfs = None"
| "continuation_fid ContGetattr = None"
| "continuation_fid ContSetattr = None"
| "continuation_fid ContReadlink = None"
| "continuation_fid (ContReaddir m) = None"
| "continuation_fid ContMkdir = None"
| "continuation_fid ContMknod = None"
| "continuation_fid ContSymlink = None"
| "continuation_fid (ContXattrRead m) = None"
| "continuation_fid ContFsync = None"
| "continuation_fid ContLock = None"
| "continuation_fid ContGetlock = None"
| "continuation_fid (ContXattrWalk f o1) = Some f"
| "continuation_fid (ContXattrCreate f o1 sz) = Some f"
| "continuation_fid (ContXattrWrite f o1 req) = Some f"
| "continuation_fid (ContXattrCommitFid f) = Some f"
| "continuation_fid (ContXattrAbortFid f errno) = Some f"

text \<open>The result a continuation is prepared for.\<close>

primrec continuation_expects :: "continuation \<Rightarrow> expected_completion \<Rightarrow> bool" where
  "continuation_expects (ContAuthStart f) e \<longleftrightarrow> e = ExpectPolicy PkAuthStarted"
| "continuation_expects (ContAttach f) e \<longleftrightarrow> e = ExpectPolicy PkAttached"
| "continuation_expects (ContAuthClunk f) e \<longleftrightarrow> e = ExpectPolicy PkAuthClunked"
| "continuation_expects (ContWalk sf nf src req) e \<longleftrightarrow> e = ExpectFilesystem KWalked"
| "continuation_expects (ContReleaseFid f) e \<longleftrightarrow> e = ExpectFilesystem KReleased"
| "continuation_expects (ContRemoveFid f) e \<longleftrightarrow> e = ExpectFilesystem KRemoved"
| "continuation_expects (ContOpen f o1) e \<longleftrightarrow> e = ExpectFilesystem KOpened"
| "continuation_expects (ContCreate f o1) e \<longleftrightarrow> e = ExpectFilesystem KCreated"
| "continuation_expects (ContNoState body) e \<longleftrightarrow>
     (body, e) \<in> {(ResLink, ExpectFilesystem KLinked), (ResRename, ExpectFilesystem KRenamed),
       (ResRenameAt, ExpectFilesystem KRenamedAt), (ResUnlinkAt, ExpectFilesystem KUnlinked)}"
| "continuation_expects (ContAuthRead m) e \<longleftrightarrow> e = ExpectPolicy PkAuthRead"
| "continuation_expects (ContAuthWrite m) e \<longleftrightarrow> e = ExpectPolicy PkAuthWritten"
| "continuation_expects (ContRead m) e \<longleftrightarrow> e = ExpectFilesystem KRead"
| "continuation_expects (ContWrite m) e \<longleftrightarrow> e = ExpectFilesystem KWritten"
| "continuation_expects ContStatfs e \<longleftrightarrow> e = ExpectFilesystem KStatfs"
| "continuation_expects ContGetattr e \<longleftrightarrow> e = ExpectFilesystem KAttributes"
| "continuation_expects ContSetattr e \<longleftrightarrow> e = ExpectFilesystem KAttributesSet"
| "continuation_expects ContReadlink e \<longleftrightarrow> e = ExpectFilesystem KLinkTarget"
| "continuation_expects (ContReaddir m) e \<longleftrightarrow> e = ExpectFilesystem KDirectoryRead"
| "continuation_expects ContMkdir e \<longleftrightarrow> e = ExpectFilesystem KDirectoryCreated"
| "continuation_expects ContMknod e \<longleftrightarrow> e = ExpectFilesystem KNodeCreated"
| "continuation_expects ContSymlink e \<longleftrightarrow> e = ExpectFilesystem KSymlinkCreated"
| "continuation_expects (ContXattrRead m) e \<longleftrightarrow> e = ExpectFilesystem KXattrRead"
| "continuation_expects ContFsync e \<longleftrightarrow> e = ExpectFilesystem KSynced"
| "continuation_expects ContLock e \<longleftrightarrow> e = ExpectFilesystem KLocked"
| "continuation_expects ContGetlock e \<longleftrightarrow> e = ExpectFilesystem KLockQueried"
| "continuation_expects (ContXattrWalk f o1) e \<longleftrightarrow> e = ExpectFilesystem KXattrWalked"
| "continuation_expects (ContXattrCreate f o1 sz) e \<longleftrightarrow> e = ExpectFilesystem KXattrCreated"
| "continuation_expects (ContXattrWrite f o1 req) e \<longleftrightarrow> e = ExpectFilesystem KXattrWritten"
| "continuation_expects (ContXattrCommitFid f) e \<longleftrightarrow> e = ExpectFilesystem KXattrCommitted"
| "continuation_expects (ContXattrAbortFid f errno) e \<longleftrightarrow> e = ExpectFilesystem KReleased"

text \<open>An xattr being written never holds more bytes than were declared for it.\<close>

definition object_ok :: "object_fid \<Rightarrow> bool" where
  "object_ok object \<longleftrightarrow>
     (\<forall>x expected_size written. of_xattr object = Some x \<and>
        xs_mode x = XattrWriteMode expected_size written \<longrightarrow> written \<le> expected_size)"

fun fid_state_ok :: "fid_state \<Rightarrow> bool" where
  "fid_state_ok (FidObject object) = object_ok object"
| "fid_state_ok _ = True"

text \<open>The payload bounds a continuation promised, against the frame size \<open>m\<close> in force.\<close>

primrec continuation_ok :: "u32 \<Rightarrow> continuation \<Rightarrow> bool" where
  "continuation_ok m (ContAuthStart f) = True"
| "continuation_ok m (ContAttach f) = True"
| "continuation_ok m (ContAuthClunk f) = True"
| "continuation_ok m (ContWalk sf nf src req) = object_ok src"
| "continuation_ok m (ContReleaseFid f) = True"
| "continuation_ok m (ContRemoveFid f) = True"
| "continuation_ok m (ContOpen f o1) = object_ok o1"
| "continuation_ok m (ContCreate f o1) = object_ok o1"
| "continuation_ok m (ContNoState body) = True"
| "continuation_ok m (ContAuthRead n) = (unat n \<le> unat m - 11)"
| "continuation_ok m (ContAuthWrite n) = True"
| "continuation_ok m (ContRead n) = (unat n \<le> unat m - 11)"
| "continuation_ok m (ContWrite n) = True"
| "continuation_ok m ContStatfs = True"
| "continuation_ok m ContGetattr = True"
| "continuation_ok m ContSetattr = True"
| "continuation_ok m ContReadlink = True"
| "continuation_ok m (ContReaddir n) = (unat n \<le> unat m - 11)"
| "continuation_ok m ContMkdir = True"
| "continuation_ok m ContMknod = True"
| "continuation_ok m ContSymlink = True"
| "continuation_ok m (ContXattrRead n) = (unat n \<le> unat m - 11)"
| "continuation_ok m ContFsync = True"
| "continuation_ok m ContLock = True"
| "continuation_ok m ContGetlock = True"
| "continuation_ok m (ContXattrWalk f o1) = object_ok o1"
| "continuation_ok m (ContXattrCreate f o1 sz) = object_ok o1"
| "continuation_ok m (ContXattrWrite f o1 req) =
     (\<exists>x e w. of_xattr o1 = Some x \<and> xs_mode x = XattrWriteMode e w \<and> unat w + unat req \<le> unat e)"
| "continuation_ok m (ContXattrCommitFid f) = True"
| "continuation_ok m (ContXattrAbortFid f errno) = True"

fun kind_of_expected :: "expected_completion \<Rightarrow> cancel_kind" where
  "kind_of_expected (ExpectFilesystem k) = CancelFilesystem"
| "kind_of_expected (ExpectPolicy k) = CancelPolicy"

definition pending_ok :: "u32 \<Rightarrow> pending_operation \<Rightarrow> bool" where
  "pending_ok m p \<longleftrightarrow>
     continuation_expects (po_continuation p) (po_expected p) \<and>
     po_kind p = kind_of_expected (po_expected p) \<and>
     continuation_ok m (po_continuation p) \<and>
     (po_flush_waiters p \<noteq> [] \<longrightarrow> po_response_suppressed p \<and> po_cancellation_requested p)"

section \<open>The invariant\<close>

definition config_ok :: "limits \<Rightarrow> frame_decoder \<Rightarrow> u32 option \<Rightarrow> hasher \<Rightarrow> bool" where
  "config_ok lim d msize h \<longleftrightarrow>
     limits_validate lim = Inr () \<and> limits_usize lim \<and> hasher_ok h \<and> decoder_ok d \<and>
     fd_hard_maximum d = max_frame_size lim \<and> fd_maximum_retained d = max_buffered_input_bytes lim \<and>
     (\<forall>m. msize = Some m \<longrightarrow> 7 \<le> m \<and> m \<le> max_frame_size lim)"

definition effects_ok :: "limits \<Rightarrow> accounting \<Rightarrow> effect list \<Rightarrow> bool" where
  "effects_ok lim acc effects \<longleftrightarrow>
     acc_queued_effects acc = length effects \<and> length effects \<le> max_queued_effects lim \<and>
     acc_queued_effect_bytes acc = sum_list (map effect_retained_bytes effects) \<and>
     acc_queued_effect_bytes acc \<le> max_queued_effect_bytes lim"

definition counts_ok ::
  "limits \<Rightarrow> accounting \<Rightarrow> (tag, pending_operation) hmap \<Rightarrow> (tag, flush_state) hmap \<Rightarrow> bool" where
  "counts_ok lim acc pend flushes \<longleftrightarrow>
     acc_in_flight_tags acc = length pend + length flushes \<and>
     acc_in_flight_tags acc \<le> max_in_flight_tags lim \<and>
     acc_pending_write_bytes acc = hm_sum po_write_bytes pend \<and>
     acc_pending_write_bytes acc \<le> max_pending_write_bytes lim"

definition tables_ok ::
  "(tag, pending_operation) hmap \<Rightarrow> (tag, flush_state) hmap \<Rightarrow> (operation_id, tag) hmap \<Rightarrow>
   (operation_id, expected_completion) hmap \<Rightarrow> operation_id_allocator \<Rightarrow> u64 \<Rightarrow> bool" where
  "tables_ok pend flushes index aband ids last_id \<longleftrightarrow>
     hm_ok pend \<and> hm_ok flushes \<and> hm_ok index \<and> hm_ok aband \<and>
     (\<forall>t. hm_get pend t = None \<or> hm_get flushes t = None) \<and>
     (\<forall>i t. hm_get index i = Some t \<longleftrightarrow> (\<exists>p. hm_get pend t = Some p \<and> po_operation_id p = i)) \<and>
     (\<forall>i. hm_get index i \<noteq> None \<longrightarrow> hm_get aband i = None \<and> i \<le> last_id) \<and>
     (\<forall>i. hm_get aband i \<noteq> None \<longrightarrow> i \<le> last_id) \<and>
     (case ids of Some n \<Rightarrow> unat n = unat last_id + 1 | None \<Rightarrow> last_id = - 1)"

definition owns :: "(tag, pending_operation) hmap \<Rightarrow> tag \<Rightarrow> fid \<Rightarrow> bool" where
  "owns pend t f \<longleftrightarrow> (\<exists>p. hm_get pend t = Some p \<and> continuation_fid (po_continuation p) = Some f)"

definition owners_ok :: "fid set \<Rightarrow> (tag, pending_operation) hmap \<Rightarrow> (fid, fid_state) hmap \<Rightarrow> bool" where
  "owners_ok H pend fids \<longleftrightarrow>
     (\<forall>t f. owns pend t f \<longrightarrow> hm_get fids f = Some FidPending \<and> f \<notin> H) \<and>
     (\<forall>t t' f. owns pend t f \<and> owns pend t' f \<longrightarrow> t = t') \<and>
     (\<forall>f. hm_get fids f = Some FidPending \<longrightarrow> f \<in> H \<or> (\<exists>t. owns pend t f)) \<and>
     (\<forall>f \<in> H. hm_get fids f = Some FidPending)"

definition fids_ok ::
  "fid set \<Rightarrow> limits \<Rightarrow> accounting \<Rightarrow> (tag, pending_operation) hmap \<Rightarrow> (fid, fid_state) hmap \<Rightarrow>
   close_reason option \<Rightarrow> bool" where
  "fids_ok H lim acc pend fids terminal \<longleftrightarrow>
     hm_ok fids \<and> acc_fids acc = length fids \<and> length fids \<le> max_fids lim \<and>
     (\<forall>f st. hm_get fids f = Some st \<longrightarrow> fid_state_ok st) \<and>
     (owners_ok H pend fids \<or> terminal \<noteq> None \<and> fids = [] \<and> H = {})"

definition pending_waiters :: "(tag, pending_operation) hmap \<Rightarrow> tag multiset" where
  "pending_waiters pend = (\<Sum>e\<in>#mset pend. mset (po_flush_waiters (snd e)))"

definition flush_waiters :: "(tag, flush_state) hmap \<Rightarrow> tag multiset" where
  "flush_waiters flushes = (\<Sum>e\<in>#mset flushes. mset (fs_waiters (snd e)))"

text \<open>A waiter of a flush was inserted after the flush it waits for.\<close>

fun flushes_ordered :: "(tag, flush_state) hmap \<Rightarrow> bool" where
  "flushes_ordered [] = True"
| "flushes_ordered ((t, f) # flushes) =
     (set (fs_waiters f) \<subseteq> fst ` set flushes \<and> flushes_ordered flushes)"

definition flush_ok ::
  "tag multiset \<Rightarrow> (tag, pending_operation) hmap \<Rightarrow> (tag, flush_state) hmap \<Rightarrow> bool" where
  "flush_ok Q pend flushes \<longleftrightarrow>
     mset (map fst flushes) = Q + pending_waiters pend + flush_waiters flushes \<and>
     flushes_ordered flushes \<and>
     (\<forall>t f. hm_get flushes t = Some f \<and> fs_waiters f \<noteq> [] \<longrightarrow> fs_response_suppressed f)"

definition all_pending_ok :: "u32 \<Rightarrow> (tag, pending_operation) hmap \<Rightarrow> bool" where
  "all_pending_ok m pend \<longleftrightarrow> (\<forall>t p. hm_get pend t = Some p \<longrightarrow> pending_ok m p)"

definition lifecycle_ok ::
  "close_reason option \<Rightarrow> bool \<Rightarrow> bool \<Rightarrow> operation_id_allocator \<Rightarrow>
   (tag, pending_operation) hmap \<Rightarrow> (tag, flush_state) hmap \<Rightarrow> (fid, fid_state) hmap \<Rightarrow> bool" where
  "lifecycle_ok terminal started delivered ids pend flushes fids \<longleftrightarrow>
     (started \<longrightarrow> terminal \<noteq> None \<and> fids = [] \<and>
        (\<forall>t p. hm_get pend t = Some p \<longrightarrow> po_response_suppressed p \<and> po_cancellation_requested p) \<and>
        (\<forall>t f. hm_get flushes t = Some f \<longrightarrow> fs_response_suppressed f)) \<and>
     (terminal \<noteq> None \<and> \<not> started \<longrightarrow> ids = None) \<and>
     (delivered \<longrightarrow> terminal \<noteq> None)"

definition session_inv :: "fid set \<Rightarrow> tag multiset \<Rightarrow> session \<Rightarrow> bool" where
  "session_inv H Q s \<longleftrightarrow>
     config_ok (session_limits s) (ss_decoder s) (ss_negotiated_msize s) (ss_hasher s) \<and>
     effects_ok (session_limits s) (ss_accounting s) (ss_effects s) \<and>
     counts_ok (session_limits s) (ss_accounting s) (ss_pending_by_tag s) (ss_flushes s) \<and>
     tables_ok (ss_pending_by_tag s) (ss_flushes s) (ss_tag_by_operation s)
       (ss_abandoned_operations s) (ss_operation_ids s) (ss_last_issued_operation_id s) \<and>
     fids_ok H (session_limits s) (ss_accounting s) (ss_pending_by_tag s) (ss_fids s)
       (ss_terminal_reason s) \<and>
     flush_ok Q (ss_pending_by_tag s) (ss_flushes s) \<and>
     all_pending_ok (active_msize s) (ss_pending_by_tag s) \<and>
     lifecycle_ok (ss_terminal_reason s) (ss_cleanup_started s) (ss_terminal_effect_delivered s)
       (ss_operation_ids s) (ss_pending_by_tag s) (ss_flushes s) (ss_fids s)"

abbreviation session_ok :: "session \<Rightarrow> bool" where
  "session_ok \<equiv> session_inv {} {#}"

section \<open>Queueing effects\<close>

lemma reserve_eq_Inr: "reserve c n lim k = Inr m \<longleftrightarrow> m = c + n \<and> c + n \<le> min usize_max lim"
  by (auto simp: reserve_def usize_checked_add_def)

text \<open>
  What queueing may change: it appends at most one effect and moves the two queue counters with
  it. Every other field is as before.
\<close>

definition queued :: "effect list \<Rightarrow> session \<Rightarrow> session \<Rightarrow> bool" where
  "queued es s s' \<longleftrightarrow>
     s' = s\<lparr>ss_effects := ss_effects s @ es,
            ss_accounting := (ss_accounting s)
              \<lparr>acc_queued_effects := acc_queued_effects (ss_accounting s) + length es,
               acc_queued_effect_bytes :=
                 acc_queued_effect_bytes (ss_accounting s) + sum_list (map effect_retained_bytes es)\<rparr>\<rparr> \<and>
     (effects_ok (session_limits s) (ss_accounting s) (ss_effects s) \<longrightarrow>
      effects_ok (session_limits s) (ss_accounting s') (ss_effects s'))"

lemma queued_refl: "queued [] s s"
  by (simp add: queued_def)

lemma queue_effect_Inr:
  assumes "queue_effect e s = (Inr u, s')"
  shows "queued [e] s s'"
  using assms
  by (auto simp: queue_effect_def Let_def reserve_eq_Inr queued_def effects_ok_def
      split: sum.splits)

lemma queue_effect_Inl:
  assumes "queue_effect e s = (Inl err, s')"
  shows "s' = s"
  using assms
  by (auto simp: queue_effect_def Let_def reserve_eq_Inr release_def split: sum.splits)

lemma queue_effect_error: "queue_effect e s = (Inl err, s') \<Longrightarrow> \<exists>x. err = Limit x"
  by (auto simp: queue_effect_def Let_def split: sum.splits)

lemma respond_Inr:
  assumes "respond tag body s = (Inr u, s')"
  shows "\<exists>bs. encode_response \<lparr>res_tag = tag, res_body = body\<rparr> (active_msize s) = Inr bs \<and>
    queued [SendFrame bs] s s'"
  using assms queue_effect_Inr by (auto simp: respond_def queue_response_def split: sum.splits)

lemma respond_Inl: "respond tag body s = (Inl err, s') \<Longrightarrow> s' = s"
  by (auto simp: respond_def queue_response_def queue_effect_Inl split: sum.splits)

lemma queued_fields:
  assumes "queued es s s'"
  shows "ss_config s' = ss_config s" "ss_context s' = ss_context s" "ss_decoder s' = ss_decoder s"
    "ss_negotiated_msize s' = ss_negotiated_msize s" "ss_operation_ids s' = ss_operation_ids s"
    "ss_pending_by_tag s' = ss_pending_by_tag s" "ss_flushes s' = ss_flushes s"
    "ss_tag_by_operation s' = ss_tag_by_operation s"
    "ss_abandoned_operations s' = ss_abandoned_operations s"
    "ss_last_issued_operation_id s' = ss_last_issued_operation_id s" "ss_fids s' = ss_fids s"
    "ss_cleanup s' = ss_cleanup s" "ss_cleanup_started s' = ss_cleanup_started s"
    "ss_terminal_reason s' = ss_terminal_reason s"
    "ss_terminal_effect_delivered s' = ss_terminal_effect_delivered s"
    "ss_hasher s' = ss_hasher s" "active_msize s' = active_msize s"
    "acc_in_flight_tags (ss_accounting s') = acc_in_flight_tags (ss_accounting s)"
    "acc_fids (ss_accounting s') = acc_fids (ss_accounting s)"
    "acc_pending_write_bytes (ss_accounting s') = acc_pending_write_bytes (ss_accounting s)"
  using assms by (auto simp: queued_def active_msize_def split: option.splits)

lemma queued_inv:
  assumes "queued es s s'" and "session_inv H Q s"
  shows "session_inv H Q s'"
proof -
  have "effects_ok (session_limits s') (ss_accounting s') (ss_effects s')"
    using assms by (auto simp: queued_def session_inv_def)
  then show ?thesis
    using assms(2)
    by (simp add: session_inv_def queued_fields [OF assms(1)] counts_ok_def fids_ok_def)
qed

text \<open>
  A predicate of a state that queueing cannot disturb. The rules for replies are stated over
  such predicates, so that they carry the preconditions of the handlers along.
\<close>

definition stable :: "(session \<Rightarrow> bool) \<Rightarrow> bool" where
  "stable P \<longleftrightarrow> (\<forall>es s s'. queued es s s' \<and> P s \<longrightarrow> P s')"

lemma stableD: "stable P \<Longrightarrow> queued es s s' \<Longrightarrow> P s \<Longrightarrow> P s'"
  by (auto simp: stable_def)

lemma stable_inv [simp, intro]: "stable (session_inv H Q)"
  using queued_inv by (auto simp: stable_def)

lemma hoare_queue_effect: "stable P \<Longrightarrow> hoare P (queue_effect e) (\<lambda>_. P) P"
  by (rule hoareI) (auto dest: queue_effect_Inr queue_effect_Inl stableD)

lemma hoare_respond: "stable P \<Longrightarrow> hoare P (respond tag body) (\<lambda>_. P) P"
  by (rule hoareI) (auto dest: respond_Inr respond_Inl stableD)

lemma hoare_state_error: "stable P \<Longrightarrow> hoare P (queue_state_error tag e) (\<lambda>_. P) P"
  by (simp add: queue_state_error_def hoare_respond)

section \<open>Emitting operations\<close>

text \<open>The id allocator: the next id follows the last issued one.\<close>

definition ids_ok :: "operation_id_allocator \<Rightarrow> u64 \<Rightarrow> bool" where
  "ids_ok ids last_id \<longleftrightarrow> (case ids of Some n \<Rightarrow> unat n = unat last_id + 1 | None \<Rightarrow> last_id = - 1)"

lemma u64_bound: "unat (w :: u64) < 2 ^ 64"
  using unsigned_less [of w] by simp

lemma ids_ok_issue:
  assumes "ids_ok (Some i) last_id"
  shows "ids_ok (checked_add i 1) i" and "last_id < i"
proof -
  have "unat i + 1 < 2 ^ 64 \<Longrightarrow> unat (i + 1) = unat i + 1"
    by (simp add: unat_word_ariths)
  moreover have "\<not> unat i + 1 < 2 ^ 64 \<Longrightarrow> i = - 1"
    using u64_bound [of i] by (simp add: word_unat_eq_iff unsigned_minus_1_eq_mask mask_eq_exp_minus_1)
  ultimately show "ids_ok (checked_add i 1) i"
    by (auto simp: ids_ok_def checked_add_def)
  show "last_id < i"
    using assms by (simp add: ids_ok_def word_less_nat_alt)
qed

text \<open>The state in which an operation has been recorded, before its effect is queued.\<close>

definition emitted :: "tag \<Rightarrow> pending_operation \<Rightarrow> session \<Rightarrow> session" where
  "emitted tag p s =
     s\<lparr>ss_accounting := (ss_accounting s)
         \<lparr>acc_in_flight_tags := acc_in_flight_tags (ss_accounting s) + 1,
          acc_pending_write_bytes := acc_pending_write_bytes (ss_accounting s) + po_write_bytes p\<rparr>,
       ss_operation_ids := checked_add (po_operation_id p) 1,
       ss_last_issued_operation_id := po_operation_id p,
       ss_pending_by_tag := hm_insert tag p (ss_pending_by_tag s),
       ss_tag_by_operation := hm_insert (po_operation_id p) tag (ss_tag_by_operation s)\<rparr>"

definition burned :: "operation_id \<Rightarrow> session \<Rightarrow> session" where
  "burned i s = s\<lparr>ss_operation_ids := checked_add i 1, ss_last_issued_operation_id := i\<rparr>"

definition fresh_pending ::
  "expected_completion \<Rightarrow> cancel_kind \<Rightarrow> continuation \<Rightarrow> nat \<Rightarrow> operation_id \<Rightarrow> pending_operation" where
  "fresh_pending expected kind continuation write_bytes i =
     \<lparr>po_operation_id = i, po_expected = expected, po_kind = kind,
      po_continuation = continuation, po_response_suppressed = False,
      po_cancellation_requested = False, po_flush_waiters = [], po_write_bytes = write_bytes\<rparr>"

lemma emit_operation_Inr:
  assumes "emit_operation tag e k c wb mk s = (Inr u, s')" and "hm_get (ss_pending_by_tag s) tag = None"
  shows "\<exists>i. ss_operation_ids s = Some i \<and>
    acc_in_flight_tags (ss_accounting s) + 1 \<le> max_in_flight_tags (session_limits s) \<and>
    acc_pending_write_bytes (ss_accounting s) + wb \<le> max_pending_write_bytes (session_limits s) \<and>
    queued [mk i] (emitted tag (fresh_pending e k c wb i) s) s'"
proof -
  obtain i s1 where ids: "ss_operation_ids s = Some i"
    and room: "acc_in_flight_tags (ss_accounting s) + 1 \<le> max_in_flight_tags (session_limits s)"
      "acc_pending_write_bytes (ss_accounting s) + wb \<le> max_pending_write_bytes (session_limits s)"
    and q: "queue_effect (mk i)
      (s\<lparr>ss_accounting := (ss_accounting s)
           \<lparr>acc_in_flight_tags := acc_in_flight_tags (ss_accounting s) + 1,
            acc_pending_write_bytes := acc_pending_write_bytes (ss_accounting s) + wb\<rparr>,
         ss_operation_ids := checked_add i 1\<rparr>) = (Inr (), s1)"
    and s': "s' = s1\<lparr>ss_last_issued_operation_id := i,
         ss_pending_by_tag := hm_insert tag (fresh_pending e k c wb i) (ss_pending_by_tag s1),
         ss_tag_by_operation := hm_insert i tag (ss_tag_by_operation s1)\<rparr>"
    using assms
    by (auto simp: emit_operation_def hm_contains_def sbind_eq_Inr reserve_in_flight_def
        reserve_write_bytes_def allocate_id_def allocate_def reserve_eq_Inr on_err_def smodify_def
        fresh_pending_def split: sum.splits option.splits prod.splits)
  have "queued [mk i] (emitted tag (fresh_pending e k c wb i) s) s'"
    using queue_effect_Inr [OF q] unfolding s'
    by (auto simp: queued_def emitted_def fresh_pending_def effects_ok_def)
  then show ?thesis
    using ids room by blast
qed

lemma emit_operation_Inl:
  assumes "emit_operation tag e k c wb mk s = (Inl err, s')" and "hm_get (ss_pending_by_tag s) tag = None"
  shows "s' = s \<or> (\<exists>i. ss_operation_ids s = Some i \<and> s' = burned i s)"
  using assms
  by (auto simp: emit_operation_def hm_contains_def sbind_def reserve_in_flight_def
      reserve_write_bytes_def allocate_id_def allocate_def reserve_eq_Inr on_err_def smodify_def
      release_in_flight_def release_write_bytes_def release_def burned_def
      split: sum.splits option.splits prod.splits dest!: queue_effect_Inl)

subsection \<open>The tables under insertion\<close>

lemma tables_ok_iff:
  "tables_ok pend flushes index aband ids last_id \<longleftrightarrow>
     hm_ok pend \<and> hm_ok flushes \<and> hm_ok index \<and> hm_ok aband \<and>
     (\<forall>t. hm_get pend t = None \<or> hm_get flushes t = None) \<and>
     (\<forall>i t. hm_get index i = Some t \<longleftrightarrow> (\<exists>p. hm_get pend t = Some p \<and> po_operation_id p = i)) \<and>
     (\<forall>i. hm_get index i \<noteq> None \<longrightarrow> hm_get aband i = None \<and> i \<le> last_id) \<and>
     (\<forall>i. hm_get aband i \<noteq> None \<longrightarrow> i \<le> last_id) \<and> ids_ok ids last_id"
  by (simp add: tables_ok_def ids_ok_def)

lemma tables_ok_burn:
  assumes "tables_ok pend flushes index aband (Some i) last_id"
  shows "tables_ok pend flushes index aband (checked_add i 1) i"
  using assms ids_ok_issue [of i last_id] unfolding tables_ok_iff by force

lemma tables_ok_emit:
  assumes ok: "tables_ok pend flushes index aband (Some i) last_id"
    and t: "hm_get pend t = None" "hm_get flushes t = None" and i: "po_operation_id p = i"
  shows "tables_ok (hm_insert t p pend) flushes (hm_insert i t index) aband (checked_add i 1) i"
proof -
  have ids: "ids_ok (Some i) last_id"
    using ok by (simp add: tables_ok_iff)
  have old: "hm_get index j \<noteq> None \<Longrightarrow> j \<noteq> i" "hm_get aband j \<noteq> None \<Longrightarrow> j \<noteq> i" for j
    using ok ids_ok_issue(2) [OF ids] unfolding tables_ok_iff by (meson leD)+
  then have new: "hm_get index i = None" "hm_get aband i = None"
    by blast+
  have none: "hm_get pend u = Some q \<Longrightarrow> po_operation_id q \<noteq> i" for u q
    using ok new(1) unfolding tables_ok_iff by (metis option.distinct(1))
  have idx: "hm_get (hm_insert i t index) j = Some u \<longleftrightarrow>
      (\<exists>q. hm_get (hm_insert t p pend) u = Some q \<and> po_operation_id q = j)" for j u
    using ok none i t(1) unfolding tables_ok_iff by auto
  have last: "hm_get index j \<noteq> None \<Longrightarrow> j \<le> i" "hm_get aband j \<noteq> None \<Longrightarrow> j \<le> i" for j
    using ok ids_ok_issue(2) [OF ids] unfolding tables_ok_iff by (meson less_imp_le order_trans)+
  have live: "hm_get (hm_insert i t index) j \<noteq> None \<Longrightarrow> hm_get aband j = None \<and> j \<le> i" for j
    using ok new last(1) unfolding tables_ok_iff by (auto split: if_splits)
  show ?thesis
    unfolding tables_ok_iff
  proof (intro conjI allI)
    show "hm_get (hm_insert t p pend) u = None \<or> hm_get flushes u = None" for u
      using ok t unfolding tables_ok_iff by auto
  qed (use ok idx live last(2) ids_ok_issue(1) [OF ids] in \<open>auto simp: tables_ok_iff\<close>)
qed

lemma pending_waiters_insert_fresh:
  "hm_ok pend \<Longrightarrow> hm_get pend t = None \<Longrightarrow>
   pending_waiters (hm_insert t p pend) = mset (po_flush_waiters p) + pending_waiters pend"
  by (simp add: pending_waiters_def hm.mset_entries_ins_fresh)

lemma pending_waiters_remove:
  "hm_ok pend \<Longrightarrow> hm_get pend t = Some p \<Longrightarrow>
   pending_waiters pend = mset (po_flush_waiters p) + pending_waiters (hm_remove t pend)"
  by (simp add: pending_waiters_def hm.mset_entries_rem [of pend t p])

lemma owns_insert_fresh:
  "hm_get pend t = None \<Longrightarrow> owns (hm_insert t p pend) u f \<longleftrightarrow>
     (if u = t then continuation_fid (po_continuation p) = Some f else owns pend u f)"
  by (auto simp: owns_def)

lemma owners_ok_emit:
  assumes "owners_ok H pend fids" and "hm_get pend t = None"
    and "H = set_option (continuation_fid (po_continuation p))"
  shows "owners_ok {} (hm_insert t p pend) fids"
proof -
  have "owns pend t f \<Longrightarrow> False" for f
    using assms(2) by (simp add: owns_def)
  then show ?thesis
    using assms unfolding owners_ok_def
    by (auto simp: owns_insert_fresh split: if_splits) (metis elem_set)+
qed

section \<open>Readiness\<close>

text \<open>
  The states in which a handler runs: the invariant holds, the request's tag is fresh and the
  session accepts input.
\<close>

definition ready :: "fid set \<Rightarrow> tag \<Rightarrow> session \<Rightarrow> bool" where
  "ready H tag s \<longleftrightarrow>
     session_inv H {#} s \<and> hm_get (ss_pending_by_tag s) tag = None \<and>
     hm_get (ss_flushes s) tag = None \<and> ss_terminal_reason s = None"

lemma stable_ready [simp, intro]: "stable (ready H tag)"
  using queued_inv by (auto simp: stable_def ready_def queued_fields)

lemma readyD: "ready H tag s \<Longrightarrow> session_inv H {#} s"
  by (simp add: ready_def)

lemma ready_owners: "ready H tag s \<Longrightarrow> owners_ok H (ss_pending_by_tag s) (ss_fids s)"
  by (auto simp: ready_def session_inv_def fids_ok_def)

lemma burned_inv:
  assumes "session_inv H Q s" and "ss_operation_ids s = Some i"
  shows "session_inv H Q (burned i s)"
proof -
  have "tables_ok (ss_pending_by_tag s) (ss_flushes s) (ss_tag_by_operation s)
      (ss_abandoned_operations s) (checked_add i 1) i"
    using assms by (auto simp: session_inv_def intro: tables_ok_burn)
  moreover have "lifecycle_ok (ss_terminal_reason s) (ss_cleanup_started s)
      (ss_terminal_effect_delivered s) (checked_add i 1) (ss_pending_by_tag s) (ss_flushes s) (ss_fids s)"
    using assms by (auto simp: session_inv_def lifecycle_ok_def)
  moreover have "active_msize (burned i s) = active_msize s"
    by (simp add: active_msize_def burned_def split: option.splits)
  ultimately show ?thesis
    using assms(1) by (simp add: session_inv_def burned_def)
qed

lemma emitted_inv:
  assumes "ready H tag s" and "ss_operation_ids s = Some (po_operation_id p)"
    and "H = set_option (continuation_fid (po_continuation p))"
    and "pending_ok (active_msize s) p" and "po_flush_waiters p = []"
    and "acc_in_flight_tags (ss_accounting s) + 1 \<le> max_in_flight_tags (session_limits s)"
    and "acc_pending_write_bytes (ss_accounting s) + po_write_bytes p
      \<le> max_pending_write_bytes (session_limits s)"
  shows "session_ok (emitted tag p s)"
proof -
  let ?pend = "hm_insert tag p (ss_pending_by_tag s)"
  have inv: "session_inv H {#} s" and fresh: "hm_get (ss_pending_by_tag s) tag = None"
    "hm_get (ss_flushes s) tag = None" and active: "ss_terminal_reason s = None"
    using assms(1) by (simp_all add: ready_def)
  have maps: "hm_ok (ss_pending_by_tag s)"
    using inv by (simp add: session_inv_def tables_ok_def)
  have "tables_ok ?pend (ss_flushes s) (hm_insert (po_operation_id p) tag (ss_tag_by_operation s))
      (ss_abandoned_operations s) (checked_add (po_operation_id p) 1) (po_operation_id p)"
    using inv assms(2) fresh by (auto simp: session_inv_def intro: tables_ok_emit)
  moreover have "owners_ok {} ?pend (ss_fids s)"
    using owners_ok_emit [OF ready_owners [OF assms(1)] fresh(1) assms(3)] .
  moreover have "counts_ok (session_limits s) (ss_accounting (emitted tag p s)) ?pend (ss_flushes s)"
    using inv maps fresh assms(6,7)
    by (simp add: session_inv_def counts_ok_def emitted_def hm_length_insert hm_sum_insert_fresh)
  moreover have "flush_ok {#} ?pend (ss_flushes s)"
    using inv maps fresh assms(5)
    by (auto simp: session_inv_def flush_ok_def pending_waiters_insert_fresh)
  moreover have "all_pending_ok (active_msize s) ?pend"
    using inv assms(4) by (auto simp: session_inv_def all_pending_ok_def)
  moreover have "active_msize (emitted tag p s) = active_msize s"
    by (simp add: active_msize_def emitted_def split: option.splits)
  ultimately show ?thesis
    using inv active
    by (auto simp: session_inv_def emitted_def fids_ok_def effects_ok_def lifecycle_ok_def)
qed

lemma hoare_emit_operation:
  assumes "H = set_option (continuation_fid c)"
  shows "hoare (\<lambda>s. ready H tag s \<and> pending_ok (active_msize s) (fresh_pending e k c wb 0))
    (emit_operation tag e k c wb mk) (\<lambda>_. session_ok) (session_inv H {#})"
proof (rule hoareI; elim conjE)
  fix s u s'
  assume r: "ready H tag s" and p: "pending_ok (active_msize s) (fresh_pending e k c wb 0)"
    and emit: "emit_operation tag e k c wb mk s = (Inr u, s')"
  obtain i where i: "ss_operation_ids s = Some i"
    and room: "acc_in_flight_tags (ss_accounting s) + 1 \<le> max_in_flight_tags (session_limits s)"
      "acc_pending_write_bytes (ss_accounting s) + wb \<le> max_pending_write_bytes (session_limits s)"
    and q: "queued [mk i] (emitted tag (fresh_pending e k c wb i) s) s'"
    using emit_operation_Inr [OF emit] r by (auto simp: ready_def)
  have "session_ok (emitted tag (fresh_pending e k c wb i) s)"
    using r i room p assms by (intro emitted_inv) (auto simp: fresh_pending_def pending_ok_def)
  then show "session_ok s'"
    using queued_inv [OF q] by blast
next
  fix s err s'
  assume "ready H tag s" and "emit_operation tag e k c wb mk s = (Inl err, s')"
  then show "session_inv H {#} s'"
    using emit_operation_Inl burned_inv by (fastforce simp: ready_def)
qed

section \<open>Claiming and giving back fids\<close>

lemma active_msize_cong:
  "ss_negotiated_msize s' = ss_negotiated_msize s \<Longrightarrow> ss_config s' = ss_config s \<Longrightarrow>
   active_msize s' = active_msize s"
  by (simp add: active_msize_def split: option.splits)

text \<open>The invariant of a state that differs in the fid table and its counter only.\<close>

lemma session_inv_fids:
  assumes "session_inv H Q s"
    and "fids_ok H' (session_limits s) acc (ss_pending_by_tag s) fids (ss_terminal_reason s)"
    and "acc = (ss_accounting s)\<lparr>acc_fids := acc_fids acc\<rparr>"
    and "ss_cleanup_started s \<Longrightarrow> fids = []"
  shows "session_inv H' Q (s\<lparr>ss_fids := fids, ss_accounting := acc\<rparr>)"
proof -
  have m: "active_msize (s\<lparr>ss_fids := fids, ss_accounting := acc\<rparr>) = active_msize s"
    by (rule active_msize_cong) simp_all
  obtain n where acc: "acc = (ss_accounting s)\<lparr>acc_fids := n\<rparr>"
    using assms(3) by blast
  show ?thesis
    using assms(1,2,4) m
    by (simp add: session_inv_def acc effects_ok_def counts_ok_def lifecycle_ok_def)
qed

lemma session_inv_holes: "session_inv H Q s \<Longrightarrow> H \<noteq> {} \<Longrightarrow> owners_ok H (ss_pending_by_tag s) (ss_fids s)"
  by (auto simp: session_inv_def fids_ok_def)

lemma session_inv_fids_ok:
  "session_inv H Q s \<Longrightarrow>
   fids_ok H (session_limits s) (ss_accounting s) (ss_pending_by_tag s) (ss_fids s) (ss_terminal_reason s)"
  by (simp add: session_inv_def)

lemma session_inv_not_started:
  "session_inv H Q s \<Longrightarrow> hm_get (ss_fids s) f = Some st \<Longrightarrow> \<not> ss_cleanup_started s"
  by (auto simp: session_inv_def lifecycle_ok_def)

lemma owners_ok_claim:
  assumes "owners_ok {} pend fids" and "\<And>t. \<not> owns pend t f"
  shows "owners_ok {f} pend (hm_insert f FidPending fids)"
  using assms by (auto simp: owners_ok_def)

lemma owners_ok_give_back:
  assumes "owners_ok {f} pend fids" and "st \<noteq> FidPending"
  shows "owners_ok {} pend (hm_insert f st fids)"
  using assms by (auto simp: owners_ok_def)

lemma owners_ok_retire:
  assumes "owners_ok {f} pend fids"
  shows "owners_ok {} pend (hm_remove f fids)"
  using assms by (auto simp: owners_ok_def)

lemma insert_fid_eq:
  "insert_fid f st s = s\<lparr>ss_fids := hm_insert f st (ss_fids s), ss_accounting := ss_accounting s\<rparr>"
  by (simp add: insert_fid_def)

lemma insert_pending_inv:
  assumes "session_inv {} Q s" and "hm_get (ss_fids s) f = Some st" and "st \<noteq> FidPending"
  shows "session_inv {f} Q (insert_fid f FidPending s)"
proof -
  have ok: "fids_ok {} (session_limits s) (ss_accounting s) (ss_pending_by_tag s) (ss_fids s)
      (ss_terminal_reason s)"
    using assms(1) by (rule session_inv_fids_ok)
  then have own: "owners_ok {} (ss_pending_by_tag s) (ss_fids s)"
    using assms(2) by (auto simp: fids_ok_def)
  then have "\<not> owns (ss_pending_by_tag s) t f" for t
    using assms(2,3) by (auto simp: owners_ok_def)
  then have "owners_ok {f} (ss_pending_by_tag s) (hm_insert f FidPending (ss_fids s))"
    using own by (rule owners_ok_claim [rotated])
  then show ?thesis
    unfolding insert_fid_eq using ok assms(2) session_inv_not_started [OF assms(1,2)]
    by (intro session_inv_fids [OF assms(1)]) (auto simp: fids_ok_def hm_length_insert)
qed

lemma insert_fid_inv:
  assumes "session_inv {f} Q s" and "st \<noteq> FidPending" and "fid_state_ok st"
  shows "session_inv {} Q (insert_fid f st s)"
proof -
  have own: "owners_ok {f} (ss_pending_by_tag s) (ss_fids s)"
    using session_inv_holes [OF assms(1)] by simp
  then have get: "hm_get (ss_fids s) f = Some FidPending"
    by (simp add: owners_ok_def)
  have "owners_ok {} (ss_pending_by_tag s) (hm_insert f st (ss_fids s))"
    using own assms(2) by (rule owners_ok_give_back)
  then show ?thesis
    unfolding insert_fid_eq
    using session_inv_fids_ok [OF assms(1)] get session_inv_not_started [OF assms(1) get] assms(3)
    by (intro session_inv_fids [OF assms(1)]) (auto simp: fids_ok_def hm_length_insert)
qed

lemma retire_fid_inv:
  assumes "session_inv {f} Q s"
  shows "session_inv {} Q (retire_fid f s)"
proof -
  have own: "owners_ok {f} (ss_pending_by_tag s) (ss_fids s)"
    using session_inv_holes [OF assms(1)] by simp
  then have get: "hm_get (ss_fids s) f = Some FidPending"
    by (simp add: owners_ok_def)
  have eq: "retire_fid f s =
      s\<lparr>ss_fids := hm_remove f (ss_fids s),
        ss_accounting := (ss_accounting s)\<lparr>acc_fids := acc_fids (ss_accounting s) - 1\<rparr>\<rparr>"
    using get by (simp add: retire_fid_def hm_contains_def release_def)
  have "Suc (length (hm_remove f (ss_fids s))) = length (ss_fids s)"
    using session_inv_fids_ok [OF assms] get by (intro hm_length_remove) (auto simp: fids_ok_def)
  then show ?thesis
    unfolding eq
    using session_inv_fids_ok [OF assms] session_inv_not_started [OF assms get] owners_ok_retire [OF own]
    by (intro session_inv_fids [OF assms(1)]) (auto simp: fids_ok_def)
qed

lemma ready_insert_pending:
  assumes "ready {} tag s" and "hm_get (ss_fids s) f = Some st" and "st \<noteq> FidPending"
  shows "ready {f} tag (insert_fid f FidPending s)"
  using assms insert_pending_inv by (simp add: ready_def insert_fid_def)

lemma claim_fid_ready:
  assumes "claim_fid tag f s = (Inr True, s')" and "ready {} t s"
  shows "ready {f} t s'"
proof -
  have new: "hm_get (ss_fids s) f = None"
    and room: "length (ss_fids s) < max_fids (session_limits s)"
    and s': "s' = s\<lparr>ss_fids := hm_insert f FidPending (ss_fids s),
      ss_accounting := (ss_accounting s)\<lparr>acc_fids := length (ss_fids s) + 1\<rparr>\<rparr>"
    using assms
    by (auto simp: claim_fid_def hm_contains_def reserve_eq_Inr sbind_eq_Inr ready_def session_inv_def
        fids_ok_def split: sum.splits if_splits)
  have own: "owners_ok {} (ss_pending_by_tag s) (ss_fids s)"
    using ready_owners [OF assms(2)] .
  then have "\<not> owns (ss_pending_by_tag s) u f" for u
    using new by (auto simp: owners_ok_def)
  then have "owners_ok {f} (ss_pending_by_tag s) (hm_insert f FidPending (ss_fids s))"
    using own by (rule owners_ok_claim [rotated])
  moreover have "\<not> ss_cleanup_started s"
    using assms(2) by (auto simp: ready_def session_inv_def lifecycle_ok_def)
  ultimately have "session_inv {f} {#} s'"
    unfolding s' using session_inv_fids_ok [OF readyD [OF assms(2)]] new room
    by (intro session_inv_fids [OF readyD [OF assms(2)]]) (auto simp: fids_ok_def hm_length_insert)
  then show ?thesis
    using assms(2) by (simp add: ready_def s')
qed

lemma hoare_claim_fid:
  "hoare (ready {} t) (claim_fid tag f)
     (\<lambda>claimed. if claimed then ready {f} t else ready {} t) (ready {} t)"
proof (rule hoareI)
  fix s claimed s'
  assume r: "ready {} t s" and c: "claim_fid tag f s = (Inr claimed, s')"
  show "(if claimed then ready {f} t else ready {} t) s'"
  proof (cases claimed)
    case True
    then show ?thesis using claim_fid_ready [OF _ r] c by simp
  next
    case False
    then have "queue_state_error tag DuplicateFid s = (Inr (), s')"
      using c by (auto simp: claim_fid_def sbind_eq_Inr split: if_splits sum.splits)
    then show ?thesis
      using False r by (auto simp: queue_state_error_def dest!: respond_Inr stableD [OF stable_ready])
  qed
next
  fix s e s'
  assume "ready {} t s" and "claim_fid tag f s = (Inl e, s')"
  then show "ready {} t s'"
    by (auto simp: claim_fid_def sbind_def queue_state_error_def sreturn_def
        split: if_splits sum.splits prod.splits dest!: respond_Inl)
qed

section \<open>Rules for the handlers\<close>

text \<open>A handler takes a ready state to one that satisfies the invariant, whatever it returns.\<close>

abbreviation handles :: "tag \<Rightarrow> unit session_method \<Rightarrow> bool" where
  "handles tag m \<equiv> hoare (ready {} tag) m (\<lambda>_. session_ok) session_ok"

named_theorems handles_intros

lemma hoare_post:
  assumes "hoare P m Q E" and "\<And>x s. Q x s \<Longrightarrow> Q' x s" and "\<And>s. E s \<Longrightarrow> E' s"
  shows "hoare P m Q' E'"
  using assms by (fastforce simp: hoare_def split: prod.splits sum.splits)

lemma handles_respond [handles_intros]: "handles t (respond tag body)"
  by (rule hoare_post [OF hoare_respond [OF stable_ready]]) (auto dest: readyD)

lemma handles_state_error [handles_intros]: "handles t (queue_state_error tag e)"
  by (simp add: queue_state_error_def handles_respond)

lemma handles_sreturn [handles_intros]: "handles t (sreturn ())"
  by (rule hoare_sreturn) (rule readyD)

lemma hoare_emit_filesystem:
  assumes "continuation_expects c (ExpectFilesystem (operation_expected_result op))"
    and "H = set_option (continuation_fid c)"
  shows "hoare (\<lambda>s. ready H tag s \<and> continuation_ok (active_msize s) c)
    (emit_filesystem tag \<lparr>fr_context = ctx, fr_operation = op\<rparr> c wb) (\<lambda>_. session_ok) (session_inv H {#})"
  unfolding emit_filesystem_def
  by (rule hoare_pre [OF hoare_emit_operation [OF assms(2)]])
    (use assms(1) in \<open>auto simp: pending_ok_def fresh_pending_def request_expected_result_def\<close>)

lemma hoare_emit_policy:
  assumes "continuation_expects c (ExpectPolicy (policy_expected_result request))"
    and "H = set_option (continuation_fid c)"
  shows "hoare (\<lambda>s. ready H tag s \<and> continuation_ok (active_msize s) c)
    (emit_policy tag request c wb) (\<lambda>_. session_ok) (session_inv H {#})"
  unfolding emit_policy_def
  by (rule hoare_pre [OF hoare_emit_operation [OF assms(2)]])
    (use assms(1) in \<open>auto simp: pending_ok_def fresh_pending_def\<close>)

text \<open>Operations that hold no fid.\<close>

lemma rollback_no_fid: "continuation_fid c = None \<Longrightarrow> rollback_continuation c s = s"
  by (cases c) simp_all

lemma hoare_emit_object_checked:
  assumes "continuation_expects c (ExpectFilesystem (operation_expected_result op))"
    and "continuation_fid c = None"
  shows "hoare (\<lambda>s. ready {} tag s \<and> continuation_ok (active_msize s) c)
    (emit_object_checked tag object op c wb) (\<lambda>_. session_ok) session_ok"
proof (cases "require_for (of_capabilities object) op")
  case (Inl missing)
  then show ?thesis
    using hoare_pre [OF handles_state_error [of tag tag Unsupported]]
    by (simp add: emit_object_checked_def emit_filesystem_checked_def rollback_no_fid [OF assms(2)] hoare_def)
next
  case (Inr u)
  then show ?thesis
    using hoare_emit_filesystem [OF assms(1), of "{}" tag "of_context object" wb] assms(2)
    by (simp add: emit_object_checked_def emit_filesystem_checked_def hoare_def)
qed

lemma handles_emit_object_checked [handles_intros]:
  assumes "continuation_expects c (ExpectFilesystem (operation_expected_result op))"
    and "continuation_fid c = None" and "\<And>m. continuation_ok m c"
  shows "handles tag (emit_object_checked tag object op c wb)"
  using hoare_pre [OF hoare_emit_object_checked [OF assms(1,2)]] assms(3) by blast

text \<open>Operations on the fids of a request.\<close>

lemma ready_object_ok:
  "ready H tag s \<Longrightarrow> hm_get (ss_fids s) f = Some (FidObject object) \<Longrightarrow> object_ok object"
  by (auto simp: ready_def session_inv_def fids_ok_def) force

lemma hoare_case_state: "(\<And>s. P s \<Longrightarrow> hoare ((=) s) m Q E) \<Longrightarrow> hoare P m Q E"
  by (auto simp: hoare_def)

lemma hoare_eq_state: "hoare ((=) s) m Q E \<Longrightarrow> m s = n s \<Longrightarrow> hoare ((=) s) n Q E"
  by (simp add: hoare_def)

lemma hoare_at: "hoare P m Q E \<Longrightarrow> P s \<Longrightarrow> hoare ((=) s) m Q E"
  by (simp add: hoare_def)

lemma fid_lookup_cases:
  obtains (absent) "hm_get (ss_fids s) fid = None"
    | (pending) "hm_get (ss_fids s) fid = Some FidPending"
    | (auth) qid handle where "hm_get (ss_fids s) fid = Some (FidAuth qid handle)"
    | (object) object where "hm_get (ss_fids s) fid = Some (FidObject object)"
proof (cases "hm_get (ss_fids s) fid")
  case (Some st)
  then show ?thesis by (cases st) (auto intro: that)
qed (auto intro: that)

lemma handles_with_fid:
  assumes "\<And>object. object_ok object \<Longrightarrow>
    hoare (\<lambda>s. ready {} tag s \<and> hm_get (ss_fids s) fid = Some (FidObject object)) (k object)
      (\<lambda>_. session_ok) session_ok"
  shows "handles tag (with_fid tag fid k)"
proof (rule hoare_case_state)
  fix s assume r: "ready {} tag s"
  show "hoare ((=) s) (with_fid tag fid k) (\<lambda>_. session_ok) session_ok"
  proof (cases "\<exists>object. hm_get (ss_fids s) fid = Some (FidObject object)")
    case True
    then obtain object where o: "hm_get (ss_fids s) fid = Some (FidObject object)" by blast
    have "hoare ((=) s) (k object) (\<lambda>_. session_ok) session_ok"
      by (rule hoare_at [OF assms [OF ready_object_ok [OF r o]]]) (simp add: r o)
    then show ?thesis
      by (rule hoare_eq_state) (simp add: with_fid_def o)
  next
    case False
    have "\<exists>e. with_fid tag fid k s = queue_state_error tag e s"
      using False by (cases rule: fid_lookup_cases [of s fid]) (auto simp: with_fid_def)
    then show ?thesis
      using hoare_eq_state [OF hoare_at [OF handles_state_error r]] by metis
  qed
qed

lemma object_fid_cases:
  obtains (found) object where "object_fid tag fid s = (Inr (Some object), s)"
      "hm_get (ss_fids s) fid = Some (FidObject object)" "of_xattr object = None"
    | (reply) e where "object_fid tag fid s = sbind (queue_state_error tag e) (\<lambda>_. sreturn None) s"
proof (cases rule: fid_lookup_cases [of s fid])
  case (object object)
  then show ?thesis
    by (cases "of_xattr object = None") (auto simp: object_fid_def intro: that)
qed (auto simp: object_fid_def intro: that)

lemma handles_reply_none:
  assumes "ready {} tag s"
  shows "hoare ((=) s) (sbind (sbind (queue_state_error tag e) (\<lambda>_. sreturn None))
    (\<lambda>found. case found of Some object \<Rightarrow> k object | None \<Rightarrow> sreturn ())) (\<lambda>_. session_ok) session_ok"
  using hoare_at [OF handles_state_error [of tag tag e] assms]
  by (auto simp: hoare_def sbind_def sreturn_def split: prod.splits sum.splits)

lemma handles_with_object:
  assumes "\<And>object. object_ok object \<Longrightarrow> of_xattr object = None \<Longrightarrow>
    hoare (\<lambda>s. ready {} tag s \<and> hm_get (ss_fids s) fid = Some (FidObject object)) (k object)
      (\<lambda>_. session_ok) session_ok"
  shows "handles tag (with_object tag fid k)"
proof (rule hoare_case_state)
  fix s assume r: "ready {} tag s"
  show "hoare ((=) s) (with_object tag fid k) (\<lambda>_. session_ok) session_ok"
  proof (cases rule: object_fid_cases [of tag fid s])
    case (found object)
    have "hoare ((=) s) (k object) (\<lambda>_. session_ok) session_ok"
      by (rule hoare_at [OF assms [OF ready_object_ok [OF r found(2)] found(3)]]) (simp add: r found(2))
    then show ?thesis
      by (rule hoare_eq_state) (simp add: with_object_def sbind_def found(1))
  next
    case (reply e)
    show ?thesis
      by (rule hoare_eq_state [OF handles_reply_none [OF r, of e k]])
        (simp add: with_object_def sbind_def [of "object_fid tag fid"] reply sbind_def [of "sbind _ _"])
  qed
qed

lemma with_directory_eq:
  "with_directory tag fid k =
     with_object tag fid (\<lambda>object.
       if \<not> contains_bits (qid_ty (of_qid object)) QidType_DIRECTORY
       then respond tag (ResLerror ENOTDIR) else k object)"
proof -
  have unit: "sbind m (\<lambda>_. sreturn ()) = m" for m :: "unit session_method"
    using sbind_sreturn_right [of m] by (simp add: sbind_def sreturn_def fun_eq_iff)
  have "sbind (case found of None \<Rightarrow> sreturn None
        | Some object \<Rightarrow>
            if \<not> contains_bits (qid_ty (of_qid object)) QidType_DIRECTORY
            then sbind (respond tag (ResLerror ENOTDIR)) (\<lambda>_. sreturn None)
            else sreturn (Some object))
      (\<lambda>found. case found of Some object \<Rightarrow> k object | None \<Rightarrow> sreturn ()) =
    (case found of None \<Rightarrow> sreturn ()
     | Some object \<Rightarrow>
         if \<not> contains_bits (qid_ty (of_qid object)) QidType_DIRECTORY
         then respond tag (ResLerror ENOTDIR) else k object)" for found
    by (cases found) (auto simp: sbind_assoc unit)
  note step = this
  show ?thesis
    unfolding with_directory_def directory_fid_def with_object_def sbind_assoc
    by (rule arg_cong [of _ _ "sbind (object_fid tag fid)"], rule ext, rule step)
qed

lemma handles_with_directory:
  assumes "\<And>object. object_ok object \<Longrightarrow> of_xattr object = None \<Longrightarrow>
    hoare (\<lambda>s. ready {} tag s \<and> hm_get (ss_fids s) fid = Some (FidObject object)) (k object)
      (\<lambda>_. session_ok) session_ok"
  shows "handles tag (with_directory tag fid k)"
  unfolding with_directory_eq
proof (rule handles_with_object, rule hoare_if)
  fix object
  show "hoare (\<lambda>s. ready {} tag s \<and> hm_get (ss_fids s) fid = Some (FidObject object))
      (respond tag (ResLerror ENOTDIR)) (\<lambda>_. session_ok) session_ok"
    by (rule hoare_pre [OF handles_respond [of tag]]) simp
qed (rule assms)

lemma handles_with_auth:
  assumes "\<And>qid handle.
    hoare (\<lambda>s. ready {} tag s \<and> hm_get (ss_fids s) fid = Some (FidAuth qid handle)) (k qid handle)
      (\<lambda>_. session_ok) session_ok"
  shows "handles tag (with_auth tag fid k)"
proof (rule hoare_case_state)
  fix s assume r: "ready {} tag s"
  show "hoare ((=) s) (with_auth tag fid k) (\<lambda>_. session_ok) session_ok"
  proof (cases rule: fid_lookup_cases [of s fid])
    case (auth qid handle)
    have "hoare ((=) s) (k qid handle) (\<lambda>_. session_ok) session_ok"
      by (rule hoare_at [OF assms]) (simp add: r auth)
    then show ?thesis
      by (rule hoare_eq_state) (simp add: with_auth_def auth)
  qed (rule hoare_eq_state [OF hoare_at [OF handles_state_error [of tag tag UnknownFid] r]];
       simp add: with_auth_def)+
qed

text \<open>An operation that takes over an existing fid.\<close>

lemma hoare_with_pending_fid:
  assumes emit: "hoare (\<lambda>s. ready {fid} tag s) emit (\<lambda>_. session_ok) (session_inv {fid} {#})"
    and st: "st \<noteq> FidPending" "fid_state_ok st"
  shows "hoare (\<lambda>s. ready {} tag s \<and> hm_get (ss_fids s) fid = Some st)
    (with_pending_fid fid st emit) (\<lambda>_. session_ok) session_ok"
proof (rule hoare_case_state, elim conjE)
  fix s assume "ready {} tag s" and "hm_get (ss_fids s) fid = Some st"
  then have r: "ready {fid} tag (insert_fid fid FidPending s)"
    using st(1) by (rule ready_insert_pending)
  have "hoare ((=) (insert_fid fid FidPending s)) (on_err emit (insert_fid fid st))
      (\<lambda>_. session_ok) session_ok"
    by (rule hoare_on_err [OF hoare_at [OF emit r]]) (rule insert_fid_inv [OF _ st])
  then show "hoare ((=) s) (with_pending_fid fid st emit) (\<lambda>_. session_ok) session_ok"
    by (simp add: hoare_def with_pending_fid_def)
qed

lemma hoare_take_over:
  assumes "continuation_expects c (ExpectFilesystem (operation_expected_result op))"
    and "continuation_fid c = Some fid" and "\<And>m. continuation_ok m c" and "object_ok object"
  shows "hoare (\<lambda>s. ready {} tag s \<and> hm_get (ss_fids s) fid = Some (FidObject object))
    (with_pending_fid fid (FidObject object) (emit_filesystem tag (object_request object op) c wb))
    (\<lambda>_. session_ok) session_ok"
proof (rule hoare_with_pending_fid)
  show "hoare (ready {fid} tag) (emit_filesystem tag (object_request object op) c wb)
      (\<lambda>_. session_ok) (session_inv {fid} {#})"
    unfolding object_request_def
    by (rule hoare_pre [OF hoare_emit_filesystem [OF assms(1)]]) (use assms(2,3) in auto)
qed (use assms(4) in simp_all)

text \<open>An operation that claims a new fid.\<close>

lemma handles_with_claimed_fid:
  assumes "hoare (ready {fid} tag) emit (\<lambda>_. session_ok) (session_inv {fid} {#})"
    and "\<And>s. session_inv {fid} {#} s \<Longrightarrow> session_ok (undo s)"
  shows "handles tag (with_claimed_fid tag fid emit undo)"
  unfolding with_claimed_fid_def
proof (rule hoare_sbind)
  show "hoare (ready {} tag) (claim_fid tag fid)
      (\<lambda>claimed. if claimed then ready {fid} tag else ready {} tag) session_ok"
    by (rule hoare_post [OF hoare_claim_fid]) (auto dest: readyD)
  show "hoare (if claimed then ready {fid} tag else ready {} tag)
      (if claimed then on_err emit undo else sreturn ()) (\<lambda>_. session_ok) session_ok" for claimed
    by (cases claimed) (auto intro: hoare_on_err [OF assms(1)] assms(2) handles_sreturn)
qed

lemma io_maximum_le: "unat (io_maximum n s) \<le> unat (active_msize s) - 11"
proof -
  have "io_maximum n s \<le> saturating_sub (active_msize s) 11"
    by (simp add: io_maximum_def)
  then show ?thesis
    by (simp add: word_le_nat_alt)
qed

end
