(* ===== verification/Session_Preserve.thy ===== *)
theory Session_Preserve
  imports Session_Invariant
begin

text \<open>
  Every request handler, the cleanup methods, completion and polling keep the session invariant.
\<close>

section \<open>Handlers that emit one operation\<close>

lemma handles_pre: "handles tag m \<Longrightarrow> hoare (\<lambda>s. ready {} tag s \<and> X s) m (\<lambda>_. session_ok) session_ok"
  by (rule hoare_pre [of "ready {} tag"]) auto

lemma hoare_gets:
  assumes "\<And>x. hoare (\<lambda>s. P s \<and> g s = x) (f x) Q E"
  shows "hoare P (\<lambda>s. f (g s) s) Q E"
  using assms by (simp add: hoare_def)

lemmas handles_simple =
  handles_pre [OF handles_state_error] handles_pre [OF handles_respond]
  handles_pre [OF handles_emit_object_checked] handles_pre [OF handles_sreturn]

lemma handles_fsync: "handles tag (handle_fsync tag fid d)"
  unfolding handle_fsync_def
  by (rule handles_with_object) (auto split: option.split intro!: handles_simple)

lemma handles_lock: "handles tag (handle_lock tag fid l)"
  unfolding handle_lock_def
  by (rule handles_with_object) (auto split: option.split intro!: handles_simple)

lemma handles_getlock: "handles tag (handle_getlock tag fid l)"
  unfolding handle_getlock_def
  by (rule handles_with_object) (auto split: option.split intro!: handles_simple)

lemma handles_mkdir: "handles tag (handle_mkdir tag d name mode gid)"
  unfolding handle_mkdir_def by (rule handles_with_directory) (auto intro!: handles_simple)

lemma handles_mknod: "handles tag (handle_mknod tag d name mode major minor gid)"
  unfolding handle_mknod_def by (rule handles_with_directory) (auto intro!: handles_simple)

lemma handles_symlink: "handles tag (handle_symlink tag d name target gid)"
  unfolding handle_symlink_def by (rule handles_with_directory) (auto intro!: handles_simple)

lemma handles_unlink_at: "handles tag (handle_unlink_at tag d name flags)"
  unfolding handle_unlink_at_def by (rule handles_with_directory) (auto intro!: handles_simple)

lemma handles_link: "handles tag (handle_link tag d target name)"
  unfolding handle_link_def
  by (rule handles_with_directory, rule handles_pre, rule handles_with_object)
    (auto intro!: handles_simple)

lemma handles_rename: "handles tag (handle_rename tag fid d name)"
  unfolding handle_rename_def
  by (rule handles_with_object, rule handles_pre, rule handles_with_directory)
    (auto intro!: handles_simple)

lemma handles_rename_at: "handles tag (handle_rename_at tag d name d' name')"
  unfolding handle_rename_at_def
  by (rule handles_with_directory, rule handles_pre, rule handles_with_directory)
    (auto intro!: handles_simple)

lemma handles_statfs: "handles tag (handle_statfs tag fid)"
  unfolding handle_statfs_def by (rule handles_with_fid) (auto intro!: handles_simple)

lemma handles_getattr: "handles tag (handle_getattr tag fid m)"
  unfolding handle_getattr_def by (rule handles_with_fid) (auto intro!: handles_simple)

lemma handles_setattr: "handles tag (handle_setattr tag fid attributes)"
  unfolding handle_setattr_def by (rule handles_with_fid) (auto intro!: handles_simple)

lemma handles_readlink: "handles tag (handle_readlink tag fid)"
  unfolding handle_readlink_def by (rule handles_with_fid) (auto intro!: handles_simple)

section \<open>Handlers that bound a payload\<close>

lemma handles_bounded:
  assumes "continuation_expects c (ExpectFilesystem (operation_expected_result op))"
    and "continuation_fid c = None" and "\<And>s. P s \<Longrightarrow> continuation_ok (active_msize s) c"
  shows "hoare (\<lambda>s. (ready {} tag s \<and> X s) \<and> P s) (emit_object_checked tag object op c wb)
    (\<lambda>_. session_ok) session_ok"
  by (rule hoare_pre [OF hoare_emit_object_checked [OF assms(1,2)]]) (use assms(3) in auto)

text \<open>The payload is bounded by \<open>io_maximum\<close> in the state the operation is emitted from.\<close>

lemma handles_readdir: "handles tag (handle_readdir tag fid offset n)"
  unfolding handle_readdir_def Let_def
proof (rule handles_with_fid, split option.split, intro conjI impI allI)
  fix object opn
  let ?P = "\<lambda>s. ready {} tag s \<and> hm_get (ss_fids s) fid = Some (FidObject object)"
  have "hoare ?P (\<lambda>s. emit_object_checked tag object (FsReadDir opn offset (io_maximum n s))
      (ContReaddir (io_maximum n s)) 0 s) (\<lambda>_. session_ok) session_ok"
    by (rule hoare_gets, rule handles_bounded) (auto simp: io_maximum_le)
  then show "hoare ?P (if \<not> contains_bits (qid_ty (of_qid object)) QidType_DIRECTORY \<or> of_xattr object \<noteq> None
      then respond tag (ResLerror ENOTDIR)
      else (\<lambda>s. emit_object_checked tag object (FsReadDir opn offset (io_maximum n s))
             (ContReaddir (io_maximum n s)) 0 s)) (\<lambda>_. session_ok) session_ok"
    by (auto intro: handles_simple)
qed (rule handles_simple)

lemma handles_xattr_read: "handles tag (handle_xattr_read tag object xattr offset n)"
proof (cases "xs_mode xattr")
  case (XattrReadMode sz)
  show ?thesis
  proof (cases "sz \<le> offset")
    case True
    then show ?thesis
      using handles_respond [of tag tag "ResRead []"]
      by (simp add: handle_xattr_read_def XattrReadMode hoare_def)
  next
    case False
    define f where "f maximum = emit_object_checked tag object
      (FsXattrRead (xs_handle xattr) offset maximum) (ContXattrRead maximum) 0" for maximum
    let ?max = "\<lambda>s. min (io_maximum n s) (try_from_or_max (unat (sz - offset)) :: u32)"
    have le: "unat (?max s) \<le> unat (active_msize s) - 11" for s
      using io_maximum_le [of n s] by (simp add: min_def word_le_nat_alt)
    have "handles tag (\<lambda>s. f (?max s) s)"
      unfolding f_def
      by (rule hoare_gets, rule hoare_pre [OF hoare_emit_object_checked]) (use le in auto)
    moreover have "handle_xattr_read tag object xattr offset n = (\<lambda>s. f (?max s) s)"
      using False by (simp add: handle_xattr_read_def XattrReadMode f_def Let_def fun_eq_iff)
    ultimately show ?thesis
      by simp
  qed
next
  case (XattrWriteMode e w)
  then show ?thesis
    using handles_state_error [of tag tag WrongFidKind] by (simp add: handle_xattr_read_def hoare_def)
qed

lemma handles_read_open:
  "handles tag (\<lambda>s. let maximum = io_maximum n s in
     if checked_add offset (ucast maximum) = None then respond tag (ResLerror EOVERFLOW) s
     else emit_object_checked tag object (FsRead opn offset maximum) (ContRead maximum) 0 s)"
proof -
  define f where "f maximum =
    (if checked_add offset (ucast maximum :: u64) = None then respond tag (ResLerror EOVERFLOW)
     else emit_object_checked tag object (FsRead opn offset maximum) (ContRead maximum) 0)"
    for maximum :: u32
  have "hoare (\<lambda>s. ready {} tag s \<and> io_maximum n s = m) (f m) (\<lambda>_. session_ok) session_ok" for m
    unfolding f_def
    by (rule hoare_if, rule handles_simple, rule hoare_pre [OF hoare_emit_object_checked])
      (auto simp: io_maximum_le)
  then have "handles tag (\<lambda>s. f (io_maximum n s) s)"
    by (rule hoare_gets)
  moreover have "(\<lambda>s. f (io_maximum n s) s) = (\<lambda>s. let maximum = io_maximum n s in
     if checked_add offset (ucast maximum) = None then respond tag (ResLerror EOVERFLOW) s
     else emit_object_checked tag object (FsRead opn offset maximum) (ContRead maximum) 0 s)"
    by (simp add: f_def Let_def fun_eq_iff)
  ultimately show ?thesis
    by simp
qed

lemma handles_file_read: "handles tag (handle_file_read tag fid offset n)"
  unfolding handle_file_read_def
  by (rule handles_with_fid)
    (auto split: option.split intro!: handles_simple handles_pre [OF handles_xattr_read]
      handles_pre [OF handles_read_open])

lemma hoare_emit_policy_none:
  assumes "continuation_expects c (ExpectPolicy (policy_expected_result request))"
    and "continuation_fid c = None"
  shows "hoare (\<lambda>s. ready {} tag s \<and> continuation_ok (active_msize s) c)
    (emit_policy tag request c wb) (\<lambda>_. session_ok) session_ok"
  using hoare_emit_policy [OF assms(1), of "{}"] assms(2) by simp

lemma handles_auth_read: "handles tag (handle_auth_read tag fid offset n)"
  unfolding handle_auth_read_def Let_def
  by (rule handles_with_auth, rule hoare_gets, rule hoare_pre [OF hoare_emit_policy_none])
    (auto simp: io_maximum_le)

lemma handles_auth_write: "handles tag (handle_auth_write tag fid offset data)"
  unfolding handle_auth_write_def
  by (rule handles_with_auth, rule hoare_pre [OF hoare_emit_policy_none]) auto

section \<open>Handlers that hold a fid\<close>

lemma handles_case_sum:
  assumes "hoare P m Q E" and "hoare P n Q E"
  shows "hoare P (case r of Inl x \<Rightarrow> m | Inr y \<Rightarrow> n) Q E"
  using assms by (simp split: sum.split)

lemma handles_open: "handles tag (handle_open tag fid flags)"
  unfolding handle_open_def Let_def
  by (rule handles_with_fid, rule hoare_if, rule handles_simple, rule handles_case_sum,
      rule handles_simple, rule hoare_take_over) auto

lemma handles_create: "handles tag (handle_create tag fid name flags mode gid)"
  unfolding handle_create_def Let_def
  by (rule handles_with_fid, rule hoare_if, rule handles_simple, rule handles_case_sum,
      rule handles_simple, rule hoare_take_over) auto

lemma handles_remove: "handles tag (handle_remove tag fid)"
  unfolding handle_remove_def Let_def
  by (rule handles_with_fid, rule hoare_if, rule handles_simple, rule handles_case_sum,
      rule handles_simple, rule hoare_take_over) auto

lemma handles_xattr_create: "handles tag (handle_xattr_create tag fid name sz flags)"
  unfolding handle_xattr_create_def Let_def
  by (rule handles_with_object, rule hoare_if, rule handles_simple, rule handles_case_sum,
      rule handles_simple, rule hoare_take_over) auto

lemma hoare_clunk_release:
  "object_ok object \<Longrightarrow>
   hoare (\<lambda>s. ready {} tag s \<and> hm_get (ss_fids s) fid = Some (FidObject object))
     (clunk_release tag fid object) (\<lambda>_. session_ok) session_ok"
  unfolding clunk_release_def by (rule hoare_take_over) auto

lemma handles_object_clunk: "handles tag (handle_object_clunk tag fid)"
  unfolding handle_object_clunk_def
proof (rule handles_with_fid)
  fix object assume o: "object_ok object"
  have xattr_write: "hoare (\<lambda>s. ready {} tag s \<and> hm_get (ss_fids s) fid = Some (FidObject object))
    (let (operation, continuation) =
       (if written = expected_size
        then (FsXattrCommit handle expected_size, ContXattrCommitFid fid)
        else (FsRelease (of_object object) (of_open object) (Some handle), ContXattrAbortFid fid EINVAL))
     in (case require_for (of_capabilities object) operation of
           Inl missing \<Rightarrow> queue_state_error tag Unsupported
         | Inr _ \<Rightarrow> with_pending_fid fid (FidObject object)
             (emit_filesystem tag (object_request object operation) continuation 0)))
    (\<lambda>_. session_ok) session_ok" for written expected_size handle
    using o by (auto simp: Let_def intro!: handles_case_sum handles_simple hoare_take_over)
  show "hoare (\<lambda>s. ready {} tag s \<and> hm_get (ss_fids s) fid = Some (FidObject object))
     (case of_xattr object of
         None \<Rightarrow> clunk_release tag fid object
       | Some xattr \<Rightarrow>
           (case xs_mode xattr of
              XattrReadMode sz \<Rightarrow> clunk_release tag fid object
            | XattrWriteMode expected_size written \<Rightarrow>
                let (operation, continuation) =
                  (if written = expected_size
                   then (FsXattrCommit (xs_handle xattr) expected_size, ContXattrCommitFid fid)
                   else (FsRelease (of_object object) (of_open object) (Some (xs_handle xattr)),
                         ContXattrAbortFid fid EINVAL))
                in (case require_for (of_capabilities object) operation of
                      Inl missing \<Rightarrow> queue_state_error tag Unsupported
                    | Inr _ \<Rightarrow>
                        with_pending_fid fid (FidObject object)
                          (emit_filesystem tag (object_request object operation) continuation 0))))
     (\<lambda>_. session_ok) session_ok"
    by (simp only: xattr_write hoare_clunk_release [OF o] split: option.split xattr_mode.split) simp
qed

lemma unat_try_from_or_max_le: "unat (try_from_or_max n :: 'a::len word) \<le> n"
  by (auto simp: try_from_or_max_def try_from_nat_def unat_of_nat unsigned_minus_1_eq_mask
      mask_eq_exp_minus_1)

lemma xattr_write_bound:
  assumes "checked_add w (of_nat (length data) :: u64) = Some stop" and "stop \<le> e"
    and "length data \<le> usize_max"
  shows "unat w + unat (try_from_or_max (length data) :: u32) \<le> unat e"
proof -
  have "unat (of_nat (length data) :: u64) = length data"
    using assms(3) by (simp add: unat_of_nat usize_max_def)
  then have "unat stop = unat w + length data"
    using unat_checked_add [OF assms(1)] by simp
  then show ?thesis
    using unat_try_from_or_max_le [of "length data", where 'a = 32] assms(2)
    by (simp add: word_le_nat_alt)
qed

lemma hoare_xattr_write:
  assumes "object_ok object" and "of_xattr object = Some xattr" and "length data \<le> usize_max"
  shows "hoare (\<lambda>s. ready {} tag s \<and> hm_get (ss_fids s) fid = Some (FidObject object))
    (handle_xattr_write tag fid object xattr offset data) (\<lambda>_. session_ok) session_ok"
proof (cases "xs_mode xattr")
  case (XattrReadMode sz)
  then show ?thesis
    by (simp add: handle_xattr_write_def handles_simple)
next
  case (XattrWriteMode e w)
  have emit: "hoare (\<lambda>s. ready {} tag s \<and> hm_get (ss_fids s) fid = Some (FidObject object))
    (with_pending_fid fid (FidObject object)
       (emit_filesystem tag (object_request object (FsXattrWrite (xs_handle xattr) offset data))
          (ContXattrWrite fid object (try_from_or_max (length data))) (length data)))
    (\<lambda>_. session_ok) session_ok"
    if "checked_add offset (of_nat (length data)) = Some stop" and "offset = w" and "stop \<le> e" for stop
    using xattr_write_bound [of w data stop e] that assms XattrWriteMode
    by (intro hoare_take_over) auto
  show ?thesis
    using emit
    by (auto simp: handle_xattr_write_def XattrWriteMode Let_def split: option.split
        intro!: handles_simple handles_case_sum)
qed

lemma handles_file_write:
  assumes "length data \<le> usize_max"
  shows "handles tag (handle_file_write tag fid offset data)"
  unfolding handle_file_write_def Let_def
  by (rule handles_with_fid)
    (auto split: option.split intro!: handles_simple hoare_xattr_write assms)

lemma handles_xattr_walk: "handles tag (handle_xattr_walk tag fid new_fid name)"
proof -
  have "hoare (ready {new_fid} tag)
      (emit_filesystem tag (object_request source (FsXattrWalk (of_object source) name))
         (ContXattrWalk new_fid source) 0) (\<lambda>_. session_ok) (session_inv {new_fid} {#})"
    if "object_ok source" for source
    unfolding object_request_def
    by (rule hoare_pre [OF hoare_emit_filesystem]) (use that in auto)
  then have "handles tag (with_claimed_fid tag new_fid
      (emit_filesystem tag (object_request source (FsXattrWalk (of_object source) name))
         (ContXattrWalk new_fid source) 0) (retire_fid new_fid))" if "object_ok source" for source
    using that by (intro handles_with_claimed_fid) (auto intro: retire_fid_inv)
  then show ?thesis
    unfolding handle_xattr_walk_def Let_def
    by (auto intro!: hoare_if handles_with_object handles_case_sum handles_simple handles_intros
        intro: handles_pre)
qed

text \<open>\<open>handle_walk\<close> with names, in its two forms: in place and to a new fid.\<close>

lemma rollback_walk_inv:
  assumes "session_inv {new_fid} Q s" and "object_ok source"
  shows "session_inv {} Q (rollback_walk source_fid new_fid source s)"
  using assms insert_fid_inv retire_fid_inv by (auto simp: rollback_walk_def)

lemma hoare_walk_emit:
  assumes "object_ok source"
  shows "hoare (ready {new_fid} tag)
    (emit_filesystem tag (object_request source (FsWalk (of_object source) names))
       (ContWalk source_fid new_fid source n) 0) (\<lambda>_. session_ok) (session_inv {new_fid} {#})"
  unfolding object_request_def
  by (rule hoare_pre [OF hoare_emit_filesystem]) (use assms in auto)

lemma hoare_walk_in_place:
  assumes "object_ok source"
  shows "hoare (\<lambda>s. ready {} tag s \<and> hm_get (ss_fids s) fid = Some (FidObject source))
    (sbind (smodify (insert_fid fid FidPending))
       (\<lambda>_. on_err (emit_filesystem tag (object_request source (FsWalk (of_object source) names))
            (ContWalk fid fid source n) 0) (rollback_continuation (ContWalk fid fid source n))))
    (\<lambda>_. session_ok) session_ok"
proof (rule hoare_sbind [where R = "\<lambda>_. ready {fid} tag"])
  show "hoare (\<lambda>s. ready {} tag s \<and> hm_get (ss_fids s) fid = Some (FidObject source))
      (smodify (insert_fid fid FidPending)) (\<lambda>_. ready {fid} tag) session_ok"
    by (rule hoare_smodify) (auto intro: ready_insert_pending)
  show "hoare (ready {fid} tag)
      (on_err (emit_filesystem tag (object_request source (FsWalk (of_object source) names))
            (ContWalk fid fid source n) 0) (rollback_continuation (ContWalk fid fid source n)))
      (\<lambda>_. session_ok) session_ok" for u :: unit
    by (rule hoare_on_err [OF hoare_walk_emit [OF assms]]) (simp add: rollback_walk_inv assms)
qed

lemma handles_walk_to:
  assumes "object_ok source"
  shows "handles tag (with_claimed_fid tag new_fid
    (emit_filesystem tag (object_request source (FsWalk (of_object source) names))
       (ContWalk source_fid new_fid source n) 0)
    (rollback_continuation (ContWalk source_fid new_fid source n)))"
  by (rule handles_with_claimed_fid [OF hoare_walk_emit [OF assms]])
    (simp add: rollback_walk_inv assms)

lemma handles_walk_clone:
  assumes "object_ok source"
  shows "handles tag (sbind (claim_fid tag new_fid) (\<lambda>claimed.
    if claimed then
      sbind (smodify (insert_fid new_fid (FidObject source))) (\<lambda>_. respond tag (ResWalk []))
    else sreturn ()))"
proof (rule hoare_sbind)
  show "hoare (ready {} tag) (claim_fid tag new_fid)
      (\<lambda>claimed. if claimed then ready {new_fid} tag else ready {} tag) session_ok"
    by (rule hoare_post [OF hoare_claim_fid]) (auto dest: readyD)
  have "hoare (ready {new_fid} tag)
      (sbind (smodify (insert_fid new_fid (FidObject source))) (\<lambda>_. respond tag (ResWalk [])))
      (\<lambda>_. session_ok) session_ok"
    by (rule hoare_sbind [where R = "\<lambda>_. session_ok"])
      (auto intro!: hoare_smodify insert_fid_inv hoare_respond simp: assms dest: readyD)
  then show "hoare (if claimed then ready {new_fid} tag else ready {} tag)
      (if claimed then
         sbind (smodify (insert_fid new_fid (FidObject source))) (\<lambda>_. respond tag (ResWalk []))
       else sreturn ()) (\<lambda>_. session_ok) session_ok" for claimed
    by (auto intro: handles_sreturn)
qed

lemma handles_walk: "handles tag (handle_walk tag source_fid new_fid names)"
  unfolding handle_walk_def Let_def
  by (rule handles_with_fid)
    (auto intro!: hoare_if handles_simple handles_case_sum hoare_walk_in_place
      handles_pre [OF handles_walk_to] handles_pre [OF handles_walk_clone])

lemma handles_claim_policy:
  assumes "continuation_expects c (ExpectPolicy (policy_expected_result request))"
    and "continuation_fid c = Some fid" and "\<And>m. continuation_ok m c"
  shows "handles tag (with_claimed_fid tag fid (emit_policy tag request c 0) (retire_fid fid))"
proof (rule handles_with_claimed_fid)
  show "hoare (ready {fid} tag) (emit_policy tag request c 0) (\<lambda>_. session_ok) (session_inv {fid} {#})"
    by (rule hoare_pre [OF hoare_emit_policy [OF assms(1)]]) (use assms(2,3) in auto)
qed (rule retire_fid_inv)

lemma handles_auth: "handles tag (handle_auth tag afid uname aname n_uname)"
proof (rule hoare_case_state)
  fix s assume r: "ready {} tag s"
  show "hoare ((=) s) (handle_auth tag afid uname aname n_uname) (\<lambda>_. session_ok) session_ok"
  proof (cases "afid = NOFID")
    case True
    then show ?thesis
      by (intro hoare_eq_state [OF hoare_at [OF handles_state_error [of tag tag InvalidRequest] r]])
        (simp add: handle_auth_def)
  next
    case False
    show ?thesis
      by (rule hoare_eq_state [OF hoare_at [OF handles_claim_policy r]]) (use False in \<open>auto simp: handle_auth_def\<close>)
  qed
qed

lemma handles_attach: "handles tag (handle_attach tag fid afid uname aname n_uname)"
proof (rule hoare_case_state)
  fix s assume r: "ready {} tag s"
  define attach where "attach auth = with_claimed_fid tag fid
    (emit_policy tag (AttachExport fid auth (from_wire uname n_uname) aname
       (sc_transport_principal (ss_context s))) (ContAttach fid) 0) (retire_fid fid)" for auth
  have a: "hoare ((=) s) (attach auth) (\<lambda>_. session_ok) session_ok" for auth
    unfolding attach_def by (rule hoare_at [OF handles_claim_policy r]) auto
  have e: "hoare ((=) s) (queue_state_error tag err) (\<lambda>_. session_ok) session_ok" for err
    by (rule hoare_at [OF handles_state_error r])
  have "(\<exists>err. handle_attach tag fid afid uname aname n_uname s = queue_state_error tag err s) \<or>
      (\<exists>auth. handle_attach tag fid afid uname aname n_uname s = attach auth s)"
    by (cases rule: fid_lookup_cases [of s afid]) (auto simp: handle_attach_def attach_def Let_def)
  then show "hoare ((=) s) (handle_attach tag fid afid uname aname n_uname) (\<lambda>_. session_ok) session_ok"
    using a e hoare_eq_state by metis
qed

lemma handles_auth_clunk: "handles tag (handle_auth_clunk tag fid)"
  unfolding handle_auth_clunk_def
proof (rule handles_with_auth, rule hoare_with_pending_fid)
  fix qid handle
  show "hoare (ready {fid} tag) (emit_policy tag (ClunkAuth handle) (ContAuthClunk fid) 0)
      (\<lambda>_. session_ok) (session_inv {fid} {#})"
    by (rule hoare_pre [OF hoare_emit_policy]) auto
qed simp_all

section \<open>Flush\<close>

lemma hm_insert_fresh: "hm_get m k = None \<Longrightarrow> hm_insert k v m = m @ [(k, v)]"
  by (induction m) (auto simp: hm_insert_def hm_get_def split: if_splits)

lemma keys_hm_insert: "fst ` set (hm_insert k v m) = insert k (fst ` set m)"
  using dom_update [of k v m] by (simp add: hm_insert_def)

lemma flush_waiters_insert_fresh:
  "hm_ok m \<Longrightarrow> hm_get m t = None \<Longrightarrow>
   flush_waiters (hm_insert t f m) = mset (fs_waiters f) + flush_waiters m"
  by (simp add: flush_waiters_def hm.mset_entries_ins_fresh)

lemma flush_waiters_remove:
  "hm_ok m \<Longrightarrow> hm_get m t = Some f \<Longrightarrow>
   flush_waiters m = mset (fs_waiters f) + flush_waiters (hm_remove t m)"
  by (simp add: flush_waiters_def hm.mset_entries_rem [of m t f])

lemma flush_waiters_insert_old:
  "hm_ok m \<Longrightarrow> hm_get m t = Some f \<Longrightarrow>
   flush_waiters (hm_insert t g m) = mset (fs_waiters g) + flush_waiters (hm_remove t m)"
  by (simp add: flush_waiters_def hm.mset_entries_ins_old)

lemma pending_waiters_insert_old:
  "hm_ok m \<Longrightarrow> hm_get m t = Some p \<Longrightarrow>
   pending_waiters (hm_insert t q m) = mset (po_flush_waiters q) + pending_waiters (hm_remove t m)"
  by (simp add: pending_waiters_def hm.mset_entries_ins_old)

lemma mset_keys_insert_fresh:
  "hm_get m k = None \<Longrightarrow> mset (map fst (hm_insert k v m)) = add_mset k (mset (map fst m))"
  by (simp add: hm_insert_fresh)

lemma map_fst_insert_old: "hm_get m k = Some w \<Longrightarrow> map fst (hm_insert k v m) = map fst m"
  by (induction m) (auto simp: hm_insert_def hm_get_def split: if_splits)

lemma flushes_ordered_append:
  "flushes_ordered m \<Longrightarrow> fs_waiters f = [] \<Longrightarrow> flushes_ordered (m @ [(t, f)])"
  by (induction m rule: flushes_ordered.induct) auto

lemma flushes_ordered_nested:
  assumes "flushes_ordered m" and "hm_get m k = Some f" and "hm_get m t = None"
    and "fs_waiters d = []" and "set (fs_waiters g) \<subseteq> insert t (set (fs_waiters f))"
  shows "flushes_ordered (hm_insert k g (m @ [(t, d)]))"
  using assms(1-3)
proof (induction m)
  case (Cons e m)
  obtain a b where e: "e = (a, b)" by fastforce
  show ?case
  proof (cases "a = k")
    case True
    then show ?thesis
      using Cons e assms(4,5) flushes_ordered_append [of m d t]
      by (auto simp: hm_insert_def hm_get_def)
  next
    case False
    then have "flushes_ordered (hm_insert k g (m @ [(t, d)]))"
      using Cons e by (auto simp: hm_get_def split: if_splits)
    moreover have "set (fs_waiters b) \<subseteq> fst ` set (hm_insert k g (m @ [(t, d)]))"
      using Cons e by (auto simp: keys_hm_insert)
    ultimately show ?thesis
      using False e by (simp add: hm_insert_def)
  qed
qed (simp add: hm_get_def)

text \<open>A pending operation replaced by one for the same request.\<close>

definition same_request :: "pending_operation \<Rightarrow> pending_operation \<Rightarrow> bool" where
  "same_request p q \<longleftrightarrow>
     po_operation_id q = po_operation_id p \<and> po_expected q = po_expected p \<and> po_kind q = po_kind p \<and>
     po_continuation q = po_continuation p \<and> po_write_bytes q = po_write_bytes p"

lemma owns_same_request:
  "hm_get pend t = Some p \<Longrightarrow> same_request p q \<Longrightarrow> owns (hm_insert t q pend) = owns pend"
  by (auto simp: owns_def same_request_def fun_eq_iff)

lemma owners_ok_owns: "owns pend' = owns pend \<Longrightarrow> owners_ok H pend' fids \<longleftrightarrow> owners_ok H pend fids"
  by (simp add: owners_ok_def)

lemma tables_ok_disjoint:
  "tables_ok pend flushes index aband ids last_id \<Longrightarrow> hm_get pend t = None \<or> hm_get flushes t = None"
  by (simp add: tables_ok_def)

lemma tables_ok_flushes:
  assumes "tables_ok pend flushes index aband ids last_id" and "hm_ok flushes'"
    and "\<forall>t. hm_get pend t = None \<or> hm_get flushes' t = None"
  shows "tables_ok pend flushes' index aband ids last_id"
  using assms unfolding tables_ok_def by (elim conjE, intro conjI) assumption+

lemma tables_ok_same_request:
  assumes ok: "tables_ok pend flushes index aband ids last_id" and p: "hm_get pend t = Some p"
    and same: "same_request p q"
  shows "tables_ok (hm_insert t q pend) flushes index aband ids last_id"
proof -
  have "hm_get index i = Some v \<longleftrightarrow> (\<exists>r. hm_get (hm_insert t q pend) v = Some r \<and> po_operation_id r = i)" for i v
    using ok p same by (simp add: tables_ok_def same_request_def)
  moreover have "hm_get (hm_insert t q pend) v = None \<or> hm_get flushes v = None" for v
    using tables_ok_disjoint [OF ok, of v] p by auto
  ultimately show ?thesis
    using ok by (simp add: tables_ok_def)
qed

end
