(* ===== verification/Session_Close.thy ===== *)
theory Session_Close
  imports Session_Preserve Wire_Format
begin

text \<open>
  Preservation of the session invariant by the operations that restructure the tables: flush,
  cleanup and closing, version negotiation; then by the dispatcher and the two input entry
  points.
\<close>

section \<open>Flush\<close>

definition flushed :: "pending_operation \<Rightarrow> tag \<Rightarrow> pending_operation" where
  "flushed p tag =
     p\<lparr>po_response_suppressed := True, po_cancellation_requested := True,
       po_flush_waiters := po_flush_waiters p @ [tag]\<rparr>"

definition flush_recorded ::
  "(tag, pending_operation) hmap \<Rightarrow> (tag, flush_state) hmap \<Rightarrow> session \<Rightarrow> session" where
  "flush_recorded pend flushes s =
     s\<lparr>ss_accounting := (ss_accounting s)
         \<lparr>acc_in_flight_tags := acc_in_flight_tags (ss_accounting s) + 1\<rparr>,
       ss_pending_by_tag := pend, ss_flushes := flushes\<rparr>"

lemma same_request_flushed: "same_request p (flushed p tag)"
  by (simp add: same_request_def flushed_def)

lemma hm_sum_same:
  assumes "hm_ok m" and "hm_get m k = Some p" and "f q = f p"
  shows "hm_sum f (hm_insert k q m) = hm_sum f m"
  using hm_sum_insert_old [OF assms(1,2), of f q] hm_sum_remove [OF assms(1,2), of f] assms(3) by simp

lemma flush_pending_inv:
  assumes r: "ready {} tag s" and p: "hm_get (ss_pending_by_tag s) old_tag = Some p"
    and room: "acc_in_flight_tags (ss_accounting s) + 1 \<le> max_in_flight_tags (session_limits s)"
  shows "session_ok (flush_recorded (hm_insert old_tag (flushed p tag) (ss_pending_by_tag s))
    (hm_insert tag flush_state_default (ss_flushes s)) s)"
proof -
  let ?q = "flushed p tag"
  let ?pend = "hm_insert old_tag ?q (ss_pending_by_tag s)"
  let ?flushes = "hm_insert tag flush_state_default (ss_flushes s)"
  have inv: "session_ok s" and fresh: "hm_get (ss_pending_by_tag s) tag = None"
    "hm_get (ss_flushes s) tag = None" and active: "ss_terminal_reason s = None"
    using r by (simp_all add: ready_def)
  have maps: "hm_ok (ss_pending_by_tag s)" "hm_ok (ss_flushes s)"
    using inv by (simp_all add: session_inv_def tables_ok_def)
  have disjoint: "hm_get ?pend t = None \<or> hm_get ?flushes t = None" for t
    using inv tables_ok_disjoint [of "ss_pending_by_tag s" "ss_flushes s" _ _ _ _ t] p fresh
    by (auto simp: session_inv_def)
  have "tables_ok ?pend (ss_flushes s) (ss_tag_by_operation s) (ss_abandoned_operations s)
      (ss_operation_ids s) (ss_last_issued_operation_id s)"
    using inv p same_request_flushed by (auto simp: session_inv_def intro: tables_ok_same_request)
  then have "tables_ok ?pend ?flushes (ss_tag_by_operation s) (ss_abandoned_operations s)
      (ss_operation_ids s) (ss_last_issued_operation_id s)"
    by (rule tables_ok_flushes) (use maps disjoint hm.ok_ins in auto)
  moreover have "counts_ok (session_limits s)
      ((ss_accounting s)\<lparr>acc_in_flight_tags := acc_in_flight_tags (ss_accounting s) + 1\<rparr>) ?pend ?flushes"
    using inv maps p fresh room hm_sum_same [OF maps(1) p, of po_write_bytes ?q]
    by (simp add: session_inv_def counts_ok_def hm_length_insert flushed_def)
  moreover have "flushes_ordered ?flushes"
    using inv fresh
    by (auto simp: session_inv_def flush_ok_def hm_insert_fresh flush_state_default_def
        intro: flushes_ordered_append)
  then have "flush_ok {#} ?pend ?flushes"
    using inv maps p fresh pending_waiters_remove [OF maps(1) p]
      mset_keys_insert_fresh [OF fresh(2), of flush_state_default]
    by (auto simp: session_inv_def flush_ok_def pending_waiters_insert_old
        flush_waiters_insert_fresh flush_state_default_def flushed_def split: if_splits)
  moreover have "all_pending_ok (active_msize s) ?pend"
    using inv p by (auto simp: session_inv_def all_pending_ok_def pending_ok_def flushed_def)
  moreover have "owners_ok {} ?pend (ss_fids s) \<longleftrightarrow> owners_ok {} (ss_pending_by_tag s) (ss_fids s)"
    using owners_ok_owns [OF owns_same_request [OF p same_request_flushed]] .
  moreover have "active_msize (flush_recorded ?pend ?flushes s) = active_msize s"
    by (rule active_msize_cong) (simp_all add: flush_recorded_def)
  ultimately show ?thesis
    using inv active
    by (simp add: session_inv_def flush_recorded_def effects_ok_def fids_ok_def lifecycle_ok_def)
qed

lemma flush_nested_inv:
  assumes r: "ready {} tag s" and f: "hm_get (ss_flushes s) old_tag = Some f"
    and room: "acc_in_flight_tags (ss_accounting s) + 1 \<le> max_in_flight_tags (session_limits s)"
  shows "session_ok (flush_recorded (ss_pending_by_tag s)
    (hm_insert old_tag (f\<lparr>fs_response_suppressed := True, fs_waiters := fs_waiters f @ [tag]\<rparr>)
       (hm_insert tag flush_state_default (ss_flushes s))) s)"
proof -
  let ?g = "f\<lparr>fs_response_suppressed := True, fs_waiters := fs_waiters f @ [tag]\<rparr>"
  let ?new = "hm_insert tag flush_state_default (ss_flushes s)"
  let ?flushes = "hm_insert old_tag ?g ?new"
  have inv: "session_ok s" and fresh: "hm_get (ss_pending_by_tag s) tag = None"
    "hm_get (ss_flushes s) tag = None" and active: "ss_terminal_reason s = None"
    using r by (simp_all add: ready_def)
  have maps: "hm_ok (ss_flushes s)" "hm_ok ?new"
    using inv hm.ok_ins by (simp_all add: session_inv_def tables_ok_def)
  have old: "hm_get ?new old_tag = Some f"
    using f fresh by auto
  have disjoint: "hm_get (ss_pending_by_tag s) t = None \<or> hm_get ?flushes t = None" for t
    using inv tables_ok_disjoint [of "ss_pending_by_tag s" "ss_flushes s" _ _ _ _ t] f fresh
    by (auto simp: session_inv_def)
  have "tables_ok (ss_pending_by_tag s) (ss_flushes s) (ss_tag_by_operation s)
      (ss_abandoned_operations s) (ss_operation_ids s) (ss_last_issued_operation_id s)"
    using inv by (simp add: session_inv_def)
  then have "tables_ok (ss_pending_by_tag s) ?flushes (ss_tag_by_operation s)
      (ss_abandoned_operations s) (ss_operation_ids s) (ss_last_issued_operation_id s)"
    by (rule tables_ok_flushes) (use maps disjoint hm.ok_ins in auto)
  moreover have "counts_ok (session_limits s)
      ((ss_accounting s)\<lparr>acc_in_flight_tags := acc_in_flight_tags (ss_accounting s) + 1\<rparr>)
      (ss_pending_by_tag s) ?flushes"
    using inv maps old fresh room by (simp add: session_inv_def counts_ok_def hm_length_insert)
  moreover {
  have "flush_waiters ?flushes = add_mset tag (flush_waiters (ss_flushes s))"
    using flush_waiters_remove [OF maps(2) old] flush_waiters_insert_old [OF maps(2) old, of ?g]
      flush_waiters_insert_fresh [OF maps(1) fresh(2), of flush_state_default]
    by (simp add: flush_state_default_def)
  moreover have "flushes_ordered ?flushes"
    using inv fresh f flushes_ordered_nested [of "ss_flushes s" old_tag f tag flush_state_default ?g]
    by (auto simp: session_inv_def flush_ok_def hm_insert_fresh [OF fresh(2)] flush_state_default_def)
  moreover have "mset (map fst ?flushes) = add_mset tag (mset (map fst (ss_flushes s)))"
    using map_fst_insert_old [OF old, of ?g] mset_keys_insert_fresh [OF fresh(2)] by simp
  ultimately have "flush_ok {#} (ss_pending_by_tag s) ?flushes"
    using inv by (auto simp: session_inv_def flush_ok_def flush_state_default_def split: if_splits)
  }
  moreover have "active_msize (flush_recorded (ss_pending_by_tag s) ?flushes s) = active_msize s"
    by (rule active_msize_cong) (simp_all add: flush_recorded_def)
  ultimately show ?thesis
    using inv active
    by (simp add: session_inv_def flush_recorded_def effects_ok_def fids_ok_def lifecycle_ok_def)
qed

lemma handle_flush_cases:
  assumes r: "ready {} tag s"
  shows "snd (handle_flush tag old_tag s) = s \<or>
    (\<exists>s1 es. session_ok s1 \<and> queued es s1 (snd (handle_flush tag old_tag s))) \<or>
    handle_flush tag old_tag s = respond tag ResFlush s"
proof (cases "hm_get (ss_pending_by_tag s) old_tag")
  case None
  show ?thesis
  proof (cases "hm_get (ss_flushes s) old_tag")
    case (Some f)
    show ?thesis
    proof (cases "acc_in_flight_tags (ss_accounting s) + 1 \<le> min usize_max (max_in_flight_tags (session_limits s))")
      case True
      let ?s1 = "flush_recorded (ss_pending_by_tag s)
        (hm_insert old_tag (f\<lparr>fs_response_suppressed := True, fs_waiters := fs_waiters f @ [tag]\<rparr>)
           (hm_insert tag flush_state_default (ss_flushes s))) s"
      have "old_tag \<noteq> tag"
        using r Some by (auto simp: ready_def)
      then have "snd (handle_flush tag old_tag s) = ?s1"
        using None Some True
        by (simp add: handle_flush_def hm_contains_def sbind_def reserve_in_flight_def reserve_def
            usize_checked_add_def smodify_def hm_modify_def flush_recorded_def)
      moreover have "session_ok ?s1"
        using True by (intro flush_nested_inv [OF r Some]) simp
      ultimately show ?thesis
        using queued_refl [of ?s1] by metis
    next
      case False
      then show ?thesis
        using None Some by (auto simp: handle_flush_def hm_contains_def sbind_def
            reserve_in_flight_def reserve_eq_Inr split: sum.splits)
    qed
  next
    case absent: None
    then show ?thesis
      using None by (simp add: handle_flush_def hm_contains_def)
  qed
next
  case (Some p)
  let ?s1 = "flush_recorded (hm_insert old_tag (flushed p tag) (ss_pending_by_tag s))
    (hm_insert tag flush_state_default (ss_flushes s)) s"
  show ?thesis
  proof (cases "acc_in_flight_tags (ss_accounting s) + 1 \<le> min usize_max (max_in_flight_tags (session_limits s))")
    case True
    then have "session_ok ?s1"
      by (intro flush_pending_inv [OF r Some]) simp
    moreover have "snd (handle_flush tag old_tag s) = s \<or>
        (\<exists>es. queued es ?s1 (snd (handle_flush tag old_tag s)))"
    proof (cases "po_cancellation_requested p")
      case True
      have "snd (handle_flush tag old_tag s) = ?s1"
        using \<open>_ \<le> min usize_max _\<close> Some True
        by (simp add: handle_flush_def sbind_def reserve_in_flight_def reserve_def
            usize_checked_add_def smodify_def sreturn_def hm_modify_def flush_recorded_def flushed_def)
      then show ?thesis
        using queued_refl [of ?s1] by metis
    next
      case False
      let ?e = "CancelEffect (po_operation_id p) (po_kind p)"
      let ?s0 = "s\<lparr>ss_accounting := (ss_accounting s)
        \<lparr>acc_in_flight_tags := acc_in_flight_tags (ss_accounting s) + 1\<rparr>\<rparr>"
      have run: "handle_flush tag old_tag s =
          sbind (on_err (queue_effect ?e) release_in_flight) (\<lambda>_. smodify (\<lambda>s.
            s\<lparr>ss_pending_by_tag := hm_modify old_tag (\<lambda>p. flushed p tag) (ss_pending_by_tag s),
              ss_flushes := hm_insert tag flush_state_default (ss_flushes s)\<rparr>)) ?s0"
        using \<open>_ \<le> min usize_max _\<close> Some False
        by (simp add: handle_flush_def sbind_def [of reserve_in_flight] reserve_in_flight_def reserve_def
            usize_checked_add_def flushed_def)
      show ?thesis
      proof (cases "fst (queue_effect ?e ?s0)")
        case (Inl err)
        then have "queue_effect ?e ?s0 = (Inl err, ?s0)"
          by (cases "queue_effect ?e ?s0") (auto dest: queue_effect_Inl)
        then show ?thesis
          unfolding run by (simp add: sbind_def on_err_def release_in_flight_def release_def)
      next
        case (Inr u)
        then obtain s2 where q: "queue_effect ?e ?s0 = (Inr u, s2)"
          by (cases "queue_effect ?e ?s0") auto
        then have "queued [?e] ?s1 (snd (handle_flush tag old_tag s))"
          using queue_effect_Inr [OF q] Some unfolding run
          by (auto simp: sbind_def on_err_def smodify_def queued_def flush_recorded_def hm_modify_def
              effects_ok_def)
        then show ?thesis by blast
      qed
    qed
    ultimately show ?thesis by blast
  next
    case False
    then show ?thesis
      using Some by (auto simp: handle_flush_def sbind_def reserve_in_flight_def reserve_eq_Inr
          split: sum.splits)
  qed
qed

lemma handles_flush: "handles tag (handle_flush tag old_tag)"
proof (rule hoare_case_state)
  fix s assume r: "ready {} tag s"
  have "session_ok (snd (respond tag ResFlush s))"
    by (rule hoare_snd [OF handles_respond r])
  then have "session_ok (snd (handle_flush tag old_tag s))"
    using handle_flush_cases [OF r, of old_tag] readyD [OF r] queued_inv by metis
  then show "hoare ((=) s) (handle_flush tag old_tag) (\<lambda>_. session_ok) session_ok"
    by (auto simp: hoare_def split: prod.splits sum.splits)
qed

section \<open>Closing\<close>

lemma hm_get_map: "hm_get (map (\<lambda>e. (fst e, g (snd e))) m) t = map_option g (hm_get m t)"
  by (induction m) (auto simp: hm_get_def)

lemma hm_ok_map: "hm_ok (map (\<lambda>e. (fst e, g (snd e))) m) \<longleftrightarrow> hm_ok m"
  by (simp add: hm_ok_def comp_def)

lemma hm_sum_map: "(\<And>v. f (g v) = f v) \<Longrightarrow> hm_sum f (map (\<lambda>e. (fst e, g (snd e))) m) = hm_sum f m"
  by (induction m) (auto simp: hm_sum_def)

lemma suppress_simps [simp]:
  "po_operation_id (suppress p) = po_operation_id p" "po_expected (suppress p) = po_expected p"
  "po_kind (suppress p) = po_kind p" "po_continuation (suppress p) = po_continuation p"
  "po_response_suppressed (suppress p)" "po_cancellation_requested (suppress p)"
  "po_flush_waiters (suppress p) = po_flush_waiters p" "po_write_bytes (suppress p) = po_write_bytes p"
  by (simp_all add: suppress_def)

lemma pending_waiters_suppress: "pending_waiters (map (\<lambda>e. (fst e, suppress (snd e))) m) = pending_waiters m"
  by (simp add: pending_waiters_def multiset.map_comp comp_def)

definition mute :: "flush_state \<Rightarrow> flush_state" where
  "mute f = f\<lparr>fs_response_suppressed := True\<rparr>"

lemma mute_simps [simp]: "fs_response_suppressed (mute f)" "fs_waiters (mute f) = fs_waiters f"
  by (simp_all add: mute_def)

lemma flush_waiters_mute: "flush_waiters (map (\<lambda>e. (fst e, mute (snd e))) m) = flush_waiters m"
  by (simp add: flush_waiters_def multiset.map_comp comp_def)

lemma flushes_ordered_mute: "flushes_ordered (map (\<lambda>e. (fst e, mute (snd e))) m) \<longleftrightarrow> flushes_ordered m"
  by (induction m rule: flushes_ordered.induct) (simp_all add: image_comp comp_def)

lemma owns_suppress: "owns (map (\<lambda>e. (fst e, suppress (snd e))) m) = owns m"
  by (auto simp: owns_def hm_get_map fun_eq_iff)

lemma tables_ok_suppress:
  assumes "tables_ok pend flushes index aband ids last_id"
  shows "tables_ok (map (\<lambda>e. (fst e, suppress (snd e))) pend) (map (\<lambda>e. (fst e, mute (snd e))) flushes)
    index aband ids last_id"
proof -
  have "hm_get index i = Some t \<longleftrightarrow>
      (\<exists>p. hm_get (map (\<lambda>e. (fst e, suppress (snd e))) pend) t = Some p \<and> po_operation_id p = i)" for i t
    using assms by (auto simp: tables_ok_def hm_get_map)
  then show ?thesis
    using assms by (simp add: tables_ok_def hm_get_map hm_ok_map)
qed

text \<open>The state of a closed session, whatever it was before.\<close>

lemma start_cleanup_closed:
  assumes inv: "session_inv {} Q s" and new: "\<not> ss_cleanup_started s"
    and s': "s' = s\<lparr>ss_decoder := d, ss_terminal_reason := Some r\<rparr>"
    and d: "frame_decoder_clear d = frame_decoder_clear (ss_decoder s)"
  shows "session_inv {} Q (start_cleanup s')"
proof -
  let ?pend = "map (\<lambda>e. (fst e, suppress (snd e))) (ss_pending_by_tag s)"
  let ?flushes = "map (\<lambda>e. (fst e, mute (snd e))) (ss_flushes s)"
  have h: "hm_ok (ss_pending_by_tag s)" "hasher_ok (ss_hasher s)"
    using inv by (simp_all add: session_inv_def tables_ok_def config_ok_def)
  then have len: "length (fid_order (ss_hasher s) (ss_fids s)) = length (ss_fids s)"
    by (metis hasher_ok_def size_mset)
  have mute: "(\<lambda>(t, f). (t, f\<lparr>fs_response_suppressed := True\<rparr>)) = (\<lambda>e. (fst e, mute (snd e)))"
    by (auto simp: mute_def)
  obtain c where eq: "start_cleanup s' =
    s\<lparr>ss_terminal_reason := Some r, ss_cleanup_started := True,
      ss_decoder := frame_decoder_clear (ss_decoder s), ss_pending_by_tag := ?pend,
      ss_flushes := ?flushes, ss_fids := [], ss_cleanup := c,
      ss_accounting := (ss_accounting s)\<lparr>acc_fids := 0\<rparr>\<rparr>"
    using start_cleanup_eq [of s'] h new inv len
    by (simp add: s' drain_fids_eq mute d session_inv_def fids_ok_def)
  have m: "active_msize (start_cleanup s') = active_msize s"
    unfolding eq by (rule active_msize_cong) simp_all
  have "decoder_ok (frame_decoder_clear (ss_decoder s))"
    using inv decoder_ok_clear by (simp add: session_inv_def config_ok_def frame_decoder_clear_def)
  then have "config_ok (session_limits s) (frame_decoder_clear (ss_decoder s)) (ss_negotiated_msize s)
      (ss_hasher s)"
    using inv by (simp add: session_inv_def config_ok_def frame_decoder_clear_def)
  moreover have "counts_ok (session_limits s) ((ss_accounting s)\<lparr>acc_fids := 0\<rparr>) ?pend ?flushes"
    using inv hm_sum_map [of po_write_bytes suppress "ss_pending_by_tag s"]
    by (simp add: session_inv_def counts_ok_def)
  moreover have "flush_ok Q ?pend ?flushes"
    using inv by (auto simp: session_inv_def flush_ok_def pending_waiters_suppress flush_waiters_mute
        flushes_ordered_mute hm_get_map multiset.map_comp comp_def)
  moreover have "all_pending_ok (active_msize s) ?pend"
    using inv by (auto simp: session_inv_def all_pending_ok_def pending_ok_def hm_get_map)
  moreover have "lifecycle_ok (Some r) True (ss_terminal_effect_delivered s) (ss_operation_ids s)
      ?pend ?flushes []"
    by (auto simp: lifecycle_ok_def hm_get_map)
  ultimately show ?thesis
    using inv tables_ok_suppress m unfolding session_inv_def eq
    by (simp add: effects_ok_def fids_ok_def)
qed


lemma start_cleanup_inv:
  assumes inv: "session_inv {} Q s" and s': "s' = s\<lparr>ss_decoder := d, ss_terminal_reason := Some r\<rparr>"
    and d: "frame_decoder_clear d = frame_decoder_clear (ss_decoder s)" and ok: "decoder_ok d"
  shows "session_inv {} Q (start_cleanup s')"
proof (cases "ss_cleanup_started s")
  case True
  then have "start_cleanup s' = s'"
    by (simp add: start_cleanup_def s')
  moreover have "active_msize s' = active_msize s"
    unfolding s' by (rule active_msize_cong) simp_all
  moreover have "fd_hard_maximum d = fd_hard_maximum (ss_decoder s)"
    "fd_maximum_retained d = fd_maximum_retained (ss_decoder s)"
    using arg_cong [OF d, of fd_hard_maximum] arg_cong [OF d, of fd_maximum_retained]
    by (simp_all add: frame_decoder_clear_def)
  ultimately show ?thesis
    using inv True ok
    by (auto simp: session_inv_def s' config_ok_def fids_ok_def lifecycle_ok_def)
qed (rule start_cleanup_closed [OF inv _ s' d])

lemma frame_decoder_clear_idem [simp]:
  "frame_decoder_clear (frame_decoder_clear d) = frame_decoder_clear d"
  by (simp add: frame_decoder_clear_def)

lemma inv_decoder_ok:
  assumes "session_inv H Q s"
  shows "decoder_ok (ss_decoder s)" and "decoder_ok (frame_decoder_clear (ss_decoder s))"
  using assms decoder_ok_clear by (simp_all add: session_inv_def config_ok_def frame_decoder_clear_def)

lemma fail_decode_inv: "session_inv {} Q s \<Longrightarrow> session_inv {} Q (fail_decode e s)"
  unfolding fail_decode_def by (rule start_cleanup_inv [OF _ refl]) (simp_all add: inv_decoder_ok)

lemma fail_protocol_inv: "session_inv {} Q s \<Longrightarrow> session_inv {} Q (fail_protocol reason s)"
  unfolding fail_protocol_def by (rule start_cleanup_inv [OF _ refl]) (simp_all add: inv_decoder_ok)

lemma begin_close_inv:
  assumes "session_inv {} Q s"
  shows "session_inv {} Q (begin_close s)"
proof -
  obtain r where r: "(if ss_terminal_reason s = None then s\<lparr>ss_terminal_reason := Some HostShutdown\<rparr>
      else s) = s\<lparr>ss_decoder := ss_decoder s, ss_terminal_reason := Some r\<rparr>"
    by (cases s; cases "ss_terminal_reason s") auto
  show ?thesis
    unfolding begin_close_def r
    by (rule start_cleanup_inv [OF assms refl]) (simp_all add: inv_decoder_ok [OF assms])
qed

section \<open>Version negotiation\<close>

lemma foldl_abandon_pending:
  "foldl abandon_pending s entries =
     s\<lparr>ss_accounting := (ss_accounting s)
         \<lparr>acc_in_flight_tags := acc_in_flight_tags (ss_accounting s) - length entries,
          acc_pending_write_bytes := acc_pending_write_bytes (ss_accounting s) -
            sum_list (map (po_write_bytes \<circ> snd) entries)\<rparr>,
       ss_abandoned_operations :=
         foldl (\<lambda>m e. hm_insert (po_operation_id (snd e)) (po_expected (snd e)) m)
           (ss_abandoned_operations s) entries,
       ss_cleanup := ss_cleanup s @
         map (\<lambda>e. CleanupCancel (po_operation_id (snd e)) (po_kind (snd e))) entries\<rparr>"
  by (induction entries arbitrary: s)
    (simp_all add: abandon_pending_def Let_def release_in_flight_def release_write_bytes_def release_def
      diff_diff_left)

lemma foldl_hm_insert:
  assumes "hm_ok m"
  shows "hm_ok (foldl (\<lambda>m e. hm_insert (f e) (g e) m) m es)"
    and "hm_get (foldl (\<lambda>m e. hm_insert (f e) (g e) m) m es) k \<noteq> None \<longleftrightarrow>
      hm_get m k \<noteq> None \<or> k \<in> f ` set es"
  using assms by (induction es arbitrary: m) (auto simp: hm.ok_ins)

text \<open>A session after \<open>reset_for_version\<close> holds no request and no fid.\<close>

lemma reset_for_version_eq:
  assumes inv: "session_inv {} Q s"
  obtains aband c where "reset_for_version s =
      s\<lparr>ss_negotiated_msize := None, ss_decoder := frame_decoder_clear (ss_decoder s),
        ss_flushes := [], ss_pending_by_tag := [], ss_tag_by_operation := [], ss_fids := [],
        ss_abandoned_operations := aband, ss_cleanup := c,
        ss_accounting := (ss_accounting s)
          \<lparr>acc_in_flight_tags := 0, acc_pending_write_bytes := 0, acc_fids := 0\<rparr>\<rparr>"
    and "hm_ok aband"
    and "\<And>i. hm_get aband i \<noteq> None \<Longrightarrow> i \<le> ss_last_issued_operation_id s"
proof -
  let ?order = "pending_order (ss_hasher s) (ss_pending_by_tag s)"
  let ?aband = "foldl (\<lambda>m e. hm_insert (po_operation_id (snd e)) (po_expected (snd e)) m)
    (ss_abandoned_operations s) ?order"
  have ok: "hm_ok (ss_pending_by_tag s)" "hm_ok (ss_abandoned_operations s)" "hasher_ok (ss_hasher s)"
    using inv by (simp_all add: session_inv_def tables_ok_def config_ok_def)
  have order: "mset ?order = mset (ss_pending_by_tag s)"
      "mset (fid_order (ss_hasher s) (ss_fids s)) = mset (ss_fids s)"
    using ok(3) by (simp_all add: hasher_ok_def)
  have len: "length ?order = length (ss_pending_by_tag s)"
      "length (fid_order (ss_hasher s) (ss_fids s)) = length (ss_fids s)"
    using order by (metis size_mset)+
  have "sum_list (map (po_write_bytes \<circ> snd) ?order) = hm_sum po_write_bytes (ss_pending_by_tag s)"
    unfolding hm_sum_def by (metis order(1) mset_map sum_mset_sum_list)
  then have acc: "acc_pending_write_bytes (ss_accounting s) -
      sum_list (map (po_write_bytes \<circ> snd) ?order) = 0"
    "acc_in_flight_tags (ss_accounting s) - length (ss_flushes s) - length ?order = 0"
    "acc_fids (ss_accounting s) - length (fid_order (ss_hasher s) (ss_fids s)) = 0"
    using inv len by (simp_all add: session_inv_def counts_ok_def fids_ok_def)
  have "i \<le> ss_last_issued_operation_id s" if member: "i \<in> (\<lambda>e. po_operation_id (snd e)) ` set ?order" for i
  proof -
    obtain e where "e \<in> set ?order" and "i = po_operation_id (snd e)"
      using member by auto
    then obtain t p where "(t, p) \<in> set (ss_pending_by_tag s)" and i: "i = po_operation_id p"
      using mset_eq_setD [OF order(1)] by (metis prod.collapse)
    then have "hm_get (ss_pending_by_tag s) t = Some p"
      using hm.entries_get [OF ok(1)] by simp
    then have "hm_get (ss_tag_by_operation s) i = Some t"
      using inv i by (auto simp: session_inv_def tables_ok_def)
    then have "hm_get (ss_tag_by_operation s) i \<noteq> None"
      by simp
    then show ?thesis
      using inv unfolding session_inv_def tables_ok_def by blast
  qed
  moreover have "i \<le> ss_last_issued_operation_id s" if "hm_get (ss_abandoned_operations s) i \<noteq> None" for i
    using inv that by (simp add: session_inv_def tables_ok_def)
  ultimately have last: "i \<le> ss_last_issued_operation_id s" if "hm_get ?aband i \<noteq> None" for i
    using foldl_hm_insert(2) [OF ok(2), of "po_operation_id \<circ> snd" "po_expected \<circ> snd" ?order i] that
    unfolding comp_def by blast
  have "reset_for_version s =
      s\<lparr>ss_negotiated_msize := None, ss_decoder := frame_decoder_clear (ss_decoder s),
        ss_flushes := [], ss_pending_by_tag := [], ss_tag_by_operation := [], ss_fids := [],
        ss_abandoned_operations := ?aband, ss_cleanup := ss_cleanup (reset_for_version s),
        ss_accounting := (ss_accounting s)
          \<lparr>acc_in_flight_tags := 0, acc_pending_write_bytes := 0, acc_fids := 0\<rparr>\<rparr>"
    using acc by (simp add: reset_for_version_def Let_def foldl_abandon_pending drain_fids_eq release_def)
  then show thesis
    by (rule that [OF _ foldl_hm_insert(1) [OF ok(2)] last])
qed


lemma reset_for_version_inv:
  assumes inv: "session_inv {} Q s" and active: "ss_terminal_reason s = None"
    and m: "\<And>n. m = Some n \<Longrightarrow> 7 \<le> n \<and> n \<le> max_frame_size (session_limits s)"
  shows "session_ok ((reset_for_version s)\<lparr>ss_negotiated_msize := m\<rparr>)"
proof -
  obtain aband c where eq: "reset_for_version s =
      s\<lparr>ss_negotiated_msize := None, ss_decoder := frame_decoder_clear (ss_decoder s),
        ss_flushes := [], ss_pending_by_tag := [], ss_tag_by_operation := [], ss_fids := [],
        ss_abandoned_operations := aband, ss_cleanup := c,
        ss_accounting := (ss_accounting s)
          \<lparr>acc_in_flight_tags := 0, acc_pending_write_bytes := 0, acc_fids := 0\<rparr>\<rparr>"
    and aband: "hm_ok aband" "\<And>i. hm_get aband i \<noteq> None \<Longrightarrow> i \<le> ss_last_issued_operation_id s"
    by (rule reset_for_version_eq [OF inv]) (rule that)
  have "tables_ok [] [] [] aband (ss_operation_ids s) (ss_last_issued_operation_id s)"
    using inv aband by (simp add: session_inv_def tables_ok_def)
  moreover have "decoder_ok (frame_decoder_clear (ss_decoder s))"
    by (rule inv_decoder_ok(2) [OF inv])
  ultimately show ?thesis
    using inv active m unfolding eq
    by (auto simp: session_inv_def config_ok_def effects_ok_def counts_ok_def fids_ok_def flush_ok_def
        pending_waiters_def flush_waiters_def all_pending_ok_def lifecycle_ok_def owners_ok_def owns_def
        frame_decoder_clear_def)
qed

lemma handle_version_inv:
  assumes inv: "session_ok s" and active: "ss_terminal_reason s = None"
  shows "session_ok (snd (handle_version tag requested_msize version s))"
proof -
  have lim: "7 \<le> max_frame_size (session_limits s)"
    using inv by (auto simp: session_inv_def config_ok_def limits_validate_def MIN_FRAME_SIZE_def
        split: if_splits)
  have keep: "ss_config (reset_for_version s) = ss_config s"
    by (rule reset_for_version_eq [OF inv]) simp
  have reply: "session_ok s' \<Longrightarrow> session_ok (snd (respond t b s'))" for t b s'
    by (rule hoare_snd [OF hoare_respond [OF stable_inv]])
  show ?thesis
  proof (cases "tag = NOTAG \<and> MINIMUM_NEGOTIATED_MSIZE \<le> requested_msize")
    case True
    have "7 \<le> min requested_msize (max_frame_size (session_limits s))"
      using True lim by (auto simp: MINIMUM_NEGOTIATED_MSIZE_def min_def word_le_nat_alt)
    then show ?thesis
      using True unfolding handle_version_def
      by (auto simp: Let_def keep intro!: reply reset_for_version_inv [OF inv active])
  next
    case False
    then show ?thesis
      using reply [OF inv] fail_protocol_inv [OF inv]
      by (auto simp: handle_version_def queue_state_error_def)
  qed
qed

section \<open>Dispatch and input\<close>

lemma handles_if_state:
  assumes "handles tag m" and "handles tag n"
  shows "handles tag (\<lambda>s. if c s then m s else n s)"
  using assms by (auto simp: hoare_def)

lemma handles_dispatch_body:
  assumes "request_message_type body \<noteq> Tversion" and "request_ok lim body"
  shows "handles tag (dispatch_body body tag)"
  using assms
  by (cases body)
    (auto intro!: handles_if_state handles_auth handles_attach handles_flush handles_auth_read
      handles_file_read handles_auth_write handles_file_write handles_auth_clunk handles_object_clunk
      handles_open handles_create handles_statfs handles_getattr handles_setattr handles_readlink
      handles_readdir handles_mkdir handles_mknod handles_symlink handles_link handles_rename
      handles_rename_at handles_unlink_at handles_xattr_walk handles_xattr_create handles_fsync
      handles_lock handles_getlock handles_walk handles_remove simp: usize_max_def)

lemma dispatch_inv:
  assumes inv: "session_ok s" and active: "ss_terminal_reason s = None"
    and ok: "request_ok lim (req_body request)"
  shows "session_ok (snd (dispatch request s))"
proof -
  have reply: "session_ok (snd (queue_state_error (req_tag request) e s))" for e
    unfolding queue_state_error_def by (rule hoare_snd [OF hoare_respond [OF stable_inv] inv])
  show ?thesis
  proof (cases "request_message_type (req_body request) = Tversion")
    case True
    then obtain msize version where "req_body request = ReqVersion msize version"
      by (cases "req_body request") auto
    then show ?thesis
      using handle_version_inv [OF inv active] by (simp add: dispatch_def)
  next
    case False
    have "session_ok (snd (dispatch_body (req_body request) (req_tag request) s))"
      if "hm_get (ss_pending_by_tag s) (req_tag request) = None" "hm_get (ss_flushes s) (req_tag request) = None"
      by (rule hoare_snd [OF handles_dispatch_body [OF False ok]])
        (use inv active that in \<open>simp add: ready_def\<close>)
    then show ?thesis
      using False reply fail_protocol_inv [OF inv]
      by (auto simp: dispatch_def Let_def hm_contains_def)
  qed
qed

lemma receive_decoded_frame_inv:
  assumes "session_ok s" and "ss_terminal_reason s = None"
  shows "session_ok (snd (receive_decoded_frame frame s))"
  using assms fail_decode_inv dispatch_inv
  by (auto simp: receive_decoded_frame_def decode_request_exact split: sum.splits)

lemma receive_frames_inv:
  assumes "session_ok s" and "ss_terminal_reason s = None"
  shows "session_ok (snd (receive_frames frames s))"
  using assms
proof (induction frames arbitrary: s)
  case (Cons frame frames)
  have "session_ok (snd (receive_decoded_frame frame s))"
    using Cons.prems by (rule receive_decoded_frame_inv)
  then show ?case
    using Cons.IH by (auto simp: sbind_def split: prod.splits sum.splits)
qed (simp add: sreturn_def)

lemma session_inv_decoder:
  assumes "session_inv H Q s" and "decoder_ok d"
    and "fd_hard_maximum d = fd_hard_maximum (ss_decoder s)"
    and "fd_maximum_retained d = fd_maximum_retained (ss_decoder s)"
  shows "session_inv H Q (s\<lparr>ss_decoder := d\<rparr>)"
proof -
  have "active_msize (s\<lparr>ss_decoder := d\<rparr>) = active_msize s"
    by (rule active_msize_cong) simp_all
  then show ?thesis
    using assms by (simp add: session_inv_def config_ok_def)
qed

lemma receive_bytes_inv:
  assumes inv: "session_ok s"
  shows "session_ok (snd (receive_bytes bs s))"
proof (cases "ss_terminal_reason s")
  case None
  let ?d = "snd (push bs (active_msize s) (ss_decoder s))"
  have d: "decoder_ok (ss_decoder s)"
    by (rule inv_decoder_ok(1) [OF inv])
  have "session_ok (s\<lparr>ss_decoder := ?d\<rparr>)"
    by (rule session_inv_decoder [OF inv keepsD [OF keeps_push d] push_keeps_bounds [OF d]])
  then show ?thesis
    using fail_decode_inv receive_frames_inv None
    by (auto simp: receive_bytes_def ensure_active_def sbind_def split: prod.splits sum.splits)
qed (use inv in \<open>simp add: receive_bytes_def ensure_active_def sbind_def\<close>)

lemma receive_frame_inv:
  assumes "session_ok s"
  shows "session_ok (snd (receive_frame frame s))"
  using assms receive_decoded_frame_inv
  by (auto simp: receive_frame_def ensure_active_def sbind_def split: prod.splits sum.splits)

end
