(* ===== verification/Session_Finish.thy ===== *)
theory Session_Finish
  imports Session_Close
begin

text \<open>
  Preservation of the session invariant by completions and by polling, and so by every step a
  host can take: the invariant holds in every reachable session.
\<close>

section \<open>The fid of a completed operation\<close>

text \<open>
  What a completion does to the fid table: nothing when the continuation holds no fid, and
  otherwise it either installs a settled state for the fid or retires it.
\<close>

definition settles :: "continuation \<Rightarrow> session \<Rightarrow> session \<Rightarrow> bool" where
  "settles c s s' \<longleftrightarrow>
     (case continuation_fid c of
        None \<Rightarrow> s' = s
      | Some f \<Rightarrow> s' = retire_fid f s \<or> (\<exists>st. st \<noteq> FidPending \<and> fid_state_ok st \<and> s' = insert_fid f st s))"

lemma settles_none: "continuation_fid c = None \<Longrightarrow> settles c s s"
  by (simp add: settles_def)

lemma settles_retire: "continuation_fid c = Some f \<Longrightarrow> settles c s (retire_fid f s)"
  by (simp add: settles_def)

lemma settles_insert:
  "continuation_fid c = Some f \<Longrightarrow> st \<noteq> FidPending \<Longrightarrow> fid_state_ok st \<Longrightarrow> settles c s (insert_fid f st s)"
  by (auto simp: settles_def)

lemmas settles_intros = settles_none settles_retire settles_insert

lemma settles_rollback:
  assumes "continuation_ok m c"
  shows "settles c s (rollback_continuation c s)"
proof (cases c)
  case (ContXattrWrite f original requested)
  then obtain x e w where "of_xattr original = Some x" "xs_mode x = XattrWriteMode e w"
    "unat w + unat requested \<le> unat e"
    using assms by auto
  then have "object_ok original"
    by (auto simp: object_ok_def word_le_nat_alt)
  then show ?thesis
    using ContXattrWrite by (auto intro: settles_intros)
qed (use assms in \<open>auto simp: rollback_walk_def intro: settles_intros\<close>)

lemma settles_mismatch: "continuation_ok m c \<Longrightarrow> settles c s (snd (finish_mismatch c s))"
  by (simp add: finish_mismatch_def settles_rollback)

lemma settles_policy:
  assumes "continuation_ok m c"
  shows "settles c s (snd (finish_policy_success c r s))"
  using settles_mismatch [OF assms, of s]
  by (cases c; cases r) (auto simp: finish_policy_success_def object_ok_def intro: settles_intros)

lemma advance_xattr_ok:
  assumes "continuation_ok m (ContXattrWrite f original requested)" and "n \<le> requested"
  shows "object_ok (advance_xattr n original)"
proof -
  obtain x e w where x: "of_xattr original = Some x" "xs_mode x = XattrWriteMode e w"
    and le: "unat w + unat requested \<le> unat e"
    using assms(1) by auto
  have "unat (ucast n :: u64) = unat n"
    using u32_bound [of n] by (simp add: unsigned_ucast_eq take_bit_nat_eq_self)
  then have "unat w + unat (ucast n :: u64) \<le> unat e"
    using le assms(2) by (simp add: word_le_nat_alt)
  then have "saturating_add w (ucast n) \<le> e"
    using u64_bound [of e] by (simp add: saturating_add_def checked_add_def word_le_nat_alt
        unat_word_ariths)
  then show ?thesis
    using x by (auto simp: object_ok_def advance_xattr_def)
qed

lemma settles_walk:
  assumes "object_ok source"
  shows "settles (ContWalk source_fid new_fid source n) s
    (snd (finish_walk source_fid new_fid source n elements s))"
  using assms settles_rollback [of 0 "ContWalk source_fid new_fid source n" s]
  by (auto simp: finish_walk_def object_ok_def intro!: settles_intros)

lemma settles_filesystem:
  assumes "continuation_ok m c"
  shows "settles c s (snd (finish_filesystem_success c r s))"
  using assms settles_mismatch [OF assms, of s]
proof (cases c)
  case (ContXattrWrite f original requested)
  have "object_ok original"
    using assms advance_xattr_ok [of m f original requested 0] ContXattrWrite
    by (auto simp: object_ok_def advance_xattr_def saturating_add_def word_le_nat_alt)
  then show ?thesis
    using assms settles_mismatch [OF assms, of s] advance_xattr_ok ContXattrWrite
    by (cases r) (auto simp: finish_filesystem_success_def intro!: settles_intros)
qed (cases r; auto simp: finish_filesystem_success_def object_ok_def settles_walk intro: settles_intros)+

section \<open>Removing the completed operation\<close>

lemma owns_remove: "owns (hm_remove t pend) u f \<longleftrightarrow> u \<noteq> t \<and> owns pend u f"
  by (auto simp: owns_def)

lemma owners_okD:
  assumes "owners_ok {} pend fids"
  shows "owns pend u f \<Longrightarrow> hm_get fids f = Some FidPending"
    and "owns pend u f \<Longrightarrow> owns pend v f \<Longrightarrow> u = v"
    and "hm_get fids f = Some FidPending \<Longrightarrow> \<exists>u. owns pend u f"
  subgoal using assms unfolding owners_ok_def by blast
  subgoal using assms unfolding owners_ok_def by (elim conjE) metis
  subgoal using assms unfolding owners_ok_def by blast
  done

lemma owners_ok_remove:
  assumes ok: "owners_ok {} pend fids" and p: "hm_get pend t = Some p"
  shows "owners_ok (set_option (continuation_fid (po_continuation p))) (hm_remove t pend) fids"
proof -
  have own: "f \<in> set_option (continuation_fid (po_continuation p)) \<longleftrightarrow> owns pend t f" for f
    using p by (simp add: owns_def)
  show ?thesis
    unfolding owners_ok_def owns_remove Ball_def own
  proof (intro conjI allI impI)
    fix u f assume "u \<noteq> t \<and> owns pend u f"
    then show "hm_get fids f = Some FidPending" and "\<not> owns pend t f"
      using owners_okD(1,2) [OF ok] by blast+
  next
    fix u v f assume "(u \<noteq> t \<and> owns pend u f) \<and> v \<noteq> t \<and> owns pend v f"
    then show "u = v"
      using owners_okD(2) [OF ok] by blast
  next
    fix f assume "hm_get fids f = Some FidPending"
    then show "owns pend t f \<or> (\<exists>u. u \<noteq> t \<and> owns pend u f)"
      using owners_okD(3) [OF ok] by metis
  next
    fix f assume "owns pend t f"
    then show "hm_get fids f = Some FidPending"
      using owners_okD(1) [OF ok] by blast
  qed
qed

lemma tables_ok_remove:
  assumes "tables_ok pend flushes index aband ids last_id" and "hm_get index i = Some t"
  shows "tables_ok (hm_remove t pend) flushes (hm_remove i index) aband ids last_id"
proof -
  have p: "hm_get index j = Some u \<longleftrightarrow> (\<exists>p. hm_get pend u = Some p \<and> po_operation_id p = j)" for j u
    using assms(1) by (simp add: tables_ok_def)
  obtain p where "hm_get pend t = Some p" "po_operation_id p = i"
    using assms(2) p by blast
  then have "hm_get (hm_remove i index) j = Some u \<longleftrightarrow>
      (\<exists>p. hm_get (hm_remove t pend) u = Some p \<and> po_operation_id p = j)" for j u
    using p assms(2) by (auto, metis option.inject)
  moreover have "hm_get index j \<noteq> None" if "hm_get (hm_remove i index) j \<noteq> None" for j
    using that by (auto split: if_splits)
  moreover have "hm_get (hm_remove t pend) u = None \<or> hm_get flushes u = None" for u
    using tables_ok_disjoint [OF assms(1), of u] by auto
  ultimately show ?thesis
    using assms(1) unfolding tables_ok_def
    by (elim conjE, intro conjI) (assumption | rule hm.ok_rem | simp)+
qed

text \<open>The session once a completed operation has left the tables.\<close>

definition released :: "operation_id \<Rightarrow> tag \<Rightarrow> pending_operation \<Rightarrow> session \<Rightarrow> session" where
  "released i t p s =
     release_write_bytes (po_write_bytes p) (release_in_flight
       (s\<lparr>ss_tag_by_operation := hm_remove i (ss_tag_by_operation s),
          ss_pending_by_tag := hm_remove t (ss_pending_by_tag s)\<rparr>))"

lemma released_eq:
  "released i t p s =
     s\<lparr>ss_tag_by_operation := hm_remove i (ss_tag_by_operation s),
       ss_pending_by_tag := hm_remove t (ss_pending_by_tag s),
       ss_accounting := (ss_accounting s)
         \<lparr>acc_in_flight_tags := acc_in_flight_tags (ss_accounting s) - 1,
          acc_pending_write_bytes := acc_pending_write_bytes (ss_accounting s) - po_write_bytes p\<rparr>\<rparr>"
  by (simp add: released_def release_write_bytes_def release_in_flight_def release_def)

lemma released_inv:
  assumes inv: "session_ok s" and i: "hm_get (ss_tag_by_operation s) i = Some t"
    and p: "hm_get (ss_pending_by_tag s) t = Some p"
    and H: "fids_ok H (session_limits s) (ss_accounting s) (hm_remove t (ss_pending_by_tag s))
      (ss_fids s) (ss_terminal_reason s)"
  shows "session_inv H (mset (po_flush_waiters p)) (released i t p s)"
proof -
  let ?pend = "hm_remove t (ss_pending_by_tag s)"
  have ok: "hm_ok (ss_pending_by_tag s)"
    using inv by (simp add: session_inv_def tables_ok_def)
  have len: "Suc (length ?pend) = length (ss_pending_by_tag s)"
    using hm_length_remove [OF ok p] .
  have "tables_ok ?pend (ss_flushes s) (hm_remove i (ss_tag_by_operation s))
      (ss_abandoned_operations s) (ss_operation_ids s) (ss_last_issued_operation_id s)"
    using inv i by (auto simp: session_inv_def intro: tables_ok_remove)
  moreover have "counts_ok (session_limits s) (ss_accounting (released i t p s)) ?pend (ss_flushes s)"
    using inv len hm_sum_remove [OF ok p, of po_write_bytes]
    by (auto simp: session_inv_def counts_ok_def released_eq)
  moreover have "flush_ok (mset (po_flush_waiters p)) ?pend (ss_flushes s)"
    using inv pending_waiters_remove [OF ok p] unfolding session_inv_def flush_ok_def by auto
  moreover have "all_pending_ok (active_msize s) ?pend"
    using inv by (auto simp: session_inv_def all_pending_ok_def)
  moreover have "active_msize (released i t p s) = active_msize s"
    by (rule active_msize_cong) (simp_all add: released_eq)
  moreover have "lifecycle_ok (ss_terminal_reason s) (ss_cleanup_started s)
      (ss_terminal_effect_delivered s) (ss_operation_ids s) ?pend (ss_flushes s) (ss_fids s)"
    using inv by (auto simp: session_inv_def lifecycle_ok_def)
  ultimately show ?thesis
    using inv H by (simp add: session_inv_def released_eq effects_ok_def fids_ok_def)
qed

lemma drain_inv:
  assumes "session_inv {} Q s" and "ss_terminal_reason s \<noteq> None"
  shows "session_inv {} Q (drain_fids_to_cleanup s)"
proof -
  have "hasher_ok (ss_hasher s)"
    using assms by (simp add: session_inv_def config_ok_def)
  then have "length (fid_order (ss_hasher s) (ss_fids s)) = length (ss_fids s)"
    by (metis hasher_ok_def size_mset)
  then have eq: "drain_fids_to_cleanup s = s\<lparr>ss_fids := [], ss_cleanup := ss_cleanup (drain_fids_to_cleanup s),
      ss_accounting := (ss_accounting s)\<lparr>acc_fids := 0\<rparr>\<rparr>"
    using assms by (simp add: drain_fids_eq session_inv_def fids_ok_def)
  obtain c where eq: "drain_fids_to_cleanup s = s\<lparr>ss_fids := [], ss_cleanup := c,
      ss_accounting := (ss_accounting s)\<lparr>acc_fids := 0\<rparr>\<rparr>"
    using eq by blast
  have "active_msize (drain_fids_to_cleanup s) = active_msize s"
    unfolding eq by (rule active_msize_cong) simp_all
  then show ?thesis
    using assms unfolding eq
    by (simp add: session_inv_def effects_ok_def counts_ok_def fids_ok_def lifecycle_ok_def)
qed

text \<open>
  A completion that finds the fid table already drained: the fid it settles is drained with it.
\<close>

lemma drain_settled_inv:
  assumes inv: "session_inv {} Q s" and t: "ss_terminal_reason s \<noteq> None" and none: "ss_fids s = []"
    and "settles c s s'"
  shows "session_inv {} Q (drain_fids_to_cleanup s')"
proof (cases "s' = s")
  case True
  then show ?thesis using drain_inv [OF inv t] by simp
next
  case False
  then obtain f where "s' = retire_fid f s \<or> (\<exists>st. s' = insert_fid f st s)"
    using assms(4) by (auto simp: settles_def split: option.splits)
  then obtain st where s': "s' = insert_fid f st s"
    using False none by (auto simp: retire_fid_def hm_contains_def)
  have acc: "acc_fids (ss_accounting s) = 0"
    using inv none by (simp add: session_inv_def fids_ok_def)
  obtain c where eq: "drain_fids_to_cleanup s' = s\<lparr>ss_fids := [], ss_cleanup := c,
      ss_accounting := (ss_accounting s)\<lparr>acc_fids := 0\<rparr>\<rparr>"
    by (simp add: drain_fids_eq s' insert_fid_def acc)
  have "active_msize (drain_fids_to_cleanup s') = active_msize s"
    unfolding eq by (rule active_msize_cong) simp_all
  then show ?thesis
    using inv t unfolding eq
    by (simp add: session_inv_def effects_ok_def counts_ok_def fids_ok_def lifecycle_ok_def)
qed

lemma settles_terminal: "settles c s s' \<Longrightarrow> ss_terminal_reason s' = ss_terminal_reason s"
  by (auto simp: settles_def retire_fid_def insert_fid_def split: option.splits)

lemma settled_inv:
  assumes "session_inv (set_option (continuation_fid c)) Q s" and "settles c s s'"
  shows "session_inv {} Q s'"
proof (cases "continuation_fid c")
  case None
  then show ?thesis using assms by (simp add: settles_def)
next
  case (Some f)
  then have "session_inv {f} Q s" and "s' = retire_fid f s \<or>
      (\<exists>st. st \<noteq> FidPending \<and> fid_state_ok st \<and> s' = insert_fid f st s)"
    using assms by (simp_all add: settles_def)
  then show ?thesis
    using retire_fid_inv insert_fid_inv by auto
qed

text \<open>The first half of \<open>finish_pending\<close>: the fid table is settled, and drained when closing.\<close>

lemma settle_and_drain_inv:
  assumes inv: "session_ok s" and i: "hm_get (ss_tag_by_operation s) i = Some t"
    and p: "hm_get (ss_pending_by_tag s) t = Some p"
    and settles: "settles (po_continuation p) (released i t p s) s'"
  shows "session_inv {} (mset (po_flush_waiters p))
    (if ss_terminal_reason s' \<noteq> None then drain_fids_to_cleanup s' else s')"
proof -
  let ?H = "set_option (continuation_fid (po_continuation p))"
  have t: "ss_terminal_reason s' = ss_terminal_reason s"
    using settles_terminal [OF settles] by (simp add: released_eq)
  consider "owners_ok {} (ss_pending_by_tag s) (ss_fids s)" | "ss_terminal_reason s \<noteq> None" "ss_fids s = []"
    using inv by (auto simp: session_inv_def fids_ok_def)
  then show ?thesis
  proof cases
    case 1
    then have "fids_ok ?H (session_limits s) (ss_accounting s) (hm_remove t (ss_pending_by_tag s))
        (ss_fids s) (ss_terminal_reason s)"
      using inv owners_ok_remove [OF _ p] by (simp add: session_inv_def fids_ok_def)
    then have "session_inv {} (mset (po_flush_waiters p)) s'"
      by (rule settled_inv [OF released_inv [OF inv i p] settles])
    then show ?thesis
      using drain_inv by simp
  next
    case 2
    then have "fids_ok {} (session_limits s) (ss_accounting s) (hm_remove t (ss_pending_by_tag s))
        (ss_fids s) (ss_terminal_reason s)"
      using inv by (simp add: session_inv_def fids_ok_def)
    then have "session_inv {} (mset (po_flush_waiters p)) (drain_fids_to_cleanup s')"
      using 2 by (intro drain_settled_inv [OF released_inv [OF inv i p] _ _ settles]) (simp_all add: released_eq)
    then show ?thesis
      using 2 t by simp
  qed
qed

section \<open>The flush cascade\<close>

lemma flushes_ordered_remove:
  assumes "flushes_ordered m" and "tag \<notin># flush_waiters m"
  shows "flushes_ordered (hm_remove tag m)"
  using assms
proof (induction m)
  case (Cons e m)
  obtain t f where e: "e = (t, f)" by fastforce
  have w: "tag \<notin> set (fs_waiters f)" "tag \<notin># flush_waiters m"
    using Cons.prems(2) by (simp_all add: flush_waiters_def e)
  have keys: "fst ` set (hm_remove tag m) = fst ` set m - {tag}"
    by (rule set_eqI) (metis Diff_iff hm_get_None_iff hm_get_remove singletonD singletonI)
  show ?case
  proof (cases "t = tag")
    case True
    then show ?thesis
      using Cons w e by (simp add: hm_remove_def)
  next
    case False
    then have "hm_remove tag (e # m) = (t, f) # hm_remove tag m"
      by (simp add: hm_remove_def e)
    then show ?thesis
      using Cons w e keys by auto
  qed
qed (simp add: hm_remove_def)

lemma flush_ok_remove:
  assumes ok: "flush_ok (add_mset tag Q) pend flushes" and "hm_ok flushes"
    and f: "hm_get flushes tag = Some f"
  shows "flush_ok (mset (fs_waiters f) + Q) pend (hm_remove tag flushes)"
proof -
  have keys: "mset (map fst flushes) = add_mset tag Q + pending_waiters pend + flush_waiters flushes"
    using ok by (simp add: flush_ok_def)
  moreover have "count (mset (map fst flushes)) tag \<le> 1"
    using assms(2) by (metis hm_ok_def distinct_count_atmost_1 le_simps(1) less_one linorder_le_cases nle_le)
  ultimately have "count (flush_waiters flushes) tag = 0"
    by simp
  then have "flushes_ordered (hm_remove tag flushes)"
    using ok flushes_ordered_remove by (simp add: flush_ok_def count_eq_zero_iff)
  moreover have "mset (map fst flushes) = add_mset tag (mset (map fst (hm_remove tag flushes)))"
    using hm.mset_entries_rem [OF assms(2) f] by simp
  ultimately show ?thesis
    using ok keys flush_waiters_remove [OF assms(2) f]
    by (auto simp: flush_ok_def)
qed

lemma finish_one_inv:
  assumes inv: "session_inv {} (add_mset tag Q) s" and f: "hm_get (ss_flushes s) tag = Some f"
  shows "session_inv {} (mset (fs_waiters f) + Q)
    (release_in_flight (s\<lparr>ss_flushes := hm_remove tag (ss_flushes s)\<rparr>))"
proof -
  let ?flushes = "hm_remove tag (ss_flushes s)"
  let ?s = "release_in_flight (s\<lparr>ss_flushes := ?flushes\<rparr>)"
  have ok: "hm_ok (ss_flushes s)"
    using inv by (simp add: session_inv_def tables_ok_def)
  have "tables_ok (ss_pending_by_tag s) (ss_flushes s) (ss_tag_by_operation s)
      (ss_abandoned_operations s) (ss_operation_ids s) (ss_last_issued_operation_id s)"
    using inv by (simp add: session_inv_def)
  then have "tables_ok (ss_pending_by_tag s) ?flushes (ss_tag_by_operation s)
      (ss_abandoned_operations s) (ss_operation_ids s) (ss_last_issued_operation_id s)"
    by (rule tables_ok_flushes)
      (use ok tables_ok_disjoint [OF \<open>tables_ok _ _ _ _ _ _\<close>] in \<open>auto simp: hm.ok_rem\<close>)
  moreover have "counts_ok (session_limits s) (ss_accounting ?s) (ss_pending_by_tag s) ?flushes"
    using inv hm_length_remove [OF ok f]
    by (auto simp: session_inv_def counts_ok_def release_in_flight_def release_def)
  moreover have "flush_ok (mset (fs_waiters f) + Q) (ss_pending_by_tag s) ?flushes"
    using inv ok f by (auto simp: session_inv_def intro: flush_ok_remove)
  moreover have "lifecycle_ok (ss_terminal_reason s) (ss_cleanup_started s)
      (ss_terminal_effect_delivered s) (ss_operation_ids s) (ss_pending_by_tag s) ?flushes (ss_fids s)"
    using inv by (auto simp: session_inv_def lifecycle_ok_def)
  moreover have "active_msize ?s = active_msize s"
    by (rule active_msize_cong) (simp_all add: release_in_flight_def)
  ultimately show ?thesis
    using inv by (simp add: session_inv_def release_in_flight_def release_def effects_ok_def fids_ok_def)
qed

lemma respond_or_fail_inv:
  assumes "session_inv {} Q s"
  shows "session_inv {} Q (respond_or_fail suppressed tag body reason s)"
proof -
  have "session_inv {} Q (snd (respond tag body s))"
    by (rule hoare_snd [OF hoare_respond [OF stable_inv] assms])
  then show ?thesis
    using assms fail_protocol_inv by (auto simp: respond_or_fail_def split: prod.splits sum.splits)
qed

lemma finish_flushes_inv: "session_inv {} (mset tags) s \<Longrightarrow> session_ok (finish_flushes tags s)"
proof (induction tags s rule: finish_flushes.induct)
  case (2 tag tags s)
  have "tag \<in># mset (map fst (ss_flushes s))"
    using "2.prems" unfolding session_inv_def flush_ok_def by simp
  then obtain f where f: "hm_get (ss_flushes s) tag = Some f"
    using hm_get_None_iff [of "ss_flushes s" tag] by (cases "hm_get (ss_flushes s) tag") auto
  have "session_inv {} (mset (fs_waiters f @ tags)) (finish_one_flush tag f s)"
    using finish_one_inv [of tag "mset tags" s f] "2.prems" f
    by (simp add: finish_one_flush_def respond_or_fail_inv)
  then show ?case
    using "2.IH"(2) f by simp
qed simp

section \<open>Every step keeps the invariant\<close>

lemma settles_finish_body:
  "continuation_ok m c \<Longrightarrow> settles c s (snd (finish_body c completion s))"
  by (auto simp: finish_body_def settles_rollback settles_policy settles_filesystem
      split: completion.splits sum.splits)

lemma finish_pending_inv:
  assumes inv: "session_ok s" and i: "hm_get (ss_tag_by_operation s) i = Some t"
    and p: "hm_get (ss_pending_by_tag s) t = Some p"
  shows "session_ok (finish_pending t p completion (released i t p s))"
proof -
  have "continuation_ok (active_msize s) (po_continuation p)"
    using inv p by (simp add: session_inv_def all_pending_ok_def pending_ok_def)
  then show ?thesis
    unfolding finish_pending_def Let_def split_beta
    by (intro finish_flushes_inv respond_or_fail_inv settle_and_drain_inv [OF inv i p] settles_finish_body)
qed

lemma complete_inv:
  assumes inv: "session_ok s" and c: "complete completion s = Some (r, s')"
  shows "session_ok s'"
proof -
  let ?i = "completion_operation_id completion"
  have aband: "session_ok (s\<lparr>ss_abandoned_operations := hm_remove ?i (ss_abandoned_operations s)\<rparr>)"
  proof -
    have "tables_ok (ss_pending_by_tag s) (ss_flushes s) (ss_tag_by_operation s)
        (hm_remove ?i (ss_abandoned_operations s)) (ss_operation_ids s) (ss_last_issued_operation_id s)"
      using inv by (simp add: session_inv_def tables_ok_def hm.ok_rem)
    moreover have "active_msize (s\<lparr>ss_abandoned_operations := hm_remove ?i (ss_abandoned_operations s)\<rparr>) =
        active_msize s"
      by (rule active_msize_cong) simp_all
    ultimately show ?thesis
      using inv by (simp add: session_inv_def)
  qed
  show ?thesis
  proof (cases "hm_get (ss_tag_by_operation s) ?i")
    case None
    then show ?thesis
      using c inv aband by (auto simp: complete_def Let_def split: option.splits sum.splits if_splits)
  next
    case (Some t)
    then show ?thesis
      using c inv finish_pending_inv [OF inv Some]
      by (auto simp: complete_def Let_def released_def split: option.splits sum.splits)
  qed
qed

lemma tables_ok_abandon:
  assumes "tables_ok pend flushes index aband ids i" and "hm_get index i = None"
  shows "tables_ok pend flushes index (hm_insert i expected aband) ids i"
proof -
  have "hm_get (hm_insert i expected aband) j = None \<and> j \<le> i" if "hm_get index j \<noteq> None" for j
  proof -
    have "j \<noteq> i" and "hm_get aband j = None \<and> j \<le> i"
      using assms that unfolding tables_ok_iff by blast+
    then show ?thesis by simp
  qed
  moreover have "j \<le> i" if "hm_get (hm_insert i expected aband) j \<noteq> None" for j
    using assms(1) that unfolding tables_ok_iff by (auto split: if_splits)
  ultimately show ?thesis
    using assms(1) unfolding tables_ok_iff
    by (elim conjE, intro conjI) (assumption | rule hm.ok_ins | simp)+
qed

lemma issue_cleanup_inv:
  assumes inv: "session_ok s"
  shows "session_ok (snd (issue_cleanup expected mk s))"
proof (cases "ss_operation_ids s")
  case None
  let ?s = "s\<lparr>ss_operation_ids := None, ss_terminal_reason := Some ResourceExhausted\<rparr>"
  have "active_msize ?s = active_msize s"
    by (rule active_msize_cong) simp_all
  then have "session_ok ?s"
    using inv None by (auto simp: session_inv_def fids_ok_def lifecycle_ok_def)
  then show ?thesis
    using None by (simp add: issue_cleanup_def allocate_id_def allocate_def)
next
  case (Some i)
  let ?aband = "hm_insert i expected (ss_abandoned_operations s)"
  let ?s = "(burned i s)\<lparr>ss_abandoned_operations := ?aband\<rparr>"
  have ok: "session_ok (burned i s)"
    by (rule burned_inv [OF inv Some])
  have ids: "ids_ok (Some i) (ss_last_issued_operation_id s)"
    using inv Some by (simp add: session_inv_def tables_ok_iff)
  have "hm_get (ss_tag_by_operation s) i = None"
    using inv ids_ok_issue(2) [OF ids] unfolding session_inv_def tables_ok_iff by (meson leD)
  then have "tables_ok (ss_pending_by_tag s) (ss_flushes s) (ss_tag_by_operation s) ?aband
      (checked_add i 1) i"
    using ok by (intro tables_ok_abandon) (simp_all add: session_inv_def burned_def)
  moreover have "active_msize ?s = active_msize (burned i s)"
    by (rule active_msize_cong) simp_all
  ultimately have "session_ok ?s"
    using ok by (simp add: session_inv_def burned_def)
  then show ?thesis
    using Some by (simp add: issue_cleanup_def allocate_id_def allocate_def burned_def)
qed

lemma session_inv_cleanup: "session_inv H Q s \<Longrightarrow> session_inv H Q (s\<lparr>ss_cleanup := c\<rparr>)"
  using active_msize_cong [of "s\<lparr>ss_cleanup := c\<rparr>" s] by (simp add: session_inv_def)

lemma poll_effect_inv:
  assumes inv: "session_ok s"
  shows "session_ok (snd (poll_effect s))"
proof (cases "ss_effects s")
  case (Cons e es)
  have m: "active_msize (snd (poll_effect s)) = active_msize s"
    using Cons by (intro active_msize_cong) (simp_all add: poll_effect_def)
  show ?thesis
    using inv m Cons
    by (auto simp: poll_effect_def session_inv_def effects_ok_def counts_ok_def fids_ok_def release_def)
next
  case Nil
  have "session_ok (s\<lparr>ss_terminal_effect_delivered := True\<rparr>)" if "ss_terminal_reason s \<noteq> None"
    using inv that active_msize_cong [of "s\<lparr>ss_terminal_effect_delivered := True\<rparr>" s]
    by (simp add: session_inv_def lifecycle_ok_def)
  then show ?thesis
    using Nil inv issue_cleanup_inv session_inv_cleanup [OF inv]
    by (auto simp: poll_effect_def cleanup_effect_def split: list.splits option.splits cleanup_action.splits)
qed

lemma session_step_inv:
  assumes "session_step s s'" and "session_ok s"
  shows "session_ok s'"
  using assms
proof (cases rule: session_step.cases)
  case (step_rehash h)
  then show ?thesis
    using assms(2) active_msize_cong [of s' s] by (simp add: session_inv_def config_ok_def)
qed (simp_all add: receive_bytes_inv receive_frame_inv complete_inv poll_effect_inv begin_close_inv)

lemma session_new_inv:
  assumes "hasher_ok h" and "limits_usize (cfg_limits config)" and "session_new h config ctx = Inr s"
  shows "session_ok s"
proof -
  have lim: "limits_validate (cfg_limits config) = Inr ()"
    using assms(3) by (auto simp: session_new_def split: sum.splits)
  have "decoder_ok (frame_decoder_new (cfg_limits config))"
    using decoder_ok_new [OF lim] assms(2) by (simp add: limits_usize_def stream_ok_def)
  then show ?thesis
    using assms lim
    by (auto simp: session_new_def session_inv_def config_ok_def effects_ok_def counts_ok_def tables_ok_def
        fids_ok_def flush_ok_def all_pending_ok_def lifecycle_ok_def owners_ok_def owns_def
        pending_waiters_def flush_waiters_def accounting_default_def allocator_new_def
        frame_decoder_new_def)
qed

theorem reachable_session_ok: "session_reachable s \<Longrightarrow> session_ok s"
  by (induction rule: session_reachable.induct) (auto intro: session_new_inv session_step_inv)

end
