(* ===== verification/Session_Trace.thy ===== *)
theory Session_Trace
  imports Session_Finish Wire_Response
begin

text \<open>
  What holds between a session and any later state of it: operation identifiers are issued in
  order and never become outstanding again, closing is final, and every frame queued for the
  transport is the wire encoding of a response. The relation \<open>evolves\<close> is a preorder, so it is
  shown for the primitives and composed along the structure of the code.
\<close>

section \<open>The relation\<close>

definition outstanding :: "session \<Rightarrow> operation_id \<Rightarrow> bool" where
  "outstanding s i \<longleftrightarrow>
     hm_get (ss_tag_by_operation s) i \<noteq> None \<or> hm_get (ss_abandoned_operations s) i \<noteq> None"

primrec sent_ok :: "limits \<Rightarrow> effect \<Rightarrow> bool" where
  "sent_ok lim (SendFrame bs) =
     (\<exists>r. response_ok (res_body r) \<and> bs = wire_response r \<and> length bs \<le> unat (max_frame_size lim))"
| "sent_ok lim (FilesystemEffect i r) = True"
| "sent_ok lim (PolicyEffect i r) = True"
| "sent_ok lim (CancelEffect i k) = True"
| "sent_ok lim (CloseSession r) = True"

definition sound :: "session \<Rightarrow> bool" where
  "sound s \<longleftrightarrow> ids_ok (ss_operation_ids s) (ss_last_issued_operation_id s) \<and>
     active_msize s \<le> max_frame_size (session_limits s)"

definition later :: "session \<Rightarrow> session \<Rightarrow> bool" where
  "later s s' \<longleftrightarrow>
     sound s' \<and> ss_config s' = ss_config s \<and> ss_context s' = ss_context s \<and>
     ss_last_issued_operation_id s \<le> ss_last_issued_operation_id s' \<and>
     (\<forall>i. i \<le> ss_last_issued_operation_id s \<and> outstanding s' i \<longrightarrow> outstanding s i) \<and>
     (\<forall>e \<in> set (ss_effects s'). e \<in> set (ss_effects s) \<or> sent_ok (session_limits s) e) \<and>
     (ss_terminal_reason s \<noteq> None \<longrightarrow> ss_terminal_reason s' \<noteq> None) \<and>
     (ss_cleanup_started s \<longrightarrow> ss_cleanup_started s') \<and>
     (ss_terminal_effect_delivered s \<longrightarrow> ss_terminal_effect_delivered s')"

definition evolves :: "session \<Rightarrow> session \<Rightarrow> bool" where
  "evolves s s' \<longleftrightarrow> (sound s \<longrightarrow> later s s')"

lemma evolves_refl [simp, intro]: "evolves s s"
  by (simp add: evolves_def later_def)

lemma later_trans:
  assumes "later s t" and "later t u"
  shows "later s u"
proof -
  have st: "ss_last_issued_operation_id s \<le> ss_last_issued_operation_id t" "ss_config t = ss_config s"
    using assms(1) by (simp_all add: later_def)
  have "outstanding s i" if "i \<le> ss_last_issued_operation_id s" "outstanding u i" for i
    using assms that order_trans [OF that(1) st(1)] unfolding later_def by blast
  moreover have "e \<in> set (ss_effects s) \<or> sent_ok (session_limits s) e" if "e \<in> set (ss_effects u)" for e
    using assms that st(2) unfolding later_def by metis
  ultimately show ?thesis
    using assms order_trans [OF st(1)] unfolding later_def by simp
qed

lemma sound_later: "later s t \<Longrightarrow> sound t"
  by (simp add: later_def)

lemma evolves_trans [trans]: "evolves s t \<Longrightarrow> evolves t u \<Longrightarrow> evolves s u"
  unfolding evolves_def by (blast intro: later_trans dest: sound_later)

text \<open>Changes of fields the relation does not look at.\<close>

lemma evolves_silent:
  assumes "ss_config s' = ss_config s" "ss_context s' = ss_context s"
    "ss_negotiated_msize s' = ss_negotiated_msize s" "ss_effects s' = ss_effects s"
    "ss_operation_ids s' = ss_operation_ids s"
    "ss_last_issued_operation_id s' = ss_last_issued_operation_id s"
    "\<And>i. outstanding s' i \<Longrightarrow> outstanding s i"
    "ss_terminal_reason s \<noteq> None \<Longrightarrow> ss_terminal_reason s' \<noteq> None"
    "ss_cleanup_started s \<Longrightarrow> ss_cleanup_started s'"
    "ss_terminal_effect_delivered s \<Longrightarrow> ss_terminal_effect_delivered s'"
  shows "evolves s s'"
  using assms active_msize_cong [OF assms(3,1)] by (auto simp: evolves_def later_def sound_def)

definition transits :: "(session, 'e, 'a) action \<Rightarrow> bool" where
  "transits m \<longleftrightarrow> (\<forall>s. evolves s (snd (m s)))"

named_theorems transits_intros

lemma transitsD: "transits m \<Longrightarrow> m s = (r, s') \<Longrightarrow> evolves s s'"
  by (metis transits_def snd_conv)

lemma transits_sreturn [transits_intros]: "transits (sreturn x)"
  by (simp add: transits_def sreturn_def)

lemma transits_smodify [transits_intros]: "(\<And>s. evolves s (f s)) \<Longrightarrow> transits (smodify f)"
  by (simp add: transits_def smodify_def)

lemma transits_sbind [transits_intros]:
  assumes "transits m" and "\<And>x. transits (f x)"
  shows "transits (sbind m f)"
  unfolding transits_def
proof
  fix s
  show "evolves s (snd (sbind m f s))"
    using assms evolves_trans
    by (auto simp: sbind_def transits_def split: prod.splits sum.splits) (metis snd_conv)+
qed

lemma transits_on_err [transits_intros]:
  assumes "transits m" and "\<And>s. evolves s (undo s)"
  shows "transits (on_err m undo)"
  unfolding transits_def
proof
  fix s
  show "evolves s (snd (on_err m undo s))"
    using assms evolves_trans
    by (auto simp: on_err_def transits_def split: prod.splits sum.splits) (metis snd_conv)+
qed

lemma transits_if [transits_intros]:
  "transits m \<Longrightarrow> transits n \<Longrightarrow> transits (if c then m else n)"
  by simp

lemma transits_if_state:
  "transits m \<Longrightarrow> transits n \<Longrightarrow> transits (\<lambda>s. if c s then m s else n s)"
  by (simp add: transits_def)

section \<open>Primitives\<close>

lemma evolves_queued:
  assumes "queued es s s'" and "sound s \<Longrightarrow> \<forall>e \<in> set es. sent_ok (session_limits s) e"
  shows "evolves s s'"
proof -
  have "ss_effects s' = ss_effects s @ es"
    using assms(1) by (simp add: queued_def)
  then show ?thesis
    using assms(2) by (auto simp: evolves_def later_def sound_def outstanding_def queued_fields [OF assms(1)])
qed

lemma transits_queue_effect [transits_intros]:
  assumes "\<And>lim. sent_ok lim e"
  shows "transits (queue_effect e)"
  unfolding transits_def
proof
  fix s
  show "evolves s (snd (queue_effect e s))"
  proof (cases "queue_effect e s")
    case (Pair r s')
    then show ?thesis
      using assms by (cases r) (auto dest: queue_effect_Inl queue_effect_Inr intro: evolves_queued)
  qed
qed

lemma transits_respond [transits_intros]: "transits (respond tag body)"
  unfolding transits_def
proof
  fix s
  have send: "evolves s s'" if sent: "respond tag body s = (Inr u, s')" for u s'
  proof -
    obtain bs where bs: "encode_response \<lparr>res_tag = tag, res_body = body\<rparr> (active_msize s) = Inr bs"
      and q: "queued [SendFrame bs] s s'"
      using respond_Inr [OF sent] by blast
    have "sent_ok (session_limits s) (SendFrame bs)" if "sound s"
      using bs that unfolding encode_response_exact sound_def word_le_nat_alt
      by (auto intro!: exI [of _ "\<lparr>res_tag = tag, res_body = body\<rparr>"])
    then show ?thesis
      by (intro evolves_queued [OF q]) simp
  qed
  show "evolves s (snd (respond tag body s))"
  proof (cases "respond tag body s")
    case (Pair r s')
    then show ?thesis
      using send by (cases r) (auto dest: respond_Inl)
  qed
qed

lemma transits_state_error [transits_intros]: "transits (queue_state_error tag e)"
  by (simp add: queue_state_error_def transits_respond)

lemma evolves_fids: "evolves s (s\<lparr>ss_fids := fids, ss_accounting := acc\<rparr>)"
  by (rule evolves_silent) (simp_all add: outstanding_def)

lemma evolves_insert_fid [transits_intros]: "evolves s (insert_fid f st s)"
  using evolves_fids [where s = s and fids = "hm_insert f st (ss_fids s)" and acc = "ss_accounting s"] by (simp add: insert_fid_def)

lemma evolves_retire_fid [transits_intros]: "evolves s (retire_fid f s)"
  using evolves_fids by (simp add: retire_fid_def)

lemma evolves_rollback [transits_intros]: "evolves s (rollback_continuation c s)"
  by (cases c) (simp_all add: rollback_walk_def evolves_insert_fid evolves_retire_fid)

lemma evolves_accounting: "evolves s (s\<lparr>ss_accounting := a\<rparr>)"
  using evolves_fids [where s = s and fids = "ss_fids s" and acc = a] by simp

lemma evolves_release [transits_intros]: "evolves s (release_in_flight s)" "evolves s (release_write_bytes n s)"
  by (simp_all add: release_in_flight_def release_write_bytes_def evolves_accounting)

lemma transits_reserve [transits_intros]: "transits reserve_in_flight" "transits (reserve_write_bytes n)"
  by (auto simp: transits_def reserve_in_flight_def reserve_write_bytes_def evolves_accounting
      split: sum.splits)

lemma transits_claim_fid [transits_intros]: "transits (claim_fid tag f)"
  unfolding transits_def
proof
  fix s
  have "evolves s (snd (sbind (queue_state_error tag DuplicateFid) (\<lambda>_. sreturn False) s))"
    using transits_sbind [OF transits_state_error [of tag DuplicateFid] transits_sreturn [of False]]
    by (simp add: transits_def)
  moreover have "evolves s (s\<lparr>ss_accounting := a, ss_fids := m\<rparr>)" for a m
    by (rule evolves_silent) (simp_all add: outstanding_def)
  ultimately show "evolves s (snd (claim_fid tag f s))"
    by (simp add: claim_fid_def split: sum.splits)
qed

lemma evolves_issue:
  assumes "ss_operation_ids s = Some i" and "ss_operation_ids s' = checked_add i 1"
    "ss_last_issued_operation_id s' = i" and "\<And>j. outstanding s' j \<Longrightarrow> j = i \<or> outstanding s j"
    and "ss_config s' = ss_config s" "ss_context s' = ss_context s"
    "ss_negotiated_msize s' = ss_negotiated_msize s" "ss_effects s' = ss_effects s"
    "ss_terminal_reason s' = ss_terminal_reason s" "ss_cleanup_started s' = ss_cleanup_started s"
    "ss_terminal_effect_delivered s' = ss_terminal_effect_delivered s"
  shows "evolves s s'"
proof -
  have "sound s \<Longrightarrow> sound s' \<and> ss_last_issued_operation_id s < i"
    using assms(1-3) ids_ok_issue [of i "ss_last_issued_operation_id s"] active_msize_cong [OF assms(7,5)]
      assms(5) by (auto simp: sound_def)
  then show ?thesis
    using assms unfolding evolves_def later_def by (auto dest!: assms(4))
qed

lemma transits_emit_operation [transits_intros]:
  assumes "\<And>i lim. sent_ok lim (mk i)"
  shows "transits (emit_operation tag e k c wb mk)"
  unfolding transits_def
proof
  fix s
  show "evolves s (snd (emit_operation tag e k c wb mk s))"
  proof (cases "hm_get (ss_pending_by_tag s) tag")
    case (Some p)
    then show ?thesis
      using transits_state_error [of tag DuplicateTag]
      by (simp add: emit_operation_def hm_contains_def transits_def)
  next
    case None
    have issue: "ss_operation_ids s = Some i \<Longrightarrow> evolves s (burned i s)"
      "ss_operation_ids s = Some i \<Longrightarrow> evolves s (emitted tag (fresh_pending e k c wb i) s)" for i
      by (rule evolves_issue; auto simp: burned_def emitted_def fresh_pending_def outstanding_def split: if_splits)+
    show ?thesis
    proof (cases "emit_operation tag e k c wb mk s")
      case (Pair r s')
      show ?thesis
      proof (cases r)
        case (Inl err)
        then show ?thesis
          using emit_operation_Inl [OF _ None] Pair issue(1) by fastforce
      next
        case (Inr u)
        then obtain i where i: "ss_operation_ids s = Some i"
          and q: "queued [mk i] (emitted tag (fresh_pending e k c wb i) s) s'"
          using emit_operation_Inr [OF _ None] Pair by blast
        show ?thesis
          using evolves_trans [OF issue(2) [OF i] evolves_queued [OF q]] assms Pair by simp
      qed
    qed
  qed
qed

section \<open>Handlers\<close>

lemma transits_emit [transits_intros]:
  "transits (emit_filesystem tag request c wb)" "transits (emit_policy tag request' c wb)"
  by (simp_all add: emit_filesystem_def emit_policy_def transits_emit_operation)

lemma transits_emit_checked [transits_intros]:
  "transits (emit_filesystem_checked tag ctx caps op c wb)"
  "transits (emit_object_checked tag object op c wb)"
proof -
  have "transits (sbind (smodify (rollback_continuation c)) (\<lambda>_. queue_state_error tag Unsupported))"
    by (intro transits_intros)
  then have "evolves s (snd (queue_state_error tag Unsupported (rollback_continuation c s)))" for s
    by (simp add: transits_def sbind_def smodify_def)
  then show "transits (emit_filesystem_checked tag ctx caps op c wb)" for ctx caps
    using transits_emit(1) by (simp add: transits_def emit_filesystem_checked_def split: sum.splits)
  then show "transits (emit_object_checked tag object op c wb)"
    by (simp add: emit_object_checked_def)
qed

lemma transits_lookup:
  assumes "\<And>st. transits (k st)"
  shows "transits (\<lambda>s. k (hm_get (ss_fids s) fid) s)"
  using assms by (simp add: transits_def)

lemma transits_with_fid [transits_intros]:
  "(\<And>object. transits (k object)) \<Longrightarrow> transits (with_fid tag fid k)"
  using transits_state_error
  by (auto simp: transits_def with_fid_def split: option.splits fid_state.splits)

lemma transits_with_object [transits_intros]:
  "(\<And>object. transits (k object)) \<Longrightarrow> transits (with_object tag fid k)"
proof -
  assume k: "\<And>object. transits (k object)"
  have "transits (object_fid tag fid)"
    unfolding transits_def
  proof
    fix s
    have "evolves s (snd (sbind (queue_state_error tag e) (\<lambda>_. sreturn (None :: object_fid option)) s))"
      for e
      using transits_sbind [OF transits_state_error [of tag e] transits_sreturn [of "None :: object_fid option"]]
      by (simp add: transits_def)
    then show "evolves s (snd (object_fid tag fid s))"
      by (cases rule: object_fid_cases [of tag fid s]) simp_all
  qed
  then show ?thesis
    unfolding with_object_def using k
    by (auto intro!: transits_intros split: option.splits)
qed

lemma transits_with_directory [transits_intros]:
  "(\<And>object. transits (k object)) \<Longrightarrow> transits (with_directory tag fid k)"
  unfolding with_directory_eq by (intro transits_intros)

lemma transits_with_auth [transits_intros]:
  "(\<And>qid handle. transits (k qid handle)) \<Longrightarrow> transits (with_auth tag fid k)"
  using transits_state_error
  by (auto simp: transits_def with_auth_def split: option.splits fid_state.splits)

lemma transits_with_pending_fid [transits_intros]:
  assumes "transits m"
  shows "transits (with_pending_fid fid st m)"
proof -
  have "transits (sbind (smodify (insert_fid fid FidPending)) (\<lambda>_. on_err m (insert_fid fid st)))"
    by (intro transits_intros assms)
  then show ?thesis
    by (simp add: transits_def with_pending_fid_def sbind_def smodify_def)
qed

lemma transits_with_claimed_fid [transits_intros]:
  "transits m \<Longrightarrow> (\<And>s. evolves s (undo s)) \<Longrightarrow> transits (with_claimed_fid tag fid m undo)"
  unfolding with_claimed_fid_def by (intro transits_intros)

lemma transits_fsync [transits_intros]: "transits (handle_fsync tag fid data_only)"
  by (auto simp: handle_fsync_def clunk_release_def Let_def split: option.split sum.split xattr_mode.split intro!: transits_intros)

lemma transits_lock [transits_intros]: "transits (handle_lock tag fid l)"
  by (auto simp: handle_lock_def clunk_release_def Let_def split: option.split sum.split xattr_mode.split intro!: transits_intros)

lemma transits_getlock [transits_intros]: "transits (handle_getlock tag fid l)"
  by (auto simp: handle_getlock_def clunk_release_def Let_def split: option.split sum.split xattr_mode.split intro!: transits_intros)

lemma transits_xattr_walk [transits_intros]: "transits (handle_xattr_walk tag fid new_fid name)"
  by (auto simp: handle_xattr_walk_def clunk_release_def Let_def split: option.split sum.split xattr_mode.split intro!: transits_intros)

lemma transits_xattr_create [transits_intros]: "transits (handle_xattr_create tag fid name sz flags)"
  by (auto simp: handle_xattr_create_def clunk_release_def Let_def split: option.split sum.split xattr_mode.split intro!: transits_intros)

lemma transits_mkdir [transits_intros]: "transits (handle_mkdir tag fid name mode gid)"
  by (auto simp: handle_mkdir_def clunk_release_def Let_def split: option.split sum.split xattr_mode.split intro!: transits_intros)

lemma transits_mknod [transits_intros]: "transits (handle_mknod tag fid name mode major minor gid)"
  by (auto simp: handle_mknod_def clunk_release_def Let_def split: option.split sum.split xattr_mode.split intro!: transits_intros)

lemma transits_symlink [transits_intros]: "transits (handle_symlink tag fid name target gid)"
  by (auto simp: handle_symlink_def clunk_release_def Let_def split: option.split sum.split xattr_mode.split intro!: transits_intros)

lemma transits_link [transits_intros]: "transits (handle_link tag fid target name)"
  by (auto simp: handle_link_def clunk_release_def Let_def split: option.split sum.split xattr_mode.split intro!: transits_intros)

lemma transits_rename [transits_intros]: "transits (handle_rename tag fid directory name)"
  by (auto simp: handle_rename_def clunk_release_def Let_def split: option.split sum.split xattr_mode.split intro!: transits_intros)

lemma transits_rename_at [transits_intros]: "transits (handle_rename_at tag od on nd nn)"
  by (auto simp: handle_rename_at_def clunk_release_def Let_def split: option.split sum.split xattr_mode.split intro!: transits_intros)

lemma transits_unlink_at [transits_intros]: "transits (handle_unlink_at tag fid name flags)"
  by (auto simp: handle_unlink_at_def clunk_release_def Let_def split: option.split sum.split xattr_mode.split intro!: transits_intros)

lemma transits_statfs [transits_intros]: "transits (handle_statfs tag fid)"
  by (auto simp: handle_statfs_def clunk_release_def Let_def split: option.split sum.split xattr_mode.split intro!: transits_intros)

lemma transits_getattr [transits_intros]: "transits (handle_getattr tag fid m)"
  by (auto simp: handle_getattr_def clunk_release_def Let_def split: option.split sum.split xattr_mode.split intro!: transits_intros)

lemma transits_setattr [transits_intros]: "transits (handle_setattr tag fid attributes)"
  by (auto simp: handle_setattr_def clunk_release_def Let_def split: option.split sum.split xattr_mode.split intro!: transits_intros)

lemma transits_readlink [transits_intros]: "transits (handle_readlink tag fid)"
  by (auto simp: handle_readlink_def clunk_release_def Let_def split: option.split sum.split xattr_mode.split intro!: transits_intros)

lemma transits_open [transits_intros]: "transits (handle_open tag fid flags)"
  by (auto simp: handle_open_def clunk_release_def Let_def split: option.split sum.split xattr_mode.split intro!: transits_intros)

lemma transits_create [transits_intros]: "transits (handle_create tag fid name flags mode gid)"
  by (auto simp: handle_create_def clunk_release_def Let_def split: option.split sum.split xattr_mode.split intro!: transits_intros)

lemma transits_remove [transits_intros]: "transits (handle_remove tag fid)"
  by (auto simp: handle_remove_def clunk_release_def Let_def split: option.split sum.split xattr_mode.split intro!: transits_intros)

lemma transits_auth_write [transits_intros]: "transits (handle_auth_write tag fid offset data)"
  by (auto simp: handle_auth_write_def clunk_release_def Let_def split: option.split sum.split xattr_mode.split intro!: transits_intros)

lemma transits_auth_clunk [transits_intros]: "transits (handle_auth_clunk tag fid)"
  by (auto simp: handle_auth_clunk_def clunk_release_def Let_def split: option.split sum.split xattr_mode.split intro!: transits_intros)

lemma transits_walk [transits_intros]: "transits (handle_walk tag fid new_fid names)"
  by (auto simp: handle_walk_def clunk_release_def Let_def split: option.split sum.split xattr_mode.split intro!: transits_intros)

lemma transits_object_clunk [transits_intros]: "transits (handle_object_clunk tag fid)"
  by (auto simp: handle_object_clunk_def clunk_release_def Let_def split: option.split sum.split xattr_mode.split intro!: transits_intros)

text \<open>Handlers that read the state before they act.\<close>

lemma transitsE: "transits m \<Longrightarrow> evolves s (snd (m s))"
  by (simp add: transits_def)

lemmas evolves_actions = transits_respond [THEN transitsE] transits_state_error [THEN transitsE]
  transits_emit_checked [THEN transitsE] transits_emit [THEN transitsE]

lemma transits_readdir [transits_intros]: "transits (handle_readdir tag fid offset n)"
proof -
  have "transits (\<lambda>s. let maximum = io_maximum n s in
      emit_object_checked tag object (FsReadDir opn offset maximum) (ContReaddir maximum) 0 s)"
    for object opn
    by (simp add: transits_def Let_def evolves_actions)
  then show ?thesis
    unfolding handle_readdir_def by (auto split: option.split intro!: transits_intros)
qed

lemma transits_xattr_read [transits_intros]: "transits (handle_xattr_read tag object xattr offset n)"
  unfolding transits_def handle_xattr_read_def Let_def
  by (simp add: evolves_actions split: xattr_mode.split)

lemma transits_file_read [transits_intros]: "transits (handle_file_read tag fid offset n)"
proof -
  have "transits (\<lambda>s. let maximum = io_maximum n s in
      if checked_add offset (ucast maximum) = None then respond tag (ResLerror EOVERFLOW) s
      else emit_object_checked tag object (FsRead opn offset maximum) (ContRead maximum) 0 s)" for object opn
    by (simp add: transits_def Let_def evolves_actions)
  then show ?thesis
    unfolding handle_file_read_def by (auto split: option.split intro!: transits_intros)
qed

lemma transits_xattr_write [transits_intros]: "transits (handle_xattr_write tag fid object xattr offset data)"
  by (auto simp: handle_xattr_write_def Let_def split: option.split sum.split xattr_mode.split
      intro!: transits_intros)

lemma transits_file_write [transits_intros]: "transits (handle_file_write tag fid offset data)"
  by (auto simp: handle_file_write_def Let_def split: option.split intro!: transits_intros)

lemma transits_auth_read [transits_intros]: "transits (handle_auth_read tag fid offset n)"
  unfolding handle_auth_read_def
  by (rule transits_with_auth) (simp add: transits_def Let_def evolves_actions)

lemma transits_auth [transits_intros]: "transits (handle_auth tag afid uname aname n_uname)"
  using transits_with_claimed_fid [OF transits_emit(2) evolves_retire_fid, THEN transitsE]
  by (simp add: transits_def handle_auth_def evolves_actions)

lemma transits_attach [transits_intros]: "transits (handle_attach tag fid afid uname aname n_uname)"
  using transits_with_claimed_fid [OF transits_emit(2) evolves_retire_fid, THEN transitsE]
  by (simp add: transits_def handle_attach_def Let_def evolves_actions split: option.split fid_state.split)

lemma evolves_tables:
  "evolves s (s\<lparr>ss_pending_by_tag := pend, ss_flushes := flushes\<rparr>)" "evolves s (s\<lparr>ss_flushes := flushes\<rparr>)"
  by (rule evolves_silent; simp add: outstanding_def)+

lemma transits_flush [transits_intros]: "transits (handle_flush tag old_tag)"
proof -
  have "transits (sbind reserve_in_flight (\<lambda>_. sbind
      (if b then sreturn () else on_err (queue_effect (CancelEffect i k)) release_in_flight)
      (\<lambda>_. smodify (\<lambda>s. s\<lparr>ss_pending_by_tag := f (ss_pending_by_tag s),
         ss_flushes := g (ss_flushes s)\<rparr>))))" for b i k f g
    by (intro transits_intros evolves_tables) simp
  note pending = this
  have nested: "transits (sbind reserve_in_flight
      (\<lambda>_. smodify (\<lambda>s. s\<lparr>ss_flushes := hm_modify old_tag h (hm_insert tag flush_state_default
         (ss_flushes s))\<rparr>)))" for h
    by (intro transits_intros evolves_tables)
  show ?thesis
    using pending [THEN transitsE] nested [THEN transitsE]
    by (simp add: transits_def handle_flush_def evolves_actions split: option.split)
qed

section \<open>Closing and version negotiation\<close>

lemma evolves_drain: "evolves s (drain_fids_to_cleanup s)"
  by (rule evolves_silent) (simp_all add: drain_fids_eq outstanding_def)

lemma evolves_start_cleanup: "evolves s (start_cleanup s)"
  by (cases "ss_cleanup_started s"; rule evolves_silent)
    (simp_all add: start_cleanup_def Let_def foldl_cancel_for_close drain_fids_eq outstanding_def)

lemma evolves_close: "evolves s (s\<lparr>ss_decoder := d, ss_terminal_reason := Some r\<rparr>)"
  by (rule evolves_silent) (simp_all add: outstanding_def)

lemma evolves_fail [transits_intros]:
  "evolves s (fail_decode e s)" "evolves s (fail_protocol reason s)" "evolves s (begin_close s)"
proof -
  have "evolves s (s\<lparr>ss_terminal_reason := Some r\<rparr>)" for r
    using evolves_close [where s = s and d = "ss_decoder s" and r = r] by simp
  then show "evolves s (fail_decode e s)" "evolves s (fail_protocol reason s)" "evolves s (begin_close s)"
    unfolding fail_decode_def fail_protocol_def begin_close_def
    by (auto intro: evolves_trans [OF evolves_close evolves_start_cleanup]
        evolves_trans [OF _ evolves_start_cleanup] evolves_start_cleanup)
qed

lemma session_inv_sound: "session_inv H Q s \<Longrightarrow> sound s"
  by (auto simp: sound_def session_inv_def tables_ok_iff config_ok_def active_msize_def split: option.splits)

lemma reset_outstanding:
  assumes inv: "session_inv {} Q s" and "outstanding (reset_for_version s) i"
  shows "outstanding s i"
proof -
  let ?order = "pending_order (ss_hasher s) (ss_pending_by_tag s)"
  have ok: "hm_ok (ss_pending_by_tag s)" "hm_ok (ss_abandoned_operations s)" "hasher_ok (ss_hasher s)"
    using inv by (simp_all add: session_inv_def tables_ok_def config_ok_def)
  have "hm_get (ss_abandoned_operations s) i \<noteq> None \<or> (\<exists>e \<in> set ?order. i = po_operation_id (snd e))"
    using assms(2) foldl_hm_insert(2) [OF ok(2), of "\<lambda>e. po_operation_id (snd e)" "\<lambda>e. po_expected (snd e)" ?order i]
    by (auto simp: outstanding_def reset_for_version_def Let_def foldl_abandon_pending drain_fids_eq)
  then show ?thesis
  proof
    assume "\<exists>e \<in> set ?order. i = po_operation_id (snd e)"
    then obtain t p where "(t, p) \<in> set (ss_pending_by_tag s)" "i = po_operation_id p"
      using ok(3) by (metis hasher_ok_def prod.collapse set_mset_mset)
    then have "hm_get (ss_tag_by_operation s) i = Some t"
      using inv hm.entries_get [OF ok(1)] by (auto simp: session_inv_def tables_ok_def)
    then show ?thesis by (simp add: outstanding_def)
  qed (simp add: outstanding_def)
qed

lemma evolves_version:
  assumes inv: "session_ok s"
  shows "evolves s (snd (handle_version tag requested_msize version s))"
proof -
  obtain aband c where eq: "reset_for_version s =
      s\<lparr>ss_negotiated_msize := None, ss_decoder := frame_decoder_clear (ss_decoder s),
        ss_flushes := [], ss_pending_by_tag := [], ss_tag_by_operation := [], ss_fids := [],
        ss_abandoned_operations := aband, ss_cleanup := c,
        ss_accounting := (ss_accounting s)
          \<lparr>acc_in_flight_tags := 0, acc_pending_write_bytes := 0, acc_fids := 0\<rparr>\<rparr>"
    by (rule reset_for_version_eq [OF inv]) (rule that)
  have "evolves s ((reset_for_version s)\<lparr>ss_negotiated_msize := m\<rparr>)"
    if "\<And>n. m = Some n \<Longrightarrow> n \<le> max_frame_size (session_limits s)" for m
  proof -
    have "outstanding ((reset_for_version s)\<lparr>ss_negotiated_msize := m\<rparr>) i \<Longrightarrow> outstanding s i" for i
      using reset_outstanding [OF inv] by (simp add: outstanding_def)
    then show ?thesis
      using that by (auto simp: evolves_def later_def sound_def eq active_msize_def split: option.splits)
  qed
  note reset = this
  have config: "ss_config (reset_for_version s) = ss_config s"
    by (simp add: eq)
  show ?thesis
    unfolding handle_version_def Let_def config
    by (auto intro!: evolves_trans [OF reset evolves_actions(1)] simp: evolves_actions evolves_fail)
qed

section \<open>Input\<close>

lemma transits_dispatch_body:
  "request_message_type body \<noteq> Tversion \<Longrightarrow> transits (dispatch_body body tag)"
  by (cases body) (auto intro!: transits_if_state transits_intros)

lemma evolves_dispatch:
  assumes "session_ok s"
  shows "evolves s (snd (dispatch request s))"
proof (cases "request_message_type (req_body request) = Tversion")
  case True
  then obtain msize version where "req_body request = ReqVersion msize version"
    by (cases "req_body request") auto
  then show ?thesis
    using evolves_version [OF assms] by (simp add: dispatch_def)
next
  case False
  then show ?thesis
    using transitsE [OF transits_dispatch_body]
    by (simp add: dispatch_def Let_def evolves_actions evolves_fail)
qed

lemma evolves_receive_decoded:
  assumes "session_ok s"
  shows "evolves s (snd (receive_decoded_frame frame s))"
  using evolves_dispatch [OF assms] evolves_fail
  by (auto simp: receive_decoded_frame_def split: sum.split)

lemma evolves_receive_frames:
  assumes "session_ok s" and "ss_terminal_reason s = None"
  shows "evolves s (snd (receive_frames frames s))"
  using assms
proof (induction frames arbitrary: s)
  case (Cons frame frames)
  obtain r s1 where run: "receive_decoded_frame frame s = (r, s1)"
    by fastforce
  have ok: "session_ok s1" "evolves s s1"
    using receive_decoded_frame_inv [OF Cons.prems, of frame] evolves_receive_decoded [OF Cons.prems(1), of frame]
    by (simp_all add: run)
  then show ?case
    using evolves_trans [OF ok(2) Cons.IH [OF ok(1)]]
    by (auto simp: sbind_def run split: sum.split)
qed (simp add: sreturn_def)

lemma evolves_receive_bytes:
  assumes inv: "session_ok s"
  shows "evolves s (snd (receive_bytes bs s))"
proof (cases "ss_terminal_reason s")
  case None
  let ?d = "snd (push bs (active_msize s) (ss_decoder s))"
  have d: "decoder_ok (ss_decoder s)"
    by (rule inv_decoder_ok(1) [OF inv])
  have ok: "session_ok (s\<lparr>ss_decoder := ?d\<rparr>)"
    by (rule session_inv_decoder [OF inv keepsD [OF keeps_push d] push_keeps_bounds [OF d]])
  have dec: "evolves s (s\<lparr>ss_decoder := d\<rparr>)" for d
    by (rule evolves_silent) (simp_all add: outstanding_def)
  show ?thesis
    using evolves_trans [OF dec evolves_fail(1)] evolves_trans [OF dec evolves_receive_frames [OF ok]] None
    by (auto simp: receive_bytes_def ensure_active_def sbind_def split: prod.splits sum.splits)
qed (simp add: receive_bytes_def ensure_active_def sbind_def)

lemma evolves_receive_frame:
  assumes "session_ok s"
  shows "evolves s (snd (receive_frame frame s))"
  using evolves_receive_decoded [OF assms]
  by (auto simp: receive_frame_def ensure_active_def sbind_def split: prod.splits sum.splits)

section \<open>Completion and polling\<close>

lemma evolves_settles: "settles c s s' \<Longrightarrow> evolves s s'"
  by (auto simp: settles_def evolves_retire_fid evolves_insert_fid split: option.splits)

lemma evolves_respond_or_fail: "evolves s (respond_or_fail b tag body reason s)"
proof -
  obtain r s1 where run: "respond tag body s = (r, s1)"
    by fastforce
  then have "evolves s s1"
    using transitsE [OF transits_respond, of s tag body] by simp
  then show ?thesis
    using evolves_trans [OF _ evolves_fail(2)] by (auto simp: respond_or_fail_def run split: sum.split)
qed

lemma evolves_finish_flushes: "evolves s (finish_flushes tags s)"
proof (induction tags s rule: finish_flushes.induct)
  case (2 tag tags s)
  have "evolves s (finish_one_flush tag f s)" for f
    unfolding finish_one_flush_def
    by (rule evolves_trans [OF evolves_trans [OF evolves_tables(2) evolves_release(1)] evolves_respond_or_fail])
  then show ?case
    using 2 by (auto split: option.split intro: evolves_trans)
qed simp

lemma evolves_finish_pending:
  assumes "continuation_ok m (po_continuation p)"
  shows "evolves s (finish_pending tag p completion s)"
proof -
  let ?s1 = "snd (finish_body (po_continuation p) completion s)"
  have "evolves s ?s1"
    by (rule evolves_settles [OF settles_finish_body [OF assms]])
  then have "evolves s (if ss_terminal_reason ?s1 \<noteq> None then drain_fids_to_cleanup ?s1 else ?s1)"
    using evolves_trans [OF _ evolves_drain] by simp
  from evolves_trans [OF evolves_trans [OF this evolves_respond_or_fail] evolves_finish_flushes]
  show ?thesis
    unfolding finish_pending_def Let_def split_beta .
qed

lemma evolves_complete:
  assumes inv: "session_ok s" and c: "complete completion s = Some (r, s')"
  shows "evolves s s'"
proof -
  let ?i = "completion_operation_id completion"
  have aband: "evolves s (s\<lparr>ss_abandoned_operations := hm_remove i (ss_abandoned_operations s)\<rparr>)" for i
    by (rule evolves_silent) (auto simp: outstanding_def split: if_splits)
  have rel: "evolves s (released ?i t p s)" for t p
    by (rule evolves_silent) (auto simp: released_eq outstanding_def split: if_splits)
  have cont: "continuation_ok (active_msize s) (po_continuation p)"
    if "hm_get (ss_pending_by_tag s) t = Some p" for t p
    using inv that by (simp add: session_inv_def all_pending_ok_def pending_ok_def)
  have "evolves s (finish_pending t p completion (released ?i t p s))"
    if "hm_get (ss_pending_by_tag s) t = Some p" for t p
    by (rule evolves_trans [OF rel evolves_finish_pending [OF cont [OF that]]])
  then show ?thesis
    using c aband
    by (auto simp: complete_def Let_def released_def split: option.splits sum.splits if_splits)
qed

lemma evolves_poll: "evolves s (snd (poll_effect s))"
proof (cases "ss_effects s")
  case (Cons e es)
  have "active_msize (snd (poll_effect s)) = active_msize s"
    using Cons by (intro active_msize_cong) (simp_all add: poll_effect_def)
  then show ?thesis
    using Cons by (auto simp: evolves_def later_def sound_def poll_effect_def outstanding_def)
next
  case Nil
  have issue: "evolves t (snd (issue_cleanup e mk t))" for e mk t
  proof (cases "ss_operation_ids t")
    case None
    have "evolves t (t\<lparr>ss_operation_ids := None, ss_terminal_reason := Some ResourceExhausted\<rparr>)"
      using None by (intro evolves_silent) (simp_all add: outstanding_def)
    then show ?thesis
      using None by (simp add: issue_cleanup_def allocate_id_def allocate_def)
  next
    case (Some i)
    then show ?thesis
      by (intro evolves_issue [OF Some])
        (auto simp: issue_cleanup_def allocate_id_def allocate_def outstanding_def split: if_splits)
  qed
  have clean: "evolves s (s\<lparr>ss_cleanup := c\<rparr>)" for c
    by (rule evolves_silent) (simp_all add: outstanding_def)
  have "evolves s (s\<lparr>ss_terminal_effect_delivered := True\<rparr>)"
    by (rule evolves_silent) (simp_all add: outstanding_def)
  then show ?thesis
    using Nil clean evolves_trans [OF clean issue]
    by (auto simp: poll_effect_def cleanup_effect_def split: list.split option.split cleanup_action.split)
qed

section \<open>Runs\<close>

lemma session_step_evolves:
  assumes "session_step s s'" and "session_ok s"
  shows "evolves s s'"
  using assms
proof (cases rule: session_step.cases)
  case (step_rehash h)
  then show ?thesis
    by (intro evolves_silent) (simp_all add: outstanding_def)
qed (simp_all add: evolves_receive_bytes evolves_receive_frame evolves_complete evolves_poll evolves_fail)

lemma session_run_later:
  assumes "session_step\<^sup>*\<^sup>* s s'" and "session_ok s"
  shows "session_ok s' \<and> later s s'"
  using assms(1)
proof (induction rule: rtranclp_induct)
  case base
  then show ?case
    using assms(2) session_inv_sound [OF assms(2)] evolves_refl [of s] unfolding evolves_def by blast
next
  case (step t u)
  then have "evolves s u"
    using session_step_evolves evolves_trans [of s t u] by (auto simp: evolves_def)
  then show ?case
    using step session_step_inv session_inv_sound [OF assms(2)] by (auto simp: evolves_def)
qed

end
