(* ===== verification/Session_Samples.thy ===== *)
theory Session_Samples
  imports Session_Trace
begin

text \<open>
  Concrete sessions, reached by running the model: a fresh session, one that negotiated a
  version, one with an attach in flight, one with an attached root, and one with a flushed
  request. They instantiate the properties of the sessions.
\<close>

definition sample_limits :: limits where
  "sample_limits =
     \<lparr>max_frame_size = 64, max_buffered_input_bytes = 64, max_queued_effects = 8,
      max_queued_effect_bytes = 512, max_in_flight_tags = 4, max_fids = 4, max_walk_elements = 4,
      max_string_bytes = 16, max_pending_write_bytes = 64\<rparr>"

definition fresh_session :: session where
  "fresh_session =
     \<lparr>ss_config = \<lparr>cfg_limits = sample_limits\<rparr>, ss_context = session_context_new 1,
      ss_decoder = frame_decoder_new sample_limits, ss_negotiated_msize = None, ss_effects = [],
      ss_accounting = accounting_default, ss_operation_ids = allocator_new, ss_pending_by_tag = [],
      ss_flushes = [], ss_tag_by_operation = [], ss_abandoned_operations = [],
      ss_last_issued_operation_id = 0, ss_fids = [], ss_cleanup = [], ss_cleanup_started = False,
      ss_terminal_reason = None, ss_terminal_effect_delivered = False,
      ss_hasher = hasher_insertion\<rparr>"

definition input :: "tag \<Rightarrow> request_body \<Rightarrow> session \<Rightarrow> session" where
  "input tag body s = snd (receive_frame (wire_request \<lparr>req_tag = tag, req_body = body\<rparr>) s)"

definition answer :: "completion \<Rightarrow> session \<Rightarrow> session" where
  "answer c s = (case complete c s of Some (r, s') \<Rightarrow> s' | None \<Rightarrow> s)"

definition polled :: "session \<Rightarrow> session" where
  "polled s = snd (poll_effect s)"

definition negotiated_session :: session where
  "negotiated_session = polled (input NOTAG (ReqVersion 64 VERSION_9P2000_L) fresh_session)"

definition attaching_session :: session where
  "attaching_session =
     polled (input 1 (ReqAttach 0 NOFID [] [] NO_NUMERIC_USER) negotiated_session)"

definition root_result :: attach_result where
  "root_result =
     \<lparr>ar_principal = [], ar_export = [], ar_root = 1,
      ar_qid = \<lparr>qid_ty = QidType_DIRECTORY, qid_version = 0, qid_path = 1\<rparr>,
      ar_capabilities = CapabilitySet_ALL\<rparr>"

definition attached_session :: session where
  "attached_session = polled (answer (CompPolicy 1 (Inr (Attached root_result))) attaching_session)"

definition opened_session :: session where
  "opened_session =
     polled (answer (CompFilesystem 2 (Inr (FrOpened
         \<lparr>or_qid = \<lparr>qid_ty = QidType_DIRECTORY, qid_version = 0, qid_path = 1\<rparr>, or_open = 7, or_io_unit = 0\<rparr>)))
       (polled (input 2 (ReqLopen 0 0) attached_session)))"

definition reading_session :: session where
  "reading_session = polled (input 3 (ReqReaddir 0 0 100) opened_session)"

definition staged_session :: session where
  "staged_session =
     polled (answer (CompFilesystem 2 (Inr (FrXattrCreated \<lparr>xc_xattr = 5\<rparr>)))
       (polled (input 2 (ReqXattrCreate 0 [97] 10 0) attached_session)))"

definition staging_session :: session where
  "staging_session = polled (input 3 (ReqWrite 0 0 [1, 2, 3]) staged_session)"

definition statfs_session :: session where
  "statfs_session = polled (input 2 (ReqStatfs 0) attached_session)"

definition flushing_session :: session where
  "flushing_session = polled (input 3 (ReqFlush 2) statfs_session)"

lemma fresh_session_reachable: "session_reachable fresh_session"
proof (rule reachable_new)
  show "hasher_ok hasher_insertion"
    by (simp add: hasher_ok_def hasher_insertion_def)
  show "limits_usize (cfg_limits \<lparr>cfg_limits = sample_limits\<rparr>)"
    by (simp add: limits_usize_def sample_limits_def usize_max_def)
  show "session_new hasher_insertion \<lparr>cfg_limits = sample_limits\<rparr> (session_context_new 1) =
      Inr fresh_session"
    by (simp add: session_new_def fresh_session_def limits_validate_def sample_limits_def
        first_zero_def MIN_FRAME_SIZE_def)
qed

lemma reachable_input: "session_reachable s \<Longrightarrow> session_reachable (input tag body s)"
  unfolding input_def by (rule reachable_step [OF _ step_receive_frame])

lemma reachable_answer: "session_reachable s \<Longrightarrow> session_reachable (answer c s)"
  unfolding answer_def by (auto split: option.split intro: reachable_step step_complete)

lemma reachable_polled: "session_reachable s \<Longrightarrow> session_reachable (polled s)"
  unfolding polled_def by (rule reachable_step [OF _ step_poll])

lemma samples_reachable:
  "session_reachable negotiated_session" "session_reachable attaching_session"
  "session_reachable attached_session" "session_reachable statfs_session"
  "session_reachable flushing_session" "session_reachable opened_session"
  "session_reachable reading_session" "session_reachable staged_session"
  "session_reachable staging_session"
  unfolding negotiated_session_def attaching_session_def attached_session_def statfs_session_def
    flushing_session_def opened_session_def reading_session_def staged_session_def staging_session_def
  by (intro reachable_input reachable_answer reachable_polled fresh_session_reachable)+

lemma input_eq:
  assumes "ss_terminal_reason s = None" and "request_ok (session_limits s) body"
    and "length (wire_request \<lparr>req_tag = tag, req_body = body\<rparr>) \<le> unat (active_msize s)"
  shows "input tag body s = snd (dispatch \<lparr>req_tag = tag, req_body = body\<rparr> s)"
proof -
  have "decode_request (wire_request \<lparr>req_tag = tag, req_body = body\<rparr>) (session_limits s) (active_msize s) =
      Inr \<lparr>req_tag = tag, req_body = body\<rparr>"
    using assms by (simp add: decode_request_exact)
  then show ?thesis
    using assms(1) by (simp add: input_def receive_frame_def ensure_active_def sbind_def receive_decoded_frame_def)
qed

lemma respond_eq:
  assumes "response_ok body" and "length (wire_response \<lparr>res_tag = tag, res_body = body\<rparr>) \<le> unat (active_msize s)"
  shows "respond tag body s = queue_effect (SendFrame (wire_response \<lparr>res_tag = tag, res_body = body\<rparr>)) s"
proof -
  have "encode_response \<lparr>res_tag = tag, res_body = body\<rparr> (active_msize s) =
      Inr (wire_response \<lparr>res_tag = tag, res_body = body\<rparr>)"
    using assms by (simp add: encode_response_exact)
  then show ?thesis
    by (simp add: respond_def queue_response_def)
qed

text \<open>The definitions a run is evaluated with.\<close>

lemmas session_eval = dispatch_def handle_version_def reset_for_version_def drain_fids_eq
  respond_eq queue_effect_def reserve_def release_def usize_checked_add_def usize_max_def
  poll_effect_def polled_def active_msize_def NOTAG_def NOFID_def MINIMUM_NEGOTIATED_MSIZE_def Let_def
  wire_response_def length_wire_frame wire_string_def VERSION_9P2000_L_def bytes_of_string_def
  hasher_insertion_def accounting_default_def allocator_new_def sample_limits_def
  frame_decoder_new_def frame_decoder_clear_def string_ok_def wire_request_def hm_get_def hm_insert_def
  hm_contains_def hm_remove_def sbind_def sreturn_def smodify_def on_err_def checked_add_def
  emit_policy_def emit_filesystem_def emit_operation_def reserve_in_flight_def reserve_write_bytes_def
  allocate_id_def allocate_def release_in_flight_def release_write_bytes_def effect_retained_bytes_def
  policy_retained_bytes_def identity_retained_bytes_def from_wire_def
  session_context_new_def usize_saturating_add_def request_retained_bytes_def request_expected_result_def

lemma negotiated_session_eq:
  "negotiated_session = fresh_session\<lparr>ss_negotiated_msize := Some 64\<rparr>"
  unfolding negotiated_session_def
  by (subst input_eq) (simp_all add: session_eval fresh_session_def)

lemma attaching_session_eq:
  "attaching_session = negotiated_session
     \<lparr>ss_operation_ids := Some 2, ss_last_issued_operation_id := 1,
      ss_accounting := accounting_default\<lparr>acc_in_flight_tags := 1, acc_fids := 1\<rparr>,
      ss_pending_by_tag := [(1, fresh_pending (ExpectPolicy PkAttached) CancelPolicy (ContAttach 0) 0 1)],
      ss_tag_by_operation := [(1, 1)], ss_fids := [(0, FidPending)]\<rparr>"
  unfolding attaching_session_def negotiated_session_eq
  by (subst input_eq) (simp_all add: session_eval fresh_session_def handle_attach_def with_claimed_fid_def
      claim_fid_def retire_fid_def fresh_pending_def NO_NUMERIC_USER_def)

definition root_object :: object_fid where
  "root_object =
     \<lparr>of_object = 1, of_qid = \<lparr>qid_ty = QidType_DIRECTORY, qid_version = 0, qid_path = 1\<rparr>,
      of_context = \<lparr>rc_session_id = 1, rc_principal = [], rc_export = []\<rparr>,
      of_capabilities = CapabilitySet_ALL, of_open = None, of_xattr = None\<rparr>"

lemmas completion_eval = complete_def expected_validate_def finish_pending_def finish_body_def
  finish_policy_success_def finish_filesystem_success_def finish_flushes.simps respond_or_fail_def
  insert_fid_def answer_def finish_one_flush_def

lemma attached_session_eq:
  "attached_session = negotiated_session
     \<lparr>ss_operation_ids := Some 2, ss_last_issued_operation_id := 1,
      ss_accounting := accounting_default\<lparr>acc_fids := 1\<rparr>, ss_fids := [(0, FidObject root_object)]\<rparr>"
  unfolding attached_session_def attaching_session_eq negotiated_session_eq
  by (simp add: session_eval completion_eval fresh_session_def fresh_pending_def root_result_def
      root_object_def wire_qid_def)

lemma capability_contains_ALL [simp]: "capability_contains CapabilitySet_ALL c"
proof -
  have all: "CapabilitySet_ALL = mask 31"
    by (simp add: CapabilitySet_ALL_def ALL_CAPABILITIES_def mask_eq_exp_minus_1 push_bit_eq_mult)
  show ?thesis
    unfolding capability_contains_iff_bit all bit_mask_iff
    using capability_index_less [of c] by simp
qed

lemma require_for_ALL [simp]: "require_for CapabilitySet_ALL op = Inr ()"
  by (simp add: require_for_iff)

lemma statfs_session_eq:
  "statfs_session = attached_session
     \<lparr>ss_operation_ids := Some 3, ss_last_issued_operation_id := 2,
      ss_accounting := accounting_default\<lparr>acc_in_flight_tags := 1, acc_fids := 1\<rparr>,
      ss_pending_by_tag := [(2, fresh_pending (ExpectFilesystem KStatfs) CancelFilesystem ContStatfs 0 2)],
      ss_tag_by_operation := [(2, 2)]\<rparr>"
  unfolding statfs_session_def attached_session_eq negotiated_session_eq
  by (subst input_eq) (simp_all add: session_eval fresh_session_def handle_statfs_def with_fid_def
      emit_object_checked_def emit_filesystem_checked_def
      fresh_pending_def root_object_def)

lemma flushing_session_eq:
  "flushing_session = statfs_session
     \<lparr>ss_accounting := accounting_default\<lparr>acc_in_flight_tags := 2, acc_fids := 1\<rparr>,
      ss_pending_by_tag :=
        [(2, flushed (fresh_pending (ExpectFilesystem KStatfs) CancelFilesystem ContStatfs 0 2) 3)],
      ss_flushes := [(3, flush_state_default)]\<rparr>"
  unfolding flushing_session_def statfs_session_eq attached_session_eq negotiated_session_eq
  by (subst input_eq) (simp_all add: session_eval fresh_session_def handle_flush_def hm_modify_def
      fresh_pending_def flushed_def)

lemma opened_session_eq:
  "opened_session = attached_session
     \<lparr>ss_operation_ids := Some 3, ss_last_issued_operation_id := 2,
      ss_fids := [(0, FidObject (root_object\<lparr>of_open := Some 7\<rparr>))]\<rparr>"
proof -
  have "input 2 (ReqLopen 0 0) attached_session =
      snd (dispatch \<lparr>req_tag = 2, req_body = ReqLopen 0 0\<rparr> attached_session)"
    by (rule input_eq) (simp_all add: session_eval fresh_session_def attached_session_eq negotiated_session_eq)
  then show ?thesis
    unfolding opened_session_def attached_session_eq negotiated_session_eq
    by (simp add: session_eval completion_eval fresh_session_def handle_open_def with_fid_def
        with_pending_fid_def object_request_def root_object_def wire_qid_def clamp_io_unit_def)
qed

lemma reading_session_eq:
  "reading_session = opened_session
     \<lparr>ss_operation_ids := Some 4, ss_last_issued_operation_id := 3,
      ss_accounting := accounting_default\<lparr>acc_in_flight_tags := 1, acc_fids := 1\<rparr>,
      ss_pending_by_tag :=
        [(3, fresh_pending (ExpectFilesystem KDirectoryRead) CancelFilesystem (ContReaddir 53) 0 3)],
      ss_tag_by_operation := [(3, 3)]\<rparr>"
  unfolding reading_session_def opened_session_eq attached_session_eq negotiated_session_eq
  by (subst input_eq) (simp_all add: session_eval fresh_session_def handle_readdir_def with_fid_def
      io_maximum_def saturating_sub_def emit_object_checked_def emit_filesystem_checked_def fresh_pending_def
      root_object_def contains_bits_def)

definition staged_object :: object_fid where
  "staged_object = root_object
     \<lparr>of_xattr := Some \<lparr>xs_handle = 5, xs_mode = XattrWriteMode 10 0\<rparr>\<rparr>"

lemma staged_session_eq:
  "staged_session = attached_session
     \<lparr>ss_operation_ids := Some 3, ss_last_issued_operation_id := 2,
      ss_fids := [(0, FidObject staged_object)]\<rparr>"
proof -
  have "input 2 (ReqXattrCreate 0 [97] 10 0) attached_session =
      snd (dispatch \<lparr>req_tag = 2, req_body = ReqXattrCreate 0 [97] 10 0\<rparr> attached_session)"
    by (rule input_eq) (simp_all add: session_eval fresh_session_def attached_session_eq
        negotiated_session_eq xattr_validate_flags_def contains_bits_def XattrFlags_CREATE_def
        utf8_valid_ascii)
  then show ?thesis
    unfolding staged_session_def attached_session_eq negotiated_session_eq
    by (simp add: session_eval completion_eval fresh_session_def handle_xattr_create_def with_object_def
        object_fid_def with_pending_fid_def object_request_def root_object_def staged_object_def)
qed

lemma staging_session_eq:
  "staging_session = staged_session
     \<lparr>ss_operation_ids := Some 4, ss_last_issued_operation_id := 3,
      ss_accounting := accounting_default
        \<lparr>acc_in_flight_tags := 1, acc_fids := 1, acc_pending_write_bytes := 3\<rparr>,
      ss_pending_by_tag :=
        [(3, fresh_pending (ExpectFilesystem KXattrWritten) CancelFilesystem
               (ContXattrWrite 0 staged_object 3) 3 3)],
      ss_tag_by_operation := [(3, 3)], ss_fids := [(0, FidPending)]\<rparr>"
  unfolding staging_session_def staged_session_eq attached_session_eq negotiated_session_eq
  by (subst input_eq) (simp_all add: session_eval fresh_session_def handle_file_write_def with_fid_def
      handle_xattr_write_def with_pending_fid_def object_request_def fresh_pending_def
      is_auth_fid_def staged_object_def root_object_def try_from_or_max_def try_from_nat_def insert_fid_def)

end
