(* ===== verification/Session_Properties.thy ===== *)
theory Session_Properties
  imports Session_Samples
begin

text \<open>
  The properties of the session state machine: what every reachable session satisfies, what a
  completion does, and what holds along a run.
\<close>

section \<open>Reachable sessions\<close>

lemma tables_okD:
  assumes "tables_ok pend flushes index aband ids last_id"
  shows "hm_get index i = Some t \<longleftrightarrow> (\<exists>p. hm_get pend t = Some p \<and> po_operation_id p = i)"
    and "hm_get index i \<noteq> None \<Longrightarrow> hm_get aband i = None \<and> i \<le> last_id"
    and "hm_get aband i \<noteq> None \<Longrightarrow> i \<le> last_id"
  using assms by (simp_all add: tables_ok_def)

lemma session_tables:
  "session_inv H Q s \<Longrightarrow> tables_ok (ss_pending_by_tag s) (ss_flushes s) (ss_tag_by_operation s)
     (ss_abandoned_operations s) (ss_operation_ids s) (ss_last_issued_operation_id s)"
  by (simp add: session_inv_def)

lemma outstanding_issued:
  assumes "session_inv H Q s" and "outstanding s i"
  shows "i \<le> ss_last_issued_operation_id s"
  using assms(2) tables_okD(2,3) [OF session_tables [OF assms(1)], of i] unfolding outstanding_def by argo

text \<open>
  C12: In every reachable session the in-flight tables agree: a tag is never both a pending request
  and a flush, the operation index is exactly the inverse of the pending table, an identifier is
  never both live and abandoned, and no outstanding identifier exceeds the last one issued.
\<close>

theorem reachable_tables:
  assumes "session_reachable s"
  shows "(hm_get (ss_pending_by_tag s) t = None \<or> hm_get (ss_flushes s) t = None) \<and>
    (hm_get (ss_tag_by_operation s) i = Some t \<longleftrightarrow>
       (\<exists>p. hm_get (ss_pending_by_tag s) t = Some p \<and> po_operation_id p = i)) \<and>
    (hm_get (ss_tag_by_operation s) i = None \<or> hm_get (ss_abandoned_operations s) i = None) \<and>
    (outstanding s i \<longrightarrow> i \<le> ss_last_issued_operation_id s)"
proof -
  have inv: "session_ok s"
    by (rule reachable_session_ok [OF assms])
  note ok = session_tables [OF inv]
  show ?thesis
  proof (intro conjI impI)
    show "hm_get (ss_tag_by_operation s) i = None \<or> hm_get (ss_abandoned_operations s) i = None"
      using tables_okD(2) [OF ok, of i] by argo
    show "i \<le> ss_last_issued_operation_id s" if "outstanding s i"
      using that by (rule outstanding_issued [OF inv])
  qed (rule tables_ok_disjoint [OF ok], rule tables_okD(1) [OF ok])
qed

theorem reachable_tables_witness:
  "session_reachable statfs_session \<and> outstanding statfs_session 2 \<and>
   2 \<le> ss_last_issued_operation_id statfs_session"
proof -
  have "outstanding statfs_session 2"
    by (simp add: outstanding_def statfs_session_eq hm_get_def)
  then show ?thesis
    using reachable_tables [OF samples_reachable(4), of 2 2] samples_reachable(4) by blast
qed

text \<open>
  C5: In a reachable session all five counters are exact and what they count stays within its
  configured limit: queued effects, the bytes queued effects retain, in-flight tags, fids and the
  payload bytes of pending writes. The input the framer retains, which has no counter, stays
  within its limit too.
\<close>

theorem reachable_bounds:
  assumes "session_reachable s"
  shows "length (ss_effects s) = acc_queued_effects (ss_accounting s) \<and>
    length (ss_effects s) \<le> max_queued_effects (session_limits s) \<and>
    sum_list (map effect_retained_bytes (ss_effects s)) = acc_queued_effect_bytes (ss_accounting s) \<and>
    sum_list (map effect_retained_bytes (ss_effects s)) \<le> max_queued_effect_bytes (session_limits s) \<and>
    in_flight_requests s = acc_in_flight_tags (ss_accounting s) \<and>
    in_flight_requests s \<le> max_in_flight_tags (session_limits s) \<and>
    fid_count s = acc_fids (ss_accounting s) \<and> fid_count s \<le> max_fids (session_limits s) \<and>
    hm_sum po_write_bytes (ss_pending_by_tag s) = acc_pending_write_bytes (ss_accounting s) \<and>
    hm_sum po_write_bytes (ss_pending_by_tag s) \<le> max_pending_write_bytes (session_limits s) \<and>
    length (fd_retained (ss_decoder s)) \<le> max_buffered_input_bytes (session_limits s)"
  using reachable_session_ok [OF assms]
  by (auto simp: session_inv_def effects_ok_def counts_ok_def fids_ok_def config_ok_def decoder_ok_def
      in_flight_requests_def fid_count_def)

theorem reachable_bounds_witness:
  "session_reachable flushing_session \<and> in_flight_requests flushing_session = 2 \<and>
   2 \<le> max_in_flight_tags (session_limits flushing_session)"
proof -
  have "in_flight_requests flushing_session = 2"
    by (simp add: in_flight_requests_def flushing_session_eq)
  then show ?thesis
    using reachable_bounds [OF samples_reachable(5)] samples_reachable(5) by auto
qed

text \<open>
  C13: While a session accepts input, a fid is in state \<open>Pending\<close> exactly when one pending operation
  holds it, so every claimed fid is settled by exactly one completion.
\<close>

theorem pending_fid_owner:
  assumes "session_reachable s" and "ss_terminal_reason s = None"
  shows "hm_get (ss_fids s) f = Some FidPending \<longleftrightarrow>
    (\<exists>!t. \<exists>p. hm_get (ss_pending_by_tag s) t = Some p \<and> continuation_fid (po_continuation p) = Some f)"
proof -
  have own: "owners_ok {} (ss_pending_by_tag s) (ss_fids s)"
    using reachable_session_ok [OF assms(1)] assms(2) by (auto simp: session_inv_def fids_ok_def)
  show ?thesis
    unfolding owns_def [symmetric] using owners_okD [OF own] by metis
qed

theorem pending_fid_owner_witness:
  "session_reachable attaching_session \<and> ss_terminal_reason attaching_session = None \<and>
   (\<exists>!t. \<exists>p. hm_get (ss_pending_by_tag attaching_session) t = Some p \<and>
      continuation_fid (po_continuation p) = Some 0)"
proof -
  have "ss_terminal_reason attaching_session = None"
    "hm_get (ss_fids attaching_session) 0 = Some FidPending"
    by (simp_all add: attaching_session_eq negotiated_session_eq fresh_session_def hm_get_def)
  then show ?thesis
    using pending_fid_owner [OF samples_reachable(2), of 0] samples_reachable(2) by blast
qed

section \<open>Flush\<close>

lemma head_not_waiter:
  assumes "flushes_ordered ((t, f) # m)" and "hm_ok ((t, f) # m)"
  shows "t \<notin># flush_waiters ((t, f) # m)"
proof -
  have "set_mset (flush_waiters m) \<subseteq> fst ` set m" if "flushes_ordered m" for m
    using that
  proof (induction m)
    case (Cons e m)
    then show ?case by (cases e) (auto simp: flush_waiters_def)
  qed (simp add: flush_waiters_def)
  then have "set_mset (flush_waiters ((t, f) # m)) \<subseteq> fst ` set m"
    using assms(1) by (auto simp: flush_waiters_def)
  then show ?thesis
    using assms(2) by (auto simp: hm_ok_def)
qed

lemma flushes_drained:
  assumes "flush_ok {#} [] flushes" and "hm_ok flushes"
  shows "flushes = []"
proof (cases flushes)
  case (Cons e m)
  obtain t f where e: "e = (t, f)" by fastforce
  have "mset (map fst flushes) = flush_waiters flushes"
    using assms(1) by (simp add: flush_ok_def pending_waiters_def)
  then have "t \<in># flush_waiters flushes"
    using Cons e by (metis in_multiset_in_set list.set_intros(1) list.simps(9) fst_conv)
  then show ?thesis
    using head_not_waiter assms Cons e by (auto simp: flush_ok_def)
qed

text \<open>
  C3: Every flush in flight waits for exactly one thing, a pending request or another flush, so no
  \<open>Tflush\<close> is ever stranded: once no request is pending, no flush is left unanswered. A request
  that is being flushed is cancelled and its own reply is suppressed.
\<close>

theorem no_stranded_flush:
  assumes "session_reachable s"
  shows "mset (map fst (ss_flushes s)) =
      (\<Sum>e\<in>#mset (ss_pending_by_tag s). mset (po_flush_waiters (snd e))) +
      (\<Sum>e\<in>#mset (ss_flushes s). mset (fs_waiters (snd e))) \<and>
    (ss_pending_by_tag s = [] \<longrightarrow> ss_flushes s = []) \<and>
    (hm_get (ss_pending_by_tag s) t = Some p \<and> po_flush_waiters p \<noteq> [] \<longrightarrow>
       po_response_suppressed p \<and> po_cancellation_requested p)"
proof -
  have ok: "session_ok s"
    by (rule reachable_session_ok [OF assms])
  have "flush_ok {#} (ss_pending_by_tag s) (ss_flushes s)" and "hm_ok (ss_flushes s)"
    using ok by (simp_all add: session_inv_def tables_ok_def)
  then show ?thesis
    using flushes_drained [of "ss_flushes s"] ok
    unfolding flush_ok_def pending_waiters_def flush_waiters_def
    by (auto simp: session_inv_def all_pending_ok_def pending_ok_def flush_ok_def pending_waiters_def
        flush_waiters_def)
qed

theorem no_stranded_flush_witness:
  "session_reachable flushing_session \<and>
   (\<exists>p. hm_get (ss_pending_by_tag flushing_session) 2 = Some p \<and> po_flush_waiters p \<noteq> [] \<and>
      po_response_suppressed p)"
proof -
  have "hm_get (ss_pending_by_tag flushing_session) 2 =
      Some (flushed (fresh_pending (ExpectFilesystem KStatfs) CancelFilesystem ContStatfs 0 2) 3)"
    by (simp add: flushing_session_eq hm_get_def)
  then show ?thesis
    using no_stranded_flush [OF samples_reachable(5), of 2] samples_reachable(5)
    by (auto simp: flushed_def)
qed

section \<open>Completions\<close>

text \<open>The kind of completion an outstanding operation waits for.\<close>

definition awaited :: "session \<Rightarrow> operation_id \<Rightarrow> expected_completion option" where
  "awaited s i =
     (case hm_get (ss_tag_by_operation s) i of
        Some t \<Rightarrow> map_option po_expected (hm_get (ss_pending_by_tag s) t)
      | None \<Rightarrow> hm_get (ss_abandoned_operations s) i)"

text \<open>
  C9: In a reachable session \<open>complete\<close> never panics. It accepts a completion exactly when the
  operation is outstanding and the completion has the awaited kind; it reports an operation that
  was issued and is no longer outstanding as a duplicate, one never issued as unknown, and in
  every rejected case leaves the session as it was.
\<close>

theorem complete_outcome:
  assumes "session_reachable s"
  shows "\<exists>r s'. complete c s = Some (r, s') \<and>
    (case awaited s (completion_operation_id c) of
       Some e \<Rightarrow>
         if completion_matches e c then r = Inr ()
         else s' = s \<and>
           r = Inl (WrongKind (completion_operation_id c) (expected_name e) (completion_kind_name c))
     | None \<Rightarrow>
         s' = s \<and>
         r = Inl (if completion_operation_id c \<le> ss_last_issued_operation_id s
                  then DuplicateOperation (completion_operation_id c)
                  else UnknownOperation (completion_operation_id c)))"
proof (cases "hm_get (ss_tag_by_operation s) (completion_operation_id c)")
  case None
  then show ?thesis
    by (auto simp: complete_def awaited_def expected_validate_def Let_def split: option.split)
next
  case (Some t)
  then obtain p where "hm_get (ss_pending_by_tag s) t = Some p"
    using reachable_session_ok [OF assms] by (auto simp: session_inv_def tables_ok_def)
  then show ?thesis
    using Some by (auto simp: complete_def awaited_def expected_validate_def Let_def)
qed

theorem complete_outcome_witness:
  "session_reachable statfs_session \<and>
   complete (CompPolicy 2 (Inl EIO)) statfs_session =
     Some (Inl (WrongKind 2 ''matching filesystem result or error'' ''policy completion''), statfs_session)"
  using complete_outcome [OF samples_reachable(4), of "CompPolicy 2 (Inl EIO)"] samples_reachable(4)
  by (auto simp: awaited_def statfs_session_eq hm_get_def fresh_pending_def)

text \<open>
  C2: An operation completes at most once: after a completion was accepted, every later completion
  with the same identifier, in whatever state the session has reached by then, is rejected as a
  duplicate and changes nothing.
\<close>

theorem complete_at_most_once:
  assumes "session_reachable s" and "complete c s = Some (Inr (), s1)" and "session_step\<^sup>*\<^sup>* s1 s2"
    and "completion_operation_id c' = completion_operation_id c"
  shows "complete c' s2 = Some (Inl (DuplicateOperation (completion_operation_id c)), s2)"
proof -
  let ?i = "completion_operation_id c"
  have inv: "session_ok s" "session_ok s1"
    using reachable_session_ok [OF assms(1)] complete_inv [OF _ assms(2)] by simp_all
  have "outstanding s ?i"
    using assms(2) by (auto simp: complete_def Let_def outstanding_def split: option.splits if_splits)
  then have last: "?i \<le> ss_last_issued_operation_id s"
    by (rule outstanding_issued [OF inv(1)])
  have gone: "\<not> outstanding s1 ?i"
  proof (cases "hm_get (ss_tag_by_operation s) ?i")
    case None
    then have "s1 = s\<lparr>ss_abandoned_operations := hm_remove ?i (ss_abandoned_operations s)\<rparr>"
      using assms(2) by (auto simp: complete_def Let_def split: option.splits sum.splits if_splits)
    then show ?thesis
      using None by (simp add: outstanding_def)
  next
    case (Some t)
    then obtain p where p: "hm_get (ss_pending_by_tag s) t = Some p"
      and s1: "s1 = finish_pending t p c (released ?i t p s)"
      using assms(2) by (auto simp: complete_def Let_def released_def split: option.splits sum.splits)
    have "continuation_ok (active_msize s) (po_continuation p)"
      using inv(1) p by (simp add: session_inv_def all_pending_ok_def pending_ok_def)
    then have "evolves (released ?i t p s) s1"
      unfolding s1 by (rule evolves_finish_pending)
    moreover have "sound (released ?i t p s)"
      using session_inv_sound [OF inv(1)] active_msize_cong [of "released ?i t p s" s]
      by (simp add: sound_def released_eq)
    moreover have "\<not> outstanding (released ?i t p s) ?i"
      using Some tables_okD(2) [OF session_tables [OF inv(1)], of ?i]
      by (simp add: outstanding_def released_eq)
    ultimately show ?thesis
      using last by (auto simp: evolves_def later_def released_eq)
  qed
  have "later s s1"
    using evolves_complete [OF inv(1) assms(2)] session_inv_sound [OF inv(1)] by (simp add: evolves_def)
  then have "?i \<le> ss_last_issued_operation_id s1"
    using last by (auto simp: later_def)
  moreover have "later s1 s2"
    using session_run_later [OF assms(3) inv(2)] by simp
  ultimately have "\<not> outstanding s2 ?i" and "?i \<le> ss_last_issued_operation_id s2"
    using gone by (auto simp: later_def)
  then show ?thesis
    using assms(4) by (simp add: complete_def Let_def outstanding_def)
qed

theorem complete_at_most_once_witness:
  "session_reachable attaching_session \<and>
   complete (CompPolicy 1 (Inl EIO)) (answer (CompPolicy 1 (Inl EACCES)) attaching_session) =
     Some (Inl (DuplicateOperation 1), answer (CompPolicy 1 (Inl EACCES)) attaching_session)"
proof -
  have "\<exists>s1. complete (CompPolicy 1 (Inl EACCES)) attaching_session = Some (Inr (), s1)"
    by (simp add: attaching_session_eq complete_def expected_validate_def hm_get_def fresh_pending_def Let_def)
  then have "complete (CompPolicy 1 (Inl EACCES)) attaching_session =
      Some (Inr (), answer (CompPolicy 1 (Inl EACCES)) attaching_session)"
    by (auto simp: answer_def)
  then show ?thesis
    using complete_at_most_once [OF samples_reachable(2) _ rtranclp.rtrancl_refl,
        of "CompPolicy 1 (Inl EACCES)" _ "CompPolicy 1 (Inl EIO)"] samples_reachable(2)
    by simp
qed

section \<open>Runs\<close>

lemma reachable_sent_ok:
  "session_reachable s \<Longrightarrow> \<forall>e \<in> set (ss_effects s). sent_ok (session_limits s) e"
proof (induction rule: session_reachable.induct)
  case (reachable_new h config ctx s)
  then show ?case
    by (auto simp: session_new_def split: sum.splits)
next
  case (reachable_step s s')
  have ok: "session_ok s"
    by (rule reachable_session_ok [OF reachable_step.hyps(1)])
  have "later s s'"
    using session_step_evolves [OF reachable_step.hyps(2) ok] session_inv_sound [OF ok]
    by (simp add: evolves_def)
  then show ?case
    using reachable_step.IH by (auto simp: later_def)
qed

text \<open>
  C10: Every frame a session hands to the transport, when it is polled, is exactly the wire encoding
  of a representable response and fits the configured frame size.
\<close>

theorem transport_frames:
  assumes "session_reachable s" and "poll_effect s = (Some (SendFrame frame), s')"
  shows "\<exists>response. response_ok (res_body response) \<and> frame = wire_response response \<and>
    length frame \<le> unat (max_frame_size (session_limits s))"
proof -
  have "SendFrame frame \<in> set (ss_effects s)"
    using assms(2) by (auto simp: poll_effect_def cleanup_effect_def issue_cleanup_def
        split: list.splits option.splits cleanup_action.splits if_splits sum.splits prod.splits)
  then show ?thesis
    using reachable_sent_ok [OF assms(1)] by auto
qed

theorem transport_frames_witness:
  "session_reachable (input 5 (ReqClunk 9) negotiated_session) \<and>
   (\<exists>frame s' response. poll_effect (input 5 (ReqClunk 9) negotiated_session) = (Some (SendFrame frame), s') \<and>
      frame = wire_response response)"
proof -
  let ?s = "input 5 (ReqClunk 9) negotiated_session"
  have "?s = snd (dispatch \<lparr>req_tag = 5, req_body = ReqClunk 9\<rparr> negotiated_session)"
    by (rule input_eq) (simp_all add: negotiated_session_eq fresh_session_def session_eval)
  then have "\<exists>frame s'. poll_effect ?s = (Some (SendFrame frame), s')"
    by (simp add: negotiated_session_eq fresh_session_def session_eval is_auth_fid_def
        handle_object_clunk_def with_fid_def queue_state_error_def)
  moreover have "session_reachable ?s"
    by (rule reachable_input [OF samples_reachable(1)])
  ultimately show ?thesis
    using transport_frames by blast
qed

text \<open>
  C15: Closing is final: from a session that has a terminal reason, no run of the host leads back to
  one that accepts input; every further input is refused and changes nothing.
\<close>

theorem closing_is_final:
  assumes "session_reachable s" and "ss_terminal_reason s \<noteq> None" and "session_step\<^sup>*\<^sup>* s s'"
  shows "session_status_of s' \<noteq> StatusActive \<and> receive_bytes bs s' = (Inl Closing, s') \<and>
    receive_frame frame s' = (Inl Closing, s')"
proof -
  have "later s s'"
    using session_run_later [OF assms(3) reachable_session_ok [OF assms(1)]] by simp
  then have "ss_terminal_reason s' \<noteq> None"
    using assms(2) by (simp add: later_def)
  then show ?thesis
    by (simp add: session_status_of_def receive_bytes_def receive_frame_def ensure_active_def sbind_def)
qed

theorem closing_is_final_witness:
  "session_reachable (begin_close statfs_session) \<and>
   receive_frame [] (polled (begin_close statfs_session)) = (Inl Closing, polled (begin_close statfs_session))"
proof -
  have r: "session_reachable (begin_close statfs_session)"
    by (rule reachable_step [OF samples_reachable(4) step_begin_close])
  have "ss_terminal_reason (begin_close statfs_session) \<noteq> None"
    by (simp add: statfs_session_eq attached_session_eq negotiated_session_eq fresh_session_def begin_close_def
        start_cleanup_def Let_def drain_fids_eq foldl_cancel_for_close)
  moreover have "session_step\<^sup>*\<^sup>* (begin_close statfs_session) (polled (begin_close statfs_session))"
    unfolding polled_def by (intro r_into_rtranclp step_poll)
  ultimately show ?thesis
    using closing_is_final [OF r] r by blast
qed

section \<open>Payloads\<close>

lemma reachable_pending_ok:
  assumes "session_reachable s" and "hm_get (ss_pending_by_tag s) t = Some p"
  shows "pending_ok (active_msize s) p"
  using reachable_session_ok [OF assms(1)] assms(2) by (simp add: session_inv_def all_pending_ok_def)

text \<open>
  C16: A staged extended attribute never receives more bytes than were declared when it was created,
  neither in the fid table nor, counting the write in flight, in a pending write.
\<close>

theorem xattr_writes_bounded:
  assumes "session_reachable s"
  shows "(hm_get (ss_fids s) f = Some (FidObject object) \<and> of_xattr object = Some x \<and>
      xs_mode x = XattrWriteMode expected_size written \<longrightarrow> written \<le> expected_size) \<and>
    (hm_get (ss_pending_by_tag s) t = Some p \<and> po_continuation p = ContXattrWrite f object n \<and>
      of_xattr object = Some x \<and> xs_mode x = XattrWriteMode expected_size written \<longrightarrow>
      unat written + unat n \<le> unat expected_size)"
proof (intro conjI impI; elim conjE)
  note ok = reachable_session_ok [OF assms]
  show "written \<le> expected_size" if "hm_get (ss_fids s) f = Some (FidObject object)"
    "of_xattr object = Some x" "xs_mode x = XattrWriteMode expected_size written"
    using ok that by (fastforce simp: session_inv_def fids_ok_def object_ok_def)
  show "unat written + unat n \<le> unat expected_size" if "hm_get (ss_pending_by_tag s) t = Some p"
    "po_continuation p = ContXattrWrite f object n" "of_xattr object = Some x"
    "xs_mode x = XattrWriteMode expected_size written"
    using reachable_pending_ok [OF assms] that by (fastforce simp: pending_ok_def)
qed

theorem xattr_writes_bounded_witness:
  "session_reachable staging_session \<and>
   (\<exists>p object n x. hm_get (ss_pending_by_tag staging_session) 3 = Some p \<and>
      po_continuation p = ContXattrWrite 0 object n \<and> of_xattr object = Some x \<and>
      xs_mode x = XattrWriteMode 10 0 \<and> unat (0 :: u64) + unat n \<le> unat (10 :: u64))"
proof -
  have p: "hm_get (ss_pending_by_tag staging_session) 3 =
      Some (fresh_pending (ExpectFilesystem KXattrWritten) CancelFilesystem
        (ContXattrWrite 0 staged_object 3) 3 3)"
    by (simp add: staging_session_eq hm_get_def)
  have x: "of_xattr staged_object = Some \<lparr>xs_handle = 5, xs_mode = XattrWriteMode 10 0\<rparr>"
    by (simp add: staged_object_def)
  show ?thesis
    using p x samples_reachable(9)
      xattr_writes_bounded [OF samples_reachable(9), where t = 3 and f = 0 and object = staged_object and n = 3
        and expected_size = 10 and written = 0]
    by (fastforce simp: fresh_pending_def)
qed

text \<open>
  C14: A successful result for a read, a directory read or an extended-attribute read is always
  deliverable: the reply the session builds for it fits the frame size in force, whatever the
  filesystem returned.
\<close>

theorem read_reply_fits:
  assumes "session_reachable s" and "hm_get (ss_pending_by_tag s) t = Some p"
    and "po_continuation p \<in> {ContRead n, ContXattrRead n, ContReaddir n}"
    and "11 \<le> active_msize s"
  shows "\<exists>frame. encode_response
    \<lparr>res_tag = t, res_body = fst (finish_filesystem_success (po_continuation p) r s)\<rparr>
    (active_msize s) = Inr frame"
proof -
  have n: "unat n + 11 \<le> unat (active_msize s)"
  proof -
    have "unat n \<le> unat (active_msize s) - 11"
      using reachable_pending_ok [OF assms(1,2)] assms(3) by (auto simp: pending_ok_def)
    then show ?thesis
      using assms(4) by (simp add: word_le_nat_alt)
  qed
  have err: "\<exists>frame. encode_response \<lparr>res_tag = t, res_body = ResLerror e\<rparr> (active_msize s) = Inr frame" for e
    using assms(4) by (simp add: encode_response_exact wire_response_def length_wire_frame word_le_nat_alt)
  have data: "\<exists>frame. encode_response \<lparr>res_tag = t, res_body = b d\<rparr> (active_msize s) = Inr frame"
    if "length d \<le> unat n" "b = ResRead \<or> b = ResReaddir" for b d
    using that n u32_bound [of n]
    by (auto simp: encode_response_exact wire_response_def length_wire_frame wire_data_def)
  have dir: "length d \<le> unat n" if "encode_directory_entries es (unat n) lim = Inr d" for es lim d
    using that directory_loop_exact [of "[]" "unat n" lim es d] u32_bound [of n]
    by (auto simp: encode_directory_entries_def directory_prefix_def)
  have mismatch: "fst (finish_mismatch c s) = ResLerror EIO" for c
    by (simp add: finish_mismatch_def)
  consider "po_continuation p = ContRead n" | "po_continuation p = ContXattrRead n"
    | "po_continuation p = ContReaddir n"
    using assms(3) by auto
  then show ?thesis
  proof cases
    case 1
    then show ?thesis
      using err data by (cases r) (simp_all add: finish_filesystem_success_def mismatch)
  next
    case 2
    then show ?thesis
      using err data by (cases r) (simp_all add: finish_filesystem_success_def mismatch)
  next
    case 3
    then show ?thesis
      using err data dir
      by (cases r) (simp_all add: finish_filesystem_success_def finish_readdir_def mismatch split: sum.split)
  qed
qed

theorem read_reply_fits_witness:
  "session_reachable reading_session \<and>
   (\<exists>frame. encode_response
      \<lparr>res_tag = 3, res_body = fst (finish_filesystem_success (ContReaddir 53) (FrDirectoryRead []) reading_session)\<rparr>
      (active_msize reading_session) = Inr frame)"
proof -
  let ?p = "fresh_pending (ExpectFilesystem KDirectoryRead) CancelFilesystem (ContReaddir 53) 0 3"
  have p: "hm_get (ss_pending_by_tag reading_session) 3 = Some ?p"
    by (simp add: reading_session_eq hm_get_def)
  have m: "11 \<le> active_msize reading_session"
    by (simp add: active_msize_def reading_session_eq opened_session_eq attached_session_eq negotiated_session_eq)
  have c: "po_continuation ?p = ContReaddir 53"
    by (simp add: fresh_pending_def)
  show ?thesis
    using read_reply_fits [OF samples_reachable(7) p _ m, of 53 "FrDirectoryRead []"] samples_reachable(7)
    by (simp add: c)
qed

end
