(* ===== verification/Session_Drain.thy ===== *)
theory Session_Drain
  imports Session_Properties
begin

text \<open>
  Shutdown terminates. Once a session cleans up, every effect the host takes and every completion
  it delivers makes a weight of the remaining work smaller, and as long as the session is not
  drained there is such a step to take.
\<close>

section \<open>Draining steps\<close>

text \<open>A host that drains a session polls effects and delivers completions that are accepted.\<close>

inductive drain_step :: "session \<Rightarrow> session \<Rightarrow> bool" where
  drain_poll: "poll_effect s = (e, s') \<Longrightarrow> s' \<noteq> s \<Longrightarrow> drain_step s s'"
| drain_complete: "complete c s = Some (Inr (), s') \<Longrightarrow> drain_step s s'"

inductive_cases drain_stepE: "drain_step s s'"

definition drain_weight :: "session \<Rightarrow> nat" where
  "drain_weight s =
     3 * length (ss_pending_by_tag s) + 2 * length (ss_cleanup s) +
     length (ss_abandoned_operations s) + length (ss_effects s) +
     (if ss_terminal_effect_delivered s then 0 else 1)"

lemma drain_step_step: "drain_step s s' \<Longrightarrow> session_step s s'"
proof (elim drain_stepE)
  fix e assume "poll_effect s = (e, s')"
  then have "s' = snd (poll_effect s)" by simp
  then show ?thesis by (simp add: step_poll)
qed (rule step_complete)

section \<open>Every draining step removes work\<close>

lemma length_hm_insert_le: "length (hm_insert k v m) \<le> Suc (length m)"
  by (induction m) (auto simp: hm_insert_def)

lemma issue_cleanup_weight:
  assumes "issue_cleanup x f t = (e, u)"
  shows "drain_weight u \<le> Suc (drain_weight t)"
proof (cases "ss_operation_ids t")
  case None
  then show ?thesis
    using assms by (auto simp: issue_cleanup_def allocate_id_def allocate_def drain_weight_def)
next
  case (Some i)
  then show ?thesis
    using assms length_hm_insert_le [of i x "ss_abandoned_operations t"]
    by (auto simp: issue_cleanup_def allocate_id_def allocate_def drain_weight_def)
qed

lemma cleanup_effect_weight:
  "cleanup_effect a t = (e, u) \<Longrightarrow> drain_weight u \<le> Suc (drain_weight t)"
  by (cases a) (auto simp: cleanup_effect_def dest: issue_cleanup_weight)

lemma drain_poll_less:
  assumes "poll_effect s = (e, s')" and "s' \<noteq> s"
  shows "drain_weight s' < drain_weight s"
proof (cases "ss_effects s")
  case (Cons x xs)
  then show ?thesis
    using assms(1) by (auto simp: poll_effect_def drain_weight_def)
next
  case effects: Nil
  show ?thesis
  proof (cases "ss_cleanup s")
    case (Cons a as)
    then have "cleanup_effect a (s\<lparr>ss_cleanup := as\<rparr>) = (e, s')"
      using assms(1) effects by (simp add: poll_effect_def)
    then have "drain_weight s' \<le> Suc (drain_weight (s\<lparr>ss_cleanup := as\<rparr>))"
      by (rule cleanup_effect_weight)
    then show ?thesis
      using Cons by (simp add: drain_weight_def)
  next
    case cleanup: Nil
    show ?thesis
    proof (cases "ss_terminal_reason s = None \<or> ss_terminal_effect_delivered s")
      case True
      then have "s' = s"
        using assms(1) effects cleanup by (auto simp: poll_effect_def split: option.splits)
      then show ?thesis using assms(2) by contradiction
    next
      case False
      then show ?thesis
        using assms(1) effects cleanup by (auto simp: poll_effect_def drain_weight_def)
    qed
  qed
qed

text \<open>A flush whose reply is suppressed is answered without queueing anything.\<close>

definition muted :: "session \<Rightarrow> bool" where
  "muted s \<longleftrightarrow> (\<forall>t f. hm_get (ss_flushes s) t = Some f \<longrightarrow> fs_response_suppressed f)"

lemma finish_flushes_weight:
  "muted s \<Longrightarrow> drain_weight (finish_flushes tags s) = drain_weight s"
proof (induction tags s rule: finish_flushes.induct)
  case (2 tag tags s)
  show ?case
  proof (cases "hm_get (ss_flushes s) tag")
    case None
    then show ?thesis using 2 by simp
  next
    case (Some flush)
    let ?u = "release_in_flight (s\<lparr>ss_flushes := hm_remove tag (ss_flushes s)\<rparr>)"
    have u: "finish_one_flush tag flush s = ?u"
      using Some "2.prems" by (simp add: muted_def finish_one_flush_def respond_or_fail_def)
    have "muted ?u"
      using "2.prems" by (simp add: muted_def release_in_flight_def)
    then have "drain_weight (finish_flushes (fs_waiters flush @ tags) ?u) = drain_weight ?u"
      using "2.IH"(2) [OF Some] by (simp add: u)
    then show ?thesis
      using Some by (simp add: u drain_weight_def release_in_flight_def)
  qed
qed simp

lemma length_fid_cleanup: "length (fid_cleanup e) \<le> 1"
  by (auto simp: fid_cleanup_def split: fid_state.split)

lemma settles_empty:
  assumes "settles c s u" and "ss_fids s = []"
  obtains fids where "u = s\<lparr>ss_fids := fids\<rparr>" and "length fids \<le> 1"
proof -
  have same: "s = s\<lparr>ss_fids := []\<rparr>"
    using assms(2) by simp
  have retire: "retire_fid f s = s" for f
    using assms(2) by (simp add: retire_fid_def hm_contains_def hm_get_def)
  show thesis
  proof (cases "u = s")
    case True
    then show thesis using that [of "[]"] same by simp
  next
    case False
    then obtain f st where "u = insert_fid f st s"
      using assms(1) by (auto simp: settles_def retire split: option.splits)
    then show thesis
      using that [of "[(f, st)]"] assms(2) by (simp add: insert_fid_def hm_insert_def)
  qed
qed

lemma length_fid_cleanups: "length (concat (map fid_cleanup es)) \<le> length es"
proof (induction es)
  case (Cons e es)
  then show ?case using length_fid_cleanup [of e] by simp
qed simp

lemma drain_settled_weight:
  assumes "settles c s u" and "ss_fids s = []" and "hasher_ok (ss_hasher s)"
  shows "drain_weight (drain_fids_to_cleanup u) \<le> drain_weight s + 2"
    and "ss_flushes (drain_fids_to_cleanup u) = ss_flushes s"
proof -
  obtain fids where u: "u = s\<lparr>ss_fids := fids\<rparr>" and "length fids \<le> 1"
    using assms(1,2) by (rule settles_empty)
  moreover have "mset (fid_order (ss_hasher s) fids) = mset fids"
    using assms(3) by (simp add: hasher_ok_def)
  then have "length (fid_order (ss_hasher s) fids) = length fids"
    by (rule mset_eq_length)
  ultimately have "length (concat (map fid_cleanup (fid_order (ss_hasher s) fids))) \<le> 1"
    using length_fid_cleanups [of "fid_order (ss_hasher s) fids"] by linarith
  then show "drain_weight (drain_fids_to_cleanup u) \<le> drain_weight s + 2"
    and "ss_flushes (drain_fids_to_cleanup u) = ss_flushes s"
    by (simp_all add: u drain_fids_eq drain_weight_def)
qed

lemma drain_complete_less:
  assumes inv: "session_ok s" and started: "ss_cleanup_started s" and step: "complete c s = Some (Inr (), s')"
  shows "drain_weight s' < drain_weight s"
proof (cases "hm_get (ss_tag_by_operation s) (completion_operation_id c)")
  case None
  let ?i = "completion_operation_id c"
  obtain e where e: "hm_get (ss_abandoned_operations s) ?i = Some e"
    and "s' = s\<lparr>ss_abandoned_operations := hm_remove ?i (ss_abandoned_operations s)\<rparr>"
    using step None by (auto simp: complete_def Let_def split: option.splits sum.splits if_splits)
  then show ?thesis
    using length_hm_remove_less [OF e] by (simp add: drain_weight_def)
next
  case (Some t)
  let ?i = "completion_operation_id c"
  obtain p where p: "hm_get (ss_pending_by_tag s) t = Some p"
    and s': "s' = finish_pending t p c (released ?i t p s)"
    using step Some by (auto simp: complete_def Let_def released_def split: option.splits sum.splits)
  let ?r = "released ?i t p s"
  obtain body u where u: "finish_body (po_continuation p) c ?r = (body, u)" by fastforce
  have ok: "continuation_ok (active_msize s) (po_continuation p)" "po_response_suppressed p" "ss_fids s = []"
    "ss_terminal_reason s \<noteq> None" "hasher_ok (ss_hasher s)" "muted s"
    using inv p started
    by (auto simp: session_inv_def all_pending_ok_def pending_ok_def lifecycle_ok_def config_ok_def muted_def)
  have set: "settles (po_continuation p) ?r u"
    using settles_finish_body [OF ok(1), of ?r c] u by simp
  have "finish_pending t p c ?r = finish_flushes (po_flush_waiters p) (drain_fids_to_cleanup u)"
    using settles_terminal [OF set] u ok(2,4)
    by (simp add: finish_pending_def respond_or_fail_def released_eq)
  moreover have "drain_weight (drain_fids_to_cleanup u) \<le> drain_weight ?r + 2"
    and "ss_flushes (drain_fids_to_cleanup u) = ss_flushes ?r"
    using drain_settled_weight [OF set] ok by (simp_all add: released_eq)
  moreover have "drain_weight ?r + 3 \<le> drain_weight s"
    using length_hm_remove_less [OF p] by (simp add: released_eq drain_weight_def)
  ultimately show ?thesis
    using finish_flushes_weight [of "drain_fids_to_cleanup u" "po_flush_waiters p"] ok(6)
    by (simp add: s' muted_def released_eq)
qed

section \<open>A session that is not drained has a step\<close>

lemma completion_for: "\<exists>c. completion_operation_id c = i \<and> completion_matches e c"
proof (cases e)
  case (ExpectFilesystem k)
  then show ?thesis by (intro exI [of _ "CompFilesystem i (Inl EIO)"]) simp
next
  case (ExpectPolicy k)
  then show ?thesis by (intro exI [of _ "CompPolicy i (Inl EIO)"]) simp
qed

lemma outstanding_completes:
  assumes "session_ok s" and "outstanding s i"
  shows "\<exists>c s'. complete c s = Some (Inr (), s')"
proof (cases "hm_get (ss_tag_by_operation s) i")
  case None
  then obtain e where "hm_get (ss_abandoned_operations s) i = Some e"
    using assms(2) by (auto simp: outstanding_def)
  moreover obtain c where "completion_operation_id c = i" "completion_matches e c"
    using completion_for by blast
  ultimately have "\<exists>s'. complete c s = Some (Inr (), s')"
    using None by (simp add: complete_def expected_validate_def Let_def)
  then show ?thesis ..
next
  case (Some t)
  then obtain p where "hm_get (ss_pending_by_tag s) t = Some p"
    using tables_okD(1) [OF session_tables [OF assms(1)]] by blast
  moreover obtain c where "completion_operation_id c = i" "completion_matches (po_expected p) c"
    using completion_for by blast
  ultimately have "\<exists>s'. complete c s = Some (Inr (), s')"
    using Some by (simp add: complete_def expected_validate_def Let_def)
  then show ?thesis ..
qed

lemma poll_changes:
  assumes "ss_terminal_reason s \<noteq> None"
    and "ss_effects s \<noteq> [] \<or> ss_cleanup s \<noteq> [] \<or> \<not> ss_terminal_effect_delivered s"
  shows "drain_weight (snd (poll_effect s)) < drain_weight s"
proof (cases "ss_effects s")
  case (Cons x xs)
  then show ?thesis by (simp add: poll_effect_def drain_weight_def)
next
  case effects: Nil
  show ?thesis
  proof (cases "ss_cleanup s")
    case (Cons a as)
    obtain e u where u: "cleanup_effect a (s\<lparr>ss_cleanup := as\<rparr>) = (e, u)" by fastforce
    then show ?thesis
      using cleanup_effect_weight [OF u] effects Cons by (simp add: poll_effect_def drain_weight_def)
  next
    case Nil
    then show ?thesis
      using assms effects by (auto simp: poll_effect_def drain_weight_def)
  qed
qed

lemma drain_progress:
  assumes inv: "session_ok s" and started: "ss_cleanup_started s"
    and busy: "session_status_of s \<noteq> StatusDrained"
  shows "\<exists>s'. drain_step s s'"
proof -
  have closing: "ss_terminal_reason s \<noteq> None"
    using inv started by (simp add: session_inv_def lifecycle_ok_def)
  show ?thesis
  proof (cases "ss_effects s \<noteq> [] \<or> ss_cleanup s \<noteq> [] \<or> \<not> ss_terminal_effect_delivered s")
    case True
    obtain e u where u: "poll_effect s = (e, u)" by fastforce
    then have "drain_weight u < drain_weight s"
      using poll_changes [OF closing True] by simp
    then have "u \<noteq> s" by blast
    then show ?thesis
      using drain_poll [OF u] by blast
  next
    case False
    have "flush_ok {#} (ss_pending_by_tag s) (ss_flushes s)" and "hm_ok (ss_flushes s)"
      using inv by (simp_all add: session_inv_def tables_ok_def)
    then have "ss_pending_by_tag s = [] \<Longrightarrow> ss_flushes s = []"
      using flushes_drained by simp
    then have "ss_pending_by_tag s \<noteq> [] \<or> ss_abandoned_operations s \<noteq> []"
      using False busy closing unfolding session_status_of_def by argo
    moreover have "\<exists>i. outstanding s i" if p: "ss_pending_by_tag s \<noteq> []"
    proof -
      obtain t q m where "ss_pending_by_tag s = (t, q) # m"
        using p by (cases "ss_pending_by_tag s") auto
      then have "hm_get (ss_pending_by_tag s) t = Some q"
        by (simp add: hm_get_def)
      then have "hm_get (ss_tag_by_operation s) (po_operation_id q) = Some t"
        using tables_okD(1) [OF session_tables [OF inv]] by blast
      then show ?thesis by (auto simp: outstanding_def)
    qed
    moreover have "\<exists>i. outstanding s i" if a: "ss_abandoned_operations s \<noteq> []"
    proof -
      obtain i e m where "ss_abandoned_operations s = (i, e) # m"
        using a by (cases "ss_abandoned_operations s") auto
      then have "hm_get (ss_abandoned_operations s) i \<noteq> None"
        by (simp add: hm_get_def)
      then show ?thesis by (auto simp: outstanding_def)
    qed
    ultimately obtain i where "outstanding s i" by blast
    then obtain c s' where "complete c s = Some (Inr (), s')"
      using outstanding_completes [OF inv] by blast
    then show ?thesis
      using drain_complete by blast
  qed
qed

section \<open>Shutdown terminates\<close>

lemma drain_step_facts:
  assumes "session_ok s" and "ss_cleanup_started s" and "drain_step s s'"
  shows "session_ok s'" and "ss_cleanup_started s'" and "drain_weight s' < drain_weight s"
proof -
  note step = drain_step_step [OF assms(3)]
  show "session_ok s'"
    by (rule session_step_inv [OF step assms(1)])
  have "later s s'"
    using session_step_evolves [OF step assms(1)] session_inv_sound [OF assms(1)] by (simp add: evolves_def)
  then show "ss_cleanup_started s'"
    using assms(2) by (simp add: later_def)
  show "drain_weight s' < drain_weight s"
    using assms(3) by (rule drain_stepE) (auto intro: drain_poll_less drain_complete_less [OF assms(1,2)])
qed

lemma drain_run:
  assumes "session_ok s" and "ss_cleanup_started s" and "(drain_step ^^ n) s s'"
  shows "session_ok s' \<and> ss_cleanup_started s' \<and> n + drain_weight s' \<le> drain_weight s"
  using assms(3)
proof (induction n arbitrary: s')
  case (Suc n)
  then obtain u where "(drain_step ^^ n) s u" and u: "drain_step u s'" by auto
  with Suc.IH show ?case
    using drain_step_facts [OF _ _ u] by fastforce
qed (use assms in simp)

lemma drain_reaches:
  assumes "session_ok s" and "ss_cleanup_started s"
  shows "\<exists>s'. drain_step\<^sup>*\<^sup>* s s' \<and> session_status_of s' = StatusDrained"
  using assms
proof (induction "drain_weight s" arbitrary: s rule: less_induct)
  case less
  show ?case
  proof (cases "session_status_of s = StatusDrained")
    case False
    then obtain u where u: "drain_step s u"
      using drain_progress less.prems by blast
    then show ?thesis
      using less.hyps drain_step_facts [OF less.prems u] by (meson converse_rtranclp_into_rtranclp)
  qed blast
qed

text \<open>
  C7: Shutdown terminates. From a session that is closing, polling effects and delivering accepted
  completions can go on for only as many steps as the weight of the remaining work; a run that
  cannot be continued ends in a drained session, and a drained session can always be reached.
\<close>

theorem shutdown_drains:
  assumes "session_reachable s" and "ss_cleanup_started s"
  shows "((drain_step ^^ n) s s' \<longrightarrow>
      n \<le> drain_weight s \<and> (session_status_of s' = StatusDrained \<or> (\<exists>s''. drain_step s' s''))) \<and>
    (\<exists>d. drain_step\<^sup>*\<^sup>* s d \<and> session_status_of d = StatusDrained)"
proof -
  have ok: "session_ok s"
    by (rule reachable_session_ok [OF assms(1)])
  then show ?thesis
    using drain_run [OF ok assms(2), of n s'] drain_progress [of s'] drain_reaches [OF ok assms(2)]
    by (meson add_leD1)
qed

theorem shutdown_drains_witness:
  "session_reachable (begin_close statfs_session) \<and> ss_cleanup_started (begin_close statfs_session) \<and>
   (\<exists>d. drain_step\<^sup>*\<^sup>* (begin_close statfs_session) d \<and> session_status_of d = StatusDrained)"
proof -
  have r: "session_reachable (begin_close statfs_session)"
    by (rule reachable_step [OF samples_reachable(4) step_begin_close])
  moreover have "ss_cleanup_started (begin_close statfs_session)"
    by (simp add: statfs_session_eq attached_session_eq negotiated_session_eq fresh_session_def begin_close_def
        start_cleanup_def Let_def drain_fids_eq foldl_cancel_for_close)
  ultimately show ?thesis
    using shutdown_drains [OF r] by blast
qed

end
