(* ===== verification/Session_Version.thy ===== *)
theory Session_Version
  imports Session_Properties
begin

text \<open>
  Version negotiation: what \<open>Tversion\<close> leaves of the session, and that no outstanding operation is
  forgotten by it.
\<close>

lemma foldl_hm_insert_get:
  assumes "distinct (map f es)"
  shows "hm_get (foldl (\<lambda>m e. hm_insert (f e) (g e) m) m es) k =
    (case map_of (map (\<lambda>e. (f e, g e)) es) k of Some v \<Rightarrow> Some v | None \<Rightarrow> hm_get m k)"
  using assms
proof (induction es arbitrary: m)
  case (Cons e es)
  have "map_of (map (\<lambda>e. (f e, g e)) es) (f e) = None"
    using Cons.prems by (auto simp: map_of_eq_None_iff)
  then show ?case
    using Cons by (auto split: option.split)
qed simp

lemma distinct_operations:
  assumes "session_inv {} Q s"
  shows "distinct (map (\<lambda>e. po_operation_id (snd e)) (ss_pending_by_tag s))"
proof -
  have ok: "hm_ok (ss_pending_by_tag s)"
    using assms by (simp add: session_inv_def tables_ok_def)
  have "inj_on (\<lambda>e. po_operation_id (snd e)) (set (ss_pending_by_tag s))"
  proof (rule inj_onI)
    fix x y assume xy: "x \<in> set (ss_pending_by_tag s)" "y \<in> set (ss_pending_by_tag s)"
      and eq: "po_operation_id (snd x) = po_operation_id (snd y)"
    have get: "hm_get (ss_pending_by_tag s) (fst x) = Some (snd x)" "hm_get (ss_pending_by_tag s) (fst y) = Some (snd y)"
      using xy hm.entries_get [OF ok] by (metis prod.collapse)+
    then have "Some (fst x) = Some (fst y)"
      using tables_okD(1) [OF session_tables [OF assms]] eq by metis
    then show "x = y"
      using get by (simp add: prod_eq_iff)
  qed
  moreover have "distinct (ss_pending_by_tag s)"
    using ok by (simp add: hm_ok_def distinct_map)
  ultimately show ?thesis
    by (simp add: distinct_map)
qed

lemma reset_awaited:
  assumes inv: "session_inv {} Q s"
  shows "hm_get (ss_abandoned_operations (reset_for_version s)) i = awaited s i"
proof -
  let ?order = "pending_order (ss_hasher s) (ss_pending_by_tag s)"
  let ?kv = "map (\<lambda>e. (po_operation_id (snd e), po_expected (snd e)))"
  have order: "mset ?order = mset (ss_pending_by_tag s)" and ok: "hm_ok (ss_pending_by_tag s)"
    using inv by (simp_all add: session_inv_def config_ok_def hasher_ok_def tables_ok_def)
  have dist: "distinct (map (\<lambda>e. po_operation_id (snd e)) ?order)"
    using distinct_operations [OF inv] order by (metis mset_eq_imp_distinct_iff mset_map)
  have dist': "distinct (map fst (?kv (ss_pending_by_tag s)))"
    using distinct_operations [OF inv] by (simp add: comp_def)
  have "map_of (?kv ?order) = map_of (?kv (ss_pending_by_tag s))"
    using dist dist' mset_eq_setD [OF order] by (subst map_of_inject_set) (simp_all add: comp_def)
  then have get: "hm_get (ss_abandoned_operations (reset_for_version s)) i =
      (case map_of (?kv (ss_pending_by_tag s)) i of Some v \<Rightarrow> Some v | None \<Rightarrow> hm_get (ss_abandoned_operations s) i)"
    using foldl_hm_insert_get [OF dist, of "\<lambda>e. po_expected (snd e)" "ss_abandoned_operations s" i]
    by (simp add: reset_for_version_def Let_def foldl_abandon_pending drain_fids_eq comp_def)
  note index = tables_okD(1) [OF session_tables [OF inv], of i]
  show ?thesis
  proof (cases "hm_get (ss_tag_by_operation s) i")
    case None
    then have "\<not> (\<exists>e \<in> set (ss_pending_by_tag s). po_operation_id (snd e) = i)"
      using index hm.entries_get [OF ok] by (metis option.distinct(1) prod.collapse)
    then have "map_of (?kv (ss_pending_by_tag s)) i = None"
      by (auto simp: map_of_eq_None_iff)
    then show ?thesis
      using None get by (simp add: awaited_def)
  next
    case (Some t)
    then obtain p where p: "hm_get (ss_pending_by_tag s) t = Some p" "po_operation_id p = i"
      using index by blast
    then have "(t, p) \<in> set (ss_pending_by_tag s)"
      using hm.entries_get [OF ok] by blast
    then have "(i, po_expected p) \<in> set (?kv (ss_pending_by_tag s))"
      using p(2) by force
    then show ?thesis
      using Some p get map_of_is_SomeI [OF dist'] by (simp add: awaited_def)
  qed
qed

text \<open>
  What \<open>reset_for_version\<close> schedules: a cancellation per pending request and a release per settled
  fid. A fid in state \<open>Pending\<close> contributes nothing.
\<close>

lemma settled_cleanup:
  "(\<Sum>e\<in>#M. mset (fid_cleanup e)) = (\<Sum>e\<in>#{#e \<in># M. snd e \<noteq> FidPending#}. mset (fid_cleanup e))"
  by (induction M) (auto simp: fid_cleanup_def)

lemma length_settled_cleanup:
  "size (\<Sum>e\<in>#{#e \<in># mset es. snd e \<noteq> FidPending#}. mset (fid_cleanup e)) =
     length (filter (\<lambda>e. snd e \<noteq> FidPending) es)"
  by (induction es) (auto simp: fid_cleanup_def split: fid_state.split)

lemma reset_cleanup:
  assumes "session_inv {} Q s"
  shows "mset (ss_cleanup (reset_for_version s)) = mset (ss_cleanup s) +
    {#CleanupCancel (po_operation_id (snd e)) (po_kind (snd e)). e \<in># mset (ss_pending_by_tag s)#} +
    (\<Sum>e\<in>#{#e \<in># mset (ss_fids s). snd e \<noteq> FidPending#}. mset (fid_cleanup e))"
proof -
  have order: "mset (pending_order (ss_hasher s) (ss_pending_by_tag s)) = mset (ss_pending_by_tag s)"
      "mset (fid_order (ss_hasher s) (ss_fids s)) = mset (ss_fids s)"
    using assms by (simp_all add: session_inv_def config_ok_def hasher_ok_def)
  have concat: "mset (concat (map fid_cleanup es)) = (\<Sum>e\<in>#mset es. mset (fid_cleanup e))" for es
    by (induction es) simp_all
  show ?thesis
    by (simp add: reset_for_version_def Let_def foldl_abandon_pending drain_fids_eq concat order
        settled_cleanup [symmetric])
qed

lemma respond_frame:
  assumes "respond tag body s = (r, s')"
  obtains es acc where "s' = s\<lparr>ss_effects := es, ss_accounting := acc\<rparr>"
proof (cases r)
  case (Inl e)
  then have "s' = s" using assms respond_Inl by blast
  then show thesis using that [where es = "ss_effects s" and acc = "ss_accounting s"] by simp
next
  case (Inr u)
  then obtain bs where "queued [SendFrame bs] s s'"
    using respond_Inr assms by blast
  then show thesis
    unfolding queued_def by (elim conjE) (rule that)
qed

lemma reset_empty:
  "ss_pending_by_tag (reset_for_version s) = []" "ss_flushes (reset_for_version s) = []"
  "ss_fids (reset_for_version s) = []" "ss_tag_by_operation (reset_for_version s) = []"
  "ss_config (reset_for_version s) = ss_config s"
  by (simp_all add: reset_for_version_def Let_def foldl_abandon_pending drain_fids_eq)

text \<open>
  C8: A \<open>Tversion\<close> with an admissible message size resets the connection: afterwards no request is
  in flight and no fid exists, the negotiated size is the smaller of the two sides' sizes exactly
  when the dialect is \<open>9P2000.L\<close>, every operation handed to the host before is still awaited with
  the same kind of completion, and what was added to the cleanup is exactly one cancellation per
  pending request and one action per settled fid: \<open>ClunkAuth\<close> for an auth fid, \<open>Release\<close> of the
  object and its handles for an object fid. A fid claimed by a pending operation adds nothing: the
  handle which that operation's continuation holds is not released.
\<close>

theorem version_resets:
  assumes "session_reachable s" and "MINIMUM_NEGOTIATED_MSIZE \<le> msize"
    and "handle_version NOTAG msize version s = (r, s')"
  shows "in_flight_requests s' = 0 \<and> fid_count s' = 0 \<and>
    ss_negotiated_msize s' =
      (if version = VERSION_9P2000_L then Some (min msize (max_frame_size (session_limits s))) else None) \<and>
    awaited s' i = awaited s i \<and>
    mset (ss_cleanup s') = mset (ss_cleanup s) +
      {#CleanupCancel (po_operation_id (snd e)) (po_kind (snd e)). e \<in># mset (ss_pending_by_tag s)#} +
      (\<Sum>e\<in>#{#e \<in># mset (ss_fids s). snd e \<noteq> FidPending#}. mset (fid_cleanup e)) \<and>
    length (ss_cleanup s') = length (ss_cleanup s) + length (ss_pending_by_tag s) +
      length (filter (\<lambda>e. snd e \<noteq> FidPending) (ss_fids s))"
proof -
  note inv = reachable_session_ok [OF assms(1)]
  let ?m = "if version = VERSION_9P2000_L then Some (min msize (max_frame_size (session_limits s))) else None"
  let ?s = "(reset_for_version s)\<lparr>ss_negotiated_msize := ?m\<rparr>"
  have "\<not> msize < MINIMUM_NEGOTIATED_MSIZE"
    using assms(2) by simp
  then obtain body where "respond NOTAG body ?s = (r, s')"
    using assms(3) unfolding handle_version_def Let_def reset_empty by auto
  then obtain es acc where "s' = ?s\<lparr>ss_effects := es, ss_accounting := acc\<rparr>"
    by (rule respond_frame)
  moreover have "length (ss_cleanup (reset_for_version s)) = length (ss_cleanup s) +
      length (ss_pending_by_tag s) + length (filter (\<lambda>e. snd e \<noteq> FidPending) (ss_fids s))"
    using arg_cong [OF reset_cleanup [OF inv], of size] length_settled_cleanup [of "ss_fids s"] by simp
  ultimately show ?thesis
    using reset_awaited [OF inv, of i] reset_cleanup [OF inv]
    by (simp add: in_flight_requests_def fid_count_def awaited_def reset_empty)
qed

theorem version_resets_witness:
  "session_reachable statfs_session \<and>
   (\<exists>r s'. handle_version NOTAG 8192 VERSION_9P2000_L statfs_session = (r, s') \<and> in_flight_requests s' = 0 \<and>
      awaited s' 2 = awaited statfs_session 2) \<and>
   awaited statfs_session 2 = Some (ExpectFilesystem KStatfs)"
proof -
  obtain r s' where "handle_version NOTAG 8192 VERSION_9P2000_L statfs_session = (r, s')" by fastforce
  moreover have "MINIMUM_NEGOTIATED_MSIZE \<le> 8192"
    by (simp add: MINIMUM_NEGOTIATED_MSIZE_def)
  moreover have "awaited statfs_session 2 = Some (ExpectFilesystem KStatfs)"
    by (simp add: awaited_def statfs_session_eq hm_get_def fresh_pending_def)
  ultimately show ?thesis
    using version_resets [OF samples_reachable(4)] samples_reachable(4) by blast
qed

end
