(* ===== verification/Storage_Base.thy ===== *)
theory Storage_Base
  imports W9_Prelude
begin

text \<open>
  Identifiers, configuration, limits and errors of the content store
  (\<open>crates/w9pt-fs-storage/src\<close>: \<open>ids.rs\<close>, \<open>config.rs\<close>, \<open>limits.rs\<close>, \<open>error.rs\<close>).
  A fixed byte array \<open>[u8; n]\<close> is the word with these little-endian bytes, so that every value of
  the model is an array of the right length.
\<close>

section \<open>External primitives\<close>

type_synonym u256 = "256 word"

text \<open>
  The functions of external crates that the store calls: the BLAKE3 hash and its key derivation
  (label, output length, input), LZ4 block compression, AES-256-SIV (key, associated data, text),
  and whether the build has the two optional features. A hasher that is updated several times
  hashes the concatenation of the pieces.
\<close>

record primitives =
  blake3 :: "bytes \<Rightarrow> u256"
  blake3_derive :: "string \<Rightarrow> nat \<Rightarrow> bytes \<Rightarrow> bytes"
  lz4_feature :: bool
  lz4_maximum_output_size :: "nat \<Rightarrow> nat"
  lz4_compress :: "bytes \<Rightarrow> bytes option"
  lz4_decompress :: "bytes \<Rightarrow> nat \<Rightarrow> bytes option"
  siv_feature :: bool
  siv_encrypt :: "bytes \<Rightarrow> bytes \<Rightarrow> bytes \<Rightarrow> bytes option"
  siv_decrypt :: "bytes \<Rightarrow> bytes \<Rightarrow> bytes \<Rightarrow> bytes option"

definition array16 :: "u128 \<Rightarrow> bytes" where
  "array16 w = to_le_bytes 16 w"

definition array32 :: "u256 \<Rightarrow> bytes" where
  "array32 w = to_le_bytes 32 w"

lemma length_array [simp]: "length (array16 w) = 16" "length (array32 v) = 32"
  by (simp_all add: array16_def array32_def)

lemma array_inverse [simp]:
  "from_le_bytes (array16 w) = w" "from_le_bytes (array32 v) = v"
  by (simp_all add: array16_def array32_def from_to_le_bytes)

lemma array_from_le:
  "length bs = 16 \<Longrightarrow> array16 (from_le_bytes bs) = bs"
  "length cs = 32 \<Longrightarrow> array32 (from_le_bytes cs) = cs"
  by (simp_all add: array16_def array32_def to_from_le_bytes)

lemma le_bytes_inverse [simp]:
  "from_le_bytes (to_le_bytes 1 (a :: u8)) = a" "from_le_bytes (to_le_bytes 2 (b :: u16)) = b"
  "from_le_bytes (to_le_bytes 4 (c :: u32)) = c" "from_le_bytes (to_le_bytes 8 (d :: u64)) = d"
  by (simp_all add: from_to_le_bytes)

lemma bytes_from_le:
  "length bs = 2 \<Longrightarrow> to_le_bytes 2 (from_le_bytes bs :: u16) = bs"
  "length bs = 4 \<Longrightarrow> to_le_bytes 4 (from_le_bytes bs :: u32) = bs"
  "length bs = 8 \<Longrightarrow> to_le_bytes 8 (from_le_bytes bs :: u64) = bs"
  by (simp_all add: to_from_le_bytes)

section \<open>Results\<close>

text \<open>The question mark operator on pure results, and an early return unless a condition holds.\<close>

definition rbind :: "'e + 'a \<Rightarrow> ('a \<Rightarrow> 'e + 'b) \<Rightarrow> 'e + 'b" where
  "rbind r f = (case r of Inl e \<Rightarrow> Inl e | Inr x \<Rightarrow> f x)"

definition require :: "bool \<Rightarrow> 'e \<Rightarrow> 'e + unit" where
  "require b e = (if b then Inr () else Inl e)"

definition ok_or :: "'a option \<Rightarrow> 'e \<Rightarrow> 'e + 'a" where
  "ok_or r e = (case r of None \<Rightarrow> Inl e | Some x \<Rightarrow> Inr x)"

lemma rbind_simps [simp]: "rbind (Inl e) f = Inl e" "rbind (Inr x) f = f x"
  by (simp_all add: rbind_def)

lemma rbind_eq_Inr [simp]: "rbind r f = Inr y \<longleftrightarrow> (\<exists>x. r = Inr x \<and> f x = Inr y)"
  by (cases r) simp_all

lemma require_eq_Inr [simp]: "require b e = Inr u \<longleftrightarrow> b"
  by (simp add: require_def)

lemma require_True [simp]: "require True e = Inr ()"
  by (simp add: require_def)

lemma ok_or_eq_Inr [simp]: "ok_or r e = Inr x \<longleftrightarrow> r = Some x"
  by (simp add: ok_or_def split: option.split)

lemma ok_or_Some [simp]: "ok_or (Some x) e = Inr x"
  by (simp add: ok_or_def)

section \<open>Configuration (config.rs)\<close>

definition BLOCK_SIZE :: u32 where "BLOCK_SIZE = 32 * 1024"
definition BLOCK_MAP_FANOUT :: u16 where "BLOCK_MAP_FANOUT = 128"
definition BLOCK_MAP_INDEX_BITS :: u8 where "BLOCK_MAP_INDEX_BITS = 7"
definition BLOCK_MAP_MAX_LEVEL :: u8 where "BLOCK_MAP_MAX_LEVEL = 6"

datatype (plugins only: code) storage_method = Raw | BlockSplit

datatype (plugins only: code) hash_algorithm = Blake3_256
datatype (plugins only: code) payload_codec = CodecIdentity
datatype (plugins only: code) payload_cipher = CipherNone

record representation =
  rp_hash :: hash_algorithm
  rp_codec :: payload_codec
  rp_cipher :: payload_cipher

definition representation_current :: representation where
  "representation_current = \<lparr>rp_hash = Blake3_256, rp_codec = CodecIdentity, rp_cipher = CipherNone\<rparr>"

record block_split_parameters =
  bp_block_size :: u32
  bp_fanout :: u16
  bp_index_bits :: u8
  bp_max_level :: u8

definition block_split_current :: block_split_parameters where
  "block_split_current =
     \<lparr>bp_block_size = BLOCK_SIZE, bp_fanout = BLOCK_MAP_FANOUT,
      bp_index_bits = BLOCK_MAP_INDEX_BITS, bp_max_level = BLOCK_MAP_MAX_LEVEL\<rparr>"

text \<open>\<open>BlockSplitParameters::from_persisted\<close>; \<open>None\<close> is \<open>UnsupportedBlockProfile\<close>.\<close>

definition from_persisted :: "u32 \<Rightarrow> u16 \<Rightarrow> u8 \<Rightarrow> u8 \<Rightarrow> block_split_parameters option" where
  "from_persisted block_size fanout index_bits max_level =
     (if block_size = BLOCK_SIZE \<and> fanout = BLOCK_MAP_FANOUT \<and>
         index_bits = BLOCK_MAP_INDEX_BITS \<and> max_level = BLOCK_MAP_MAX_LEVEL
      then Some block_split_current else None)"

section \<open>Errors (error.rs)\<close>

datatype (plugins only: code) range_error =
    EndOverflow u64 u64
  | LengthConversion
  | InvalidOrder u64 u64

datatype (plugins only: code) format_error =
    FmtTruncated
  | FmtTrailingData
  | FmtInvalidMagic
  | FmtUnexpectedKind u8 u8
  | FmtUnsupportedVersion u16 u16
  | FmtUnknownTag string u64
  | FmtNonCanonical string
  | FmtInconsistentLength string
  | FmtArithmeticOverflow string

datatype (plugins only: code) corruption_error =
    ChecksumMismatch
  | DigestMismatch
  | IdentityMismatch string
  | CorruptLength string u64 u64
  | ImmutableCollision
  | NonZeroPadding
  | ForeignKey
  | InvalidKeySchema

datatype (plugins only: code) preparation_error =
    MutationMismatch
  | BaseMismatch
  | KeyMismatch
  | FingerprintMismatch
  | UnchangedPublication

datatype (plugins only: code) storage_limit_kind =
    LkRawFile | LkManifest | LkObject | LkMaterializedBlocks | LkMapPage | LkMapPageReads
  | LkMapPageWrites | LkMapWorkingBytes | LkRepresentationWorkingBytes | LkRead | LkWrite | LkKey

record storage_limit_error =
  sle_kind :: storage_limit_kind
  sle_actual :: u64
  sle_limit :: u64

definition limit_error_new :: "storage_limit_kind \<Rightarrow> u64 \<Rightarrow> u64 \<Rightarrow> storage_limit_error" where
  "limit_error_new kind actual limit = \<lparr>sle_kind = kind, sle_actual = actual, sle_limit = limit\<rparr>"

datatype (plugins only: code) configuration_error =
    CfgZero string
  | CfgInconsistent string string
  | CfgInvalidPrefix string
  | CfgMissingTargetGuarantee string
  | CfgTooLarge string u64

section \<open>Limits (limits.rs)\<close>

record storage_limits =
  max_raw_file_bytes :: u64
  max_manifest_bytes :: nat
  max_object_bytes :: nat
  max_map_page_bytes :: nat
  max_materialized_blocks :: u64
  max_map_working_bytes :: nat
  max_representation_working_bytes :: nat
  max_map_page_reads :: u32
  max_map_page_writes :: u32
  max_read_bytes :: nat
  max_write_bytes :: nat
  max_publish_retries :: u32
  max_key_bytes :: nat

definition storage_limits_default :: storage_limits where
  "storage_limits_default =
     \<lparr>max_raw_file_bytes = 16 * 1024 * 1024, max_manifest_bytes = 4 * 1024,
      max_object_bytes = 64 * 1024 * 1024, max_map_page_bytes = 256 * 1024,
      max_materialized_blocks = push_bit 49 1, max_map_working_bytes = 8 * 1024 * 1024,
      max_representation_working_bytes = 64 * 1024 * 1024, max_map_page_reads = 4096,
      max_map_page_writes = 2048, max_read_bytes = 8 * 1024 * 1024,
      max_write_bytes = 8 * 1024 * 1024, max_publish_retries = 8, max_key_bytes = 1024\<rparr>"

text \<open>Constants of \<open>representation/mod.rs\<close> that the limits and the formats refer to.\<close>

definition RAW_PAYLOAD_MAX_OVERHEAD :: u64 where "RAW_PAYLOAD_MAX_OVERHEAD = 246"
definition BLOCK_PAYLOAD_MAX_OVERHEAD :: u64 where "BLOCK_PAYLOAD_MAX_OVERHEAD = 254"
definition PAYLOAD_MIN_STORED_BYTES :: u64 where "PAYLOAD_MIN_STORED_BYTES = 231"
definition MAP_PAGE_MIN_OVERHEAD :: nat where "MAP_PAGE_MIN_OVERHEAD = 239"

definition require_nonzero :: "string \<Rightarrow> 'n::zero \<Rightarrow> configuration_error + unit" where
  "require_nonzero field value = require (value \<noteq> 0) (CfgZero field)"

definition storage_limits_new :: "storage_limits \<Rightarrow> configuration_error + storage_limits" where
  "storage_limits_new values =
     rbind (require_nonzero ''max_raw_file_bytes'' (max_raw_file_bytes values)) (\<lambda>_.
     rbind (require_nonzero ''max_manifest_bytes'' (max_manifest_bytes values)) (\<lambda>_.
     rbind (require_nonzero ''max_object_bytes'' (max_object_bytes values)) (\<lambda>_.
     rbind (require_nonzero ''max_map_page_bytes'' (max_map_page_bytes values)) (\<lambda>_.
     rbind (require_nonzero ''max_materialized_blocks'' (max_materialized_blocks values)) (\<lambda>_.
     rbind (require_nonzero ''max_map_working_bytes'' (max_map_working_bytes values)) (\<lambda>_.
     rbind (require_nonzero ''max_representation_working_bytes''
              (max_representation_working_bytes values)) (\<lambda>_.
     rbind (require_nonzero ''max_map_page_reads'' (max_map_page_reads values)) (\<lambda>_.
     rbind (require_nonzero ''max_map_page_writes'' (max_map_page_writes values)) (\<lambda>_.
     rbind (require_nonzero ''max_read_bytes'' (max_read_bytes values)) (\<lambda>_.
     rbind (require_nonzero ''max_write_bytes'' (max_write_bytes values)) (\<lambda>_.
     rbind (require_nonzero ''max_key_bytes'' (max_key_bytes values)) (\<lambda>_.
     rbind (require (max_manifest_bytes values \<le> max_object_bytes values)
              (CfgInconsistent ''max_manifest_bytes'' ''max_object_bytes'')) (\<lambda>_.
     rbind (require (max_map_page_bytes values \<le> max_object_bytes values)
              (CfgInconsistent ''max_map_page_bytes'' ''max_object_bytes'')) (\<lambda>_.
     rbind (require (max_materialized_blocks values \<le> push_bit 49 1)
              (CfgTooLarge ''max_materialized_blocks'' (push_bit 49 1))) (\<lambda>_.
     rbind (require (max_map_page_bytes values * 2 \<le> usize_max)
              (CfgTooLarge ''max_map_page_bytes'' (- 1))) (\<lambda>_.
     rbind (require (max_map_page_bytes values * 2 \<le> max_map_working_bytes values)
              (CfgInconsistent ''two mapping-page buffers'' ''max_map_working_bytes'')) (\<lambda>_.
     let object_bytes = try_from_or_max (max_object_bytes values) in
     rbind (require (case checked_add (max_raw_file_bytes values) RAW_PAYLOAD_MAX_OVERHEAD of
                       None \<Rightarrow> False | Some required \<Rightarrow> required \<le> object_bytes)
              (CfgInconsistent ''max_raw_file_bytes'' ''max_object_bytes minus envelope'')) (\<lambda>_.
     rbind (require (case checked_add (ucast BLOCK_SIZE) BLOCK_PAYLOAD_MAX_OVERHEAD of
                       None \<Rightarrow> False | Some required \<Rightarrow> required \<le> object_bytes)
              (CfgInconsistent ''current block object'' ''max_object_bytes'')) (\<lambda>_.
     rbind (require (max_publish_retries values \<le> 1024)
              (CfgTooLarge ''max_publish_retries'' 1024)) (\<lambda>_.
     Inr values))))))))))))))))))))"

text \<open>What the checked constructor guarantees; \<open>usize\<close> fields are numbers up to \<^const>\<open>usize_max\<close>.\<close>

definition limits_ok :: "storage_limits \<Rightarrow> bool" where
  "limits_ok lim \<longleftrightarrow>
     max_raw_file_bytes lim \<noteq> 0 \<and> max_manifest_bytes lim \<noteq> 0 \<and> max_map_page_bytes lim \<noteq> 0 \<and>
     max_materialized_blocks lim \<noteq> 0 \<and> max_representation_working_bytes lim \<noteq> 0 \<and>
     max_map_page_reads lim \<noteq> 0 \<and> max_map_page_writes lim \<noteq> 0 \<and> max_read_bytes lim \<noteq> 0 \<and>
     max_write_bytes lim \<noteq> 0 \<and> max_key_bytes lim \<noteq> 0 \<and>
     max_manifest_bytes lim \<le> max_object_bytes lim \<and>
     2 * max_map_page_bytes lim \<le> max_map_working_bytes lim \<and>
     max_map_page_bytes lim \<le> max_object_bytes lim \<and>
     unat (max_raw_file_bytes lim) + 246 \<le> max_object_bytes lim \<and> 33022 \<le> max_object_bytes lim \<and>
     unat (max_materialized_blocks lim) \<le> 2 ^ 49 \<and> unat (max_publish_retries lim) \<le> 1024"

lemma try_from_or_max_le:
  assumes "n \<le> usize_max"
  shows "unat (try_from_or_max n :: u64) = n"
  using assms by (auto simp: try_from_or_max_def try_from_nat_def usize_max_def unsigned_of_nat take_bit_nat_eq_self)

text \<open>The checked constructor accepts exactly the consistent limits.\<close>

lemma storage_limits_new_iff:
  assumes "max_object_bytes values \<le> usize_max" and "max_map_working_bytes values \<le> usize_max"
  shows "storage_limits_new values = Inr lim \<longleftrightarrow> lim = values \<and> limits_ok values"
proof -
  have raw: "(case checked_add (max_raw_file_bytes values) RAW_PAYLOAD_MAX_OVERHEAD of
      None \<Rightarrow> False | Some required \<Rightarrow> required \<le> try_from_or_max (max_object_bytes values)) \<longleftrightarrow>
    unat (max_raw_file_bytes values) + 246 \<le> max_object_bytes values"
  proof (cases "unat (max_raw_file_bytes values) + 246 < 2 ^ 64")
    case True
    then have "checked_add (max_raw_file_bytes values) RAW_PAYLOAD_MAX_OVERHEAD =
        Some (max_raw_file_bytes values + 246)"
      by (simp add: checked_add_def RAW_PAYLOAD_MAX_OVERHEAD_def)
    moreover from unat_checked_add [OF this]
    have "unat (max_raw_file_bytes values + 246) = unat (max_raw_file_bytes values) + 246"
      by (simp add: RAW_PAYLOAD_MAX_OVERHEAD_def)
    ultimately show ?thesis
      using try_from_or_max_le [OF assms(1)] by (simp add: word_le_nat_alt)
  next
    case False
    then show ?thesis
      using assms(1) by (simp add: checked_add_def RAW_PAYLOAD_MAX_OVERHEAD_def usize_max_def)
  qed
  have block: "(case checked_add (ucast BLOCK_SIZE) BLOCK_PAYLOAD_MAX_OVERHEAD of
      None \<Rightarrow> False | Some required \<Rightarrow> required \<le> (try_from_or_max (max_object_bytes values) :: u64)) \<longleftrightarrow>
    33022 \<le> max_object_bytes values"
    using try_from_or_max_le [OF assms(1)]
    by (simp add: checked_add_def BLOCK_PAYLOAD_MAX_OVERHEAD_def BLOCK_SIZE_def word_le_nat_alt)
  have bits: "max_materialized_blocks values \<le> push_bit 49 1 \<longleftrightarrow> unat (max_materialized_blocks values) \<le> 2 ^ 49"
    "max_publish_retries values \<le> 1024 \<longleftrightarrow> unat (max_publish_retries values) \<le> 1024"
    by (simp_all add: word_le_nat_alt)
  show ?thesis
    unfolding storage_limits_new_def Let_def require_nonzero_def rbind_eq_Inr require_eq_Inr raw block bits
      limits_ok_def
    using assms(2) by (auto simp: mult.commute)
qed

datatype (plugins only: code) representation_error =
    InvalidPolicy | UnsupportedPolicy | UnsupportedCompression | UnsupportedCipher | CodecFailure
  | InvalidLength | AuthenticationFailed | MissingContext | MissingMaster | MissingFileKey
  | WrongMaster | ContextMismatch | CommitmentMismatch | InvalidWrappedKey | UnsupportedWrappedKey
  | WrappingFailed | ProvenanceMismatch

datatype (plugins only: code) persistent_format_error =
    PfFormat format_error
  | PfCorruption corruption_error
  | PfLimit storage_limit_error

section \<open>Identifiers (ids.rs)\<close>

type_synonym file_id = u128
type_synonym mutation_id = u128
type_synonym digest = u256
type_synonym operation_fingerprint = u256
type_synonym object_key = rstring
type_synonym object_version = bytes

datatype (plugins only: code) invalid_object_key = KeyEmpty | KeyControlCharacter

definition is_ascii_control :: "u8 \<Rightarrow> bool" where
  "is_ascii_control b \<longleftrightarrow> b < 0x20 \<or> b = 0x7F"

definition object_key_new :: "rstring \<Rightarrow> invalid_object_key + object_key" where
  "object_key_new value =
     (if value = [] then Inl KeyEmpty
      else if list_ex is_ascii_control value then Inl KeyControlCharacter
      else Inr value)"

record content_ref =
  cr_file_id :: file_id
  cr_generation :: u64
  cr_logical_size :: u64
  cr_manifest :: object_key
  cr_manifest_digest :: digest
  cr_method :: storage_method

text \<open>\<open>ContentRef::from_persisted\<close>; \<open>None\<close> is \<open>ZeroGeneration\<close>.\<close>

definition content_ref_from_persisted ::
  "file_id \<Rightarrow> u64 \<Rightarrow> u64 \<Rightarrow> object_key \<Rightarrow> digest \<Rightarrow> storage_method \<Rightarrow> content_ref option" where
  "content_ref_from_persisted file_id generation logical_size manifest manifest_digest method =
     (if generation = 0 then None
      else Some \<lparr>cr_file_id = file_id, cr_generation = generation, cr_logical_size = logical_size,
             cr_manifest = manifest, cr_manifest_digest = manifest_digest, cr_method = method\<rparr>)"

record base_content_identity =
  bi_generation :: u64
  bi_manifest_digest :: digest

definition base_new_file :: base_content_identity where
  "base_new_file = \<lparr>bi_generation = 0, bi_manifest_digest = 0\<rparr>"

definition base_from_content :: "content_ref \<Rightarrow> base_content_identity" where
  "base_from_content content =
     \<lparr>bi_generation = cr_generation content, bi_manifest_digest = cr_manifest_digest content\<rparr>"

definition is_new_file :: "base_content_identity \<Rightarrow> bool" where
  "is_new_file base \<longleftrightarrow> bi_generation base = 0 \<and> bi_manifest_digest base = 0"

record preparation_identity =
  pi_mutation_id :: mutation_id
  pi_base :: base_content_identity
  pi_fingerprint :: operation_fingerprint

definition identity_new ::
  "mutation_id \<Rightarrow> base_content_identity \<Rightarrow> operation_fingerprint \<Rightarrow> preparation_identity" where
  "identity_new mutation_id base fingerprint =
     \<lparr>pi_mutation_id = mutation_id, pi_base = base, pi_fingerprint = fingerprint\<rparr>"

text \<open>Every part is preceded by its length, after a fixed label.\<close>

definition fingerprint :: "primitives \<Rightarrow> bytes list \<Rightarrow> operation_fingerprint" where
  "fingerprint P parts =
     blake3 P (bytes_of_string ''w9pt-fs-storage-operation-v1'' @ [0] @
       concat (map (\<lambda>part. to_le_bytes 8 (try_from_or_max (length part) :: u64) @ part) parts))"

definition method_tag :: "storage_method \<Rightarrow> u8" where
  "method_tag method = (case method of Raw \<Rightarrow> 1 | BlockSplit \<Rightarrow> 2)"

definition try_length :: "nat \<Rightarrow> range_error + u64" where
  "try_length n = (case try_from_nat n of Some w \<Rightarrow> Inr w | None \<Rightarrow> Inl LengthConversion)"

definition for_create ::
  "primitives \<Rightarrow> mutation_id \<Rightarrow> storage_method \<Rightarrow> bytes \<Rightarrow> range_error + preparation_identity" where
  "for_create P mutation_id method bs =
     (case try_length (length bs) of
        Inl e \<Rightarrow> Inl e
      | Inr n \<Rightarrow> Inr (identity_new mutation_id base_new_file
          (fingerprint P [bytes_of_string ''create'', [method_tag method], to_le_bytes 8 n, bs])))"

definition for_write ::
  "primitives \<Rightarrow> mutation_id \<Rightarrow> content_ref \<Rightarrow> u64 \<Rightarrow> bytes \<Rightarrow> range_error + preparation_identity" where
  "for_write P mutation_id base offset bs =
     (case try_length (length bs) of
        Inl e \<Rightarrow> Inl e
      | Inr n \<Rightarrow> Inr (identity_new mutation_id (base_from_content base)
          (fingerprint P [bytes_of_string ''write'', to_le_bytes 8 offset, to_le_bytes 8 n, bs])))"

definition for_write_from_new ::
  "primitives \<Rightarrow> mutation_id \<Rightarrow> storage_method \<Rightarrow> u64 \<Rightarrow> bytes \<Rightarrow> range_error + preparation_identity" where
  "for_write_from_new P mutation_id method offset bs =
     (case try_length (length bs) of
        Inl e \<Rightarrow> Inl e
      | Inr n \<Rightarrow> Inr (identity_new mutation_id base_new_file
          (fingerprint P [bytes_of_string ''write-from-new'', [method_tag method],
             to_le_bytes 8 offset, to_le_bytes 8 n, bs])))"

definition for_truncate ::
  "primitives \<Rightarrow> mutation_id \<Rightarrow> content_ref \<Rightarrow> u64 \<Rightarrow> preparation_identity" where
  "for_truncate P mutation_id base logical_size =
     identity_new mutation_id (base_from_content base)
       (fingerprint P [bytes_of_string ''truncate'', to_le_bytes 8 logical_size])"

definition for_truncate_from_new ::
  "primitives \<Rightarrow> mutation_id \<Rightarrow> storage_method \<Rightarrow> u64 \<Rightarrow> preparation_identity" where
  "for_truncate_from_new P mutation_id method logical_size =
     identity_new mutation_id base_new_file
       (fingerprint P [bytes_of_string ''truncate-from-new'', [method_tag method],
          to_le_bytes 8 logical_size])"

end
