(* ===== verification/Storage_Range.thy ===== *)
theory Storage_Range
  imports Storage_Base
begin

text \<open>
  Logical byte ranges and their split into block spans (\<open>layout/range.rs\<close>), with the proof that the
  spans cover the range byte by byte, in order and without overlap.
\<close>

section \<open>Ranges\<close>

record logical_range =
  lr_start :: u64
  lr_end :: u64

definition logical_range_new :: "u64 \<Rightarrow> u64 \<Rightarrow> range_error + logical_range" where
  "logical_range_new offset n =
     (case checked_add offset n of
        Some e \<Rightarrow> Inr \<lparr>lr_start = offset, lr_end = e\<rparr>
      | None \<Rightarrow> Inl (EndOverflow offset n))"

definition logical_range_from_usize :: "u64 \<Rightarrow> nat \<Rightarrow> range_error + logical_range" where
  "logical_range_from_usize offset n =
     (case try_from_nat n of
        None \<Rightarrow> Inl LengthConversion
      | Some w \<Rightarrow> logical_range_new offset w)"

definition range_len :: "logical_range \<Rightarrow> u64" where
  "range_len r = lr_end r - lr_start r"

definition range_is_empty :: "logical_range \<Rightarrow> bool" where
  "range_is_empty r \<longleftrightarrow> lr_start r = lr_end r"

definition clamp_to_eof :: "u64 \<Rightarrow> logical_range \<Rightarrow> logical_range" where
  "clamp_to_eof logical_size r =
     (if logical_size \<le> lr_start r then r\<lparr>lr_end := lr_start r\<rparr>
      else if logical_size < lr_end r then r\<lparr>lr_end := logical_size\<rparr>
      else r)"

text \<open>The invariant of the type: only the checked constructor and clamping build ranges.\<close>

definition range_ok :: "logical_range \<Rightarrow> bool" where
  "range_ok r \<longleftrightarrow> lr_start r \<le> lr_end r"

lemma logical_range_new_ok:
  assumes "logical_range_new offset n = Inr r"
  shows "range_ok r" and "lr_start r = offset" and "unat (lr_end r) = unat offset + unat n"
  using assms by (auto simp: logical_range_new_def range_ok_def word_le_nat_alt
      dest: unat_checked_add split: option.splits)

lemma logical_range_from_usize_Inr:
  assumes "logical_range_from_usize offset n = Inr r"
  shows "range_ok r" and "lr_start r = offset" and "unat (lr_end r) = unat offset + n"
proof -
  obtain w :: u64 where w: "try_from_nat n = Some w" "logical_range_new offset w = Inr r"
    using assms by (auto simp: logical_range_from_usize_def split: option.splits)
  then show "range_ok r" and "lr_start r = offset" and "unat (lr_end r) = unat offset + n"
    using logical_range_new_ok [OF w(2)] by (simp_all add: try_from_nat_Some_iff)
qed

lemma clamp_to_eof_ok:
  assumes "range_ok r"
  shows "range_ok (clamp_to_eof n r)" and "lr_start (clamp_to_eof n r) = lr_start r"
    and "unat (lr_end (clamp_to_eof n r)) = max (unat (lr_start r)) (min (unat (lr_end r)) (unat n))"
  using assms by (auto simp: clamp_to_eof_def range_ok_def word_le_nat_alt word_less_nat_alt)

section \<open>Block spans\<close>

record block_span =
  sp_block_index :: u64
  sp_within_block :: u32
  sp_buffer_offset :: nat
  sp_len :: u32

definition is_full_block :: "block_span \<Rightarrow> bool" where
  "is_full_block sp \<longleftrightarrow> sp_within_block sp = 0 \<and> sp_len sp = BLOCK_SIZE"

record block_spans =
  bs_absolute :: u64
  bs_remaining :: u64
  bs_buffer_offset :: nat

text \<open>\<open>BlockSpans::new\<close>; a 64-bit length always fits \<open>usize\<close>.\<close>

definition block_spans_new :: "logical_range \<Rightarrow> block_spans" where
  "block_spans_new r = \<lparr>bs_absolute = lr_start r, bs_remaining = range_len r, bs_buffer_offset = 0\<rparr>"

definition block_spans_next :: "block_spans \<Rightarrow> block_span option \<times> block_spans" where
  "block_spans_next s =
     (if bs_remaining s = 0 then (None, s)
      else
        let block_size = ucast BLOCK_SIZE :: u64;
            block_index = bs_absolute s div block_size;
            within = bs_absolute s mod block_size;
            len = min (bs_remaining s) (block_size - within)
        in case (try_from_nat (unat within), try_from_nat (unat len)) of
             (Some within32, Some len32) \<Rightarrow>
               let span = \<lparr>sp_block_index = block_index, sp_within_block = within32,
                           sp_buffer_offset = bs_buffer_offset s, sp_len = len32\<rparr>
               in (case checked_add (bs_absolute s) len of
                     None \<Rightarrow> (None, s)
                   | Some absolute \<Rightarrow>
                       let s1 = s\<lparr>bs_absolute := absolute, bs_remaining := bs_remaining s - len\<rparr>
                       in (case usize_checked_add (bs_buffer_offset s) (unat len) of
                             None \<Rightarrow> (None, s1)
                           | Some offset \<Rightarrow> (Some span, s1\<lparr>bs_buffer_offset := offset\<rparr>)))
           | _ \<Rightarrow> (None, s))"

lemma block_size_nat [simp]: "unat (ucast BLOCK_SIZE :: u64) = 32768" "unat BLOCK_SIZE = 32768"
  by (simp_all add: BLOCK_SIZE_def)

lemma unat_span_len:
  "unat (min r ((ucast BLOCK_SIZE :: u64) - a mod ucast BLOCK_SIZE)) = min (unat r) (32768 - unat a mod 32768)"
  by (simp add: min_def word_le_nat_alt unat_sub unat_mod word_less_nat_alt order_less_imp_le)

lemma block_spans_next_Some:
  assumes "block_spans_next s = (Some sp, s')"
  shows "bs_remaining s \<noteq> 0"
    and "unat (sp_block_index sp) = unat (bs_absolute s) div 32768"
    and "unat (sp_within_block sp) = unat (bs_absolute s) mod 32768"
    and "sp_buffer_offset sp = bs_buffer_offset s"
    and "unat (sp_len sp) = min (unat (bs_remaining s)) (32768 - unat (bs_absolute s) mod 32768)"
    and "unat (bs_absolute s') = unat (bs_absolute s) + unat (sp_len sp)"
    and "unat (bs_remaining s') = unat (bs_remaining s) - unat (sp_len sp)"
    and "bs_buffer_offset s' = bs_buffer_offset s + unat (sp_len sp)"
proof -
  let ?within = "bs_absolute s mod (ucast BLOCK_SIZE :: u64)"
  let ?len = "min (bs_remaining s) (ucast BLOCK_SIZE - ?within)"
  obtain w n absolute offset where nz: "bs_remaining s \<noteq> 0"
    and w: "try_from_nat (unat ?within) = Some w" and n: "try_from_nat (unat ?len) = Some n"
    and add: "checked_add (bs_absolute s) ?len = Some absolute"
    and off: "usize_checked_add (bs_buffer_offset s) (unat ?len) = Some offset"
    and sp: "sp = \<lparr>sp_block_index = bs_absolute s div ucast BLOCK_SIZE, sp_within_block = w,
      sp_buffer_offset = bs_buffer_offset s, sp_len = n\<rparr>"
    and s': "s' = s\<lparr>bs_absolute := absolute, bs_remaining := bs_remaining s - ?len,
      bs_buffer_offset := offset\<rparr>"
    using assms unfolding block_spans_next_def Let_def
    by (auto simp del: usize_checked_add_Some_iff split: option.splits if_splits)
  have len: "unat n = unat ?len"
    using n by (simp add: try_from_nat_Some_iff)
  show "bs_remaining s \<noteq> 0" by (rule nz)
  show "unat (sp_block_index sp) = unat (bs_absolute s) div 32768"
    by (simp add: sp unat_div)
  show "unat (sp_within_block sp) = unat (bs_absolute s) mod 32768"
    using w by (simp add: sp try_from_nat_Some_iff unat_mod)
  show "sp_buffer_offset sp = bs_buffer_offset s"
    by (simp add: sp)
  show "unat (sp_len sp) = min (unat (bs_remaining s)) (32768 - unat (bs_absolute s) mod 32768)"
    by (simp add: sp len unat_span_len)
  show "unat (bs_absolute s') = unat (bs_absolute s) + unat (sp_len sp)"
    using unat_checked_add [OF add] by (simp add: sp s' len)
  show "unat (bs_remaining s') = unat (bs_remaining s) - unat (sp_len sp)"
    by (simp add: sp s' len unat_sub)
  show "bs_buffer_offset s' = bs_buffer_offset s + unat (sp_len sp)"
    using off by (simp add: sp s' len)
qed

lemma span_len_positive:
  assumes "block_spans_next s = (Some sp, s')"
  shows "0 < unat (sp_len sp)"
proof -
  have "0 < unat (bs_remaining s)"
    using block_spans_next_Some(1) [OF assms] by (simp add: unat_gt_0)
  then show ?thesis
    unfolding block_spans_next_Some(5) [OF assms] by simp
qed

text \<open>The items the iterator yields.\<close>

function spans :: "block_spans \<Rightarrow> block_span list" where
  "spans s = (case block_spans_next s of (None, _) \<Rightarrow> [] | (Some sp, s') \<Rightarrow> sp # spans s')"
  by pat_completeness auto
termination
proof (relation "measure (\<lambda>s. unat (bs_remaining s))")
  fix s o' s' sp
  assume "(o', s') = block_spans_next s" and "o' = Some sp"
  then have step: "block_spans_next s = (Some sp, s')" by simp
  have "unat (sp_len sp) \<le> unat (bs_remaining s)"
    unfolding block_spans_next_Some(5) [OF step] by simp
  then show "(s', s) \<in> measure (\<lambda>s. unat (bs_remaining s))"
    using span_len_positive [OF step] block_spans_next_Some(7) [OF step] by simp
qed simp

declare spans.simps [simp del]

section \<open>The spans cover the range\<close>

text \<open>An iterator whose remaining bytes stay within the address space and the buffer.\<close>

definition spans_ok :: "block_spans \<Rightarrow> bool" where
  "spans_ok s \<longleftrightarrow> unat (bs_absolute s) + unat (bs_remaining s) < 2 ^ 64 \<and>
     bs_buffer_offset s + unat (bs_remaining s) \<le> usize_max"

lemma spans_ok_next:
  assumes "spans_ok s" and "bs_remaining s \<noteq> 0"
  obtains sp s' where "block_spans_next s = (Some sp, s')" and "spans_ok s'"
proof -
  let ?within = "bs_absolute s mod (ucast BLOCK_SIZE :: u64)"
  let ?len = "min (bs_remaining s) (ucast BLOCK_SIZE - ?within)"
  have len: "unat ?len \<le> unat (bs_remaining s)" "unat ?len \<le> 32768"
    by (simp_all add: unat_span_len)
  have "unat ?within < 32768"
    by (simp add: unat_mod)
  then obtain w n :: u32 where "try_from_nat (unat ?within) = Some w" and "try_from_nat (unat ?len) = Some n"
    using len by (force simp: try_from_nat_def)
  moreover have "checked_add (bs_absolute s) ?len = Some (bs_absolute s + ?len)"
    using assms(1) len by (simp add: checked_add_def spans_ok_def)
  moreover have "usize_checked_add (bs_buffer_offset s) (unat ?len) = Some (bs_buffer_offset s + unat ?len)"
    using assms(1) len by (simp add: usize_checked_add_def spans_ok_def)
  ultimately obtain sp s' where step: "block_spans_next s = (Some sp, s')"
    using assms(2) unfolding block_spans_next_def Let_def by (simp del: usize_checked_add_Some_iff)
  have "unat (sp_len sp) \<le> unat (bs_remaining s)"
    unfolding block_spans_next_Some(5) [OF step] by simp
  then have "spans_ok s'"
    using assms(1) block_spans_next_Some(6-8) [OF step] by (simp add: spans_ok_def)
  then show thesis
    using step that by blast
qed

lemma spans_Nil: "bs_remaining s = 0 \<Longrightarrow> spans s = []"
  by (simp add: spans.simps block_spans_next_def)

lemma spans_induct [consumes 1, case_names empty step]:
  assumes "spans_ok s"
    and "\<And>s. bs_remaining s = 0 \<Longrightarrow> Q s []"
    and "\<And>s sp s'. spans_ok s \<Longrightarrow> block_spans_next s = (Some sp, s') \<Longrightarrow> spans_ok s' \<Longrightarrow> Q s' (spans s') \<Longrightarrow>
      Q s (sp # spans s')"
  shows "Q s (spans s)"
  using assms(1)
proof (induction "unat (bs_remaining s)" arbitrary: s rule: less_induct)
  case less
  show ?case
  proof (cases "bs_remaining s = 0")
    case True
    then show ?thesis using assms(2) by (simp add: spans_Nil)
  next
    case False
    from less.prems this obtain sp s' where step: "block_spans_next s = (Some sp, s')" and ok: "spans_ok s'"
      by (rule spans_ok_next)
    have "unat (bs_remaining s') < unat (bs_remaining s)"
      using span_len_positive [OF step] block_spans_next_Some(1,7) [OF step] by (simp add: unat_gt_0)
    then have "Q s' (spans s')"
      using less.hyps ok by blast
    then show ?thesis
      using assms(3) [OF less.prems step ok] step by (simp add: spans.simps [of s])
  qed
qed

definition span_start :: "block_span \<Rightarrow> nat" where
  "span_start sp = unat (sp_block_index sp) * 32768 + unat (sp_within_block sp)"

definition span_stop :: "block_span \<Rightarrow> nat" where
  "span_stop sp = span_start sp + unat (sp_len sp)"

lemma span_start_next:
  assumes "block_spans_next s = (Some sp, s')"
  shows "span_start sp = unat (bs_absolute s)" and "span_stop sp = unat (bs_absolute s')"
  using block_spans_next_Some(2,3,6) [OF assms] by (simp_all add: span_start_def span_stop_def)

lemma spans_bytes:
  "spans_ok s \<Longrightarrow> concat (map (\<lambda>sp. [span_start sp ..< span_stop sp]) (spans s)) =
     [unat (bs_absolute s) ..< unat (bs_absolute s) + unat (bs_remaining s)]"
proof (induction s rule: spans_induct)
  case (step s sp s')
  have "unat (sp_len sp) \<le> unat (bs_remaining s)"
    unfolding block_spans_next_Some(5) [OF step(2)] by simp
  then show ?case
    using step.IH span_start_next [OF step(2)] block_spans_next_Some(6,7) [OF step(2)]
    by (simp flip: upt_add_eq_append) (metis add.assoc le_add1 le_add_diff_inverse upt_add_eq_append)
qed simp

text \<open>Each span stays inside its block and its bytes go to the place of the buffer that belongs to them.\<close>

lemma spans_placed:
  "spans_ok s \<Longrightarrow> sp \<in> set (spans s) \<Longrightarrow>
     0 < unat (sp_len sp) \<and> unat (sp_within_block sp) + unat (sp_len sp) \<le> 32768 \<and>
     unat (bs_absolute s) \<le> span_start sp \<and>
     sp_buffer_offset sp = bs_buffer_offset s + (span_start sp - unat (bs_absolute s))"
proof (induction s rule: spans_induct)
  case (step s sp' s')
  have bound: "unat (sp_within_block sp') + unat (sp_len sp') \<le> 32768"
    unfolding block_spans_next_Some(3,5) [OF step(2)] by simp
  show ?case
  proof (cases "sp = sp'")
    case True
    then show ?thesis
      using bound span_len_positive [OF step(2)] span_start_next(1) [OF step(2)]
        block_spans_next_Some(4) [OF step(2)] by simp
  next
    case False
    then show ?thesis
      using step.IH step.prems block_spans_next_Some(6,8) [OF step(2)] by auto
  qed
qed simp

lemma spans_block_index_lower:
  "spans_ok s \<Longrightarrow> sp \<in> set (spans s) \<Longrightarrow> unat (bs_absolute s) div 32768 \<le> unat (sp_block_index sp)"
proof -
  assume "spans_ok s" and "sp \<in> set (spans s)"
  then have p: "unat (sp_within_block sp) + unat (sp_len sp) \<le> 32768" "0 < unat (sp_len sp)"
    "unat (bs_absolute s) \<le> span_start sp"
    using spans_placed by blast+
  have "unat (bs_absolute s) div 32768 \<le> span_start sp div 32768"
    using p(3) by (rule div_le_mono)
  also have "\<dots> = unat (sp_block_index sp)"
    using p(1,2) by (simp add: span_start_def div_mult_self3)
  finally show ?thesis .
qed

text \<open>A span that does not end the range ends at the end of its block, so the block indices increase.\<close>

lemma spans_increasing: "spans_ok s \<Longrightarrow> sorted_wrt (<) (map (\<lambda>sp. unat (sp_block_index sp)) (spans s))"
proof (induction s rule: spans_induct)
  case (step s sp s')
  have "unat (sp_block_index sp) < unat (sp_block_index sp')" if "sp' \<in> set (spans s')" for sp'
  proof -
    have "unat (bs_remaining s') \<noteq> 0"
      using that spans_Nil [of s'] by (auto simp: unat_eq_0)
    then have "unat (sp_len sp) = 32768 - unat (bs_absolute s) mod 32768"
      using block_spans_next_Some(5,7) [OF step(2)] by (simp add: min_def split: if_splits)
    then have "unat (bs_absolute s') = (unat (bs_absolute s) div 32768 + 1) * 32768"
      using block_spans_next_Some(6) [OF step(2)] by (simp flip: minus_mod_eq_div_mult)
    then show ?thesis
      using spans_block_index_lower [OF step(3) that] block_spans_next_Some(2) [OF step(2)] by simp
  qed
  then show ?case
    using step.IH by simp
qed simp

lemma block_spans_new_ok:
  assumes "range_ok r"
  shows "spans_ok (block_spans_new r)"
    and "unat (bs_remaining (block_spans_new r)) = unat (lr_end r) - unat (lr_start r)"
  using assms unsigned_less [of "lr_end r"]
  by (auto simp: spans_ok_def block_spans_new_def range_len_def range_ok_def unat_sub word_le_nat_alt usize_max_def)

end
