(* ===== verification/Storage_Codec.thy ===== *)
theory Storage_Codec
  imports Storage_Base
begin

text \<open>
  The byte codec of persistent objects: the bounds-checked reader and the writer
  (\<open>format/primitives.rs\<close>), the checked envelope (\<open>format/envelope.rs\<close>) and object keys
  (\<open>format/head.rs\<close>). The locale \<open>object_field\<close> states what a decoder of one field promises: it
  succeeds on exactly the encodings of the value it returns. The locale \<open>object_emitter\<close> is its
  counterpart for the writer.
\<close>

section \<open>Reader\<close>

record byte_reader =
  br_bytes :: bytes
  br_position :: nat

type_synonym ('e, 'a) decoder = "(byte_reader, 'e, 'a) action"

definition byte_reader_new :: "bytes \<Rightarrow> byte_reader" where
  "byte_reader_new bs = \<lparr>br_bytes = bs, br_position = 0\<rparr>"

definition br_remaining :: "byte_reader \<Rightarrow> nat" where
  "br_remaining r = length (br_bytes r) - br_position r"

definition br_read_bytes :: "nat \<Rightarrow> (format_error, bytes) decoder" where
  "br_read_bytes n r =
     (case usize_checked_add (br_position r) n of
        None \<Rightarrow> (Inl (FmtArithmeticOverflow ''reader''), r)
      | Some e \<Rightarrow>
          if e \<le> length (br_bytes r)
          then (Inr (take n (drop (br_position r) (br_bytes r))), r\<lparr>br_position := e\<rparr>)
          else (Inl FmtTruncated, r))"

definition br_read_u8 :: "(format_error, u8) decoder" where
  "br_read_u8 = sbind (br_read_bytes 1) (\<lambda>bs. sreturn (from_le_bytes bs))"

definition br_read_u16 :: "(format_error, u16) decoder" where
  "br_read_u16 = sbind (br_read_bytes 2) (\<lambda>bs. sreturn (from_le_bytes bs))"

definition br_read_u32 :: "(format_error, u32) decoder" where
  "br_read_u32 = sbind (br_read_bytes 4) (\<lambda>bs. sreturn (from_le_bytes bs))"

definition br_read_u64 :: "(format_error, u64) decoder" where
  "br_read_u64 = sbind (br_read_bytes 8) (\<lambda>bs. sreturn (from_le_bytes bs))"

text \<open>\<open>read_array\<close> at the two array lengths of identifiers and digests.\<close>

definition br_read_array16 :: "(format_error, u128) decoder" where
  "br_read_array16 = sbind (br_read_bytes 16) (\<lambda>bs. sreturn (from_le_bytes bs))"

definition br_read_array32 :: "(format_error, u256) decoder" where
  "br_read_array32 = sbind (br_read_bytes 32) (\<lambda>bs. sreturn (from_le_bytes bs))"

definition br_finish :: "(format_error, unit) decoder" where
  "br_finish r = (if br_position r = length (br_bytes r) then Inr () else Inl FmtTrailingData, r)"

text \<open>An early return unless the number of remaining bytes passes a check.\<close>

definition check_remaining :: "(nat \<Rightarrow> bool) \<Rightarrow> 'e \<Rightarrow> ('e, 'a) decoder \<Rightarrow> ('e, 'a) decoder" where
  "check_remaining c e m = (\<lambda>r. if c (br_remaining r) then m r else sfail e r)"

text \<open>A format error becomes a persistent format error through \<open>From\<close>.\<close>

definition into_pf :: "(format_error, 'a) decoder \<Rightarrow> (persistent_format_error, 'a) decoder" where
  "into_pf = smap_err PfFormat"

section \<open>Writer\<close>

type_synonym byte_writer = bytes
type_synonym 'e emitter = "(byte_writer, 'e, unit) action"

definition bw_bytes :: "bytes \<Rightarrow> 'e emitter" where
  "bw_bytes value = smodify (\<lambda>w. w @ value)"

definition bw_u8 :: "u8 \<Rightarrow> 'e emitter" where
  "bw_u8 value = smodify (\<lambda>w. w @ [value])"

definition bw_u16 :: "u16 \<Rightarrow> 'e emitter" where
  "bw_u16 value = bw_bytes (to_le_bytes 2 value)"

definition bw_u32 :: "u32 \<Rightarrow> 'e emitter" where
  "bw_u32 value = bw_bytes (to_le_bytes 4 value)"

definition bw_u64 :: "u64 \<Rightarrow> 'e emitter" where
  "bw_u64 value = bw_bytes (to_le_bytes 8 value)"

text \<open>\<open>Writer::new\<close>, a sequence of writes, \<open>into_bytes\<close>.\<close>

definition written :: "'e emitter \<Rightarrow> 'e + bytes" where
  "written m = (case m [] of (Inl e, _) \<Rightarrow> Inl e | (Inr _, w) \<Rightarrow> Inr w)"

definition emit_all :: "('a \<Rightarrow> 'e emitter) \<Rightarrow> 'a list \<Rightarrow> 'e emitter" where
  "emit_all m xs = foldr (\<lambda>x k. sbind (m x) (\<lambda>_. k)) xs (sreturn ())"

fun read_count :: "nat \<Rightarrow> ('e, 'a) decoder \<Rightarrow> ('e, 'a list) decoder" where
  "read_count 0 p = sreturn []"
| "read_count (Suc n) p = sbind p (\<lambda>x. sbind (read_count n p) (\<lambda>xs. sreturn (x # xs)))"

section \<open>Decoders of fields\<close>

definition br_ok :: "byte_reader \<Rightarrow> bool" where
  "br_ok r \<longleftrightarrow> br_position r \<le> length (br_bytes r) \<and> length (br_bytes r) \<le> usize_max"

definition br_rest :: "byte_reader \<Rightarrow> bytes" where
  "br_rest r = drop (br_position r) (br_bytes r)"

definition br_advance :: "nat \<Rightarrow> byte_reader \<Rightarrow> byte_reader" where
  "br_advance n r = r\<lparr>br_position := br_position r + n\<rparr>"

lemma br_rest_advance [simp]: "br_rest (br_advance n r) = drop n (br_rest r)"
  by (simp add: br_rest_def br_advance_def add.commute)

lemma br_advance_advance [simp]: "br_advance m (br_advance n r) = br_advance (n + m) r"
  by (simp add: br_advance_def)

lemma br_ok_advance: "br_ok r \<Longrightarrow> br_rest r = b @ c \<Longrightarrow> br_ok (br_advance (length b) r)"
  by (auto simp: br_ok_def br_rest_def br_advance_def dest: arg_cong [where f = length])

lemma br_remaining_rest: "br_remaining r = length (br_rest r)"
  by (simp add: br_remaining_def br_rest_def)

text \<open>
  \<open>F x b\<close>: the bytes \<open>b\<close> encode \<open>x\<close>. A field decoder succeeds exactly when the input starts with
  an encoding; it returns what is encoded and consumes the encoding. A decoder of a whole object
  succeeds exactly when all the input is an encoding.
\<close>

locale object_field =
  fixes p :: "('e, 'a) decoder"
    and F :: "'a \<Rightarrow> bytes \<Rightarrow> bool"
  assumes decode_iff: "br_ok r \<Longrightarrow> p r = (Inr x, r') \<longleftrightarrow>
    (\<exists>b c. F x b \<and> br_rest r = b @ c \<and> r' = br_advance (length b) r)"
begin

lemma decode_cases:
  assumes "br_ok r" and "p r = (Inr x, r')"
  obtains b where "F x b" and "br_rest r = b @ br_rest r'" and "br_ok r'"
  using assms br_ok_advance by (auto simp: decode_iff)

end

locale object_decoder =
  fixes m :: "('e, 'a) decoder"
    and G :: "'a \<Rightarrow> bytes \<Rightarrow> bool"
  assumes whole_iff: "br_ok r \<Longrightarrow> fst (m r) = Inr x \<longleftrightarrow> G x (br_rest r)"
begin

lemma decodes_new: "length bs \<le> usize_max \<Longrightarrow> fst (m (byte_reader_new bs)) = Inr x \<longleftrightarrow> G x bs"
  using whole_iff [of "byte_reader_new bs"] by (simp add: br_ok_def br_rest_def byte_reader_new_def)

end

named_theorems field_intros

lemma object_field_cong:
  assumes "object_field p F" and "\<And>x b. F x b \<longleftrightarrow> G x b"
  shows "object_field p G"
  using assms by (simp add: object_field_def)

lemma object_decoder_cong:
  assumes "object_decoder m F" and "\<And>x b. F x b \<longleftrightarrow> G x b"
  shows "object_decoder m G"
  using assms by (simp add: object_decoder_def)

lemma field_sreturn [field_intros]: "object_field (sreturn x) (\<lambda>y b. y = x \<and> b = [])"
  by unfold_locales (auto simp: br_advance_def)

lemma field_slift [field_intros]: "object_field (slift r) (\<lambda>y b. r = Inr y \<and> b = [])"
  by unfold_locales (auto simp: br_advance_def)

lemma field_sfail [field_intros]: "object_field (sfail e) (\<lambda>y b. False)"
  by unfold_locales auto

lemma field_guard [field_intros]:
  "object_field m G \<Longrightarrow> object_field (if c then sfail e else m) (\<lambda>y b. \<not> c \<and> G y b)"
  by (simp add: object_field_def sfail_def)

lemma field_if [field_intros]:
  "object_field p F \<Longrightarrow> object_field q G \<Longrightarrow>
   object_field (if c then p else q) (\<lambda>y b. if c then F y b else G y b)"
  by simp

lemma smap_err_eq_Inr: "smap_err f m s = (Inr x, s') \<longleftrightarrow> m s = (Inr x, s')"
  by (cases "m s") (auto simp: smap_err_def)

lemma field_smap_err [field_intros]: "object_field p F \<Longrightarrow> object_field (smap_err f p) F"
  by (simp add: object_field_def smap_err_eq_Inr)

lemma field_into_pf [field_intros]: "object_field p F \<Longrightarrow> object_field (into_pf p) F"
  unfolding into_pf_def by (rule field_smap_err)

lemma field_sbind [field_intros]:
  assumes p: "object_field p F" and f: "\<And>x. object_field (f x) (G x)"
  shows "object_field (sbind p f) (\<lambda>y b. \<exists>x b1 b2. F x b1 \<and> G x y b2 \<and> b = b1 @ b2)"
proof
  fix r y r' assume ok: "br_ok r"
  have f: "f x (br_advance (length b1) r) = (Inr y, r') \<longleftrightarrow>
      (\<exists>b2 c2. G x y b2 \<and> c1 = b2 @ c2 \<and> r' = br_advance (length (b1 @ b2)) r)" if "br_rest r = b1 @ c1" for x b1 c1
    using object_field.decode_iff [OF f br_ok_advance [OF ok that]] that by simp
  have "sbind p f r = (Inr y, r') \<longleftrightarrow> (\<exists>x t. p r = (Inr x, t) \<and> f x t = (Inr y, r'))"
    by (auto simp: sbind_eq_Inr)
  also have "\<dots> \<longleftrightarrow> (\<exists>x b1 c1. F x b1 \<and> br_rest r = b1 @ c1 \<and> f x (br_advance (length b1) r) = (Inr y, r'))"
    by (auto simp: object_field.decode_iff [OF p ok])
  also have "\<dots> \<longleftrightarrow> (\<exists>x b1 c1 b2 c2. F x b1 \<and> br_rest r = b1 @ c1 \<and> G x y b2 \<and> c1 = b2 @ c2 \<and>
      r' = br_advance (length (b1 @ b2)) r)"
    using f by blast
  also have "\<dots> \<longleftrightarrow> (\<exists>x b1 b2 c2. F x b1 \<and> G x y b2 \<and> br_rest r = (b1 @ b2) @ c2 \<and>
      r' = br_advance (length (b1 @ b2)) r)"
    unfolding append_assoc by blast
  finally show "sbind p f r = (Inr y, r') \<longleftrightarrow> (\<exists>b c. (\<exists>x b1 b2. F x b1 \<and> G x y b2 \<and> b = b1 @ b2) \<and>
      br_rest r = b @ c \<and> r' = br_advance (length b) r)"
    by blast
qed

lemma field_read_bytes [field_intros]: "object_field (br_read_bytes n) (\<lambda>x b. length x = n \<and> b = x)"
proof
  fix r x r' assume ok: "br_ok r"
  show "br_read_bytes n r = (Inr x, r') \<longleftrightarrow>
      (\<exists>b c. (length x = n \<and> b = x) \<and> br_rest r = b @ c \<and> r' = br_advance (length b) r)"
  proof (cases "n \<le> length (br_rest r)")
    case True
    then have "br_position r + n \<le> length (br_bytes r)" "br_position r + n \<le> usize_max"
      using ok by (auto simp: br_ok_def br_rest_def)
    then have "br_read_bytes n r = (Inr (take n (br_rest r)), br_advance n r)"
      by (simp add: br_read_bytes_def br_rest_def br_advance_def usize_checked_add_def)
    moreover have "take n (br_rest r) = x \<longleftrightarrow> (\<exists>c. length x = n \<and> br_rest r = x @ c)"
      using True by (auto intro: exI [of _ "drop n (br_rest r)"])
    ultimately show ?thesis by auto
  next
    case False
    then have "br_read_bytes n r \<noteq> (Inr x, r')"
      using ok by (auto simp: br_read_bytes_def br_ok_def br_rest_def usize_checked_add_def)
    then show ?thesis using False by auto
  qed
qed

lemma fields_le [field_intros]:
  "object_field br_read_u8 (\<lambda>x b. b = [x])" "object_field br_read_u16 (\<lambda>x b. b = to_le_bytes 2 x)"
  "object_field br_read_u32 (\<lambda>x b. b = to_le_bytes 4 x)" "object_field br_read_u64 (\<lambda>x b. b = to_le_bytes 8 x)"
  "object_field br_read_array16 (\<lambda>x b. b = array16 x)" "object_field br_read_array32 (\<lambda>x b. b = array32 x)"
  unfolding br_read_u8_def br_read_u16_def br_read_u32_def br_read_u64_def br_read_array16_def br_read_array32_def
  by (rule object_field_cong, (rule field_intros)+,
      force simp: bytes_from_le array_from_le length_Suc_conv)+

lemma field_read_count [field_intros]:
  assumes "object_field p F"
  shows "object_field (read_count n p) (\<lambda>xs b. length xs = n \<and> (\<exists>bs. list_all2 F xs bs \<and> b = concat bs))"
proof (induction n)
  case 0
  show ?case
    unfolding read_count.simps by (rule object_field_cong [OF field_sreturn]) auto
next
  case (Suc n)
  let ?tail = "\<lambda>x y b. \<exists>xs b1 b2. (length xs = n \<and> (\<exists>bs. list_all2 F xs bs \<and> b1 = concat bs)) \<and>
    (y = x # xs \<and> b2 = []) \<and> b = b1 @ b2"
  have tail: "object_field (sbind (read_count n p) (\<lambda>xs. sreturn (x # xs))) (?tail x)" for x
    by (rule field_sbind, rule Suc.IH, rule field_sreturn)
  have "object_field (read_count (Suc n) p) (\<lambda>y b. \<exists>x b1 b2. F x b1 \<and> ?tail x y b2 \<and> b = b1 @ b2)"
    unfolding read_count.simps by (rule field_sbind, rule assms, rule tail)
  then show ?case
  proof (rule object_field_cong)
    fix y b
    have "(\<exists>bs. list_all2 F (x # xs) bs \<and> b = concat bs) \<longleftrightarrow>
      (\<exists>b1 bs. F x b1 \<and> list_all2 F xs bs \<and> b = b1 @ concat bs)" for x xs
      by (metis concat.simps(2) list_all2_Cons1)
    then show "(\<exists>x b1 b2. F x b1 \<and> ?tail x y b2 \<and> b = b1 @ b2) \<longleftrightarrow>
      length y = Suc n \<and> (\<exists>bs. list_all2 F y bs \<and> b = concat bs)"
      by (cases y) auto
  qed
qed

section \<open>Decoders of objects\<close>

named_theorems decoder_intros

text \<open>The relations that the rules build are simplified with the quantifiers in front.\<close>

lemmas prenex = ex_simps(1,2) [symmetric]

lemma nat_eq_unat: "n = unat (w :: 'a::len word) \<longleftrightarrow> n < 2 ^ LENGTH('a) \<and> w = of_nat n"
  by (auto simp: unat_of_nat)

lemma unat_of_nat_less: "n < 2 ^ LENGTH('a) \<Longrightarrow> unat (of_nat n :: 'a::len word) = n"
  by (simp add: unat_of_nat)

lemma decoder_sbind:
  assumes p: "object_field p F" and f: "\<And>x. object_decoder (f x) (G x)"
  shows "object_decoder (sbind p f) (\<lambda>y b. \<exists>x b1 b2. F x b1 \<and> G x y b2 \<and> b = b1 @ b2)"
proof
  fix r y assume ok: "br_ok r"
  have f: "fst (f x (br_advance (length b1) r)) = Inr y \<longleftrightarrow> G x y b2" if "br_rest r = b1 @ b2" for x b1 b2
    using object_decoder.whole_iff [OF f br_ok_advance [OF ok that]] that by simp
  have "fst (sbind p f r) = Inr y \<longleftrightarrow> (\<exists>x t. p r = (Inr x, t) \<and> fst (f x t) = Inr y)"
    by (cases "p r"; cases "fst (p r)") (auto simp: sbind_def)
  also have "\<dots> \<longleftrightarrow> (\<exists>x b1 b2. F x b1 \<and> br_rest r = b1 @ b2 \<and> fst (f x (br_advance (length b1) r)) = Inr y)"
    by (auto simp: object_field.decode_iff [OF p ok])
  finally show "fst (sbind p f r) = Inr y \<longleftrightarrow> (\<exists>x b1 b2. F x b1 \<and> G x y b2 \<and> br_rest r = b1 @ b2)"
    using f by blast
qed

lemma decoder_finish:
  "object_decoder (sbind (into_pf br_finish) (\<lambda>_. slift g)) (\<lambda>y b. g = Inr y \<and> b = [])"
  by unfold_locales
    (auto simp: br_finish_def into_pf_def smap_err_def map_err_def sbind_def slift_def br_ok_def br_rest_def)

lemma decoder_sfail: "object_decoder (sfail e) (\<lambda>y b. False)"
  by unfold_locales (simp add: sfail_def)

lemma decoder_guard:
  "object_decoder m G \<Longrightarrow> object_decoder (if c then sfail e else m) (\<lambda>y b. \<not> c \<and> G y b)"
  by (simp add: object_decoder_def sfail_def)

lemma decoder_if:
  "object_decoder p F \<Longrightarrow> object_decoder q G \<Longrightarrow>
   object_decoder (if c then p else q) (\<lambda>y b. if c then F y b else G y b)"
  by simp

lemma decoder_remaining:
  assumes "object_decoder m G"
  shows "object_decoder (check_remaining c e m) (\<lambda>y b. c (length b) \<and> G y b)"
  using object_decoder.whole_iff [OF assms]
  by unfold_locales (simp add: check_remaining_def br_remaining_rest sfail_def)

lemmas [decoder_intros] = decoder_finish decoder_sbind decoder_guard decoder_if decoder_sfail decoder_remaining

section \<open>Emitters\<close>

locale object_emitter =
  fixes m :: "'e emitter"
    and ok :: bool
    and b :: bytes
  assumes emit_iff: "m w = (Inr u, w') \<longleftrightarrow> ok \<and> w' = w @ b"
begin

lemma written_iff: "written m = Inr bs \<longleftrightarrow> ok \<and> bs = b"
proof -
  have "written m = Inr bs \<longleftrightarrow> m [] = (Inr (), bs)"
    by (auto simp: written_def split: prod.splits sum.splits)
  then show ?thesis by (simp add: emit_iff)
qed

end

named_theorems emitter_intros

lemma object_emitter_cong:
  "object_emitter m ok b \<Longrightarrow> (ok \<longleftrightarrow> ok') \<Longrightarrow> (ok \<Longrightarrow> b = b') \<Longrightarrow> object_emitter m ok' b'"
  by (auto simp: object_emitter_def)

lemma emitter_bytes [emitter_intros]:
  "object_emitter (bw_bytes bs) True bs" "object_emitter (bw_u8 a) True [a]"
  "object_emitter (bw_u16 v16) True (to_le_bytes 2 v16)" "object_emitter (bw_u32 v32) True (to_le_bytes 4 v32)"
  "object_emitter (bw_u64 v64) True (to_le_bytes 8 v64)" "object_emitter (sreturn ()) True []"
  by (unfold_locales; auto simp: bw_bytes_def bw_u8_def bw_u16_def bw_u32_def bw_u64_def smodify_def)+

lemma emitter_sbind [emitter_intros]:
  "object_emitter m ok b \<Longrightarrow> object_emitter k ok' b' \<Longrightarrow>
   object_emitter (sbind m (\<lambda>_. k)) (ok \<and> ok') (b @ b')"
  by (auto simp: object_emitter_def sbind_eq_Inr)

lemma emitter_slift [emitter_intros]:
  "(\<And>x. r = Inr x \<Longrightarrow> object_emitter (k x) (ok x) (b x)) \<Longrightarrow>
   object_emitter (sbind (slift r) k) (case r of Inl e \<Rightarrow> False | Inr x \<Rightarrow> ok x) (case r of Inl e \<Rightarrow> [] | Inr x \<Rightarrow> b x)"
  by (cases r) (auto simp: object_emitter_def sbind_eq_Inr)

lemma emitter_all [emitter_intros]:
  assumes "\<And>x. object_emitter (m x) (ok x) (b x)"
  shows "object_emitter (emit_all m xs) (list_all ok xs) (concat (map b xs))"
  unfolding emit_all_def
  by (induction xs) (auto intro!: emitter_intros assms object_emitter_cong [OF emitter_sbind [OF assms]])

section \<open>Envelope (format/envelope.rs)\<close>

definition ENVELOPE_MAGIC :: bytes where
  "ENVELOPE_MAGIC = bytes_of_string ''W9PTOBJ'' @ [0]"

definition ENVELOPE_HEADER_LEN :: nat where
  "ENVELOPE_HEADER_LEN = 8 + 1 + 2 + 2 + 8 + 32"

datatype (plugins only: code) object_kind = KindHead | KindManifest | KindPayload | KindLeafMap | KindBranchMap

definition kind_u8 :: "object_kind \<Rightarrow> u8" where
  "kind_u8 kind =
     (case kind of KindHead \<Rightarrow> 1 | KindManifest \<Rightarrow> 2 | KindPayload \<Rightarrow> 3 | KindLeafMap \<Rightarrow> 4 | KindBranchMap \<Rightarrow> 5)"

definition if_map_level :: "u8 \<Rightarrow> object_kind" where
  "if_map_level level = (if level = 0 then KindLeafMap else KindBranchMap)"

record envelope =
  env_kind :: object_kind
  env_payload :: bytes

abbreviation usize_to_u64 :: "nat \<Rightarrow> u64" where
  "usize_to_u64 \<equiv> try_from_or_max"

definition checked_envelope_len :: "nat \<Rightarrow> nat \<Rightarrow> storage_limit_kind \<Rightarrow> storage_limit_error + nat" where
  "checked_envelope_len payload_len max_bytes kind =
     rbind (ok_or (usize_checked_add ENVELOPE_HEADER_LEN payload_len)
              (limit_error_new kind (- 1) (usize_to_u64 max_bytes))) (\<lambda>total.
     if total > max_bytes then Inl (limit_error_new kind (usize_to_u64 total) (usize_to_u64 max_bytes))
     else Inr total)"

definition encode_envelope :: "primitives \<Rightarrow> object_kind \<Rightarrow> bytes \<Rightarrow> nat \<Rightarrow> storage_limit_error + bytes" where
  "encode_envelope P kind payload max_bytes =
     rbind (checked_envelope_len (length payload) max_bytes LkObject) (\<lambda>total.
     rbind (ok_or (try_from_nat (length payload))
              (limit_error_new LkObject (- 1) (usize_to_u64 max_bytes))) (\<lambda>payload_len.
     let checksum = blake3 P payload in
     written
       (sbind (bw_bytes ENVELOPE_MAGIC) (\<lambda>_.
        sbind (bw_u8 (kind_u8 kind)) (\<lambda>_.
        sbind (bw_u16 3) (\<lambda>_.
        sbind (bw_u16 0) (\<lambda>_.
        sbind (bw_u64 payload_len) (\<lambda>_.
        sbind (bw_bytes (array32 checksum)) (\<lambda>_.
        bw_bytes payload))))))))) "

text \<open>The body of \<open>decode_envelope\<close> after the size check.\<close>

definition decode_envelope_fields ::
  "primitives \<Rightarrow> object_kind \<Rightarrow> (persistent_format_error, envelope) decoder" where
  "decode_envelope_fields P expected_kind =
     sbind (into_pf (br_read_bytes 8)) (\<lambda>magic.
     if magic \<noteq> ENVELOPE_MAGIC then sfail (PfFormat FmtInvalidMagic) else
     sbind (into_pf br_read_u8) (\<lambda>actual_kind.
     if actual_kind \<noteq> kind_u8 expected_kind
     then sfail (PfFormat (FmtUnexpectedKind (kind_u8 expected_kind) actual_kind)) else
     sbind (into_pf br_read_u16) (\<lambda>major.
     sbind (into_pf br_read_u16) (\<lambda>minor.
     if major \<noteq> 3 \<or> minor \<noteq> 0 then sfail (PfFormat (FmtUnsupportedVersion major minor)) else
     sbind (into_pf br_read_u64) (\<lambda>payload_len.
     sbind (into_pf br_read_array32) (\<lambda>checksum.
     check_remaining (\<lambda>remaining. remaining = unat payload_len)
       (PfFormat (FmtInconsistentLength ''envelope payload''))
     (sbind (into_pf (br_read_bytes (unat payload_len))) (\<lambda>payload.
      sbind (into_pf br_finish) (\<lambda>_.
      slift (rbind (require (blake3 P payload = checksum) (PfCorruption ChecksumMismatch)) (\<lambda>_.
             Inr \<lparr>env_kind = expected_kind, env_payload = payload\<rparr>)))))))))))"

definition decode_envelope ::
  "primitives \<Rightarrow> object_kind \<Rightarrow> bytes \<Rightarrow> nat \<Rightarrow> persistent_format_error + envelope" where
  "decode_envelope P expected_kind bs max_bytes =
     (if length bs > max_bytes
      then Inl (PfLimit (limit_error_new LkObject (usize_to_u64 (length bs)) (usize_to_u64 max_bytes)))
      else fst (decode_envelope_fields P expected_kind (byte_reader_new bs)))"

text \<open>The format that both sides implement.\<close>

definition envelope_bytes :: "primitives \<Rightarrow> object_kind \<Rightarrow> bytes \<Rightarrow> bytes" where
  "envelope_bytes P kind payload =
     ENVELOPE_MAGIC @ [kind_u8 kind] @ to_le_bytes 2 (3 :: u16) @ to_le_bytes 2 (0 :: u16) @
     to_le_bytes 8 (of_nat (length payload) :: u64) @ array32 (blake3 P payload) @ payload"

lemma length_ENVELOPE_MAGIC [simp]: "length ENVELOPE_MAGIC = 8"
  by (simp add: ENVELOPE_MAGIC_def bytes_of_string_def)

lemma length_envelope_bytes [simp]: "length (envelope_bytes P kind payload) = 53 + length payload"
  by (simp add: envelope_bytes_def)

lemma checked_envelope_len_iff:
  "checked_envelope_len n max_bytes kind = Inr t \<longleftrightarrow> t = 53 + n \<and> t \<le> max_bytes \<and> t \<le> usize_max"
  by (auto simp: checked_envelope_len_def ENVELOPE_HEADER_LEN_def)

lemma envelope_emitter:
  "object_emitter (sbind (bw_bytes ENVELOPE_MAGIC) (\<lambda>_. sbind (bw_u8 (kind_u8 kind)) (\<lambda>_. sbind (bw_u16 3) (\<lambda>_.
     sbind (bw_u16 0) (\<lambda>_. sbind (bw_u64 (of_nat (length payload))) (\<lambda>_.
     sbind (bw_bytes (array32 (blake3 P payload))) (\<lambda>_. bw_bytes payload)))))))
     True (envelope_bytes P kind payload)"
  by (rule object_emitter_cong, ((rule emitter_intros)+)[1]) (simp_all add: envelope_bytes_def)

lemma encode_envelope_iff:
  "encode_envelope P kind payload max_bytes = Inr bs \<longleftrightarrow>
     bs = envelope_bytes P kind payload \<and> length bs \<le> max_bytes \<and> length bs \<le> usize_max"
proof (cases "53 + length payload \<le> max_bytes \<and> 53 + length payload \<le> usize_max")
  case True
  then have "checked_envelope_len (length payload) max_bytes LkObject = Inr (53 + length payload)"
    by (simp add: checked_envelope_len_iff)
  moreover have "try_from_nat (length payload) = Some (of_nat (length payload) :: u64)"
    using True by (simp add: try_from_nat_def usize_max_def)
  ultimately show ?thesis
    using True by (auto simp: encode_envelope_def Let_def object_emitter.written_iff [OF envelope_emitter])
next
  case False
  then have "checked_envelope_len (length payload) max_bytes LkObject \<noteq> Inr t" for t
    by (auto simp: checked_envelope_len_iff)
  then have "encode_envelope P kind payload max_bytes \<noteq> Inr bs"
    by (simp add: encode_envelope_def)
  with False show ?thesis by auto
qed

lemma envelope_eq: "\<lparr>env_kind = kind, env_payload = payload\<rparr> = e \<longleftrightarrow> kind = env_kind e \<and> payload = env_payload e"
  by (cases e) auto

lemma decode_envelope_fields_decoder:
  "object_decoder (decode_envelope_fields P kind)
     (\<lambda>e b. env_kind e = kind \<and> b = envelope_bytes P kind (env_payload e) \<and> length (env_payload e) < 2 ^ 64)"
  unfolding decode_envelope_fields_def
  by (rule object_decoder_cong, ((rule decoder_intros field_intros)+)[1])
    (simp del: ex_simps add: prenex nat_eq_unat envelope_eq envelope_bytes_def, blast)

lemma decode_envelope_iff:
  assumes "length bs \<le> usize_max"
  shows "decode_envelope P kind bs max_bytes = Inr e \<longleftrightarrow>
     length bs \<le> max_bytes \<and> env_kind e = kind \<and> bs = envelope_bytes P kind (env_payload e)"
proof (cases "length bs \<le> max_bytes")
  case True
  from object_decoder.decodes_new [OF decode_envelope_fields_decoder assms] show ?thesis
    using True assms by (auto simp: decode_envelope_def usize_max_def)
qed (simp add: decode_envelope_def)

section \<open>Object keys (format/head.rs)\<close>

definition checked_key_length :: "object_key \<Rightarrow> storage_limits \<Rightarrow> persistent_format_error + u32" where
  "checked_key_length key limits =
     rbind (require (length key \<le> max_key_bytes limits)
              (PfLimit (limit_error_new LkKey (usize_to_u64 (length key)) (usize_to_u64 (max_key_bytes limits))))) (\<lambda>_.
     ok_or (try_from_nat (length key)) (PfFormat (FmtArithmeticOverflow ''object key length'')))"

definition write_key :: "object_key \<Rightarrow> storage_limits \<Rightarrow> persistent_format_error emitter" where
  "write_key key limits =
     sbind (slift (checked_key_length key limits)) (\<lambda>n.
     sbind (bw_u32 n) (\<lambda>_.
     bw_bytes key))"

definition read_key :: "storage_limits \<Rightarrow> (persistent_format_error, object_key) decoder" where
  "read_key limits =
     sbind (into_pf br_read_u32) (\<lambda>n.
     if unat n > max_key_bytes limits
     then sfail (PfLimit (limit_error_new LkKey (usize_to_u64 (unat n)) (usize_to_u64 (max_key_bytes limits)))) else
     sbind (into_pf (br_read_bytes (unat n))) (\<lambda>value.
     if \<not> utf8_valid value then sfail (PfFormat (FmtNonCanonical ''object key'')) else
     slift (map_err (\<lambda>_. PfFormat (FmtNonCanonical ''object key'')) (object_key_new value))))"

text \<open>\<open>key_ok\<close> is the invariant of the type \<open>ObjectKey\<close>.\<close>

definition key_ok :: "object_key \<Rightarrow> bool" where
  "key_ok key \<longleftrightarrow> utf8_valid key \<and> key \<noteq> [] \<and> \<not> list_ex is_ascii_control key"

definition key_fits :: "storage_limits \<Rightarrow> object_key \<Rightarrow> bool" where
  "key_fits limits key \<longleftrightarrow> length key \<le> max_key_bytes limits \<and> length key < 2 ^ 32"

definition key_bytes :: "object_key \<Rightarrow> bytes" where
  "key_bytes key = to_le_bytes 4 (of_nat (length key) :: u32) @ key"

lemma object_key_new_iff: "utf8_valid v \<Longrightarrow> object_key_new v = Inr key \<longleftrightarrow> key = v \<and> key_ok key"
  by (auto simp: object_key_new_def key_ok_def)

lemma checked_key_length_iff:
  "checked_key_length key limits = Inr n \<longleftrightarrow> key_fits limits key \<and> n = of_nat (length key)"
  by (auto simp: checked_key_length_def key_fits_def try_from_nat_def)

interpretation key_field: object_field "read_key limits"
  "\<lambda>key b. key_ok key \<and> key_fits limits key \<and> b = key_bytes key" for limits
  unfolding read_key_def
  by (rule object_field_cong, ((rule field_intros)+)[1])
    (simp del: ex_simps add: prenex nat_eq_unat, auto simp: key_fits_def key_bytes_def object_key_new_iff key_ok_def unat_of_nat_less)

interpretation key_emitter: object_emitter "write_key key limits" "key_fits limits key" "key_bytes key" for key limits
  unfolding write_key_def
  by (rule object_emitter_cong, ((rule emitter_intros)+)[1])
    (auto simp: checked_key_length_def key_fits_def try_from_nat_def key_bytes_def require_def ok_or_def
      split: if_splits)

lemmas [field_intros] = key_field.object_field_axioms
lemmas [emitter_intros] = key_emitter.object_emitter_axioms

end
