(* ===== verification/Storage_Target.thy ===== *)
theory Storage_Target
  imports Storage_Codec
begin

text \<open>
  The target of the content store (\<open>object_store.rs\<close>, \<open>error.rs\<close>) and its deterministic in-memory
  implementation (\<open>testing/memory_store.rs\<close>). A target is a record of operations on a state; the
  locale \<open>object_target\<close> states the contract of \<open>TargetStore\<close> (atomic creation and exchange,
  reads see what was written), and the memory target is its interpretation, with injected failures
  and ambiguous outcomes.
\<close>

section \<open>Errors\<close>

datatype (plugins only: code) target_operation = OpGet | OpGetRange | OpPutIfAbsent | OpCompareExchange
datatype (plugins only: code) ambiguous_operation = ImmutableCreation | HeadPublication
datatype (plugins only: code) missing_object_kind = MissingHead | MissingManifest | MissingMappingPage | MissingPayload

datatype (plugins only: code) 'e storage_error =
    StConfiguration configuration_error
  | StRange range_error
  | StFormat format_error
  | StCorruption corruption_error
  | StTarget target_operation object_key 'e
  | StConflict u32
  | StAmbiguous ambiguous_operation object_key
  | StLimit storage_limit_error
  | StPreparation preparation_error
  | StRepresentation representation_error
  | StMissing missing_object_kind object_key

definition storage_error_of :: "persistent_format_error \<Rightarrow> 'e storage_error" where
  "storage_error_of e =
     (case e of PfFormat f \<Rightarrow> StFormat f | PfCorruption c \<Rightarrow> StCorruption c | PfLimit l \<Rightarrow> StLimit l)"

section \<open>Target contract\<close>

type_synonym object_version = bytes

record target_object =
  tg_bytes :: bytes
  tg_version :: object_version

record object_range =
  or_start :: u64
  or_end :: u64

definition object_range_new :: "u64 \<Rightarrow> u64 \<Rightarrow> range_error + object_range" where
  "object_range_new start stop =
     (if stop < start then Inl (InvalidOrder start stop) else Inr \<lparr>or_start = start, or_end = stop\<rparr>)"

datatype (plugins only: code) put_if_absent = PutCreated object_version | PutAlreadyExists object_version | PutAmbiguous

datatype (plugins only: code) compare_exchange =
    CasReplaced object_version
  | CasConflict "object_version option"
  | CasAmbiguous

record target_guarantees =
  tg_durable_writes :: bool
  tg_atomic_put_if_absent :: bool
  tg_atomic_compare_exchange :: bool
  tg_read_after_write :: bool

definition guarantees_required :: target_guarantees where
  "guarantees_required = \<lparr>tg_durable_writes = True, tg_atomic_put_if_absent = True,
     tg_atomic_compare_exchange = True, tg_read_after_write = True\<rparr>"

definition validate_writable :: "target_guarantees \<Rightarrow> configuration_error + unit" where
  "validate_writable g =
     rbind (require (tg_durable_writes g) (CfgMissingTargetGuarantee ''durable writes'')) (\<lambda>_.
     rbind (require (tg_atomic_put_if_absent g) (CfgMissingTargetGuarantee ''atomic put-if-absent'')) (\<lambda>_.
     rbind (require (tg_atomic_compare_exchange g) (CfgMissingTargetGuarantee ''atomic compare-and-swap'')) (\<lambda>_.
     require (tg_read_after_write g) (CfgMissingTargetGuarantee ''read-after-write''))))"

record ('t, 'e) target_store =
  ts_guarantees :: target_guarantees
  ts_get :: "object_key \<Rightarrow> nat \<Rightarrow> ('t, 'e, target_object option) action"
  ts_get_range :: "object_key \<Rightarrow> object_range \<Rightarrow> ('t, 'e, bytes option) action"
  ts_put_if_absent :: "object_key \<Rightarrow> bytes \<Rightarrow> ('t, 'e, put_if_absent) action"
  ts_compare_exchange :: "object_key \<Rightarrow> object_version option \<Rightarrow> bytes \<Rightarrow> ('t, 'e, compare_exchange) action"

section \<open>Memory target\<close>

datatype (plugins only: code) failure_timing = FailBefore | FailAfter
datatype (plugins only: code) trace_phase = TraceBefore | TraceAfter

record target_trace_event =
  te_sequence :: u64
  te_operation :: target_operation
  te_key :: object_key
  te_phase :: trace_phase

datatype (plugins only: code) memory_target_error =
    MtInjected target_operation failure_timing
  | MtRangeOutOfBounds u64 u64 u64
  | MtObjectTooLarge u64 u64
  | MtPoisoned

record stored_object =
  so_bytes :: bytes
  so_version :: u64

record failure_point =
  fp_operation :: target_operation
  fp_timing :: failure_timing
  fp_key :: "object_key option"

record memory_state =
  ms_objects :: "(object_key, stored_object) hmap"
  ms_next_version :: u64
  ms_next_sequence :: u64
  ms_trace :: "target_trace_event list"
  ms_failures :: "failure_point list"
  ms_ambiguous_puts :: "object_key option list"

definition memory_state_default :: memory_state where
  "memory_state_default = \<lparr>ms_objects = [], ms_next_version = 1, ms_next_sequence = 0, ms_trace = [],
     ms_failures = [], ms_ambiguous_puts = []\<rparr>"

definition mt_record :: "target_operation \<Rightarrow> object_key \<Rightarrow> trace_phase \<Rightarrow> memory_state \<Rightarrow> memory_state" where
  "mt_record operation key phase s =
     s\<lparr>ms_next_sequence := saturating_add (ms_next_sequence s) 1,
       ms_trace := ms_trace s @ [\<lparr>te_sequence = ms_next_sequence s, te_operation = operation, te_key = key, te_phase = phase\<rparr>]\<rparr>"

text \<open>\<open>position\<close> followed by \<open>remove\<close>: the list without its first match, if there is one.\<close>

fun remove_first :: "('a \<Rightarrow> bool) \<Rightarrow> 'a list \<Rightarrow> 'a list option" where
  "remove_first p [] = None"
| "remove_first p (x # xs) = (if p x then Some xs else map_option (Cons x) (remove_first p xs))"

definition key_selected :: "object_key option \<Rightarrow> object_key \<Rightarrow> bool" where
  "key_selected expected key \<longleftrightarrow> (case expected of None \<Rightarrow> True | Some k \<Rightarrow> k = key)"

definition should_fail :: "target_operation \<Rightarrow> failure_timing \<Rightarrow> object_key \<Rightarrow> memory_state \<Rightarrow> bool \<times> memory_state" where
  "should_fail operation timing key s =
     (case remove_first (\<lambda>point. fp_operation point = operation \<and> fp_timing point = timing \<and>
             key_selected (fp_key point) key) (ms_failures s) of
        None \<Rightarrow> (False, s)
      | Some rest \<Rightarrow> (True, s\<lparr>ms_failures := rest\<rparr>))"

definition should_leave_put_ambiguous :: "object_key \<Rightarrow> memory_state \<Rightarrow> bool \<times> memory_state" where
  "should_leave_put_ambiguous key s =
     (case remove_first (\<lambda>expected. key_selected expected key) (ms_ambiguous_puts s) of
        None \<Rightarrow> (False, s)
      | Some rest \<Rightarrow> (True, s\<lparr>ms_ambiguous_puts := rest\<rparr>))"

definition allocate_version :: "memory_state \<Rightarrow> u64 \<times> memory_state" where
  "allocate_version s = (ms_next_version s, s\<lparr>ms_next_version := saturating_add (ms_next_version s) 1\<rparr>)"

definition version_token :: "u64 \<Rightarrow> object_version" where
  "version_token version = rev (to_le_bytes 8 version)"

definition mt_get :: "object_key \<Rightarrow> nat \<Rightarrow> (memory_state, memory_target_error, target_object option) action" where
  "mt_get key max_bytes s =
     (let s1 = mt_record OpGet key TraceBefore s;
          (before, s2) = should_fail OpGet FailBefore key s1
      in if before then (Inl (MtInjected OpGet FailBefore), s2)
         else case hm_get (ms_objects s2) key of
           Some object \<Rightarrow>
             if length (so_bytes object) > max_bytes
             then (Inl (MtObjectTooLarge (try_from_or_max (length (so_bytes object))) (try_from_or_max max_bytes)),
                   mt_record OpGet key TraceAfter s2)
             else (let (after, s3) = should_fail OpGet FailAfter key (mt_record OpGet key TraceAfter s2)
                   in (if after then Inl (MtInjected OpGet FailAfter)
                       else Inr (Some \<lparr>tg_bytes = so_bytes object, tg_version = version_token (so_version object)\<rparr>), s3))
         | None \<Rightarrow>
             (let (after, s3) = should_fail OpGet FailAfter key (mt_record OpGet key TraceAfter s2)
              in (if after then Inl (MtInjected OpGet FailAfter) else Inr None, s3)))"

definition mt_get_range :: "object_key \<Rightarrow> object_range \<Rightarrow> (memory_state, memory_target_error, bytes option) action" where
  "mt_get_range key rng s =
     (let s1 = mt_record OpGetRange key TraceBefore s;
          (before, s2) = should_fail OpGetRange FailBefore key s1
      in if before then (Inl (MtInjected OpGetRange FailBefore), s2)
         else
           let result = (case hm_get (ms_objects s2) key of
             Some object \<Rightarrow>
               let object_len = try_from_or_max (length (so_bytes object)) in
               if or_end rng > object_len
               then Inl (MtRangeOutOfBounds object_len (or_start rng) (or_end rng))
               else Inr (Some (take (unat (or_end rng) - unat (or_start rng))
                      (drop (unat (or_start rng)) (so_bytes object))))
           | None \<Rightarrow> Inr None)
           in case result of
             Inl e \<Rightarrow> (Inl e, s2)
           | Inr x \<Rightarrow>
               (let (after, s3) = should_fail OpGetRange FailAfter key (mt_record OpGetRange key TraceAfter s2)
                in (if after then Inl (MtInjected OpGetRange FailAfter) else Inr x, s3)))"

definition mt_put_if_absent :: "object_key \<Rightarrow> bytes \<Rightarrow> (memory_state, memory_target_error, put_if_absent) action" where
  "mt_put_if_absent key bs s =
     (let s1 = mt_record OpPutIfAbsent key TraceBefore s;
          (before, s2) = should_fail OpPutIfAbsent FailBefore key s1
      in if before then (Inl (MtInjected OpPutIfAbsent FailBefore), s2)
         else
           let (ambiguous, s3) = should_leave_put_ambiguous key s2 in
           if ambiguous then (Inr PutAmbiguous, mt_record OpPutIfAbsent key TraceAfter s3)
           else
             let (result, s4) = (case hm_get (ms_objects s3) key of
               Some object \<Rightarrow> (PutAlreadyExists (version_token (so_version object)), s3)
             | None \<Rightarrow>
                 (let (version, s') = allocate_version s3
                  in (PutCreated (version_token version),
                      s'\<lparr>ms_objects := hm_insert key \<lparr>so_bytes = bs, so_version = version\<rparr> (ms_objects s')\<rparr>)));
                 (after, s5) = should_fail OpPutIfAbsent FailAfter key (mt_record OpPutIfAbsent key TraceAfter s4)
             in (Inr (if after then PutAmbiguous else result), s5))"

definition mt_compare_exchange ::
  "object_key \<Rightarrow> object_version option \<Rightarrow> bytes \<Rightarrow> (memory_state, memory_target_error, compare_exchange) action" where
  "mt_compare_exchange key expected bs s =
     (let s1 = mt_record OpCompareExchange key TraceBefore s;
          (before, s2) = should_fail OpCompareExchange FailBefore key s1
      in if before then (Inl (MtInjected OpCompareExchange FailBefore), s2)
         else
           let current = map_option (\<lambda>object. version_token (so_version object)) (hm_get (ms_objects s2) key);
               (result, s3) =
                 (if current = expected
                  then (let (version, s') = allocate_version s2
                        in (CasReplaced (version_token version),
                            s'\<lparr>ms_objects := hm_insert key \<lparr>so_bytes = bs, so_version = version\<rparr> (ms_objects s')\<rparr>))
                  else (CasConflict current, s2));
               (after, s4) = should_fail OpCompareExchange FailAfter key (mt_record OpCompareExchange key TraceAfter s3)
           in (Inr (if after then CasAmbiguous else result), s4))"

definition memory_target :: "(memory_state, memory_target_error) target_store" where
  "memory_target = \<lparr>ts_guarantees = guarantees_required, ts_get = mt_get, ts_get_range = mt_get_range,
     ts_put_if_absent = mt_put_if_absent, ts_compare_exchange = mt_compare_exchange\<rparr>"

definition mt_corrupt :: "object_key \<Rightarrow> bytes \<Rightarrow> memory_state \<Rightarrow> bool \<times> memory_state" where
  "mt_corrupt key bs s =
     (let (version, s') = allocate_version s
      in case hm_get (ms_objects s') key of
           None \<Rightarrow> (False, s')
         | Some object \<Rightarrow> (True, s'\<lparr>ms_objects := hm_insert key \<lparr>so_bytes = bs, so_version = version\<rparr> (ms_objects s')\<rparr>))"

definition mt_inject_failure :: "target_operation \<Rightarrow> failure_timing \<Rightarrow> object_key option \<Rightarrow> memory_state \<Rightarrow> memory_state" where
  "mt_inject_failure operation timing key s =
     s\<lparr>ms_failures := ms_failures s @ [\<lparr>fp_operation = operation, fp_timing = timing, fp_key = key\<rparr>]\<rparr>"

definition mt_inspect :: "object_key \<Rightarrow> memory_state \<Rightarrow> bytes option" where
  "mt_inspect key s = map_option so_bytes (hm_get (ms_objects s) key)"

section \<open>The contract\<close>

text \<open>What the repository relies on: whole reads, creation and exchange.\<close>

locale object_target =
  fixes T :: "('t, 'e) target_store"
    and peek :: "'t \<Rightarrow> object_key \<Rightarrow> target_object option"
  assumes get_keeps: "ts_get T key n t = (r, t') \<Longrightarrow> peek t' = peek t"
    and get_value: "ts_get T key n t = (Inr x, t') \<Longrightarrow> x = peek t key"
    and get_bound: "ts_get T key n t = (Inr (Some found), t') \<Longrightarrow> length (tg_bytes found) \<le> n"
    and put_cases: "ts_put_if_absent T key bs t = (put, t') \<Longrightarrow>
      peek t' = peek t \<or> (\<exists>v. peek t key = None \<and> peek t' = (peek t)(key \<mapsto> \<lparr>tg_bytes = bs, tg_version = v\<rparr>))"
    and put_created: "ts_put_if_absent T key bs t = (Inr (PutCreated v), t') \<Longrightarrow>
      peek t' = (peek t)(key \<mapsto> \<lparr>tg_bytes = bs, tg_version = v\<rparr>)"
    and put_exists: "ts_put_if_absent T key bs t = (Inr (PutAlreadyExists v), t') \<Longrightarrow>
      peek t' = peek t \<and> map_option tg_version (peek t key) = Some v"
    and exchange_cases: "ts_compare_exchange T key expected bs t = (cas, t') \<Longrightarrow>
      peek t' = peek t \<or> (\<exists>v. map_option tg_version (peek t key) = expected \<and>
        peek t' = (peek t)(key \<mapsto> \<lparr>tg_bytes = bs, tg_version = v\<rparr>))"
    and exchange_replaced: "ts_compare_exchange T key expected bs t = (Inr (CasReplaced v), t') \<Longrightarrow>
      map_option tg_version (peek t key) = expected \<and>
      peek t' = (peek t)(key \<mapsto> \<lparr>tg_bytes = bs, tg_version = v\<rparr>)"
    and exchange_conflict: "ts_compare_exchange T key expected bs t = (Inr (CasConflict c), t') \<Longrightarrow>
      peek t' = peek t \<and> c = map_option tg_version (peek t key) \<and> c \<noteq> expected"
begin

lemma put_grows: "ts_put_if_absent T key bs t = (r, t') \<Longrightarrow> peek t \<subseteq>\<^sub>m peek t'"
  using put_cases by (fastforce simp: map_le_def)

end

text \<open>
  The contract of the whole trait: a range read changes nothing and returns exactly the requested
  half-open range of the stored object. It does not clamp a range that reaches beyond the end.
\<close>

locale target_contract = object_target T peek
  for T :: "('t, 'e) target_store" and peek :: "'t \<Rightarrow> object_key \<Rightarrow> target_object option" +
  assumes range_keeps: "ts_get_range T key rng t = (part, t') \<Longrightarrow> peek t' = peek t"
    and range_missing: "ts_get_range T key rng t = (Inr None, t') \<Longrightarrow> peek t key = None"
    and range_exact: "ts_get_range T key rng t = (Inr (Some bs), t') \<Longrightarrow>
      \<exists>object. peek t key = Some object \<and> unat (or_end rng) \<le> length (tg_bytes object) \<and>
        bs = take (unat (or_end rng) - unat (or_start rng)) (drop (unat (or_start rng)) (tg_bytes object))"
begin

lemma range_after_get:
  assumes "ts_get T key n t = (Inr (Some object), t1)" and "ts_get_range T key rng t1 = (Inr x, t2)"
  shows "x = Some (take (unat (or_end rng) - unat (or_start rng))
      (drop (unat (or_start rng)) (tg_bytes object)))"
proof -
  have peek: "peek t1 key = Some object"
    using get_keeps [OF assms(1)] get_value [OF assms(1)] by simp
  show ?thesis
  proof (cases x)
    case None
    then show ?thesis
      using range_missing [of key rng t1 t2] assms(2) peek by simp
  next
    case (Some bs)
    then show ?thesis
      using range_exact [of key rng t1 bs t2] assms(2) peek by auto
  qed
qed

lemma range_length:
  assumes "ts_get_range T key rng t = (Inr (Some bs), t')"
  shows "length bs = unat (or_end rng) - unat (or_start rng)"
  using range_exact [OF assms] by auto

end

definition mt_peek :: "memory_state \<Rightarrow> object_key \<Rightarrow> target_object option" where
  "mt_peek s key =
     map_option (\<lambda>o'. \<lparr>tg_bytes = so_bytes o', tg_version = version_token (so_version o')\<rparr>) (hm_get (ms_objects s) key)"

lemma mt_record_objects [simp]: "ms_objects (mt_record operation key phase s) = ms_objects s"
  by (simp add: mt_record_def)

lemma should_fail_objects: "should_fail operation timing key s = (b, s') \<Longrightarrow> ms_objects s' = ms_objects s"
  by (auto simp: should_fail_def split: option.splits)

lemma should_leave_objects: "should_leave_put_ambiguous key s = (b, s') \<Longrightarrow> ms_objects s' = ms_objects s"
  by (auto simp: should_leave_put_ambiguous_def split: option.splits)

lemma allocate_version_objects: "allocate_version s = (v, s') \<Longrightarrow> ms_objects s' = ms_objects s"
  by (auto simp: allocate_version_def)

lemma mt_peek_cong: "ms_objects s' = ms_objects s \<Longrightarrow> mt_peek s' = mt_peek s"
  by (auto simp: mt_peek_def)

lemma mt_peek_insert:
  "ms_objects s' = hm_insert key \<lparr>so_bytes = bs, so_version = v\<rparr> (ms_objects s) \<Longrightarrow>
   mt_peek s' = (mt_peek s)(key \<mapsto> \<lparr>tg_bytes = bs, tg_version = version_token v\<rparr>)"
  by (auto simp: mt_peek_def fun_eq_iff)

lemmas memory_objects = should_fail_objects should_leave_objects allocate_version_objects

lemma mt_get_cases:
  assumes "mt_get key n s = (r, s')"
  shows "ms_objects s' = ms_objects s"
    and "r = Inr x \<Longrightarrow> x = mt_peek s key"
    and "r = Inr (Some y) \<Longrightarrow> length (tg_bytes y) \<le> n"
proof -
  have "ms_objects s' = ms_objects s \<and>
    (\<forall>x. r = Inr x \<longrightarrow> x = mt_peek s key \<and> (\<forall>y. x = Some y \<longrightarrow> length (tg_bytes y) \<le> n))"
    using assms
    by (auto simp: mt_get_def Let_def mt_peek_def dest!: memory_objects
        split: prod.splits if_splits option.splits)
  then show "ms_objects s' = ms_objects s" "r = Inr x \<Longrightarrow> x = mt_peek s key"
    "r = Inr (Some y) \<Longrightarrow> length (tg_bytes y) \<le> n" by blast+
qed

lemma mt_put_cases:
  assumes "mt_put_if_absent key bs s = (r, s')"
  shows "(ms_objects s' = ms_objects s \<and> (\<forall>v. r \<noteq> Inr (PutCreated v))) \<or>
     (\<exists>v. hm_get (ms_objects s) key = None \<and> ms_objects s' = hm_insert key \<lparr>so_bytes = bs, so_version = v\<rparr> (ms_objects s) \<and>
        (r = Inr PutAmbiguous \<or> r = Inr (PutCreated (version_token v))))"
    and "r = Inr (PutAlreadyExists w) \<Longrightarrow>
       ms_objects s' = ms_objects s \<and> map_option tg_version (mt_peek s key) = Some w"
  using assms
  by (auto simp: mt_put_if_absent_def Let_def mt_peek_def dest!: memory_objects
      split: prod.splits if_splits option.splits)

lemma mt_compare_exchange_cases:
  assumes "mt_compare_exchange key expected bs s = (r, s')"
  shows "(ms_objects s' = ms_objects s \<and> (\<forall>v. r \<noteq> Inr (CasReplaced v))) \<or>
     (\<exists>v. map_option tg_version (mt_peek s key) = expected \<and>
        ms_objects s' = hm_insert key \<lparr>so_bytes = bs, so_version = v\<rparr> (ms_objects s) \<and>
        (r = Inr CasAmbiguous \<or> r = Inr (CasReplaced (version_token v))))"
    and "r = Inr (CasConflict c) \<Longrightarrow>
       ms_objects s' = ms_objects s \<and> c = map_option tg_version (mt_peek s key) \<and> c \<noteq> expected"
proof -
  have peek: "map_option tg_version (mt_peek s key) =
      map_option (\<lambda>object. version_token (so_version object)) (hm_get (ms_objects s) key)"
    by (simp add: mt_peek_def option.map_comp comp_def)
  show "(ms_objects s' = ms_objects s \<and> (\<forall>v. r \<noteq> Inr (CasReplaced v))) \<or>
     (\<exists>v. map_option tg_version (mt_peek s key) = expected \<and>
        ms_objects s' = hm_insert key \<lparr>so_bytes = bs, so_version = v\<rparr> (ms_objects s) \<and>
        (r = Inr CasAmbiguous \<or> r = Inr (CasReplaced (version_token v))))"
    unfolding peek using assms
    by (auto simp: mt_compare_exchange_def Let_def dest!: memory_objects split: prod.splits if_splits)
  show "r = Inr (CasConflict c) \<Longrightarrow>
       ms_objects s' = ms_objects s \<and> c = map_option tg_version (mt_peek s key) \<and> c \<noteq> expected"
    unfolding peek using assms
    by (auto simp: mt_compare_exchange_def Let_def dest!: memory_objects split: prod.splits if_splits)
qed

lemma unat_try_from_or_max: "unat (try_from_or_max n :: u64) \<le> n"
  by (auto simp: try_from_or_max_def try_from_nat_def unsigned_of_nat unsigned_minus_1_eq_mask mask_eq_exp_minus_1
      take_bit_nat_eq_self split: if_splits)

lemma mt_get_range_cases:
  assumes "mt_get_range key rng s = (r, s')"
  shows "ms_objects s' = ms_objects s"
    and "r = Inr None \<Longrightarrow> mt_peek s key = None"
    and "r = Inr (Some bs) \<Longrightarrow> \<exists>object. mt_peek s key = Some object \<and>
      unat (or_end rng) \<le> length (tg_bytes object) \<and>
      bs = take (unat (or_end rng) - unat (or_start rng)) (drop (unat (or_start rng)) (tg_bytes object))"
proof -
  have fits: "unat (or_end rng) \<le> n" if "\<not> try_from_or_max n < or_end rng" for n
    using that unat_try_from_or_max [of n] by (simp add: word_less_nat_alt)
  show "ms_objects s' = ms_objects s"
    using assms by (auto simp: mt_get_range_def Let_def dest!: memory_objects
        split: prod.splits if_splits option.splits)
  show "r = Inr None \<Longrightarrow> mt_peek s key = None"
    using assms by (auto simp: mt_get_range_def Let_def mt_peek_def dest!: memory_objects
        split: prod.splits if_splits option.splits)
  show "r = Inr (Some bs) \<Longrightarrow> \<exists>object. mt_peek s key = Some object \<and>
      unat (or_end rng) \<le> length (tg_bytes object) \<and>
      bs = take (unat (or_end rng) - unat (or_start rng)) (drop (unat (or_start rng)) (tg_bytes object))"
    using assms fits by (auto simp: mt_get_range_def Let_def mt_peek_def dest!: memory_objects
        split: prod.splits if_splits option.splits)
qed

interpretation mt: object_target memory_target mt_peek
proof unfold_locales
  fix key n t t' and r :: "memory_target_error + target_object option"
  assume "ts_get memory_target key n t = (r, t')"
  then have "mt_get key n t = (r, t')" by (simp add: memory_target_def)
  then show "mt_peek t' = mt_peek t" by (rule mt_peek_cong [OF mt_get_cases(1)])
next
  fix key n t t' x
  assume "ts_get memory_target key n t = (Inr x, t')"
  then have "mt_get key n t = (Inr x, t')" by (simp add: memory_target_def)
  then show "x = mt_peek t key" by (rule mt_get_cases(2)) simp
next
  fix key n t t' y
  assume "ts_get memory_target key n t = (Inr (Some y), t')"
  then have "mt_get key n t = (Inr (Some y), t')" by (simp add: memory_target_def)
  then show "length (tg_bytes y) \<le> n" by (rule mt_get_cases(3)) simp
next
  fix key bs t t' and r :: "memory_target_error + put_if_absent"
  assume "ts_put_if_absent memory_target key bs t = (r, t')"
  then have "mt_put_if_absent key bs t = (r, t')" by (simp add: memory_target_def)
  then consider "ms_objects t' = ms_objects t" | v where "hm_get (ms_objects t) key = None"
      and "ms_objects t' = hm_insert key \<lparr>so_bytes = bs, so_version = v\<rparr> (ms_objects t)"
    using mt_put_cases(1) by blast
  then show "mt_peek t' = mt_peek t \<or>
    (\<exists>v. mt_peek t key = None \<and> mt_peek t' = (mt_peek t)(key \<mapsto> \<lparr>tg_bytes = bs, tg_version = v\<rparr>))"
  proof cases
    case 1
    then show ?thesis using mt_peek_cong by blast
  next
    case 2
    then show ?thesis using mt_peek_insert [OF 2(2)] by (auto simp: mt_peek_def)
  qed
next
  fix key bs t t' v
  assume "ts_put_if_absent memory_target key bs t = (Inr (PutCreated v), t')"
  then have "mt_put_if_absent key bs t = (Inr (PutCreated v), t')" by (simp add: memory_target_def)
  from mt_put_cases(1) [OF this] obtain w
    where "ms_objects t' = hm_insert key \<lparr>so_bytes = bs, so_version = w\<rparr> (ms_objects t)" "v = version_token w"
    by auto
  then show "mt_peek t' = (mt_peek t)(key \<mapsto> \<lparr>tg_bytes = bs, tg_version = v\<rparr>)"
    using mt_peek_insert by blast
next
  fix key bs t t' v
  assume "ts_put_if_absent memory_target key bs t = (Inr (PutAlreadyExists v), t')"
  then have "mt_put_if_absent key bs t = (Inr (PutAlreadyExists v), t')" by (simp add: memory_target_def)
  note objects = mt_put_cases(2) [OF this refl]
  then show "mt_peek t' = mt_peek t \<and> map_option tg_version (mt_peek t key) = Some v"
    by (simp add: mt_peek_cong [OF conjunct1 [OF objects]])
next
  fix key expected bs t t' and r :: "memory_target_error + compare_exchange"
  assume "ts_compare_exchange memory_target key expected bs t = (r, t')"
  then have "mt_compare_exchange key expected bs t = (r, t')" by (simp add: memory_target_def)
  then consider "ms_objects t' = ms_objects t" | v where "map_option tg_version (mt_peek t key) = expected"
      and "ms_objects t' = hm_insert key \<lparr>so_bytes = bs, so_version = v\<rparr> (ms_objects t)"
    using mt_compare_exchange_cases(1) by blast
  then show "mt_peek t' = mt_peek t \<or> (\<exists>v. map_option tg_version (mt_peek t key) = expected \<and>
      mt_peek t' = (mt_peek t)(key \<mapsto> \<lparr>tg_bytes = bs, tg_version = v\<rparr>))"
  proof cases
    case 1
    then show ?thesis using mt_peek_cong by blast
  next
    case 2
    then show ?thesis using mt_peek_insert [OF 2(2)] by blast
  qed
next
  fix key expected bs t t' v
  assume "ts_compare_exchange memory_target key expected bs t = (Inr (CasReplaced v), t')"
  then have "mt_compare_exchange key expected bs t = (Inr (CasReplaced v), t')" by (simp add: memory_target_def)
  from mt_compare_exchange_cases(1) [OF this] obtain w
    where "map_option tg_version (mt_peek t key) = expected" "v = version_token w"
      "ms_objects t' = hm_insert key \<lparr>so_bytes = bs, so_version = w\<rparr> (ms_objects t)"
    by auto
  then show "map_option tg_version (mt_peek t key) = expected \<and>
      mt_peek t' = (mt_peek t)(key \<mapsto> \<lparr>tg_bytes = bs, tg_version = v\<rparr>)"
    using mt_peek_insert by blast
next
  fix key expected bs t t' c
  assume "ts_compare_exchange memory_target key expected bs t = (Inr (CasConflict c), t')"
  then have "mt_compare_exchange key expected bs t = (Inr (CasConflict c), t')" by (simp add: memory_target_def)
  note objects = mt_compare_exchange_cases(2) [OF this refl]
  then show "mt_peek t' = mt_peek t \<and> c = map_option tg_version (mt_peek t key) \<and> c \<noteq> expected"
    using mt_peek_cong [OF conjunct1 [OF objects]] by blast
qed

interpretation mt_ranges: target_contract memory_target mt_peek
proof unfold_locales
  fix key rng t t' and r :: "memory_target_error + bytes option"
  assume "ts_get_range memory_target key rng t = (r, t')"
  then have "mt_get_range key rng t = (r, t')" by (simp add: memory_target_def)
  then show "mt_peek t' = mt_peek t" by (rule mt_peek_cong [OF mt_get_range_cases(1)])
next
  fix key rng t t'
  assume "ts_get_range memory_target key rng t = (Inr None, t')"
  then have "mt_get_range key rng t = (Inr None, t')" by (simp add: memory_target_def)
  then show "mt_peek t key = None" by (rule mt_get_range_cases(2)) simp
next
  fix key rng t t' bs
  assume "ts_get_range memory_target key rng t = (Inr (Some bs), t')"
  then have "mt_get_range key rng t = (Inr (Some bs), t')" by (simp add: memory_target_def)
  then show "\<exists>object. mt_peek t key = Some object \<and> unat (or_end rng) \<le> length (tg_bytes object) \<and>
      bs = take (unat (or_end rng) - unat (or_start rng)) (drop (unat (or_start rng)) (tg_bytes object))"
    by (rule mt_get_range_cases(3)) simp
qed

end
