(* ===== verification/Storage_Page.thy ===== *)
theory Storage_Page
  imports Storage_Codec
begin

text \<open>
  Sparse block-map pages (\<open>format/block_map.rs\<close>) and payload references (\<open>format/manifest.rs\<close>): the
  radix geometry, the validation of references and pages, and the page codec, with the proof that
  encoder and decoder implement one format.
\<close>

section \<open>References\<close>

record blob_ref =
  bl_key :: object_key
  bl_plaintext_len :: u64
  bl_stored_len :: u64
  bl_digest :: digest
  bl_representation :: representation

definition blob_ref_new :: "object_key \<Rightarrow> u64 \<Rightarrow> u64 \<Rightarrow> digest \<Rightarrow> blob_ref" where
  "blob_ref_new key plaintext_len stored_len digest =
     \<lparr>bl_key = key, bl_plaintext_len = plaintext_len, bl_stored_len = stored_len,
      bl_digest = digest, bl_representation = representation_current\<rparr>"

record page_ref =
  pr_key :: object_key
  pr_encoded_len :: u64
  pr_digest :: digest
  pr_level :: u8
  pr_first_block :: u64
  pr_count :: u64
  pr_highest :: u64

record leaf_entry =
  le_slot :: u8
  le_blob :: blob_ref

record branch_entry =
  be_slot :: u8
  be_child :: page_ref

datatype (plugins only: code) block_map_page =
    LeafPage file_id u64 block_split_parameters "leaf_entry list"
  | BranchPage file_id u8 u64 block_split_parameters "branch_entry list"

fun page_file_id :: "block_map_page \<Rightarrow> file_id" where
  "page_file_id (LeafPage file_id first_block parameters entries) = file_id"
| "page_file_id (BranchPage file_id level first_block parameters entries) = file_id"

fun page_level :: "block_map_page \<Rightarrow> u8" where
  "page_level (LeafPage file_id first_block parameters entries) = 0"
| "page_level (BranchPage file_id level first_block parameters entries) = level"

fun page_first_block :: "block_map_page \<Rightarrow> u64" where
  "page_first_block (LeafPage file_id first_block parameters entries) = first_block"
| "page_first_block (BranchPage file_id level first_block parameters entries) = first_block"

fun page_parameters :: "block_map_page \<Rightarrow> block_split_parameters" where
  "page_parameters (LeafPage file_id first_block parameters entries) = parameters"
| "page_parameters (BranchPage file_id level first_block parameters entries) = parameters"

fun page_entry_count :: "block_map_page \<Rightarrow> nat" where
  "page_entry_count (LeafPage file_id first_block parameters entries) = length entries"
| "page_entry_count (BranchPage file_id level first_block parameters entries) = length entries"

definition page_leaf :: "file_id \<Rightarrow> u64 \<Rightarrow> leaf_entry list \<Rightarrow> block_map_page" where
  "page_leaf file_id first_block entries = LeafPage file_id first_block block_split_current entries"

definition page_branch :: "file_id \<Rightarrow> u8 \<Rightarrow> u64 \<Rightarrow> branch_entry list \<Rightarrow> block_map_page" where
  "page_branch file_id level first_block entries =
     BranchPage file_id level first_block block_split_current entries"

section \<open>Loops over slices\<close>

fun for_each :: "('a \<Rightarrow> 'e + unit) \<Rightarrow> 'a list \<Rightarrow> 'e + unit" where
  "for_each f [] = Inr ()"
| "for_each f (x # xs) = rbind (f x) (\<lambda>_. for_each f xs)"

fun try_fold :: "('b \<Rightarrow> 'a \<Rightarrow> 'e + 'b) \<Rightarrow> 'b \<Rightarrow> 'a list \<Rightarrow> 'e + 'b" where
  "try_fold f acc [] = Inr acc"
| "try_fold f acc (x # xs) = rbind (f acc x) (\<lambda>acc'. try_fold f acc' xs)"

lemma for_each_eq_Inr [simp]: "for_each f xs = Inr u \<longleftrightarrow> (\<forall>x\<in>set xs. f x = Inr ())"
  by (induction xs) auto

section \<open>Radix geometry\<close>

definition page_coverage :: "u8 \<Rightarrow> format_error + u64" where
  "page_coverage level =
     (if level > BLOCK_MAP_MAX_LEVEL then Inl (FmtNonCanonical ''page level'')
      else if 7 * (unat level + 1) < 64 then Inr (push_bit (7 * (unat level + 1)) 1)
      else Inl (FmtArithmeticOverflow ''page coverage''))"

fun root_level_search :: "u8 list \<Rightarrow> u64 \<Rightarrow> format_error + u8" where
  "root_level_search [] highest_block = Inl (FmtNonCanonical ''block index outside radix domain'')"
| "root_level_search (level # levels) highest_block =
     rbind (page_coverage level) (\<lambda>coverage.
     if highest_block < coverage then Inr level else root_level_search levels highest_block)"

definition minimum_root_level :: "u64 \<Rightarrow> format_error + u8" where
  "minimum_root_level highest_block = root_level_search [0, 1, 2, 3, 4, 5, 6] highest_block"

definition page_contains :: "u8 \<Rightarrow> u64 \<Rightarrow> u64 \<Rightarrow> bool" where
  "page_contains level first_block block_index \<longleftrightarrow>
     (case page_coverage level of
        Inl _ \<Rightarrow> False
      | Inr coverage \<Rightarrow>
          (case checked_add first_block coverage of
             None \<Rightarrow> False
           | Some e \<Rightarrow> first_block \<le> block_index \<and> block_index < e))"

definition page_ref_covers :: "page_ref \<Rightarrow> u64 \<Rightarrow> bool" where
  "page_ref_covers reference block_index =
     page_contains (pr_level reference) (pr_first_block reference) block_index"

definition page_slot :: "u8 \<Rightarrow> u64 \<Rightarrow> u64 \<Rightarrow> format_error + u8" where
  "page_slot level first_block block_index =
     (if \<not> page_contains level first_block block_index
      then Inl (FmtNonCanonical ''block outside page range'')
      else rbind (if level = 0 then Inr 1 else page_coverage (level - 1)) (\<lambda>child_coverage.
           ok_or (try_from_nat (unat ((block_index - first_block) div child_coverage)))
             (FmtArithmeticOverflow ''page slot'')))"

definition aligned_page_start :: "u8 \<Rightarrow> u64 \<Rightarrow> format_error + u64" where
  "aligned_page_start level block_index =
     rbind (page_coverage level) (\<lambda>coverage. Inr (block_index div coverage * coverage))"

text \<open>The coverage as a number.\<close>

definition cover :: "u8 \<Rightarrow> nat" where
  "cover level = 2 ^ (7 * (unat level + 1))"

lemma page_coverage_iff: "page_coverage level = Inr c \<longleftrightarrow> unat level \<le> 6 \<and> unat c = cover level"
proof (cases "unat level \<le> 6")
  case True
  then have k: "7 * (unat level + 1) \<le> 49" by simp
  then have "unat (push_bit (7 * (unat level + 1)) 1 :: u64) = 2 ^ (7 * (unat level + 1))"
    using power_strict_increasing [of "7 * (unat level + 1)" 64 "2 :: nat"]
      unat_of_nat_less [of "2 ^ (7 * (unat level + 1))", where 'a = 64]
    by (simp add: push_bit_eq_mult)
  moreover have "page_coverage level = Inr (push_bit (7 * (unat level + 1)) 1)"
    using True k by (simp add: page_coverage_def BLOCK_MAP_MAX_LEVEL_def word_less_nat_alt)
  ultimately show ?thesis
    using True by (auto simp: cover_def word_unat_eq_iff)
qed (simp add: page_coverage_def BLOCK_MAP_MAX_LEVEL_def word_less_nat_alt)

lemma page_coverage_Inl_iff: "(\<exists>e. page_coverage level = Inl e) \<longleftrightarrow> 6 < unat level"
  by (auto simp: page_coverage_def BLOCK_MAP_MAX_LEVEL_def word_less_nat_alt)

lemma cover_pos [simp]: "0 < cover level"
  by (simp add: cover_def)

lemma cover_le: "unat level \<le> 6 \<Longrightarrow> cover level \<le> 2 ^ 49"
  unfolding cover_def by (rule power_increasing) simp_all

lemma page_contains_iff:
  "page_contains level first_block i \<longleftrightarrow> unat level \<le> 6 \<and> unat first_block + cover level < 2 ^ 64 \<and>
     unat first_block \<le> unat i \<and> unat i < unat first_block + cover level"
proof (cases "page_coverage level")
  case (Inl e)
  then show ?thesis
    using page_coverage_Inl_iff [of level] by (auto simp: page_contains_def)
next
  case (Inr c)
  then have c: "unat level \<le> 6" "unat c = cover level" by (simp_all add: page_coverage_iff)
  have "(case checked_add first_block c of None \<Rightarrow> False | Some e \<Rightarrow> first_block \<le> i \<and> i < e) \<longleftrightarrow>
    unat first_block + cover level < 2 ^ 64 \<and> unat first_block \<le> unat i \<and> unat i < unat first_block + cover level"
  proof (cases "checked_add first_block c")
    case None
    then show ?thesis using c by (simp add: checked_add_def split: if_splits)
  next
    case (Some e)
    then have "unat e = unat first_block + cover level" "unat first_block + cover level < 2 ^ 64"
      using unat_checked_add [OF Some] c by (simp_all add: checked_add_Some_iff)
    then show ?thesis using Some by (simp add: word_le_nat_alt word_less_nat_alt)
  qed
  with Inr c(1) show ?thesis by (simp add: page_contains_def)
qed

section \<open>Payload references (format/manifest.rs)\<close>

definition blob_encoded_len :: "blob_ref \<Rightarrow> storage_limits \<Rightarrow> persistent_format_error + nat" where
  "blob_encoded_len blob limits =
     rbind (checked_key_length (bl_key blob) limits) (\<lambda>key_len.
     ok_or (Option.bind (usize_checked_add 4 (unat key_len)) (\<lambda>n. usize_checked_add n (8 + 8 + 3 + 32)))
       (PfFormat (FmtArithmeticOverflow ''blob reference length'')))"

definition validate_blob :: "blob_ref \<Rightarrow> storage_limits \<Rightarrow> persistent_format_error + unit" where
  "validate_blob blob limits =
     rbind (checked_key_length (bl_key blob) limits) (\<lambda>_.
     rbind (require (bl_representation blob = representation_current)
              (PfFormat (FmtNonCanonical ''blob representation''))) (\<lambda>_.
     rbind (require (\<not> (bl_plaintext_len blob = 0 \<or> bl_stored_len blob < PAYLOAD_MIN_STORED_BYTES))
              (PfFormat (FmtInconsistentLength ''stored payload''))) (\<lambda>_.
     require (\<not> bl_stored_len blob > usize_to_u64 (max_object_bytes limits))
       (PfLimit (limit_error_new LkObject (bl_stored_len blob) (usize_to_u64 (max_object_bytes limits)))))))"

definition write_representation :: "representation \<Rightarrow> 'e emitter" where
  "write_representation r =
     sbind (bw_u8 (case rp_hash r of Blake3_256 \<Rightarrow> 1)) (\<lambda>_.
     sbind (bw_u8 (case rp_codec r of CodecIdentity \<Rightarrow> 0)) (\<lambda>_.
     bw_u8 (case rp_cipher r of CipherNone \<Rightarrow> 0)))"

definition read_representation :: "(persistent_format_error, representation) decoder" where
  "read_representation =
     sbind (into_pf br_read_u8) (\<lambda>hash.
     if hash \<noteq> 1 then sfail (PfFormat (FmtUnknownTag ''hash algorithm'' (ucast hash))) else
     sbind (into_pf br_read_u8) (\<lambda>codec.
     if codec \<noteq> 0 then sfail (PfFormat (FmtUnknownTag ''payload codec'' (ucast codec))) else
     sbind (into_pf br_read_u8) (\<lambda>cipher.
     if cipher \<noteq> 0 then sfail (PfFormat (FmtUnknownTag ''payload cipher'' (ucast cipher))) else
     sreturn representation_current)))"

definition write_blob :: "blob_ref \<Rightarrow> storage_limits \<Rightarrow> persistent_format_error emitter" where
  "write_blob blob limits =
     sbind (write_key (bl_key blob) limits) (\<lambda>_.
     sbind (bw_u64 (bl_plaintext_len blob)) (\<lambda>_.
     sbind (bw_u64 (bl_stored_len blob)) (\<lambda>_.
     sbind (write_representation (bl_representation blob)) (\<lambda>_.
     bw_bytes (array32 (bl_digest blob))))))"

definition read_blob :: "storage_limits \<Rightarrow> (persistent_format_error, blob_ref) decoder" where
  "read_blob limits =
     sbind (read_key limits) (\<lambda>key.
     sbind (into_pf br_read_u64) (\<lambda>plaintext_len.
     sbind (into_pf br_read_u64) (\<lambda>stored_len.
     sbind read_representation (\<lambda>representation.
     sbind (into_pf br_read_array32) (\<lambda>digest.
     sreturn \<lparr>bl_key = key, bl_plaintext_len = plaintext_len, bl_stored_len = stored_len,
              bl_digest = digest, bl_representation = representation\<rparr>)))))"

definition blob_bytes :: "blob_ref \<Rightarrow> bytes" where
  "blob_bytes blob =
     key_bytes (bl_key blob) @ to_le_bytes 8 (bl_plaintext_len blob) @ to_le_bytes 8 (bl_stored_len blob) @
     [1, 0, 0] @ array32 (bl_digest blob)"

lemma representation_unique [simp]: "(r :: representation) = r' \<longleftrightarrow> True"
  by (cases r; cases r')
    (simp, metis hash_algorithm.exhaust payload_codec.exhaust payload_cipher.exhaust)

lemma length_key_bytes [simp]: "length (key_bytes key) = 4 + length key"
  by (simp add: key_bytes_def)

lemma length_blob_bytes [simp]: "length (blob_bytes blob) = 55 + length (bl_key blob)"
  by (simp add: blob_bytes_def)

lemma field_representation [field_intros]: "object_field read_representation (\<lambda>r b. b = [1, 0, 0])"
  unfolding read_representation_def
  by (rule object_field_cong, ((rule field_intros)+)[1]) auto

lemma emitter_representation [emitter_intros]: "object_emitter (write_representation r) True [1, 0, 0]"
  unfolding write_representation_def
  by (rule object_emitter_cong, ((rule emitter_intros)+)[1])
    (auto split: hash_algorithm.splits payload_codec.splits payload_cipher.splits)

lemma blob_ref_eq:
  "y = \<lparr>bl_key = key, bl_plaintext_len = n, bl_stored_len = m, bl_digest = d, bl_representation = r\<rparr> \<longleftrightarrow>
     key = bl_key y \<and> n = bl_plaintext_len y \<and> m = bl_stored_len y \<and> d = bl_digest y"
  by (cases y) auto

interpretation blob_field: object_field "read_blob limits"
  "\<lambda>blob b. key_ok (bl_key blob) \<and> key_fits limits (bl_key blob) \<and> b = blob_bytes blob" for limits
  unfolding read_blob_def
  by (rule object_field_cong, ((rule field_intros)+)[1])
    (simp del: ex_simps add: prenex blob_ref_eq blob_bytes_def)

interpretation blob_emitter: object_emitter "write_blob blob limits"
  "key_fits limits (bl_key blob)" "blob_bytes blob" for blob limits
  unfolding write_blob_def
  by (rule object_emitter_cong, ((rule emitter_intros)+)[1]) (simp_all add: blob_bytes_def)

lemmas [field_intros] = blob_field.object_field_axioms
lemmas [emitter_intros] = blob_emitter.object_emitter_axioms

section \<open>Page references\<close>

definition PAGE_HEADER_BYTES :: nat where "PAGE_HEADER_BYTES = 16 + 1 + 8 + 4 + 2 + 1 + 1 + 2"
definition MINIMUM_BLOB_REF_BYTES :: nat where "MINIMUM_BLOB_REF_BYTES = 4 + 1 + 8 + 8 + 3 + 32"
definition MINIMUM_PAGE_REF_BYTES :: nat where "MINIMUM_PAGE_REF_BYTES = 4 + 1 + 8 + 32 + 1 + 8 + 8 + 8"

definition minimum_page_bytes :: "u8 \<Rightarrow> nat" where
  "minimum_page_bytes level =
     ENVELOPE_HEADER_LEN + PAGE_HEADER_BYTES + 1 +
     (if level = 0 then MINIMUM_BLOB_REF_BYTES else MINIMUM_PAGE_REF_BYTES)"

definition validate_page_ref :: "page_ref \<Rightarrow> storage_limits \<Rightarrow> persistent_format_error + unit" where
  "validate_page_ref reference limits =
     rbind (checked_key_length (pr_key reference) limits) (\<lambda>_.
     let encoded_limit = usize_to_u64 (max_map_page_bytes limits) in
     rbind (require (\<not> pr_encoded_len reference > encoded_limit)
              (PfLimit (limit_error_new LkMapPage (pr_encoded_len reference) encoded_limit))) (\<lambda>_.
     rbind (ok_or (usize_checked_add (minimum_page_bytes (pr_level reference)) MAP_PAGE_MIN_OVERHEAD)
              (PfFormat (FmtArithmeticOverflow ''mapping page minimum representation length''))) (\<lambda>minimum.
     rbind (require (\<not> pr_encoded_len reference < of_nat minimum)
              (PfFormat (FmtInconsistentLength ''mapping page''))) (\<lambda>_.
     rbind (map_err PfFormat (page_coverage (pr_level reference))) (\<lambda>coverage.
     rbind (require (pr_first_block reference mod coverage = 0)
              (PfFormat (FmtNonCanonical ''page alignment''))) (\<lambda>_.
     rbind (require (\<not> (pr_first_block reference \<ge> push_bit 49 1 \<or>
                       (case checked_add (pr_first_block reference) coverage of
                          None \<Rightarrow> True | Some e \<Rightarrow> e > push_bit 49 1)))
              (PfFormat (FmtNonCanonical ''page range''))) (\<lambda>_.
     rbind (require (\<not> (pr_count reference = 0 \<or> pr_count reference > coverage \<or>
                       pr_count reference > max_materialized_blocks limits))
              (PfFormat (FmtNonCanonical ''page materialized count''))) (\<lambda>_.
     require (\<not> (\<not> page_contains (pr_level reference) (pr_first_block reference) (pr_highest reference) \<or>
                pr_count reference > pr_highest reference - pr_first_block reference + 1))
       (PfFormat (FmtNonCanonical ''page highest block''))))))))))"

definition page_ref_encoded_len :: "page_ref \<Rightarrow> storage_limits \<Rightarrow> persistent_format_error + nat" where
  "page_ref_encoded_len reference limits =
     rbind (checked_key_length (pr_key reference) limits) (\<lambda>key.
     ok_or (Option.bind (usize_checked_add 4 (unat key))
              (\<lambda>n. usize_checked_add n (8 + 32 + 1 + 8 + 8 + 8)))
       (PfFormat (FmtArithmeticOverflow ''page reference length'')))"

definition write_page_ref :: "page_ref \<Rightarrow> storage_limits \<Rightarrow> persistent_format_error emitter" where
  "write_page_ref reference limits =
     sbind (slift (validate_page_ref reference limits)) (\<lambda>_.
     sbind (write_key (pr_key reference) limits) (\<lambda>_.
     sbind (bw_u64 (pr_encoded_len reference)) (\<lambda>_.
     sbind (bw_bytes (array32 (pr_digest reference))) (\<lambda>_.
     sbind (bw_u8 (pr_level reference)) (\<lambda>_.
     sbind (bw_u64 (pr_first_block reference)) (\<lambda>_.
     sbind (bw_u64 (pr_count reference)) (\<lambda>_.
     bw_u64 (pr_highest reference))))))))"

definition read_page_ref :: "storage_limits \<Rightarrow> (persistent_format_error, page_ref) decoder" where
  "read_page_ref limits =
     sbind (read_key limits) (\<lambda>key.
     sbind (into_pf br_read_u64) (\<lambda>encoded_len.
     sbind (into_pf br_read_array32) (\<lambda>digest.
     sbind (into_pf br_read_u8) (\<lambda>level.
     sbind (into_pf br_read_u64) (\<lambda>first_block.
     sbind (into_pf br_read_u64) (\<lambda>count.
     sbind (into_pf br_read_u64) (\<lambda>highest.
     let reference = \<lparr>pr_key = key, pr_encoded_len = encoded_len, pr_digest = digest, pr_level = level,
                      pr_first_block = first_block, pr_count = count, pr_highest = highest\<rparr> in
     slift (rbind (validate_page_ref reference limits) (\<lambda>_. Inr reference)))))))))"

definition page_ref_bytes :: "page_ref \<Rightarrow> bytes" where
  "page_ref_bytes reference =
     key_bytes (pr_key reference) @ to_le_bytes 8 (pr_encoded_len reference) @ array32 (pr_digest reference) @
     [pr_level reference] @ to_le_bytes 8 (pr_first_block reference) @ to_le_bytes 8 (pr_count reference) @
     to_le_bytes 8 (pr_highest reference)"

definition page_ref_ok :: "storage_limits \<Rightarrow> page_ref \<Rightarrow> bool" where
  "page_ref_ok limits reference \<longleftrightarrow> validate_page_ref reference limits = Inr ()"

lemma length_page_ref_bytes [simp]: "length (page_ref_bytes reference) = 69 + length (pr_key reference)"
  by (simp add: page_ref_bytes_def)

lemma page_ref_ok_key: "page_ref_ok limits reference \<Longrightarrow> key_fits limits (pr_key reference)"
  by (auto simp: page_ref_ok_def validate_page_ref_def checked_key_length_iff)

lemma page_ref_eq:
  "\<lparr>pr_key = k, pr_encoded_len = n, pr_digest = d, pr_level = l, pr_first_block = f, pr_count = c,
    pr_highest = h\<rparr> = y \<longleftrightarrow>
   k = pr_key y \<and> n = pr_encoded_len y \<and> d = pr_digest y \<and> l = pr_level y \<and> f = pr_first_block y \<and>
   c = pr_count y \<and> h = pr_highest y"
  by (cases y) auto

lemma page_ref_eta:
  "\<lparr>pr_key = pr_key y, pr_encoded_len = pr_encoded_len y, pr_digest = pr_digest y, pr_level = pr_level y,
    pr_first_block = pr_first_block y, pr_count = pr_count y, pr_highest = pr_highest y\<rparr> = y"
  by (simp add: page_ref_eq)

interpretation page_ref_field: object_field "read_page_ref limits"
  "\<lambda>reference b. key_ok (pr_key reference) \<and> page_ref_ok limits reference \<and> b = page_ref_bytes reference" for limits
  unfolding read_page_ref_def Let_def
  by (rule object_field_cong, ((rule field_intros)+)[1])
    (simp del: ex_simps add: prenex page_ref_eq page_ref_eta page_ref_bytes_def page_ref_ok_def,
     blast dest: page_ref_ok_key [unfolded page_ref_ok_def])

interpretation page_ref_emitter: object_emitter "write_page_ref reference limits"
  "page_ref_ok limits reference" "page_ref_bytes reference" for reference limits
  unfolding write_page_ref_def
  by (rule object_emitter_cong, ((rule emitter_intros)+)[1])
    (auto simp: page_ref_bytes_def page_ref_ok_def page_ref_ok_key [unfolded page_ref_ok_def] split: sum.splits)

lemmas [field_intros] = page_ref_field.object_field_axioms
lemmas [emitter_intros] = page_ref_emitter.object_emitter_axioms

section \<open>Pages\<close>

fun page_summary :: "block_map_page \<Rightarrow> persistent_format_error + u64 \<times> u64" where
  "page_summary (LeafPage file_id first_block parameters entries) =
     rbind (ok_or (try_from_nat (length entries)) (PfFormat (FmtArithmeticOverflow ''leaf count''))) (\<lambda>count.
     if entries = [] then Inl (PfFormat (FmtNonCanonical ''empty mapping page'')) else
     rbind (ok_or (checked_add first_block (ucast (le_slot (last entries))))
              (PfFormat (FmtArithmeticOverflow ''leaf highest block''))) (\<lambda>highest.
     Inr (count, highest)))"
| "page_summary (BranchPage file_id level first_block parameters entries) =
     rbind (try_fold (\<lambda>count entry. ok_or (checked_add count (pr_count (be_child entry)))
              (PfFormat (FmtArithmeticOverflow ''branch materialized count''))) 0 entries) (\<lambda>count.
     if entries = [] then Inl (PfFormat (FmtNonCanonical ''empty mapping page'')) else
     Inr (count, Max (set (map (\<lambda>entry. pr_highest (be_child entry)) entries))))"

fun check_slots :: "u8 option \<Rightarrow> u8 list \<Rightarrow> persistent_format_error + unit" where
  "check_slots previous [] = Inr ()"
| "check_slots previous (slot # slots) =
     (if ucast slot \<ge> BLOCK_MAP_FANOUT \<or> (case previous of None \<Rightarrow> False | Some prior \<Rightarrow> slot \<le> prior)
      then Inl (PfFormat (FmtNonCanonical ''mapping page slot ordering''))
      else check_slots (Some slot) slots)"

definition validate_slots :: "u8 list \<Rightarrow> persistent_format_error + unit" where
  "validate_slots slots =
     rbind (check_slots None slots) (\<lambda>_.
     require (slots \<noteq> []) (PfFormat (FmtNonCanonical ''empty mapping page'')))"

definition validate_page :: "primitives \<Rightarrow> block_map_page \<Rightarrow> storage_limits \<Rightarrow> persistent_format_error + unit" where
  "validate_page P page limits =
     rbind (require (page_parameters page = block_split_current)
              (PfFormat (FmtNonCanonical ''mapping page profile''))) (\<lambda>_.
     rbind (map_err PfFormat (page_coverage (page_level page))) (\<lambda>coverage.
     rbind (require (page_first_block page mod coverage = 0)
              (PfFormat (FmtNonCanonical ''mapping page alignment''))) (\<lambda>_.
     rbind (require (\<not> (page_first_block page \<ge> push_bit 49 1 \<or>
                       (case checked_add (page_first_block page) coverage of
                          None \<Rightarrow> True | Some e \<Rightarrow> e > push_bit 49 1)))
              (PfFormat (FmtNonCanonical ''mapping page range''))) (\<lambda>_.
     case page of
       LeafPage file_id first_block parameters entries \<Rightarrow>
         rbind (validate_slots (map le_slot entries)) (\<lambda>_.
         for_each (\<lambda>entry.
           rbind (validate_blob (le_blob entry) limits) (\<lambda>_.
           rbind (require (bl_plaintext_len (le_blob entry) = ucast BLOCK_SIZE)
                    (PfFormat (FmtInconsistentLength ''block plaintext''))) (\<lambda>_.
           rbind (require (bl_digest (le_blob entry) \<noteq> blake3 P (replicate (unat BLOCK_SIZE) 0))
                    (PfFormat (FmtNonCanonical ''materialized zero block''))) (\<lambda>_.
           rbind (ok_or (checked_add first_block (ucast (le_slot entry)))
                    (PfFormat (FmtArithmeticOverflow ''leaf block index''))) (\<lambda>_.
           Inr ()))))) entries)
     | BranchPage file_id level first_block parameters entries \<Rightarrow>
         rbind (require (level \<noteq> 0) (PfFormat (FmtNonCanonical ''branch level''))) (\<lambda>_.
         rbind (validate_slots (map be_slot entries)) (\<lambda>_.
         rbind (map_err PfFormat (page_coverage (level - 1))) (\<lambda>child_coverage.
         for_each (\<lambda>entry.
           rbind (validate_page_ref (be_child entry) limits) (\<lambda>_.
           rbind (ok_or (checked_add first_block (ucast (be_slot entry) * child_coverage))
                    (PfFormat (FmtArithmeticOverflow ''child page range''))) (\<lambda>expected_first.
           require (pr_level (be_child entry) = level - 1 \<and> pr_first_block (be_child entry) = expected_first)
             (PfFormat (FmtNonCanonical ''child page location''))))) entries)))))))"

fun page_payload_len :: "block_map_page \<Rightarrow> storage_limits \<Rightarrow> persistent_format_error + nat" where
  "page_payload_len (LeafPage file_id first_block parameters entries) limits =
     try_fold (\<lambda>n entry.
       ok_or (Option.bind (usize_checked_add n 1) (\<lambda>v.
                case blob_encoded_len (le_blob entry) limits of
                  Inl _ \<Rightarrow> None | Inr k \<Rightarrow> usize_checked_add v k))
         (PfFormat (FmtArithmeticOverflow ''leaf page length''))) PAGE_HEADER_BYTES entries"
| "page_payload_len (BranchPage file_id level first_block parameters entries) limits =
     try_fold (\<lambda>n entry.
       ok_or (Option.bind (usize_checked_add n 1) (\<lambda>v.
                case page_ref_encoded_len (be_child entry) limits of
                  Inl _ \<Rightarrow> None | Inr k \<Rightarrow> usize_checked_add v k))
         (PfFormat (FmtArithmeticOverflow ''branch page length''))) PAGE_HEADER_BYTES entries"

definition write_profile :: "block_split_parameters \<Rightarrow> 'e emitter" where
  "write_profile parameters =
     sbind (bw_u32 (bp_block_size parameters)) (\<lambda>_.
     sbind (bw_u16 (bp_fanout parameters)) (\<lambda>_.
     sbind (bw_u8 (bp_index_bits parameters)) (\<lambda>_.
     bw_u8 (bp_max_level parameters))))"

definition read_profile :: "(persistent_format_error, block_split_parameters) decoder" where
  "read_profile =
     sbind (into_pf br_read_u32) (\<lambda>block_size.
     sbind (into_pf br_read_u16) (\<lambda>fanout.
     sbind (into_pf br_read_u8) (\<lambda>index_bits.
     sbind (into_pf br_read_u8) (\<lambda>max_level.
     slift (ok_or (from_persisted block_size fanout index_bits max_level)
       (PfFormat (FmtUnknownTag ''block map profile'' (ucast block_size))))))))"

definition encode_block_map_page ::
  "primitives \<Rightarrow> block_map_page \<Rightarrow> storage_limits \<Rightarrow> persistent_format_error + bytes" where
  "encode_block_map_page P page limits =
     rbind (validate_page P page limits) (\<lambda>_.
     rbind (page_payload_len page limits) (\<lambda>payload_len.
     rbind (map_err PfLimit (checked_envelope_len payload_len (max_map_page_bytes limits) LkMapPage)) (\<lambda>_.
     rbind (written
       (sbind (bw_bytes (array16 (page_file_id page))) (\<lambda>_.
        sbind (bw_u8 (page_level page)) (\<lambda>_.
        sbind (bw_u64 (page_first_block page)) (\<lambda>_.
        sbind (write_profile (page_parameters page)) (\<lambda>_.
        sbind (slift (ok_or (try_from_nat (page_entry_count page))
                 (PfFormat (FmtArithmeticOverflow ''page entry count'')))) (\<lambda>count.
        sbind (bw_u16 count) (\<lambda>_.
        case page of
          LeafPage file_id first_block parameters entries \<Rightarrow>
            emit_all (\<lambda>entry. sbind (bw_u8 (le_slot entry)) (\<lambda>_. write_blob (le_blob entry) limits)) entries
        | BranchPage file_id level first_block parameters entries \<Rightarrow>
            emit_all (\<lambda>entry. sbind (bw_u8 (be_slot entry)) (\<lambda>_. write_page_ref (be_child entry) limits))
              entries))))))) ) (\<lambda>payload.
     map_err (\<lambda>error. PfLimit (limit_error_new LkMapPage (sle_actual error) (usize_to_u64 (max_map_page_bytes limits))))
       (encode_envelope P (if page_level page = 0 then KindLeafMap else KindBranchMap) payload
          (max_map_page_bytes limits))))))"

text \<open>The body of \<open>decode_block_map_page\<close> inside the envelope.\<close>

definition decode_page_fields ::
  "primitives \<Rightarrow> u8 \<Rightarrow> storage_limits \<Rightarrow> (persistent_format_error, block_map_page) decoder" where
  "decode_page_fields P expected_level limits =
     sbind (into_pf br_read_array16) (\<lambda>file_id.
     sbind (into_pf br_read_u8) (\<lambda>level.
     sbind (into_pf br_read_u64) (\<lambda>first_block.
     sbind read_profile (\<lambda>parameters.
     sbind (into_pf br_read_u16) (\<lambda>count.
     if count = 0 \<or> count > BLOCK_MAP_FANOUT
     then sfail (PfFormat (FmtNonCanonical ''mapping page entry count'')) else
     check_remaining (\<lambda>remaining. \<not> unat count >
         remaining div (if expected_level = 0 then 1 + MINIMUM_BLOB_REF_BYTES else 1 + MINIMUM_PAGE_REF_BYTES))
       (PfFormat (FmtInconsistentLength ''mapping page entries''))
     (sbind
       (if expected_level = 0 then
          sbind (read_count (unat count)
            (sbind (into_pf br_read_u8) (\<lambda>slot. sbind (read_blob limits) (\<lambda>blob.
             sreturn \<lparr>le_slot = slot, le_blob = blob\<rparr>)))) (\<lambda>entries.
          sreturn (LeafPage file_id first_block parameters entries))
        else
          sbind (read_count (unat count)
            (sbind (into_pf br_read_u8) (\<lambda>slot. sbind (read_page_ref limits) (\<lambda>child.
             sreturn \<lparr>be_slot = slot, be_child = child\<rparr>)))) (\<lambda>entries.
          sreturn (BranchPage file_id level first_block parameters entries))) (\<lambda>page.
      sbind (into_pf br_finish) (\<lambda>_.
      slift (rbind (validate_page P page limits) (\<lambda>_.
             rbind (require (page_level page = expected_level)
                      (PfFormat (FmtNonCanonical ''mapping page level''))) (\<lambda>_.
             Inr page))))))))))) "

definition decode_block_map_page ::
  "primitives \<Rightarrow> bytes \<Rightarrow> u8 \<Rightarrow> storage_limits \<Rightarrow> persistent_format_error + block_map_page" where
  "decode_block_map_page P bs expected_level limits =
     (if length bs > max_map_page_bytes limits
      then Inl (PfLimit (limit_error_new LkMapPage (usize_to_u64 (length bs))
             (usize_to_u64 (max_map_page_bytes limits))))
      else rbind (decode_envelope P (if expected_level = 0 then KindLeafMap else KindBranchMap) bs
                    (max_map_page_bytes limits)) (\<lambda>envelope.
           fst (decode_page_fields P expected_level limits (byte_reader_new (env_payload envelope)))))"

definition validate_page_context ::
  "block_map_page \<Rightarrow> page_ref \<Rightarrow> file_id \<Rightarrow> storage_limits \<Rightarrow> persistent_format_error + unit" where
  "validate_page_context page reference expected_file limits =
     rbind (validate_page_ref reference limits) (\<lambda>_.
     rbind (require (page_file_id page = expected_file)
              (PfCorruption (IdentityMismatch ''mapping page file''))) (\<lambda>_.
     rbind (require (page_level page = pr_level reference \<and> page_first_block page = pr_first_block reference)
              (PfCorruption (IdentityMismatch ''mapping page location''))) (\<lambda>_.
     rbind (page_summary page) (\<lambda>(count, highest).
     require (count = pr_count reference \<and> highest = pr_highest reference)
       (PfCorruption (IdentityMismatch ''mapping page summary''))))))"

end
