(* ===== verification/Storage_Page_Codec.thy ===== *)
theory Storage_Page_Codec
  imports Storage_Page
begin

text \<open>
  The format of block-map pages and the proof that \<open>encode_block_map_page\<close> and
  \<open>decode_block_map_page\<close> implement it. The encoder is injective and the decoder inverts it; the
  decoder accepts nothing else, with one exception: it ignores the level byte of a leaf page.
\<close>

section \<open>The format\<close>

definition profile_bytes :: "block_split_parameters \<Rightarrow> bytes" where
  "profile_bytes p =
     to_le_bytes 4 (bp_block_size p) @ to_le_bytes 2 (bp_fanout p) @ [bp_index_bits p, bp_max_level p]"

definition leaf_entry_bytes :: "leaf_entry \<Rightarrow> bytes" where
  "leaf_entry_bytes e = le_slot e # blob_bytes (le_blob e)"

definition branch_entry_bytes :: "branch_entry \<Rightarrow> bytes" where
  "branch_entry_bytes e = be_slot e # page_ref_bytes (be_child e)"

fun entries_bytes :: "block_map_page \<Rightarrow> bytes" where
  "entries_bytes (LeafPage file_id first_block parameters entries) = concat (map leaf_entry_bytes entries)"
| "entries_bytes (BranchPage file_id level first_block parameters entries) =
     concat (map branch_entry_bytes entries)"

definition page_payload :: "u8 \<Rightarrow> block_map_page \<Rightarrow> bytes" where
  "page_payload level_byte page =
     array16 (page_file_id page) @ [level_byte] @ to_le_bytes 8 (page_first_block page) @
     profile_bytes (page_parameters page) @ to_le_bytes 2 (of_nat (page_entry_count page) :: u16) @
     entries_bytes page"

text \<open>The keys of a page are values of the type \<open>ObjectKey\<close>.\<close>

fun page_keys_ok :: "block_map_page \<Rightarrow> bool" where
  "page_keys_ok (LeafPage file_id first_block parameters entries) =
     list_all (\<lambda>e. key_ok (bl_key (le_blob e))) entries"
| "page_keys_ok (BranchPage file_id level first_block parameters entries) =
     list_all (\<lambda>e. key_ok (pr_key (be_child e))) entries"

definition page_ok :: "primitives \<Rightarrow> storage_limits \<Rightarrow> block_map_page \<Rightarrow> bool" where
  "page_ok P limits page \<longleftrightarrow> validate_page P page limits = Inr ()"

section \<open>Validated pages\<close>

lemma unat_ucast_up:
  fixes w :: "'a::len word"
  assumes "LENGTH('a) \<le> LENGTH('b::len)"
  shows "unat (ucast w :: 'b word) = unat w"
proof -
  have "unat w < 2 ^ LENGTH('b)"
    by (rule order_less_le_trans [OF unsigned_less power_increasing [OF assms]]) simp
  then show ?thesis by (simp add: unsigned_ucast_eq take_bit_nat_eq_self)
qed

lemma check_slots_iff:
  "check_slots previous slots = Inr () \<longleftrightarrow>
     (\<forall>s\<in>set slots. unat s < 128 \<and> (case previous of None \<Rightarrow> True | Some p \<Rightarrow> p < s)) \<and> sorted_wrt (<) slots"
proof (induction slots arbitrary: previous)
  case (Cons s ss)
  have "(BLOCK_MAP_FANOUT \<le> ucast s) \<longleftrightarrow> \<not> unat s < 128"
    by (simp add: BLOCK_MAP_FANOUT_def word_le_nat_alt unat_ucast_up not_less)
  then show ?case
    using Cons.IH [of "Some s"] by (auto split: option.splits simp: not_le dest: less_trans)
qed simp

lemma validate_slots_iff:
  "validate_slots slots = Inr () \<longleftrightarrow> slots \<noteq> [] \<and> (\<forall>s\<in>set slots. unat s < 128) \<and> sorted_wrt (<) slots"
  by (auto simp: validate_slots_def check_slots_iff)

lemma slots_length:
  assumes "validate_slots slots = Inr ()"
  shows "0 < length slots \<and> length slots \<le> 128"
proof -
  have ok: "slots \<noteq> []" "\<forall>s\<in>set slots. unat s < 128" "sorted_wrt (<) slots"
    using assms by (simp_all add: validate_slots_iff)
  have "distinct slots"
    using ok(3) by (auto simp: strict_sorted_iff)
  then have "distinct (map unat slots)"
    by (simp add: distinct_map inj_on_def word_unat_eq_iff)
  moreover have "set (map unat slots) \<subseteq> {..<128}"
    using ok(2) by auto
  ultimately have "length (map unat slots) \<le> card {..<128 :: nat}"
    by (metis card_mono distinct_card finite_lessThan)
  then show ?thesis using ok(1) by simp
qed

lemma page_ok_leaf:
  assumes "page_ok P limits (LeafPage file_id first_block parameters entries)"
  shows "parameters = block_split_current" and "validate_slots (map le_slot entries) = Inr ()"
    and "e \<in> set entries \<Longrightarrow> key_fits limits (bl_key (le_blob e))"
  using assms by (auto simp: page_ok_def validate_page_def validate_blob_def checked_key_length_iff)

lemma page_ok_branch:
  assumes "page_ok P limits (BranchPage file_id level first_block parameters entries)"
  shows "parameters = block_split_current" and "validate_slots (map be_slot entries) = Inr ()"
    and "level \<noteq> 0" and "e \<in> set entries \<Longrightarrow> page_ref_ok limits (be_child e)"
  using assms by (auto simp: page_ok_def validate_page_def page_ref_ok_def)

lemma page_ok_count:
  assumes "page_ok P limits page"
  shows "0 < page_entry_count page \<and> page_entry_count page \<le> 128"
  using assms slots_length by (cases page) (fastforce dest: page_ok_leaf(2) page_ok_branch(2))+

section \<open>Lengths\<close>

lemma try_fold_length:
  assumes "\<And>n x. x \<in> set xs \<Longrightarrow> f n x = ok_or (Option.bind (usize_checked_add n 1) (\<lambda>v. usize_checked_add v (size_of x))) e"
  shows "n \<le> usize_max \<Longrightarrow> try_fold f n xs = Inr m \<longleftrightarrow> m = n + (\<Sum>x\<leftarrow>xs. 1 + size_of x) \<and> m \<le> usize_max"
  using assms
proof (induction xs arbitrary: n)
  case (Cons x xs)
  have "f n x = Inr k \<longleftrightarrow> k = n + 1 + size_of x \<and> k \<le> usize_max" for k
    using Cons.prems(2) [of x n] by (auto simp: Option.bind_eq_Some_conv)
  then show ?case
    using Cons.IH [of "n + 1 + size_of x"] Cons.prems(2) by auto
qed auto

lemma blob_encoded_len_fits:
  assumes "key_fits limits (bl_key blob)"
  shows "blob_encoded_len blob limits = Inr (length (blob_bytes blob))"
proof -
  have "checked_key_length (bl_key blob) limits = Inr (of_nat (length (bl_key blob)))"
    using assms by (simp add: checked_key_length_iff)
  then show ?thesis
    using assms by (simp add: blob_encoded_len_def unat_of_nat_less key_fits_def usize_checked_add_def usize_max_def)
qed

lemma page_ref_encoded_len_fits:
  assumes "key_fits limits (pr_key reference)"
  shows "page_ref_encoded_len reference limits = Inr (length (page_ref_bytes reference))"
proof -
  have "checked_key_length (pr_key reference) limits = Inr (of_nat (length (pr_key reference)))"
    using assms by (simp add: checked_key_length_iff)
  then show ?thesis
    using assms by (simp add: page_ref_encoded_len_def unat_of_nat_less key_fits_def usize_checked_add_def usize_max_def)
qed

lemma length_page_payload: "length (page_payload level_byte page) = 35 + length (entries_bytes page)"
  by (simp add: page_payload_def profile_bytes_def)

lemma page_payload_len_iff:
  assumes "page_ok P limits page"
  shows "page_payload_len page limits = Inr n \<longleftrightarrow> n = length (page_payload level_byte page) \<and> n \<le> usize_max"
proof (cases page)
  case (LeafPage file_id first_block parameters entries)
  have "page_payload_len page limits = Inr n \<longleftrightarrow>
      n = 35 + (\<Sum>e\<leftarrow>entries. 1 + length (blob_bytes (le_blob e))) \<and> n \<le> usize_max"
    unfolding LeafPage page_payload_len.simps PAGE_HEADER_BYTES_def
    using page_ok_leaf(3) [OF assms [unfolded LeafPage]]
    by (subst try_fold_length) (auto simp: blob_encoded_len_fits usize_max_def)
  then show ?thesis
    by (simp add: length_page_payload LeafPage length_concat leaf_entry_bytes_def comp_def)
next
  case (BranchPage file_id level first_block parameters entries)
  have "page_payload_len page limits = Inr n \<longleftrightarrow>
      n = 35 + (\<Sum>e\<leftarrow>entries. 1 + length (page_ref_bytes (be_child e))) \<and> n \<le> usize_max"
    unfolding BranchPage page_payload_len.simps PAGE_HEADER_BYTES_def
    using page_ref_ok_key [OF page_ok_branch(4) [OF assms [unfolded BranchPage]]]
    by (subst try_fold_length) (auto simp: page_ref_encoded_len_fits usize_max_def)
  then show ?thesis
    by (simp add: length_page_payload BranchPage length_concat branch_entry_bytes_def comp_def)
qed

section \<open>Encoder\<close>

lemma emitter_profile [emitter_intros]: "object_emitter (write_profile p) True (profile_bytes p)"
  unfolding write_profile_def
  by (rule object_emitter_cong, ((rule emitter_intros)+)[1]) (simp_all add: profile_bytes_def)

lemma entries_emitter:
  assumes "page_ok P limits page"
  shows "object_emitter
     (case page of
        LeafPage file_id first_block parameters entries \<Rightarrow>
          emit_all (\<lambda>entry. sbind (bw_u8 (le_slot entry)) (\<lambda>_. write_blob (le_blob entry) limits)) entries
      | BranchPage file_id level first_block parameters entries \<Rightarrow>
          emit_all (\<lambda>entry. sbind (bw_u8 (be_slot entry)) (\<lambda>_. write_page_ref (be_child entry) limits)) entries)
     True (entries_bytes page)"
proof (cases page)
  case (LeafPage file_id first_block parameters entries)
  show ?thesis
    unfolding LeafPage block_map_page.case
    using page_ok_leaf(3) [OF assms [unfolded LeafPage]]
    by - (rule object_emitter_cong, ((rule emitter_intros)+)[1], simp_all add: list_all_iff leaf_entry_bytes_def [abs_def])
next
  case (BranchPage file_id level first_block parameters entries)
  show ?thesis
    unfolding BranchPage block_map_page.case
    using page_ok_branch(4) [OF assms [unfolded BranchPage]]
    by - (rule object_emitter_cong, ((rule emitter_intros)+)[1], simp_all add: list_all_iff branch_entry_bytes_def [abs_def])
qed

lemma page_emitter:
  assumes "page_ok P limits page"
  shows "object_emitter
     (sbind (bw_bytes (array16 (page_file_id page))) (\<lambda>_.
      sbind (bw_u8 (page_level page)) (\<lambda>_.
      sbind (bw_u64 (page_first_block page)) (\<lambda>_.
      sbind (write_profile (page_parameters page)) (\<lambda>_.
      sbind (slift (ok_or (try_from_nat (page_entry_count page))
               (PfFormat (FmtArithmeticOverflow ''page entry count'')))) (\<lambda>count.
      sbind (bw_u16 count) (\<lambda>_.
      case page of
        LeafPage file_id first_block parameters entries \<Rightarrow>
          emit_all (\<lambda>entry. sbind (bw_u8 (le_slot entry)) (\<lambda>_. write_blob (le_blob entry) limits)) entries
      | BranchPage file_id level first_block parameters entries \<Rightarrow>
          emit_all (\<lambda>entry. sbind (bw_u8 (be_slot entry)) (\<lambda>_. write_page_ref (be_child entry) limits))
            entries))))))) True (page_payload (page_level page) page)"
proof -
  have "try_from_nat (page_entry_count page) = Some (of_nat (page_entry_count page) :: u16)"
    using page_ok_count [OF assms] by (simp add: try_from_nat_def)
  then show ?thesis
    by - (rule object_emitter_cong, ((rule emitter_intros entries_emitter [OF assms])+)[1],
        simp_all add: page_payload_def)
qed

lemma map_err_Inr [simp]: "map_err f (Inr x) = Inr x"
  by (simp add: map_err_def)

lemma encode_block_map_page_iff:
  "encode_block_map_page P page limits = Inr bs \<longleftrightarrow>
     page_ok P limits page \<and> length bs \<le> max_map_page_bytes limits \<and> length bs \<le> usize_max \<and>
     bs = envelope_bytes P (if_map_level (page_level page)) (page_payload (page_level page) page)"
proof (cases "page_ok P limits page")
  case True
  note w = object_emitter.written_iff [OF page_emitter [OF True]]
  have "encode_block_map_page P page limits = Inr bs \<longleftrightarrow>
    (\<exists>n t. page_payload_len page limits = Inr n \<and>
       checked_envelope_len n (max_map_page_bytes limits) LkMapPage = Inr t \<and>
       encode_envelope P (if_map_level (page_level page)) (page_payload (page_level page) page)
         (max_map_page_bytes limits) = Inr bs)"
    unfolding encode_block_map_page_def if_map_level_def rbind_eq_Inr map_err_eq_Inr w
    using True by (auto simp: page_ok_def)
  then show ?thesis
    using True by (auto simp: page_payload_len_iff [OF True, of _ "page_level page"] checked_envelope_len_iff encode_envelope_iff)
qed (auto simp: encode_block_map_page_def page_ok_def)

section \<open>Decoder\<close>

lemma list_all2_functional:
  "list_all2 (\<lambda>x b. ok x \<and> b = enc x) xs bs \<longleftrightarrow> list_all ok xs \<and> bs = map enc xs"
  by (induction xs arbitrary: bs) (auto simp: list_all2_Cons1)

lemma field_read_count_enc:
  assumes "object_field p (\<lambda>x b. ok x \<and> b = enc x)"
  shows "object_field (read_count n p) (\<lambda>xs b. length xs = n \<and> list_all ok xs \<and> b = concat (map enc xs))"
  by (rule object_field_cong [OF field_read_count [OF assms]]) (auto simp: list_all2_functional)

lemma field_profile [field_intros]:
  "object_field read_profile (\<lambda>p b. p = block_split_current \<and> b = profile_bytes p)"
  unfolding read_profile_def
  by (rule object_field_cong, ((rule field_intros)+)[1])
    (auto simp: from_persisted_def profile_bytes_def block_split_current_def split: if_splits)

lemma entry_eq:
  "e = \<lparr>le_slot = s, le_blob = b\<rparr> \<longleftrightarrow> s = le_slot e \<and> b = le_blob e"
  "f = \<lparr>be_slot = s, be_child = c\<rparr> \<longleftrightarrow> s = be_slot f \<and> c = be_child f"
  by (cases e; auto)+

lemma field_leaf_entry:
  "object_field (sbind (into_pf br_read_u8) (\<lambda>slot. sbind (read_blob limits) (\<lambda>blob.
     sreturn \<lparr>le_slot = slot, le_blob = blob\<rparr>)))
   (\<lambda>e b. (key_ok (bl_key (le_blob e)) \<and> key_fits limits (bl_key (le_blob e))) \<and> b = leaf_entry_bytes e)"
  by (rule object_field_cong, ((rule field_intros)+)[1])
    (simp del: ex_simps add: prenex entry_eq leaf_entry_bytes_def)

lemma field_branch_entry:
  "object_field (sbind (into_pf br_read_u8) (\<lambda>slot. sbind (read_page_ref limits) (\<lambda>child.
     sreturn \<lparr>be_slot = slot, be_child = child\<rparr>)))
   (\<lambda>e b. (key_ok (pr_key (be_child e)) \<and> page_ref_ok limits (be_child e)) \<and> b = branch_entry_bytes e)"
  by (rule object_field_cong, ((rule field_intros)+)[1])
    (simp del: ex_simps add: prenex entry_eq branch_entry_bytes_def)

text \<open>The count and length checks before the entries refuse no page that the rest accepts.\<close>

lemma entry_count_checks:
  fixes es :: "'a list"
  assumes "0 < length es" and "length es \<le> 128" and "\<And>e. e \<in> set es \<Longrightarrow> m \<le> length (enc e)" and "0 < m"
  shows "(of_nat (length es) :: u16) \<noteq> 0" and "\<not> BLOCK_MAP_FANOUT < of_nat (length es)"
    and "length es < 65536" and "\<not> length (concat (map enc es)) div m < unat (of_nat (length es) :: u16)"
proof -
  have len: "unat (of_nat (length es) :: u16) = length es"
    using assms(2) by (simp add: unat_of_nat_less)
  then show "(of_nat (length es) :: u16) \<noteq> 0" using assms(1) by force
  show "\<not> BLOCK_MAP_FANOUT < of_nat (length es)"
    using assms(2) len by (simp add: word_less_nat_alt BLOCK_MAP_FANOUT_def)
  show "length es < 65536" using assms(2) by simp
  have "length es * m \<le> length (concat (map enc es))"
    using assms(3) by (induction es) (simp_all add: add_mono)
  then show "\<not> length (concat (map enc es)) div m < unat (of_nat (length es) :: u16)"
    using assms(4) len by (simp add: not_less less_eq_div_iff_mult_less_eq)
qed

lemma leaf_page_relation:
  "(\<exists>file_id level_byte first_block es.
      (of_nat (length es) :: u16) \<noteq> 0 \<and> \<not> BLOCK_MAP_FANOUT < of_nat (length es) \<and>
      \<not> length (concat (map leaf_entry_bytes es)) div Suc MINIMUM_BLOB_REF_BYTES < unat (of_nat (length es) :: u16) \<and>
      length es < 65536 \<and> list_all (\<lambda>e. key_ok (bl_key (le_blob e)) \<and> key_fits limits (bl_key (le_blob e))) es \<and>
      validate_page P (LeafPage file_id first_block block_split_current es) limits = Inr () \<and>
      LeafPage file_id first_block block_split_current es = page \<and>
      b = array16 file_id @ level_byte # to_le_bytes 8 first_block @ profile_bytes block_split_current @
        to_le_bytes 2 (of_nat (length es) :: u16) @ concat (map leaf_entry_bytes es)) \<longleftrightarrow>
   (\<exists>level_byte. page_ok P limits page \<and> page_keys_ok page \<and> page_level page = 0 \<and>
      b = page_payload level_byte page)" (is "?l \<longleftrightarrow> ?r")
proof
  assume ?l
  then show ?r
    by (auto simp: page_ok_def list_all_iff page_payload_def)
next
  assume r: ?r
  then obtain file_id first_block parameters es where page: "page = LeafPage file_id first_block parameters es"
    by (cases page) (auto dest: page_ok_branch(3))
  with r have ok: "page_ok P limits (LeafPage file_id first_block parameters es)" and keys: "page_keys_ok page" by auto
  have "57 \<le> length (leaf_entry_bytes e)" if "e \<in> set es" for e
    using keys that by (cases "bl_key (le_blob e)") (auto simp: page leaf_entry_bytes_def list_all_iff key_ok_def)
  then have "Suc MINIMUM_BLOB_REF_BYTES \<le> length (leaf_entry_bytes e)" if "e \<in> set es" for e
    using that by (simp add: MINIMUM_BLOB_REF_BYTES_def)
  note checks = entry_count_checks [of es, OF _ _ this] slots_length [OF page_ok_leaf(2) [OF ok]]
  show ?l
    using r checks ok keys page_ok_leaf(1,3) [OF ok]
    by (auto simp: page page_ok_def list_all_iff page_payload_def)
qed

lemma branch_page_relation:
  assumes "expected_level \<noteq> 0"
  shows "(\<exists>file_id level_byte first_block es.
      (of_nat (length es) :: u16) \<noteq> 0 \<and> \<not> BLOCK_MAP_FANOUT < of_nat (length es) \<and>
      \<not> length (concat (map branch_entry_bytes es)) div Suc MINIMUM_PAGE_REF_BYTES < unat (of_nat (length es) :: u16) \<and>
      length es < 65536 \<and> list_all (\<lambda>e. key_ok (pr_key (be_child e)) \<and> page_ref_ok limits (be_child e)) es \<and>
      validate_page P (BranchPage file_id level_byte first_block block_split_current es) limits = Inr () \<and> level_byte = expected_level \<and>
      BranchPage file_id level_byte first_block block_split_current es = page \<and>
      b = array16 file_id @ level_byte # to_le_bytes 8 first_block @ profile_bytes block_split_current @
        to_le_bytes 2 (of_nat (length es) :: u16) @ concat (map branch_entry_bytes es)) \<longleftrightarrow>
   (page_ok P limits page \<and> page_keys_ok page \<and> page_level page = expected_level \<and>
      b = page_payload expected_level page)" (is "?l \<longleftrightarrow> ?r")
proof
  assume ?l
  then show ?r
    by (auto simp: page_ok_def list_all_iff page_payload_def)
next
  assume r: ?r
  then obtain file_id first_block parameters es
    where page: "page = BranchPage file_id expected_level first_block parameters es"
    using assms by (cases page) auto
  with r have ok: "page_ok P limits (BranchPage file_id expected_level first_block parameters es)"
    and keys: "page_keys_ok page" by auto
  have "71 \<le> length (branch_entry_bytes e)" if "e \<in> set es" for e
    using keys that by (cases "pr_key (be_child e)") (auto simp: page branch_entry_bytes_def list_all_iff key_ok_def)
  then have "Suc MINIMUM_PAGE_REF_BYTES \<le> length (branch_entry_bytes e)" if "e \<in> set es" for e
    using that by (simp add: MINIMUM_PAGE_REF_BYTES_def)
  note checks = entry_count_checks [of es, OF _ _ this] slots_length [OF page_ok_branch(2) [OF ok]]
  show ?l
    using r checks ok keys page_ok_branch(1,4) [OF ok]
    by (auto simp: page page_ok_def list_all_iff page_payload_def)
qed

lemma leaf_page_fields:
  "object_decoder (decode_page_fields P 0 limits)
     (\<lambda>page b. \<exists>level_byte. page_ok P limits page \<and> page_keys_ok page \<and> page_level page = 0 \<and>
        b = page_payload level_byte page)"
  unfolding decode_page_fields_def leaf_page_relation [symmetric]
  by (simp only: if_True refl,
      rule object_decoder_cong, ((rule field_read_count_enc [OF field_leaf_entry] decoder_intros field_intros)+)[1])
    (simp del: ex_simps add: prenex nat_eq_unat)

lemma branch_page_fields:
  assumes "expected_level \<noteq> 0"
  shows "object_decoder (decode_page_fields P expected_level limits)
     (\<lambda>page b. page_ok P limits page \<and> page_keys_ok page \<and> page_level page = expected_level \<and>
        b = page_payload expected_level page)"
  unfolding decode_page_fields_def branch_page_relation [OF assms, symmetric]
  by (simp only: assms if_False,
      rule object_decoder_cong, ((rule field_read_count_enc [OF field_branch_entry] decoder_intros field_intros)+)[1])
    (simp del: ex_simps add: prenex nat_eq_unat, blast)

lemma decode_page_fields_iff:
  assumes "length payload \<le> usize_max"
  shows "fst (decode_page_fields P level limits (byte_reader_new payload)) = Inr page \<longleftrightarrow>
     page_ok P limits page \<and> page_keys_ok page \<and> page_level page = level \<and>
     (\<exists>level_byte. (level \<noteq> 0 \<longrightarrow> level_byte = level) \<and> payload = page_payload level_byte page)"
  using object_decoder.decodes_new [OF leaf_page_fields assms, of P limits page]
    object_decoder.decodes_new [OF branch_page_fields assms, of level P limits page]
  by (cases "level = 0") auto

lemma decode_block_map_page_iff:
  assumes "length bs \<le> usize_max"
  shows "decode_block_map_page P bs level limits = Inr page \<longleftrightarrow>
     length bs \<le> max_map_page_bytes limits \<and> page_ok P limits page \<and> page_keys_ok page \<and> page_level page = level \<and>
     (\<exists>level_byte. (level \<noteq> 0 \<longrightarrow> level_byte = level) \<and>
        bs = envelope_bytes P (if_map_level level) (page_payload level_byte page))"
proof (cases "length bs \<le> max_map_page_bytes limits")
  case True
  have fields: "fst (decode_page_fields P level limits (byte_reader_new (env_payload e))) = Inr page \<longleftrightarrow>
     page_ok P limits page \<and> page_keys_ok page \<and> page_level page = level \<and>
     (\<exists>level_byte. (level \<noteq> 0 \<longrightarrow> level_byte = level) \<and> env_payload e = page_payload level_byte page)"
    if "bs = envelope_bytes P (if_map_level level) (env_payload e)" for e :: envelope
    using assms that by (intro decode_page_fields_iff) simp
  have "decode_block_map_page P bs level limits = Inr page \<longleftrightarrow>
      (\<exists>e :: envelope. env_kind e = if_map_level level \<and> bs = envelope_bytes P (if_map_level level) (env_payload e) \<and>
        fst (decode_page_fields P level limits (byte_reader_new (env_payload e))) = Inr page)"
    using True unfolding decode_block_map_page_def if_map_level_def
    by (simp add: decode_envelope_iff [OF assms] if_map_level_def)
  also have "\<dots> \<longleftrightarrow> page_ok P limits page \<and> page_keys_ok page \<and> page_level page = level \<and>
     (\<exists>level_byte. (level \<noteq> 0 \<longrightarrow> level_byte = level) \<and>
        bs = envelope_bytes P (if_map_level level) (page_payload level_byte page))" (is "?l \<longleftrightarrow> ?r")
  proof
    assume ?l
    then obtain e :: envelope where e: "bs = envelope_bytes P (if_map_level level) (env_payload e)"
      "fst (decode_page_fields P level limits (byte_reader_new (env_payload e))) = Inr page"
      by blast
    have f: "page_ok P limits page \<and> page_keys_ok page \<and> page_level page = level \<and>
      (\<exists>level_byte. (level \<noteq> 0 \<longrightarrow> level_byte = level) \<and> env_payload e = page_payload level_byte page)"
      using iffD1 [OF fields [OF e(1)] e(2)] .
    then obtain level_byte where "level \<noteq> 0 \<longrightarrow> level_byte = level" "env_payload e = page_payload level_byte page"
      by blast
    with e(1) f show ?r by metis
  next
    assume ?r
    then obtain level_byte where r: "page_ok P limits page" "page_keys_ok page" "page_level page = level"
      "level \<noteq> 0 \<longrightarrow> level_byte = level" "bs = envelope_bytes P (if_map_level level) (page_payload level_byte page)"
      by blast
    let ?e = "\<lparr>env_kind = if_map_level level, env_payload = page_payload level_byte page\<rparr>"
    show ?l
      using r fields [of ?e] by (intro exI [of _ ?e] conjI) auto
  qed
  finally show ?thesis using True by simp
qed (simp add: decode_block_map_page_def)

end
