(* ===== verification/Storage_Manifest.thy ===== *)
theory Storage_Manifest
  imports Storage_Page_Codec
begin

text \<open>
  File heads (\<open>format/head.rs\<close>) and file manifests (\<open>format/manifest.rs\<close>): validation and codec,
  with the proof that each decoder accepts exactly the encodings of valid values.
\<close>

section \<open>File heads\<close>

record file_head =
  fh_file_id :: file_id
  fh_generation :: u64
  fh_manifest_key :: object_key
  fh_manifest_digest :: digest
  fh_mutation_id :: mutation_id

definition validate_file :: "file_head \<Rightarrow> file_id \<Rightarrow> corruption_error + unit" where
  "validate_file head expected = require (fh_file_id head = expected) (IdentityMismatch ''file'')"

definition validate_head :: "file_head \<Rightarrow> storage_limits \<Rightarrow> persistent_format_error + unit" where
  "validate_head head limits =
     rbind (require (fh_generation head \<noteq> 0) (PfFormat (FmtNonCanonical ''zero generation''))) (\<lambda>_.
     rbind (checked_key_length (fh_manifest_key head) limits) (\<lambda>_.
     Inr ()))"

definition encode_head :: "primitives \<Rightarrow> file_head \<Rightarrow> storage_limits \<Rightarrow> persistent_format_error + bytes" where
  "encode_head P head limits =
     rbind (validate_head head limits) (\<lambda>_.
     rbind (written
       (sbind (bw_bytes (array16 (fh_file_id head))) (\<lambda>_.
        sbind (bw_u64 (fh_generation head)) (\<lambda>_.
        sbind (write_key (fh_manifest_key head) limits) (\<lambda>_.
        sbind (bw_bytes (array32 (fh_manifest_digest head))) (\<lambda>_.
        bw_bytes (array16 (fh_mutation_id head)))))))) (\<lambda>payload.
     map_err PfLimit (encode_envelope P KindHead payload (max_object_bytes limits))))"

definition decode_head_fields :: "storage_limits \<Rightarrow> (persistent_format_error, file_head) decoder" where
  "decode_head_fields limits =
     sbind (into_pf br_read_array16) (\<lambda>file_id.
     sbind (into_pf br_read_u64) (\<lambda>generation.
     sbind (read_key limits) (\<lambda>manifest_key.
     sbind (into_pf br_read_array32) (\<lambda>manifest_digest.
     sbind (into_pf br_read_array16) (\<lambda>mutation_id.
     sbind (into_pf br_finish) (\<lambda>_.
     slift (let head = \<lparr>fh_file_id = file_id, fh_generation = generation, fh_manifest_key = manifest_key,
                        fh_manifest_digest = manifest_digest, fh_mutation_id = mutation_id\<rparr>
            in rbind (validate_head head limits) (\<lambda>_. Inr head))))))))"

definition decode_head :: "primitives \<Rightarrow> bytes \<Rightarrow> storage_limits \<Rightarrow> persistent_format_error + file_head" where
  "decode_head P bs limits =
     rbind (decode_envelope P KindHead bs (max_object_bytes limits)) (\<lambda>envelope.
     fst (decode_head_fields limits (byte_reader_new (env_payload envelope))))"

section \<open>Manifests\<close>

datatype (plugins only: code) manifest_layout =
    RawLayout "blob_ref option"
  | BlockSplitLayout block_split_parameters "page_ref option"

record file_manifest =
  fm_file_id :: file_id
  fm_generation :: u64
  fm_logical_size :: u64
  fm_representation :: representation
  fm_layout :: manifest_layout

definition manifest_raw :: "file_id \<Rightarrow> u64 \<Rightarrow> u64 \<Rightarrow> blob_ref option \<Rightarrow> file_manifest" where
  "manifest_raw file_id generation logical_size blob =
     \<lparr>fm_file_id = file_id, fm_generation = generation, fm_logical_size = logical_size,
      fm_representation = representation_current, fm_layout = RawLayout blob\<rparr>"

definition manifest_block_split :: "file_id \<Rightarrow> u64 \<Rightarrow> u64 \<Rightarrow> page_ref option \<Rightarrow> file_manifest" where
  "manifest_block_split file_id generation logical_size root =
     \<lparr>fm_file_id = file_id, fm_generation = generation, fm_logical_size = logical_size,
      fm_representation = representation_current, fm_layout = BlockSplitLayout block_split_current root\<rparr>"

definition manifest_method :: "file_manifest \<Rightarrow> storage_method" where
  "manifest_method manifest = (case fm_layout manifest of RawLayout _ \<Rightarrow> Raw | BlockSplitLayout _ _ \<Rightarrow> BlockSplit)"

definition manifest_content_ref :: "file_manifest \<Rightarrow> object_key \<Rightarrow> digest \<Rightarrow> content_ref" where
  "manifest_content_ref manifest key digest =
     \<lparr>cr_file_id = fm_file_id manifest, cr_generation = fm_generation manifest,
      cr_logical_size = fm_logical_size manifest, cr_manifest = key, cr_manifest_digest = digest,
      cr_method = manifest_method manifest\<rparr>"

definition validate_content_ref :: "file_manifest \<Rightarrow> content_ref \<Rightarrow> corruption_error + unit" where
  "validate_content_ref manifest content =
     rbind (require (fm_file_id manifest = cr_file_id content) (IdentityMismatch ''file'')) (\<lambda>_.
     rbind (require (fm_generation manifest = cr_generation content) (IdentityMismatch ''generation'')) (\<lambda>_.
     rbind (require (fm_logical_size manifest = cr_logical_size content)
              (IdentityMismatch ''logical size'')) (\<lambda>_.
     require (manifest_method manifest = cr_method content) (IdentityMismatch ''storage method''))))"

definition checked_add_length :: "nat \<Rightarrow> nat \<Rightarrow> string \<Rightarrow> persistent_format_error + nat" where
  "checked_add_length current added field =
     ok_or (usize_checked_add current added) (PfFormat (FmtArithmeticOverflow field))"

definition manifest_payload_len :: "file_manifest \<Rightarrow> storage_limits \<Rightarrow> persistent_format_error + nat" where
  "manifest_payload_len manifest limits =
     rbind (ok_or (usize_checked_add 16 (8 + 8 + 1 + 3))
              (PfFormat (FmtArithmeticOverflow ''manifest length''))) (\<lambda>n.
     case fm_layout manifest of
       RawLayout blob \<Rightarrow>
         rbind (checked_add_length n 1 ''raw layout length'') (\<lambda>n.
         case blob of
           None \<Rightarrow> Inr n
         | Some b \<Rightarrow> rbind (blob_encoded_len b limits) (\<lambda>k. checked_add_length n k ''raw blob''))
     | BlockSplitLayout parameters root \<Rightarrow>
         rbind (checked_add_length n (8 + 1) ''block layout header'') (\<lambda>n.
         case root of
           None \<Rightarrow> Inr n
         | Some r \<Rightarrow> rbind (page_ref_encoded_len r limits) (\<lambda>k. checked_add_length n k ''map root'')))"

definition checked_mul :: "u64 \<Rightarrow> u64 \<Rightarrow> u64 option" where
  "checked_mul a b = (if unat a * unat b < 2 ^ 64 then Some (a * b) else None)"

definition validate_manifest :: "file_manifest \<Rightarrow> storage_limits \<Rightarrow> persistent_format_error + unit" where
  "validate_manifest manifest limits =
     rbind (require (fm_generation manifest \<noteq> 0) (PfFormat (FmtNonCanonical ''zero generation''))) (\<lambda>_.
     rbind (require (fm_representation manifest = representation_current)
              (PfFormat (FmtNonCanonical ''manifest representation''))) (\<lambda>_.
     case fm_layout manifest of
       RawLayout blob \<Rightarrow>
         rbind (require (\<not> fm_logical_size manifest > max_raw_file_bytes limits)
                  (PfLimit (limit_error_new LkRawFile (fm_logical_size manifest) (max_raw_file_bytes limits)))) (\<lambda>_.
         if fm_logical_size manifest = 0 \<and> blob = None then Inr ()
         else if fm_logical_size manifest = 0 then Inl (PfFormat (FmtNonCanonical ''raw empty payload''))
         else case blob of
           None \<Rightarrow> Inl (PfFormat (FmtNonCanonical ''raw empty payload''))
         | Some b \<Rightarrow>
             rbind (validate_blob b limits) (\<lambda>_.
             require (bl_plaintext_len b = fm_logical_size manifest)
               (PfFormat (FmtInconsistentLength ''raw plaintext''))))
     | BlockSplitLayout parameters root \<Rightarrow>
         rbind (require (parameters = block_split_current)
                  (PfFormat (FmtNonCanonical ''block parameters''))) (\<lambda>_.
         case root of
           None \<Rightarrow> Inr ()
         | Some r \<Rightarrow>
             rbind (validate_page_ref r limits) (\<lambda>_.
             rbind (require (pr_first_block r = 0) (PfFormat (FmtNonCanonical ''map root start''))) (\<lambda>_.
             rbind (map_err PfFormat (minimum_root_level (pr_highest r))) (\<lambda>minimum.
             rbind (require (pr_level r = minimum) (PfFormat (FmtNonCanonical ''map root normalization''))) (\<lambda>_.
             rbind (require (\<not> pr_count r > max_materialized_blocks limits)
                      (PfLimit (limit_error_new LkMaterializedBlocks (pr_count r) (max_materialized_blocks limits)))) (\<lambda>_.
             rbind (ok_or (checked_mul (pr_highest r) (ucast BLOCK_SIZE))
                      (PfFormat (FmtArithmeticOverflow ''highest block offset''))) (\<lambda>highest_start.
             require (\<not> highest_start \<ge> fm_logical_size manifest)
               (PfFormat (FmtNonCanonical ''map root beyond logical EOF'')))))))))))"

definition encode_manifest :: "primitives \<Rightarrow> file_manifest \<Rightarrow> storage_limits \<Rightarrow> persistent_format_error + bytes" where
  "encode_manifest P manifest limits =
     rbind (validate_manifest manifest limits) (\<lambda>_.
     rbind (manifest_payload_len manifest limits) (\<lambda>payload_len.
     rbind (map_err PfLimit (checked_envelope_len payload_len (max_manifest_bytes limits) LkManifest)) (\<lambda>_.
     rbind (written
       (sbind (bw_bytes (array16 (fm_file_id manifest))) (\<lambda>_.
        sbind (bw_u64 (fm_generation manifest)) (\<lambda>_.
        sbind (bw_u64 (fm_logical_size manifest)) (\<lambda>_.
        sbind (bw_u8 (case fm_layout manifest of RawLayout _ \<Rightarrow> 1 | BlockSplitLayout _ _ \<Rightarrow> 2)) (\<lambda>_.
        sbind (write_representation (fm_representation manifest)) (\<lambda>_.
        case fm_layout manifest of
          RawLayout blob \<Rightarrow>
            sbind (bw_u8 (if blob = None then 0 else 1)) (\<lambda>_.
            case blob of None \<Rightarrow> sreturn () | Some b \<Rightarrow> write_blob b limits)
        | BlockSplitLayout parameters root \<Rightarrow>
            sbind (write_profile parameters) (\<lambda>_.
            sbind (bw_u8 (if root = None then 0 else 1)) (\<lambda>_.
            case root of None \<Rightarrow> sreturn () | Some r \<Rightarrow> write_page_ref r limits))))))))) (\<lambda>payload.
     map_err (\<lambda>error. PfLimit (limit_error_new LkManifest (sle_actual error) (usize_to_u64 (max_manifest_bytes limits))))
       (encode_envelope P KindManifest payload (max_manifest_bytes limits))))))"

definition read_presence ::
  "string \<Rightarrow> (persistent_format_error, 'a) decoder \<Rightarrow> (persistent_format_error, 'a option) decoder" where
  "read_presence field p =
     sbind (into_pf br_read_u8) (\<lambda>tag.
     if tag = 0 then sreturn None
     else if tag = 1 then sbind p (\<lambda>x. sreturn (Some x))
     else sfail (PfFormat (FmtUnknownTag field (ucast tag))))"

definition decode_manifest_fields :: "storage_limits \<Rightarrow> (persistent_format_error, file_manifest) decoder" where
  "decode_manifest_fields limits =
     sbind (into_pf br_read_array16) (\<lambda>file_id.
     sbind (into_pf br_read_u64) (\<lambda>generation.
     sbind (into_pf br_read_u64) (\<lambda>logical_size.
     sbind (into_pf br_read_u8) (\<lambda>method.
     sbind read_representation (\<lambda>representation.
     sbind
       (if method = 1 then
          sbind (read_presence ''raw blob presence'' (read_blob limits)) (\<lambda>blob.
          sreturn (RawLayout blob))
        else if method = 2 then
          sbind read_profile (\<lambda>parameters.
          sbind (read_presence ''map root presence'' (read_page_ref limits)) (\<lambda>root.
          sreturn (BlockSplitLayout parameters root)))
        else sfail (PfFormat (FmtUnknownTag ''storage method'' (ucast method)))) (\<lambda>layout.
     sbind (into_pf br_finish) (\<lambda>_.
     slift (let manifest = \<lparr>fm_file_id = file_id, fm_generation = generation, fm_logical_size = logical_size,
                            fm_representation = representation, fm_layout = layout\<rparr>
            in rbind (validate_manifest manifest limits) (\<lambda>_. Inr manifest)))))))))"

definition decode_manifest :: "primitives \<Rightarrow> bytes \<Rightarrow> storage_limits \<Rightarrow> persistent_format_error + file_manifest" where
  "decode_manifest P bs limits =
     (if length bs > max_manifest_bytes limits
      then Inl (PfLimit (limit_error_new LkManifest (usize_to_u64 (length bs)) (usize_to_u64 (max_manifest_bytes limits))))
      else rbind (decode_envelope P KindManifest bs (max_manifest_bytes limits)) (\<lambda>envelope.
           fst (decode_manifest_fields limits (byte_reader_new (env_payload envelope)))))"

section \<open>Formats\<close>

definition head_payload :: "file_head \<Rightarrow> bytes" where
  "head_payload head =
     array16 (fh_file_id head) @ to_le_bytes 8 (fh_generation head) @ key_bytes (fh_manifest_key head) @
     array32 (fh_manifest_digest head) @ array16 (fh_mutation_id head)"

definition option_bytes :: "('a \<Rightarrow> bytes) \<Rightarrow> 'a option \<Rightarrow> bytes" where
  "option_bytes enc x = (case x of None \<Rightarrow> [0] | Some y \<Rightarrow> 1 # enc y)"

fun layout_bytes :: "manifest_layout \<Rightarrow> bytes" where
  "layout_bytes (RawLayout blob) = option_bytes blob_bytes blob"
| "layout_bytes (BlockSplitLayout parameters root) = profile_bytes parameters @ option_bytes page_ref_bytes root"

definition layout_tag :: "manifest_layout \<Rightarrow> u8" where
  "layout_tag layout = (case layout of RawLayout _ \<Rightarrow> 1 | BlockSplitLayout _ _ \<Rightarrow> 2)"

definition manifest_payload :: "file_manifest \<Rightarrow> bytes" where
  "manifest_payload manifest =
     array16 (fm_file_id manifest) @ to_le_bytes 8 (fm_generation manifest) @
     to_le_bytes 8 (fm_logical_size manifest) @ [layout_tag (fm_layout manifest)] @ [1, 0, 0] @
     layout_bytes (fm_layout manifest)"

fun layout_keys_ok :: "manifest_layout \<Rightarrow> bool" where
  "layout_keys_ok (RawLayout blob) = pred_option (\<lambda>b. key_ok (bl_key b)) blob"
| "layout_keys_ok (BlockSplitLayout parameters root) = pred_option (\<lambda>r. key_ok (pr_key r)) root"

definition manifest_ok :: "storage_limits \<Rightarrow> file_manifest \<Rightarrow> bool" where
  "manifest_ok limits manifest \<longleftrightarrow> validate_manifest manifest limits = Inr ()"

definition head_ok :: "storage_limits \<Rightarrow> file_head \<Rightarrow> bool" where
  "head_ok limits head \<longleftrightarrow> validate_head head limits = Inr ()"

lemma envelope_decoder_iff:
  assumes "object_decoder m G" and "length bs \<le> usize_max"
  shows "rbind (decode_envelope P kind bs n) (\<lambda>e. fst (m (byte_reader_new (env_payload e)))) = Inr x \<longleftrightarrow>
     length bs \<le> n \<and> (\<exists>payload. bs = envelope_bytes P kind payload \<and> G x payload)" (is "?l \<longleftrightarrow> ?r")
proof
  assume ?l
  then obtain e :: envelope where e: "length bs \<le> n" "bs = envelope_bytes P kind (env_payload e)"
    "fst (m (byte_reader_new (env_payload e))) = Inr x"
    by (auto simp: decode_envelope_iff [OF assms(2)])
  then show ?r
    using object_decoder.decodes_new [OF assms(1), of "env_payload e" x] assms(2) by auto
next
  assume ?r
  then obtain payload where r: "length bs \<le> n" "bs = envelope_bytes P kind payload" "G x payload"
    by blast
  then have "decode_envelope P kind bs n = Inr \<lparr>env_kind = kind, env_payload = payload\<rparr>"
    unfolding decode_envelope_iff [OF assms(2)] by simp
  then show ?l
    using object_decoder.decodes_new [OF assms(1), of payload x] r assms(2) by simp
qed

subsection \<open>Heads\<close>

lemma head_ok_iff: "head_ok limits head \<longleftrightarrow> fh_generation head \<noteq> 0 \<and> key_fits limits (fh_manifest_key head)"
  by (auto simp: head_ok_def validate_head_def checked_key_length_iff)

lemma file_head_eq:
  "\<lparr>fh_file_id = f, fh_generation = g, fh_manifest_key = k, fh_manifest_digest = d, fh_mutation_id = m\<rparr> = h \<longleftrightarrow>
     f = fh_file_id h \<and> g = fh_generation h \<and> k = fh_manifest_key h \<and> d = fh_manifest_digest h \<and> m = fh_mutation_id h"
  by (cases h) auto

lemma head_decoder:
  "object_decoder (decode_head_fields limits)
     (\<lambda>head b. head_ok limits head \<and> key_ok (fh_manifest_key head) \<and> b = head_payload head)"
  unfolding decode_head_fields_def Let_def
  by (rule object_decoder_cong, ((rule decoder_intros field_intros)+)[1])
    (simp del: ex_simps add: prenex file_head_eq head_payload_def head_ok_iff flip: head_ok_def, blast)

lemma head_emitter:
  "object_emitter
     (sbind (bw_bytes (array16 (fh_file_id head))) (\<lambda>_.
      sbind (bw_u64 (fh_generation head)) (\<lambda>_.
      sbind (write_key (fh_manifest_key head) limits) (\<lambda>_.
      sbind (bw_bytes (array32 (fh_manifest_digest head))) (\<lambda>_.
      bw_bytes (array16 (fh_mutation_id head)))))))
     (key_fits limits (fh_manifest_key head)) (head_payload head)"
  by (rule object_emitter_cong, ((rule emitter_intros)+)[1]) (simp_all add: head_payload_def)

lemma encode_head_iff:
  "encode_head P head limits = Inr bs \<longleftrightarrow>
     head_ok limits head \<and> length bs \<le> max_object_bytes limits \<and> length bs \<le> usize_max \<and>
     bs = envelope_bytes P KindHead (head_payload head)"
  unfolding encode_head_def rbind_eq_Inr map_err_eq_Inr object_emitter.written_iff [OF head_emitter] encode_envelope_iff
  by (auto simp: head_ok_iff simp flip: head_ok_def)

lemma decode_head_iff:
  assumes "length bs \<le> usize_max"
  shows "decode_head P bs limits = Inr head \<longleftrightarrow>
     length bs \<le> max_object_bytes limits \<and> head_ok limits head \<and> key_ok (fh_manifest_key head) \<and>
     bs = envelope_bytes P KindHead (head_payload head)"
  unfolding decode_head_def envelope_decoder_iff [OF head_decoder assms] by blast

subsection \<open>Manifests\<close>

text \<open>The references of a valid manifest have keys that fit.\<close>

fun layout_fits :: "storage_limits \<Rightarrow> manifest_layout \<Rightarrow> bool" where
  "layout_fits limits (RawLayout blob) = pred_option (\<lambda>b. key_fits limits (bl_key b)) blob"
| "layout_fits limits (BlockSplitLayout parameters root) =
     (parameters = block_split_current \<and> pred_option (page_ref_ok limits) root)"

lemma manifest_ok_fits: "manifest_ok limits manifest \<Longrightarrow> layout_fits limits (fm_layout manifest)"
  by (cases "fm_layout manifest")
    (auto simp: manifest_ok_def validate_manifest_def validate_blob_def checked_key_length_iff page_ref_ok_def
      split: option.splits if_splits)

lemma field_presence:
  assumes "object_field p (\<lambda>x b. ok x \<and> b = enc x)"
  shows "object_field (read_presence field p) (\<lambda>x b. pred_option ok x \<and> b = option_bytes enc x)"
proof -
  have "object_field (read_presence field p) (\<lambda>y b. \<exists>tag b1 b2. b1 = [tag] \<and>
      (if tag = 0 then y = None \<and> b2 = [] else if tag = 1 then (\<exists>x c1 c2. (ok x \<and> c1 = enc x) \<and>
        (y = Some x \<and> c2 = []) \<and> b2 = c1 @ c2) else False) \<and> b = b1 @ b2)"
    unfolding read_presence_def
    by (rule field_intros assms)+
  then show ?thesis
  proof (rule object_field_cong)
    fix y b
    show "(\<exists>tag b1 b2. b1 = [tag] \<and>
      (if tag = 0 then y = None \<and> b2 = [] else if tag = 1 then (\<exists>x c1 c2. (ok x \<and> c1 = enc x) \<and>
        (y = Some x \<and> c2 = []) \<and> b2 = c1 @ c2) else False) \<and> b = b1 @ b2) \<longleftrightarrow>
      pred_option ok y \<and> b = option_bytes enc y"
    proof (cases y)
      case None
      then show ?thesis by (auto simp: option_bytes_def split: if_splits intro!: exI [of _ "0 :: u8"])
    next
      case (Some x)
      then show ?thesis by (auto simp: option_bytes_def split: if_splits intro!: exI [of _ "1 :: u8"])
    qed
  qed
qed

lemma manifest_layout_field:
  "object_field
     (if tag = 1 then
        sbind (read_presence ''raw blob presence'' (read_blob limits)) (\<lambda>blob.
        sreturn (RawLayout blob))
      else if tag = 2 then
        sbind read_profile (\<lambda>parameters.
        sbind (read_presence ''map root presence'' (read_page_ref limits)) (\<lambda>root.
        sreturn (BlockSplitLayout parameters root)))
      else sfail (PfFormat (FmtUnknownTag ''storage method'' (ucast (tag :: u8)))))
     (\<lambda>layout b. tag = layout_tag layout \<and> layout_keys_ok layout \<and> layout_fits limits layout \<and> b = layout_bytes layout)"
proof -
  have blob: "object_field (read_presence ''raw blob presence'' (read_blob limits))
      (\<lambda>x b. pred_option (\<lambda>b. key_ok (bl_key b) \<and> key_fits limits (bl_key b)) x \<and> b = option_bytes blob_bytes x)"
    using blob_field.object_field_axioms by (intro field_presence) (simp add: conj_assoc)
  have root: "object_field (read_presence ''map root presence'' (read_page_ref limits))
      (\<lambda>x b. pred_option (\<lambda>r. key_ok (pr_key r) \<and> page_ref_ok limits r) x \<and> b = option_bytes page_ref_bytes x)"
    using page_ref_field.object_field_axioms by (intro field_presence) (simp add: conj_assoc)
  show ?thesis
    by (rule object_field_cong, ((rule blob root field_intros)+)[1])
      (auto simp: layout_tag_def option.pred_True option.pred_set split: manifest_layout.splits if_splits)
qed

lemma file_manifest_eq:
  "\<lparr>fm_file_id = f, fm_generation = g, fm_logical_size = n, fm_representation = r, fm_layout = l\<rparr> = m \<longleftrightarrow>
     f = fm_file_id m \<and> g = fm_generation m \<and> n = fm_logical_size m \<and> l = fm_layout m"
  by (cases m) auto

lemma file_manifest_eta:
  "\<lparr>fm_file_id = fm_file_id m, fm_generation = fm_generation m, fm_logical_size = fm_logical_size m,
    fm_representation = r, fm_layout = fm_layout m\<rparr> = m"
  by (simp add: file_manifest_eq)

lemma manifest_decoder:
  "object_decoder (decode_manifest_fields limits)
     (\<lambda>m b. manifest_ok limits m \<and> layout_keys_ok (fm_layout m) \<and> b = manifest_payload m)"
  unfolding decode_manifest_fields_def Let_def
  by (rule object_decoder_cong, ((rule manifest_layout_field decoder_intros field_intros)+)[1])
    (simp del: ex_simps add: prenex file_manifest_eq file_manifest_eta manifest_payload_def flip: manifest_ok_def,
     blast dest: manifest_ok_fits)

lemma decode_manifest_iff:
  assumes "length bs \<le> usize_max"
  shows "decode_manifest P bs limits = Inr m \<longleftrightarrow>
     length bs \<le> max_manifest_bytes limits \<and> manifest_ok limits m \<and> layout_keys_ok (fm_layout m) \<and>
     bs = envelope_bytes P KindManifest (manifest_payload m)"
proof (cases "length bs \<le> max_manifest_bytes limits")
  case True
  then show ?thesis
    unfolding decode_manifest_def using envelope_decoder_iff [OF manifest_decoder assms] by auto
qed (simp add: decode_manifest_def)

lemma layout_emitter:
  assumes "layout_fits limits layout"
  shows "object_emitter
     (case layout of
        RawLayout blob \<Rightarrow>
          sbind (bw_u8 (if blob = None then 0 else 1)) (\<lambda>_.
          case blob of None \<Rightarrow> sreturn () | Some b \<Rightarrow> write_blob b limits)
      | BlockSplitLayout parameters root \<Rightarrow>
          sbind (write_profile parameters) (\<lambda>_.
          sbind (bw_u8 (if root = None then 0 else 1)) (\<lambda>_.
          case root of None \<Rightarrow> sreturn () | Some r \<Rightarrow> write_page_ref r limits)))
     True (layout_bytes layout)"
proof (cases layout)
  case (RawLayout blob)
  have "object_emitter (case blob of None \<Rightarrow> sreturn () | Some b \<Rightarrow> write_blob b limits) True
      (case blob of None \<Rightarrow> [] | Some b \<Rightarrow> blob_bytes b)"
    using assms RawLayout blob_emitter.object_emitter_axioms emitter_bytes(6)
    by (cases blob) (auto intro: object_emitter_cong)
  then have "object_emitter (sbind (bw_u8 (if blob = None then 0 else 1)) (\<lambda>_.
      case blob of None \<Rightarrow> sreturn () | Some b \<Rightarrow> write_blob b limits)) (True \<and> True)
      ([if blob = None then 0 else 1] @ (case blob of None \<Rightarrow> [] | Some b \<Rightarrow> blob_bytes b))"
    by (intro emitter_sbind emitter_bytes)
  then show ?thesis
    unfolding RawLayout manifest_layout.case
    by (rule object_emitter_cong) (auto simp: option_bytes_def split: option.splits)
next
  case (BlockSplitLayout parameters root)
  have "object_emitter (case root of None \<Rightarrow> sreturn () | Some r \<Rightarrow> write_page_ref r limits) True
      (case root of None \<Rightarrow> [] | Some r \<Rightarrow> page_ref_bytes r)"
    using assms BlockSplitLayout page_ref_emitter.object_emitter_axioms emitter_bytes(6)
    by (cases root) (auto intro: object_emitter_cong)
  then have "object_emitter (sbind (write_profile parameters) (\<lambda>_. sbind (bw_u8 (if root = None then 0 else 1)) (\<lambda>_.
      case root of None \<Rightarrow> sreturn () | Some r \<Rightarrow> write_page_ref r limits))) (True \<and> True \<and> True)
      (profile_bytes parameters @ [if root = None then 0 else 1] @ (case root of None \<Rightarrow> [] | Some r \<Rightarrow> page_ref_bytes r))"
    by (intro emitter_sbind emitter_bytes emitter_profile)
  then show ?thesis
    unfolding BlockSplitLayout manifest_layout.case
    by (rule object_emitter_cong) (auto simp: option_bytes_def split: option.splits)
qed

lemma manifest_emitter:
  assumes "layout_fits limits (fm_layout manifest)"
  shows "object_emitter
     (sbind (bw_bytes (array16 (fm_file_id manifest))) (\<lambda>_.
      sbind (bw_u64 (fm_generation manifest)) (\<lambda>_.
      sbind (bw_u64 (fm_logical_size manifest)) (\<lambda>_.
      sbind (bw_u8 (case fm_layout manifest of RawLayout _ \<Rightarrow> 1 | BlockSplitLayout _ _ \<Rightarrow> 2)) (\<lambda>_.
      sbind (write_representation (fm_representation manifest)) (\<lambda>_.
      case fm_layout manifest of
        RawLayout blob \<Rightarrow>
          sbind (bw_u8 (if blob = None then 0 else 1)) (\<lambda>_.
          case blob of None \<Rightarrow> sreturn () | Some b \<Rightarrow> write_blob b limits)
      | BlockSplitLayout parameters root \<Rightarrow>
          sbind (write_profile parameters) (\<lambda>_.
          sbind (bw_u8 (if root = None then 0 else 1)) (\<lambda>_.
          case root of None \<Rightarrow> sreturn () | Some r \<Rightarrow> write_page_ref r limits))))))))
     True (manifest_payload manifest)"
  by (rule object_emitter_cong, ((rule emitter_intros layout_emitter [OF assms])+)[1])
    (simp_all add: manifest_payload_def layout_tag_def)

lemma length_option_bytes: "length (option_bytes enc x) = (case x of None \<Rightarrow> 1 | Some y \<Rightarrow> 1 + length (enc y))"
  by (simp add: option_bytes_def split: option.split)

lemma manifest_payload_len_eq:
  assumes "manifest_ok limits m"
  shows "manifest_payload_len m limits = Inr (length (manifest_payload m))"
proof -
  have fit: "length key < 2 ^ 32" if "key_fits limits key" for key
    using that by (simp add: key_fits_def)
  have add: "checked_add_length a b f = Inr (a + b)" if "a + b \<le> usize_max" for a b f
    using that by (simp add: checked_add_length_def usize_checked_add_def)
  show ?thesis
  proof (cases "fm_layout m")
    case (RawLayout blob)
    with manifest_ok_fits [OF assms] fit show ?thesis
      by (cases blob) (auto simp: manifest_payload_len_def manifest_payload_def length_option_bytes
          usize_checked_add_def usize_max_def blob_encoded_len_fits add [unfolded usize_max_def] dest: fit)
  next
    case (BlockSplitLayout parameters root)
    have "length (pr_key r) < 2 ^ 32" if "root = Some r" for r
      using manifest_ok_fits [OF assms] that by (intro fit page_ref_ok_key) (simp add: BlockSplitLayout)
    with manifest_ok_fits [OF assms] BlockSplitLayout show ?thesis
      by (cases root) (auto simp: manifest_payload_len_def manifest_payload_def length_option_bytes profile_bytes_def
          usize_checked_add_def usize_max_def page_ref_encoded_len_fits page_ref_ok_key checked_add_length_def)
  qed
qed

lemma encode_manifest_iff:
  "encode_manifest P m limits = Inr bs \<longleftrightarrow>
     manifest_ok limits m \<and> length bs \<le> max_manifest_bytes limits \<and> length bs \<le> usize_max \<and>
     bs = envelope_bytes P KindManifest (manifest_payload m)"
proof (cases "manifest_ok limits m")
  case True
  note w = object_emitter.written_iff [OF manifest_emitter [OF manifest_ok_fits [OF True]]]
  show ?thesis
    unfolding encode_manifest_def rbind_eq_Inr map_err_eq_Inr w encode_envelope_iff checked_envelope_len_iff
      manifest_payload_len_eq [OF True]
    using True by (auto simp flip: manifest_ok_def)
qed (auto simp: encode_manifest_def manifest_ok_def)

end
