(* ===== verification/Storage_Keys.thy ===== *)
theory Storage_Keys
  imports Storage_Codec
begin

text \<open>
  Target keys under the private prefix (\<open>keys.rs\<close>): construction, parsing and validation. Keys are
  printed with fixed-width lower-case hexadecimal fields; the lemmas show that every key the store
  builds is a valid object key, is owned by its key space, and parses back to its fields.
\<close>

section \<open>Hexadecimal fields\<close>

definition hex_digit :: "nat \<Rightarrow> u8" where
  "hex_digit n = of_nat (if n < 10 then 48 + n else 87 + n)"

text \<open>The \<open>k\<close> low digits of a number, most significant first: the format \<open>{:0kx}\<close> of a value below \<open>16 ^ k\<close>.\<close>

fun hex_digits :: "nat \<Rightarrow> nat \<Rightarrow> bytes" where
  "hex_digits 0 n = []"
| "hex_digits (Suc k) n = hex_digits k (n div 16) @ [hex_digit (n mod 16)]"

definition id_hex :: "bytes \<Rightarrow> bytes" where
  "id_hex bs = concat (map (\<lambda>b. hex_digits 2 (unat b)) bs)"

definition hex_nibble :: "u8 \<Rightarrow> corruption_error + u8" where
  "hex_nibble value =
     (if 48 \<le> value \<and> value \<le> 57 then Inr (value - 48)
      else if 97 \<le> value \<and> value \<le> 102 then Inr (value - 97 + 10)
      else Inl InvalidKeySchema)"

definition is_lower_hex :: "u8 \<Rightarrow> bool" where
  "is_lower_hex value \<longleftrightarrow> (48 \<le> value \<and> value \<le> 57) \<or> (97 \<le> value \<and> value \<le> 102)"

fun parse_hex_pairs :: "bytes \<Rightarrow> corruption_error + bytes" where
  "parse_hex_pairs (a # b # rest) =
     rbind (hex_nibble a) (\<lambda>hi.
     rbind (hex_nibble b) (\<lambda>lo.
     rbind (parse_hex_pairs rest) (\<lambda>bs.
     Inr ((push_bit 4 hi OR lo) # bs))))"
| "parse_hex_pairs _ = Inr []"

definition parse_hex_array :: "nat \<Rightarrow> bytes \<Rightarrow> corruption_error + bytes" where
  "parse_hex_array n value = (if length value \<noteq> n * 2 then Inl InvalidKeySchema else parse_hex_pairs value)"

text \<open>\<open>from_str_radix\<close> on hexadecimal digits: the value, or an error when it does not fit the type.\<close>

definition digit_value :: "u8 \<Rightarrow> nat" where
  "digit_value d = (if d \<le> 57 then unat d - 48 else unat d - 87)"

definition hex_value :: "bytes \<Rightarrow> nat" where
  "hex_value ds = foldl (\<lambda>acc d. acc * 16 + digit_value d) 0 ds"

definition parse_fixed_hex :: "bytes \<Rightarrow> nat \<Rightarrow> corruption_error + 'a::len word" where
  "parse_fixed_hex value width =
     (if length value \<noteq> width \<or> \<not> list_all is_lower_hex value then Inl InvalidKeySchema
      else ok_or (try_from_nat (hex_value value)) InvalidKeySchema)"

lemma length_hex_digits [simp]: "length (hex_digits k n) = k"
  by (induction k arbitrary: n) auto

lemma length_id_hex [simp]: "length (id_hex bs) = 2 * length bs"
  by (induction bs) (auto simp: id_hex_def numeral_2_eq_2)

lemma unat_hex_digit: "n < 16 \<Longrightarrow> unat (hex_digit n) = (if n < 10 then 48 + n else 87 + n)"
  by (simp add: hex_digit_def unat_of_nat)

lemma hex_digit_table:
  "\<forall>n\<in>set [0..<16]. is_lower_hex (hex_digit n) \<and> digit_value (hex_digit n) = n \<and>
     hex_nibble (hex_digit n) = Inr (of_nat n) \<and> hex_digit n \<noteq> 47 \<and> \<not> is_ascii_control (hex_digit n) \<and>
     hex_digit n < 0x80"
  by code_simp

lemma hex_digit_facts:
  assumes "n < 16"
  shows "is_lower_hex (hex_digit n)" and "digit_value (hex_digit n) = n" and "hex_nibble (hex_digit n) = Inr (of_nat n)"
    and "hex_digit n \<noteq> 47" and "\<not> is_ascii_control (hex_digit n)" and "hex_digit n < 0x80"
  using bspec [OF hex_digit_table, of n] assms by auto

text \<open>Characters that separate nothing and that every key may contain.\<close>

definition plain_char :: "u8 \<Rightarrow> bool" where
  "plain_char c \<longleftrightarrow> c \<noteq> 47 \<and> \<not> is_ascii_control c \<and> c < 0x80"

lemma plain_hex_digits: "c \<in> set (hex_digits k n) \<Longrightarrow> plain_char c \<and> is_lower_hex c"
  by (induction k arbitrary: n) (auto simp: plain_char_def hex_digit_facts)

lemma plain_id_hex: "c \<in> set (id_hex bs) \<Longrightarrow> plain_char c"
  unfolding id_hex_def using plain_hex_digits by fastforce

lemma hex_value_digits: "hex_value (hex_digits k n) = n mod 16 ^ k"
proof (induction k arbitrary: n)
  case (Suc k)
  have "hex_value (hex_digits (Suc k) n) = hex_value (hex_digits k (n div 16)) * 16 + n mod 16"
    by (simp add: hex_value_def hex_digit_facts)
  also have "\<dots> = n mod 16 ^ Suc k"
    using mod_mult2_eq [of n 16 "16 ^ k"] by (simp add: Suc.IH)
  finally show ?case .
qed (simp add: hex_value_def)

lemma parse_fixed_hex_digits:
  fixes w :: "'a::len word"
  assumes "LENGTH('a) \<le> 4 * k"
  shows "parse_fixed_hex (hex_digits k (unat w)) k = Inr w"
proof -
  have "unat w < 16 ^ k"
    using order_less_le_trans [OF unsigned_less power_increasing [OF assms, of 2]] by (simp add: power_mult)
  then have "hex_value (hex_digits k (unat w)) = unat w"
    by (simp add: hex_value_digits)
  moreover have "try_from_nat (unat w) = Some w"
    by (simp add: try_from_nat_Some_iff)
  ultimately show ?thesis
    using plain_hex_digits by (auto simp: parse_fixed_hex_def list_all_iff)
qed

lemma parse_hex_pairs_id: "parse_hex_pairs (id_hex bs) = Inr bs"
proof (induction bs)
  case (Cons b bs)
  have bound: "unat b < 256"
    by (rule order_less_le_trans [OF unsigned_less]) simp
  have digits: "hex_digits 2 (unat b) = [hex_digit (unat b div 16), hex_digit (unat b mod 16)]"
    using bound by (simp add: numeral_2_eq_2)
  have "of_nat (unat b div 16) = drop_bit 4 b" "of_nat (unat b mod 16) = take_bit 4 b"
    using bound by (simp_all add: word_unat_eq_iff unat_of_nat drop_bit_eq_div take_bit_eq_mod unat_div unat_mod)
  then have byte: "push_bit 4 (of_nat (unat b div 16)) OR of_nat (unat b mod 16) = b"
    by (auto intro!: bit_word_eqI simp: bit_simps)
  have "unat b div 16 < 16" "unat b mod 16 < 16"
    using bound by simp_all
  then show ?case
    using Cons.IH byte by (simp add: id_hex_def digits hex_digit_facts)
qed (simp add: id_hex_def)

section \<open>Key spaces\<close>

record key_space =
  ks_prefix :: rstring
  ks_max_key_bytes :: nat

record preparation_key =
  pk_identity :: preparation_identity
  pk_attempt :: u32

definition validate_result_generation :: "preparation_key \<Rightarrow> u64 \<Rightarrow> corruption_error + unit" where
  "validate_result_generation key generation =
     (let base = pi_base (pk_identity key);
          valid = (if generation = 1 then is_new_file base
                   else \<not> is_new_file base \<and> checked_add (bi_generation base) 1 = Some generation)
      in require valid (IdentityMismatch ''base generation''))"

fun split_slash :: "bytes \<Rightarrow> bytes list" where
  "split_slash [] = [[]]"
| "split_slash (c # cs) =
     (if c = 47 then [] # split_slash cs
      else case split_slash cs of [] \<Rightarrow> [[c]] | x # xs \<Rightarrow> (c # x) # xs)"

definition LONGEST_SUFFIX_BYTES :: nat where
  "LONGEST_SUFFIX_BYTES =
     max (9 + 32 + 1 + 32 + 1 + 16 + 1 + 64 + 1 + 64 + 1 + 8 + 8 + 16)
         (9 + 32 + 1 + 32 + 1 + 16 + 1 + 64 + 1 + 64 + 1 + 8 + 1 + 2 + 1 + 16)"

definition key_space_new :: "rstring \<Rightarrow> storage_limits \<Rightarrow> configuration_error + key_space" where
  "key_space_new prefix limits =
     rbind (require (prefix \<noteq> []) (CfgInvalidPrefix ''prefix is empty'')) (\<lambda>_.
     rbind (require (\<not> (hd prefix = 47 \<or> last prefix = 47))
              (CfgInvalidPrefix ''leading or trailing slash'')) (\<lambda>_.
     rbind (require (\<not> list_ex is_ascii_control prefix) (CfgInvalidPrefix ''control character'')) (\<lambda>_.
     rbind (require (\<not> list_ex (\<lambda>c. c = [] \<or> c = [46] \<or> c = [46, 46]) (split_slash prefix))
              (CfgInvalidPrefix ''empty or relative component'')) (\<lambda>_.
     rbind (ok_or (usize_checked_add (length prefix) LONGEST_SUFFIX_BYTES)
              (CfgInvalidPrefix ''key length overflow'')) (\<lambda>longest.
     rbind (require (\<not> longest > max_key_bytes limits)
              (CfgInvalidPrefix ''current-format key exceeds max_key_bytes'')) (\<lambda>_.
     Inr \<lparr>ks_prefix = prefix, ks_max_key_bytes = max_key_bytes limits\<rparr>))))))"

text \<open>A key is the prefix followed by components, each after a slash.\<close>

definition slash_join :: "bytes list \<Rightarrow> bytes" where
  "slash_join components = concat (map (\<lambda>c. 47 # c) components)"

definition preparation_path :: "file_id \<Rightarrow> preparation_identity \<Rightarrow> u32 \<Rightarrow> bytes list" where
  "preparation_path file_id identity attempt =
     [id_hex (array16 file_id), id_hex (array16 (pi_mutation_id identity)),
      hex_digits 16 (unat (bi_generation (pi_base identity))),
      id_hex (array32 (bi_manifest_digest (pi_base identity))), id_hex (array32 (pi_fingerprint identity)),
      hex_digits 8 (unat attempt)]"

definition key_format :: "key_space \<Rightarrow> object_key" where
  "key_format ks = ks_prefix ks @ slash_join [bytes_of_string ''v3'', bytes_of_string ''format'']"

definition key_head :: "key_space \<Rightarrow> file_id \<Rightarrow> object_key" where
  "key_head ks file_id =
     ks_prefix ks @ slash_join [bytes_of_string ''v3'', bytes_of_string ''refs'', bytes_of_string ''files'',
       id_hex (array16 file_id)]"

definition key_manifest :: "key_space \<Rightarrow> file_id \<Rightarrow> preparation_identity \<Rightarrow> u32 \<Rightarrow> object_key" where
  "key_manifest ks file_id identity attempt =
     ks_prefix ks @ slash_join ([bytes_of_string ''v3'', bytes_of_string ''manifests''] @
       preparation_path file_id identity attempt)"

definition key_raw_payload :: "key_space \<Rightarrow> file_id \<Rightarrow> preparation_identity \<Rightarrow> u32 \<Rightarrow> object_key" where
  "key_raw_payload ks file_id identity attempt =
     ks_prefix ks @ slash_join ([bytes_of_string ''v3'', bytes_of_string ''data''] @
       preparation_path file_id identity attempt @ [bytes_of_string ''raw''])"

definition key_block_payload :: "key_space \<Rightarrow> file_id \<Rightarrow> preparation_identity \<Rightarrow> u32 \<Rightarrow> u64 \<Rightarrow> object_key" where
  "key_block_payload ks file_id identity attempt block_index =
     ks_prefix ks @ slash_join ([bytes_of_string ''v3'', bytes_of_string ''data''] @
       preparation_path file_id identity attempt @ [bytes_of_string ''blocks'', hex_digits 16 (unat block_index)])"

definition key_map_page :: "key_space \<Rightarrow> file_id \<Rightarrow> preparation_identity \<Rightarrow> u32 \<Rightarrow> u8 \<Rightarrow> u64 \<Rightarrow> object_key" where
  "key_map_page ks file_id identity attempt level first_block =
     ks_prefix ks @ slash_join ([bytes_of_string ''v3'', bytes_of_string ''maps''] @
       preparation_path file_id identity attempt @ [hex_digits 2 (unat level), hex_digits 16 (unat first_block)])"

definition protected_path :: "file_id \<Rightarrow> u256 \<Rightarrow> bytes list" where
  "protected_path file_id token =
     [bytes_of_string ''v3'', bytes_of_string ''protected'', id_hex (array16 file_id), id_hex (array32 token)]"

definition key_protected_manifest :: "key_space \<Rightarrow> file_id \<Rightarrow> u256 \<Rightarrow> object_key" where
  "key_protected_manifest ks file_id token =
     ks_prefix ks @ slash_join (protected_path file_id token @ [bytes_of_string ''manifest''])"

definition key_protected_raw_payload :: "key_space \<Rightarrow> file_id \<Rightarrow> u256 \<Rightarrow> object_key" where
  "key_protected_raw_payload ks file_id token =
     ks_prefix ks @ slash_join (protected_path file_id token @ [bytes_of_string ''raw''])"

definition key_protected_block_payload :: "key_space \<Rightarrow> file_id \<Rightarrow> u256 \<Rightarrow> u64 \<Rightarrow> object_key" where
  "key_protected_block_payload ks file_id token block_index =
     ks_prefix ks @ slash_join (protected_path file_id token @
       [bytes_of_string ''blocks'', hex_digits 16 (unat block_index)])"

definition key_protected_map_page :: "key_space \<Rightarrow> file_id \<Rightarrow> u256 \<Rightarrow> u8 \<Rightarrow> u64 \<Rightarrow> object_key" where
  "key_protected_map_page ks file_id token level first_block =
     ks_prefix ks @ slash_join (protected_path file_id token @
       [bytes_of_string ''maps'', hex_digits 2 (unat level), hex_digits 16 (unat first_block)])"

definition strip_prefix :: "bytes \<Rightarrow> bytes \<Rightarrow> bytes option" where
  "strip_prefix prefix s = (if take (length prefix) s = prefix then Some (drop (length prefix) s) else None)"

definition key_components :: "key_space \<Rightarrow> object_key \<Rightarrow> corruption_error + bytes list" where
  "key_components ks key =
     (if length key > ks_max_key_bytes ks then Inl InvalidKeySchema
      else rbind (ok_or (Option.bind (strip_prefix (ks_prefix ks) key) (strip_prefix [47])) ForeignKey) (\<lambda>suffix.
           Inr (split_slash suffix)))"

definition ensure_owned :: "key_space \<Rightarrow> object_key \<Rightarrow> corruption_error + unit" where
  "ensure_owned ks key = rbind (key_components ks key) (\<lambda>_. Inr ())"

definition parse_preparation_components :: "file_id \<Rightarrow> bytes list \<Rightarrow> corruption_error + preparation_key" where
  "parse_preparation_components expected_file components =
     (if length components \<noteq> 6 then Inl InvalidKeySchema
      else
        rbind (parse_hex_array 16 (components ! 0)) (\<lambda>file_id.
        rbind (require (from_le_bytes file_id = expected_file) (IdentityMismatch ''file'')) (\<lambda>_.
        rbind (parse_hex_array 16 (components ! 1)) (\<lambda>mutation_id.
        rbind (parse_fixed_hex (components ! 2) 16) (\<lambda>base_generation.
        rbind (parse_hex_array 32 (components ! 3)) (\<lambda>base_digest.
        rbind (parse_hex_array 32 (components ! 4)) (\<lambda>fingerprint.
        rbind (parse_fixed_hex (components ! 5) 8) (\<lambda>attempt.
        Inr \<lparr>pk_identity = identity_new (from_le_bytes mutation_id)
                \<lparr>bi_generation = base_generation, bi_manifest_digest = from_le_bytes base_digest\<rparr>
                (from_le_bytes fingerprint),
             pk_attempt = attempt\<rparr>))))))))"

definition parse_manifest_key :: "key_space \<Rightarrow> file_id \<Rightarrow> object_key \<Rightarrow> corruption_error + preparation_key" where
  "parse_manifest_key ks expected_file key =
     rbind (key_components ks key) (\<lambda>components.
     if length components \<noteq> 8 \<or> components ! 0 \<noteq> bytes_of_string ''v3'' \<or>
        components ! 1 \<noteq> bytes_of_string ''manifests''
     then Inl InvalidKeySchema
     else parse_preparation_components expected_file (drop 2 components))"

definition validate_raw_payload :: "key_space \<Rightarrow> file_id \<Rightarrow> object_key \<Rightarrow> corruption_error + unit" where
  "validate_raw_payload ks file_id key =
     rbind (key_components ks key) (\<lambda>components.
     if length components \<noteq> 9 \<or> components ! 0 \<noteq> bytes_of_string ''v3'' \<or>
        components ! 1 \<noteq> bytes_of_string ''data'' \<or> components ! 8 \<noteq> bytes_of_string ''raw''
     then Inl InvalidKeySchema
     else rbind (parse_preparation_components file_id (take 6 (drop 2 components))) (\<lambda>_. Inr ()))"

definition validate_block_payload :: "key_space \<Rightarrow> file_id \<Rightarrow> u64 \<Rightarrow> object_key \<Rightarrow> corruption_error + unit" where
  "validate_block_payload ks file_id block_index key =
     rbind (key_components ks key) (\<lambda>components.
     if length components \<noteq> 10 \<or> components ! 0 \<noteq> bytes_of_string ''v3'' \<or>
        components ! 1 \<noteq> bytes_of_string ''data'' \<or> components ! 8 \<noteq> bytes_of_string ''blocks''
     then Inl InvalidKeySchema
     else rbind (parse_fixed_hex (components ! 9) 16) (\<lambda>index.
          if index \<noteq> block_index then Inl InvalidKeySchema
          else rbind (parse_preparation_components file_id (take 6 (drop 2 components))) (\<lambda>_. Inr ())))"

definition validate_map_page :: "key_space \<Rightarrow> file_id \<Rightarrow> u8 \<Rightarrow> u64 \<Rightarrow> object_key \<Rightarrow> corruption_error + unit" where
  "validate_map_page ks file_id level first_block key =
     rbind (key_components ks key) (\<lambda>components.
     if length components \<noteq> 10 \<or> components ! 0 \<noteq> bytes_of_string ''v3'' \<or>
        components ! 1 \<noteq> bytes_of_string ''maps''
     then Inl InvalidKeySchema
     else rbind (parse_fixed_hex (components ! 8) 2) (\<lambda>parsed_level :: u64.
          if parsed_level \<noteq> ucast level then Inl InvalidKeySchema
          else rbind (parse_fixed_hex (components ! 9) 16) (\<lambda>parsed_first.
          if parsed_first \<noteq> first_block then Inl InvalidKeySchema
          else rbind (parse_preparation_components file_id (take 6 (drop 2 components))) (\<lambda>_. Inr ()))))"

section \<open>Built keys parse back\<close>

lemma split_slash_plain: "47 \<notin> set c \<Longrightarrow> split_slash c = [c]"
  by (induction c) auto

lemma split_slash_field: "47 \<notin> set c \<Longrightarrow> split_slash (c @ 47 # rest) = c # split_slash rest"
  by (induction c) auto

lemma slash_join_Cons: "slash_join (c # cs) = 47 # c @ slash_join cs"
  by (simp add: slash_join_def)

lemma split_slash_join:
  "\<forall>x\<in>set (c # cs). 47 \<notin> set x \<Longrightarrow> split_slash (c @ slash_join cs) = c # cs"
proof (induction cs arbitrary: c)
  case Nil
  then show ?case by (simp add: slash_join_def split_slash_plain)
next
  case (Cons d cs)
  then show ?case by (simp add: slash_join_Cons split_slash_field)
qed

lemma key_components_join:
  assumes "\<forall>x\<in>set cs. 47 \<notin> set x" and "cs \<noteq> []" and "length (ks_prefix ks @ slash_join cs) \<le> ks_max_key_bytes ks"
  shows "key_components ks (ks_prefix ks @ slash_join cs) = Inr cs"
proof -
  obtain c cs' where cs: "cs = c # cs'" using assms(2) by (cases cs) auto
  then have "split_slash (c @ slash_join cs') = cs"
    using assms(1) split_slash_join by simp
  then show ?thesis
    using assms(3) by (simp add: key_components_def strip_prefix_def cs slash_join_Cons)
qed

lemma parse_hex_array_id [simp]: "length bs = n \<Longrightarrow> parse_hex_array n (id_hex bs) = Inr bs"
  by (simp add: parse_hex_array_def parse_hex_pairs_id)

lemma parse_preparation_path:
  "parse_preparation_components file_id (preparation_path file_id identity attempt) =
     Inr \<lparr>pk_identity = identity, pk_attempt = attempt\<rparr>"
  by (simp add: parse_preparation_components_def preparation_path_def parse_fixed_hex_digits identity_new_def)

text \<open>What \<open>KeySpace::new\<close> establishes.\<close>

definition key_space_ok :: "key_space \<Rightarrow> bool" where
  "key_space_ok ks \<longleftrightarrow> utf8_valid (ks_prefix ks) \<and> ks_prefix ks \<noteq> [] \<and>
     \<not> list_ex is_ascii_control (ks_prefix ks) \<and> length (ks_prefix ks) + 254 \<le> ks_max_key_bytes ks"

lemma key_space_new_ok:
  assumes "key_space_new prefix limits = Inr ks" and "utf8_valid prefix"
  shows "key_space_ok ks" and "ks_max_key_bytes ks = max_key_bytes limits"
  using assms by (auto simp: key_space_new_def key_space_ok_def LONGEST_SUFFIX_BYTES_def)

definition plain_path :: "bytes list \<Rightarrow> bool" where
  "plain_path cs \<longleftrightarrow> cs \<noteq> [] \<and> (\<forall>c\<in>set cs. \<forall>x\<in>set c. plain_char x)"

lemma plain_preparation_path: "\<forall>c\<in>set (preparation_path file_id identity attempt). \<forall>x\<in>set c. plain_char x"
  using plain_hex_digits plain_id_hex by (auto simp: preparation_path_def)

lemma plain_protected_path: "\<forall>c\<in>set (protected_path file_id token). \<forall>x\<in>set c. plain_char x"
  using plain_id_hex
  by (auto simp: protected_path_def bytes_of_string_def plain_char_def is_ascii_control_def)

lemma utf8_valid_cases:
  assumes "utf8_valid s" and "s \<noteq> []"
  obtains u r where "s = u @ r" and "u \<noteq> []" and "utf8_valid r" and "\<And>t. utf8_valid (u @ t) = utf8_valid t"
proof -
  obtain a as where s: "s = a # as" using assms(2) by (cases s) auto
  show thesis
  proof (cases "a < 0x80")
    case True
    then show thesis using assms(1) that [of "[a]" as] s by simp
  next
    case one: False
    then obtain b cs where as: "as = b # cs" using assms(1) s by (cases as) simp_all
    show thesis
    proof (cases "0xC2 \<le> a \<and> a \<le> 0xDF")
      case True
      then show thesis using assms(1) one that [of "[a, b]" cs] s as by simp
    next
      case two: False
      obtain c ds where cs: "cs = c # ds" using assms(1) one s as by (cases cs) (simp_all add: two)
      show thesis
      proof (cases "0xE0 \<le> a \<and> a \<le> 0xEF")
        case True
        then show thesis using assms(1) one that [of "[a, b, c]" ds] s as cs by (simp add: two)
      next
        case three: False
        obtain d es where "ds = d # es" using assms(1) one s as cs by (cases ds) (simp_all add: two three)
        then show thesis using assms(1) one that [of "[a, b, c, d]" es] s as cs by (simp add: two three)
      qed
    qed
  qed
qed

lemma utf8_valid_append: "utf8_valid a \<Longrightarrow> utf8_valid b \<Longrightarrow> utf8_valid (a @ b)"
proof (induction "length a" arbitrary: a rule: less_induct)
  case less
  show ?case
  proof (cases "a = []")
    case False
    with less.prems(1) obtain u r where u: "a = u @ r" "u \<noteq> []" "utf8_valid r" "\<And>t. utf8_valid (u @ t) = utf8_valid t"
      by (rule utf8_valid_cases) blast
    then show ?thesis using less.hyps [of r] less.prems(2) by simp
  qed (use less.prems in simp)
qed

lemma plain_slash_join: "\<forall>c\<in>set cs. \<forall>x\<in>set c. plain_char x \<Longrightarrow>
    \<forall>x\<in>set (slash_join cs). \<not> is_ascii_control x \<and> x < 0x80"
  by (auto simp: slash_join_def plain_char_def is_ascii_control_def)

lemma built_key:
  assumes "key_space_ok ks" and "plain_path cs" and "length (slash_join cs) \<le> 254"
  shows "key_ok (ks_prefix ks @ slash_join cs)" and "length (ks_prefix ks @ slash_join cs) \<le> ks_max_key_bytes ks"
    and "key_components ks (ks_prefix ks @ slash_join cs) = Inr cs"
    and "ensure_owned ks (ks_prefix ks @ slash_join cs) = Inr ()"
proof -
  have chars: "\<forall>x\<in>set (slash_join cs). \<not> is_ascii_control x \<and> x < 0x80"
    using assms(2) by (intro plain_slash_join) (simp add: plain_path_def)
  then have "utf8_valid (slash_join cs)"
    using utf8_valid_ascii by blast
  then show "key_ok (ks_prefix ks @ slash_join cs)"
    using assms(1) chars by (auto simp: key_ok_def key_space_ok_def utf8_valid_append list_ex_iff)
  show len: "length (ks_prefix ks @ slash_join cs) \<le> ks_max_key_bytes ks"
    using assms(1,3) by (simp add: key_space_ok_def)
  show c: "key_components ks (ks_prefix ks @ slash_join cs) = Inr cs"
    by (rule key_components_join) (use assms(2) len in \<open>auto simp: plain_path_def plain_char_def\<close>)
  then show "ensure_owned ks (ks_prefix ks @ slash_join cs) = Inr ()"
    by (simp add: ensure_owned_def)
qed

lemma plain_literals [simp]:
  "\<forall>x\<in>set (bytes_of_string ''v3''). plain_char x" "\<forall>x\<in>set (bytes_of_string ''manifests''). plain_char x"
  "\<forall>x\<in>set (bytes_of_string ''data''). plain_char x" "\<forall>x\<in>set (bytes_of_string ''maps''). plain_char x"
  "\<forall>x\<in>set (bytes_of_string ''raw''). plain_char x" "\<forall>x\<in>set (bytes_of_string ''blocks''). plain_char x"
  "\<forall>x\<in>set (bytes_of_string ''manifest''). plain_char x" "\<forall>x\<in>set (bytes_of_string ''refs''). plain_char x"
  "\<forall>x\<in>set (bytes_of_string ''files''). plain_char x"
  by (auto simp: bytes_of_string_def plain_char_def is_ascii_control_def)

lemma plain_digits [simp]: "\<forall>x\<in>set (hex_digits k n). plain_char x" "\<forall>x\<in>set (id_hex bs). plain_char x"
  using plain_hex_digits plain_id_hex by blast+

lemma plain_preparation [simp]:
  "plain_path (c # cs @ preparation_path f i a @ ds) \<longleftrightarrow> plain_path (c # cs @ ds)"
  "plain_path (protected_path f t @ ds) \<longleftrightarrow> (\<forall>c\<in>set ds. \<forall>x\<in>set c. plain_char x)"
  using plain_preparation_path [of f i a] plain_protected_path [of f t]
  by (auto simp: plain_path_def protected_path_def)

lemma length_slash_join: "length (slash_join cs) = (\<Sum>c\<leftarrow>cs. Suc (length c))"
  by (induction cs) (auto simp: slash_join_def)

lemma length_bytes_of_string [simp]: "length (bytes_of_string cs) = length cs"
  by (simp add: bytes_of_string_def)

lemmas key_defs = key_manifest_def key_raw_payload_def key_block_payload_def key_map_page_def
  key_protected_manifest_def key_protected_raw_payload_def key_protected_block_payload_def
  key_protected_map_page_def key_head_def

lemma built_keys_ok:
  assumes "key_space_ok ks"
  shows "key_ok (key_manifest ks f i a)" "key_ok (key_raw_payload ks f i a)" "key_ok (key_block_payload ks f i a n)"
    "key_ok (key_map_page ks f i a l n)" "key_ok (key_protected_manifest ks f t)"
    "key_ok (key_protected_raw_payload ks f t)" "key_ok (key_protected_block_payload ks f t n)"
    "key_ok (key_protected_map_page ks f t l n)" "key_ok (key_head ks f)"
  unfolding key_defs using plain_preparation_path [of f i a] plain_protected_path [of f t]
  by (auto intro!: built_key(1) [OF assms] simp: plain_path_def length_slash_join preparation_path_def protected_path_def)

lemma built_keys_owned:
  assumes "key_space_ok ks"
  shows "ensure_owned ks (key_manifest ks f i a) = Inr ()" "ensure_owned ks (key_raw_payload ks f i a) = Inr ()"
    "ensure_owned ks (key_block_payload ks f i a n) = Inr ()" "ensure_owned ks (key_map_page ks f i a l n) = Inr ()"
    "ensure_owned ks (key_protected_manifest ks f t) = Inr ()" "ensure_owned ks (key_protected_raw_payload ks f t) = Inr ()"
    "ensure_owned ks (key_protected_block_payload ks f t n) = Inr ()"
    "ensure_owned ks (key_protected_map_page ks f t l n) = Inr ()" "ensure_owned ks (key_head ks f) = Inr ()"
  unfolding key_defs using plain_preparation_path [of f i a] plain_protected_path [of f t]
  by (auto intro!: built_key(4) [OF assms] simp: plain_path_def length_slash_join preparation_path_def protected_path_def)

lemma length_preparation_path [simp]: "length (preparation_path f i a) = 6"
  by (simp add: preparation_path_def)

lemma preparation_paths:
  "plain_path ([bytes_of_string ''v3'', bytes_of_string ''manifests''] @ preparation_path f i a)"
  "length (slash_join ([bytes_of_string ''v3'', bytes_of_string ''manifests''] @ preparation_path f i a)) \<le> 254"
  "plain_path ([bytes_of_string ''v3'', bytes_of_string ''data''] @ preparation_path f i a @ [bytes_of_string ''raw''])"
  "length (slash_join ([bytes_of_string ''v3'', bytes_of_string ''data''] @ preparation_path f i a @
     [bytes_of_string ''raw''])) \<le> 254"
  "plain_path ([bytes_of_string ''v3'', bytes_of_string ''data''] @ preparation_path f i a @
     [bytes_of_string ''blocks'', hex_digits 16 n])"
  "length (slash_join ([bytes_of_string ''v3'', bytes_of_string ''data''] @ preparation_path f i a @
     [bytes_of_string ''blocks'', hex_digits 16 n])) \<le> 254"
  "plain_path ([bytes_of_string ''v3'', bytes_of_string ''maps''] @ preparation_path f i a @
     [hex_digits 2 l, hex_digits 16 n])"
  "length (slash_join ([bytes_of_string ''v3'', bytes_of_string ''maps''] @ preparation_path f i a @
     [hex_digits 2 l, hex_digits 16 n])) \<le> 254"
  using plain_preparation_path [of f i a]
  by (simp_all add: plain_path_def length_slash_join preparation_path_def)

lemma parse_level: "parse_fixed_hex (hex_digits 2 (unat (l :: u8))) 2 = Inr (ucast l :: u64)"
proof -
  have "unat l < 256"
    by (rule order_less_le_trans [OF unsigned_less]) simp
  then have "hex_value (hex_digits 2 (unat l)) = unat l" "try_from_nat (unat l) = Some (ucast l :: u64)"
    by (simp_all add: hex_value_digits try_from_nat_def)
  then show ?thesis
    using plain_hex_digits by (auto simp: parse_fixed_hex_def list_all_iff)
qed

lemma built_keys_parse:
  assumes "key_space_ok ks"
  shows "parse_manifest_key ks f (key_manifest ks f i a) = Inr \<lparr>pk_identity = i, pk_attempt = a\<rparr>"
    and "validate_raw_payload ks f (key_raw_payload ks f i a) = Inr ()"
    and "validate_block_payload ks f n (key_block_payload ks f i a n) = Inr ()"
    and "validate_map_page ks f l n (key_map_page ks f i a l n) = Inr ()"
  unfolding parse_manifest_key_def key_manifest_def validate_raw_payload_def key_raw_payload_def
    validate_block_payload_def key_block_payload_def validate_map_page_def key_map_page_def
    built_key(3) [OF assms preparation_paths(1,2)] built_key(3) [OF assms preparation_paths(3,4)]
    built_key(3) [OF assms preparation_paths(5,6)] built_key(3) [OF assms preparation_paths(7,8)] rbind_simps
  by (simp_all add: parse_preparation_path nth_append parse_fixed_hex_digits parse_level)

end
