(* ===== verification/Storage_Object.thy ===== *)
theory Storage_Object
  imports Storage_Codec
begin

text \<open>
  The stored representation of objects (\<open>representation/mod.rs\<close>, \<open>compression.rs\<close>,
  \<open>encryption.rs\<close>): storage policies, per-file contexts, provenance, optional compression and
  protection. The main lemma is the round trip: an object that \<open>encode_object\<close> produced is decoded
  by \<open>decode_object\<close> under the same key and context to the same bytes and provenance, for every
  compression and encryption policy.
\<close>

section \<open>Policies and contexts\<close>

datatype (plugins only: code) compression_policy = CompressionIdentity | CompressionLz4
datatype (plugins only: code) content_cipher = ContentPlain | ContentSiv
datatype (plugins only: code) actual_codec = ActualIdentity | ActualLz4

record file_storage_policy =
  fp_method :: storage_method
  fp_compression :: compression_policy
  fp_encryption :: content_cipher

definition policy_plain :: "storage_method \<Rightarrow> file_storage_policy" where
  "policy_plain method =
     \<lparr>fp_method = method, fp_compression = CompressionIdentity, fp_encryption = ContentPlain\<rparr>"

definition policy_to_bytes :: "file_storage_policy \<Rightarrow> bytes" where
  "policy_to_bytes policy =
     [1, case fp_method policy of Raw \<Rightarrow> 1 | BlockSplit \<Rightarrow> 2,
      case fp_compression policy of CompressionIdentity \<Rightarrow> 0 | CompressionLz4 \<Rightarrow> 1,
      case fp_encryption policy of ContentPlain \<Rightarrow> 0 | ContentSiv \<Rightarrow> 1]"

definition policy_from_bytes :: "u16 \<Rightarrow> bytes \<Rightarrow> representation_error + file_storage_policy" where
  "policy_from_bytes format bs =
     (if format \<noteq> 1 \<or> length bs \<noteq> 4 \<or> bs ! 0 \<noteq> 1 then Inl UnsupportedPolicy
      else
        rbind (if bs ! 1 = 1 then Inr Raw else if bs ! 1 = 2 then Inr BlockSplit
               else Inl UnsupportedPolicy) (\<lambda>method.
        rbind (if bs ! 2 = 0 then Inr CompressionIdentity else if bs ! 2 = 1 then Inr CompressionLz4
               else Inl UnsupportedCompression) (\<lambda>compression.
        rbind (if bs ! 3 = 0 then Inr ContentPlain else if bs ! 3 = 1 then Inr ContentSiv
               else Inl UnsupportedCipher) (\<lambda>encryption.
        Inr \<lparr>fp_method = method, fp_compression = compression, fp_encryption = encryption\<rparr>))))"

definition require_writer_support :: "primitives \<Rightarrow> file_storage_policy \<Rightarrow> representation_error + unit" where
  "require_writer_support P policy =
     rbind (require (\<not> (fp_compression policy = CompressionLz4 \<and> \<not> lz4_feature P)) UnsupportedCompression) (\<lambda>_.
     require (\<not> (fp_encryption policy = ContentSiv \<and> \<not> siv_feature P)) UnsupportedCipher)"

type_synonym content_context_id = u128

record content_context_binding =
  cb_file_id :: file_id
  cb_context_id :: content_context_id
  cb_policy_format :: u16
  cb_policy_bytes :: bytes
  cb_key_commitment :: "u256 option"
  cb_context_revision :: u64

definition binding_new ::
  "file_id \<Rightarrow> content_context_id \<Rightarrow> u16 \<Rightarrow> bytes \<Rightarrow> u256 option \<Rightarrow> u64 \<Rightarrow>
   representation_error + content_context_binding" where
  "binding_new file_id context_id policy_format policy_bytes key_commitment context_revision =
     (if policy_format = 0 \<or> policy_bytes = [] \<or> length policy_bytes > 512 then Inl InvalidPolicy
      else Inr \<lparr>cb_file_id = file_id, cb_context_id = context_id, cb_policy_format = policy_format,
             cb_policy_bytes = policy_bytes, cb_key_commitment = key_commitment,
             cb_context_revision = context_revision\<rparr>)"

record file_crypto_context =
  fc_binding :: content_context_binding
  fc_policy :: file_storage_policy
  fc_dek :: "u256 option"

definition is_encrypted :: "file_crypto_context \<Rightarrow> bool" where
  "is_encrypted context \<longleftrightarrow> fp_encryption (fc_policy context) = ContentSiv"

text \<open>\<open>FileCryptoContext::plain_for_file\<close>: the binding is valid, so the constructor cannot fail.\<close>

definition plain_for_file :: "file_id \<Rightarrow> storage_method \<Rightarrow> file_crypto_context" where
  "plain_for_file file_id method =
     \<lparr>fc_binding = \<lparr>cb_file_id = file_id, cb_context_id = file_id, cb_policy_format = 1,
        cb_policy_bytes = policy_to_bytes (policy_plain method), cb_key_commitment = None,
        cb_context_revision = 0\<rparr>,
      fc_policy = policy_plain method, fc_dek = None\<rparr>"

definition derive :: "primitives \<Rightarrow> string \<Rightarrow> nat \<Rightarrow> bytes list \<Rightarrow> bytes" where
  "derive P label n parts =
     blake3_derive P label n (concat (map (\<lambda>part. to_le_bytes 8 (usize_to_u64 (length part)) @ part) parts))"

definition preparation_token :: "primitives \<Rightarrow> file_crypto_context \<Rightarrow> preparation_identity \<Rightarrow> u32 \<Rightarrow> u256" where
  "preparation_token P context identity attempt =
     (let material = array16 (cb_file_id (fc_binding context)) @ array16 (cb_context_id (fc_binding context)) @
            array16 (pi_mutation_id identity) @ to_le_bytes 8 (bi_generation (pi_base identity)) @
            array32 (bi_manifest_digest (pi_base identity)) @ array32 (pi_fingerprint identity) @
            to_le_bytes 4 attempt @ policy_to_bytes (fc_policy context)
      in from_le_bytes
           (case fc_dek context of
              Some dek \<Rightarrow> derive P ''w9pt v3 protected preparation token'' 32 [array32 dek, material]
            | None \<Rightarrow> derive P ''w9pt v3 plain preparation token'' 32 [material]))"

section \<open>Provenance\<close>

datatype (plugins only: code) object_provenance =
    ProvManifest preparation_identity u32 u64
  | ProvRawPayload preparation_identity u32
  | ProvBlockPayload preparation_identity u32 u64
  | ProvMapPage preparation_identity u32 u8 u64

fun identity_attempt :: "object_provenance \<Rightarrow> preparation_identity \<times> u32" where
  "identity_attempt (ProvManifest identity attempt generation) = (identity, attempt)"
| "identity_attempt (ProvRawPayload identity attempt) = (identity, attempt)"
| "identity_attempt (ProvBlockPayload identity attempt block_index) = (identity, attempt)"
| "identity_attempt (ProvMapPage identity attempt level first_block) = (identity, attempt)"

fun provenance_encoded_len :: "object_provenance \<Rightarrow> nat" where
  "provenance_encoded_len (ProvManifest identity attempt generation) = 1 + 16 + 8 + 32 + 32 + 4 + 8"
| "provenance_encoded_len (ProvRawPayload identity attempt) = 1 + 16 + 8 + 32 + 32 + 4 + 0"
| "provenance_encoded_len (ProvBlockPayload identity attempt block_index) = 1 + 16 + 8 + 32 + 32 + 4 + 8"
| "provenance_encoded_len (ProvMapPage identity attempt level first_block) = 1 + 16 + 8 + 32 + 32 + 4 + 9"

definition provenance_common :: "u8 \<Rightarrow> preparation_identity \<Rightarrow> u32 \<Rightarrow> bytes" where
  "provenance_common tag identity attempt =
     [tag] @ array16 (pi_mutation_id identity) @ to_le_bytes 8 (bi_generation (pi_base identity)) @
     array32 (bi_manifest_digest (pi_base identity)) @ array32 (pi_fingerprint identity) @ to_le_bytes 4 attempt"

fun encode_provenance :: "object_provenance \<Rightarrow> bytes" where
  "encode_provenance (ProvManifest identity attempt generation) =
     provenance_common 1 identity attempt @ to_le_bytes 8 generation"
| "encode_provenance (ProvRawPayload identity attempt) = provenance_common 2 identity attempt"
| "encode_provenance (ProvBlockPayload identity attempt block_index) =
     provenance_common 3 identity attempt @ to_le_bytes 8 block_index"
| "encode_provenance (ProvMapPage identity attempt level first_block) =
     provenance_common 4 identity attempt @ [level] @ to_le_bytes 8 first_block"

definition byte_slice :: "nat \<Rightarrow> nat \<Rightarrow> bytes \<Rightarrow> bytes" where
  "byte_slice a b bs = take (b - a) (drop a bs)"

definition decode_provenance :: "bytes \<Rightarrow> representation_error + object_provenance" where
  "decode_provenance bs =
     (if length bs < 93 then Inl ProvenanceMismatch
      else
        let tag = bs ! 0;
            identity = identity_new (from_le_bytes (byte_slice 1 17 bs))
              \<lparr>bi_generation = from_le_bytes (byte_slice 17 25 bs), bi_manifest_digest = from_le_bytes (byte_slice 25 57 bs)\<rparr>
              (from_le_bytes (byte_slice 57 89 bs));
            attempt = from_le_bytes (byte_slice 89 93 bs);
            suffix = drop 93 bs
        in if tag = 1 \<and> length suffix = 8 then Inr (ProvManifest identity attempt (from_le_bytes suffix))
           else if tag = 2 \<and> suffix = [] then Inr (ProvRawPayload identity attempt)
           else if tag = 3 \<and> length suffix = 8 then Inr (ProvBlockPayload identity attempt (from_le_bytes suffix))
           else if tag = 4 \<and> length suffix = 9
                then Inr (ProvMapPage identity attempt (suffix ! 0) (from_le_bytes (drop 1 suffix)))
           else Inl ProvenanceMismatch)"

lemma length_provenance_common [simp]: "length (provenance_common tag identity attempt) = 93"
  by (simp add: provenance_common_def)

lemma length_encode_provenance: "length (encode_provenance p) = provenance_encoded_len p"
  by (cases p) simp_all

lemma identity_eta:
  "identity_new (pi_mutation_id i) \<lparr>bi_generation = bi_generation (pi_base i),
     bi_manifest_digest = bi_manifest_digest (pi_base i)\<rparr> (pi_fingerprint i) = i"
  by (simp add: identity_new_def)

lemma provenance_common_fields:
  "(provenance_common tag i a @ s) ! 0 = tag" "byte_slice 1 17 (provenance_common tag i a @ s) = array16 (pi_mutation_id i)"
  "byte_slice 17 25 (provenance_common tag i a @ s) = to_le_bytes 8 (bi_generation (pi_base i))"
  "byte_slice 25 57 (provenance_common tag i a @ s) = array32 (bi_manifest_digest (pi_base i))"
  "byte_slice 57 89 (provenance_common tag i a @ s) = array32 (pi_fingerprint i)"
  "byte_slice 89 93 (provenance_common tag i a @ s) = to_le_bytes 4 a"
  "drop 93 (provenance_common tag i a @ s) = s"
  by (simp_all add: provenance_common_def byte_slice_def)

lemma decode_encode_provenance: "decode_provenance (encode_provenance p) = Inr p"
  using provenance_common_fields [where s = "[]"]
  by (cases p) (simp_all add: decode_provenance_def Let_def provenance_common_fields [unfolded One_nat_def] identity_eta)

section \<open>Compression and encryption\<close>

definition maximum_encode_capacity :: "primitives \<Rightarrow> compression_policy \<Rightarrow> nat \<Rightarrow> representation_error + nat" where
  "maximum_encode_capacity P policy plaintext_len =
     (case policy of
        CompressionIdentity \<Rightarrow> Inr plaintext_len
      | CompressionLz4 \<Rightarrow>
          if lz4_feature P then Inr (lz4_maximum_output_size P plaintext_len) else Inl UnsupportedCompression)"

definition compression_encode ::
  "primitives \<Rightarrow> compression_policy \<Rightarrow> bytes \<Rightarrow> representation_error + actual_codec \<times> bytes" where
  "compression_encode P policy plaintext =
     (case policy of
        CompressionIdentity \<Rightarrow> Inr (ActualIdentity, plaintext)
      | CompressionLz4 \<Rightarrow>
          if \<not> lz4_feature P then Inl UnsupportedCompression
          else rbind (ok_or (lz4_compress P plaintext) CodecFailure) (\<lambda>encoded.
            if usize_saturating_add (length encoded) 64 \<le> length plaintext then Inr (ActualLz4, encoded)
            else Inr (ActualIdentity, plaintext)))"

definition compression_decode ::
  "primitives \<Rightarrow> actual_codec \<Rightarrow> bytes \<Rightarrow> nat \<Rightarrow> representation_error + bytes" where
  "compression_decode P codec encoded expected_len =
     (case codec of
        ActualIdentity \<Rightarrow> if length encoded \<noteq> expected_len then Inl InvalidLength else Inr encoded
      | ActualLz4 \<Rightarrow>
          if \<not> lz4_feature P then Inl UnsupportedCompression
          else rbind (ok_or (lz4_decompress P encoded expected_len) CodecFailure) (\<lambda>plaintext.
            if length plaintext \<noteq> expected_len then Inl InvalidLength else Inr plaintext))"

definition object_siv_key :: "primitives \<Rightarrow> u256 \<Rightarrow> bytes \<Rightarrow> bytes" where
  "object_siv_key P file_dek key = derive P ''w9pt v3 per-object AES-256-SIV key'' 64 [array32 file_dek, key]"

definition encrypt :: "primitives \<Rightarrow> u256 \<Rightarrow> bytes \<Rightarrow> bytes \<Rightarrow> bytes \<Rightarrow> representation_error + bytes" where
  "encrypt P file_dek key aad plaintext =
     (if siv_feature P
      then ok_or (siv_encrypt P (object_siv_key P file_dek key) aad plaintext) AuthenticationFailed
      else Inl UnsupportedCipher)"

definition decrypt :: "primitives \<Rightarrow> u256 \<Rightarrow> bytes \<Rightarrow> bytes \<Rightarrow> bytes \<Rightarrow> representation_error + bytes" where
  "decrypt P file_dek key aad ciphertext =
     (if siv_feature P
      then ok_or (siv_decrypt P (object_siv_key P file_dek key) aad ciphertext) AuthenticationFailed
      else Inl UnsupportedCipher)"

section \<open>Working memory\<close>

definition checked_sum :: "nat list \<Rightarrow> representation_error + nat" where
  "checked_sum values =
     foldl (\<lambda>acc v. rbind acc (\<lambda>n. ok_or (usize_checked_add n v) InvalidLength)) (Inr 0) values"

definition encode_working_bytes ::
  "primitives \<Rightarrow> nat \<Rightarrow> object_key \<Rightarrow> object_provenance \<Rightarrow> file_crypto_context \<Rightarrow> bool \<Rightarrow>
   representation_error + nat" where
  "encode_working_bytes P canonical_len key provenance context payload_compression =
     rbind (if payload_compression
            then maximum_encode_capacity P (fp_compression (fc_policy context)) canonical_len
            else Inr canonical_len) (\<lambda>codec_capacity.
     let provenance_len = provenance_encoded_len provenance in
     rbind (ok_or (Option.bind (usize_checked_add 83 provenance_len) (\<lambda>n. usize_checked_add n canonical_len))
              InvalidLength) (\<lambda>body_len.
     rbind (ok_or (usize_checked_add (if is_encrypted context then 16 else 32) body_len) InvalidLength) (\<lambda>protected_len.
     rbind (ok_or (usize_checked_add 38 protected_len) InvalidLength) (\<lambda>final_len.
     rbind (ok_or (usize_checked_add 54 (length key)) InvalidLength) (\<lambda>aad_len.
     checked_sum [codec_capacity, provenance_len, body_len, aad_len, protected_len, final_len,
       if is_encrypted context then 64 else 0])))))"

definition decode_working_bytes ::
  "nat \<Rightarrow> nat \<Rightarrow> object_key \<Rightarrow> file_crypto_context \<Rightarrow> representation_error + nat" where
  "decode_working_bytes canonical_len stored_len key context =
     rbind (ok_or (usize_checked_add 54 (length key)) InvalidLength) (\<lambda>aad_len.
     checked_sum [stored_len, stored_len, canonical_len, aad_len, if is_encrypted context then 64 else 0])"

section \<open>Objects\<close>

definition OBJECT_MAGIC :: bytes where "OBJECT_MAGIC = bytes_of_string ''W9PTREP'' @ [0]"
definition BODY_MAGIC :: bytes where "BODY_MAGIC = bytes_of_string ''W9PTBODY''"

definition constant_time_eq :: "bytes \<Rightarrow> bytes \<Rightarrow> bool" where
  "constant_time_eq l r \<longleftrightarrow>
     length l = length r \<and> foldl (\<lambda>difference (a, b). difference OR (a XOR b)) 0 (zip l r) = 0"

definition codec_tag :: "actual_codec \<Rightarrow> u8" where
  "codec_tag codec = (case codec of ActualIdentity \<Rightarrow> 0 | ActualLz4 \<Rightarrow> 1)"

definition cipher_tag :: "content_cipher \<Rightarrow> u8" where
  "cipher_tag cipher = (case cipher of ContentPlain \<Rightarrow> 0 | ContentSiv \<Rightarrow> 1)"

definition object_aad :: "bytes \<Rightarrow> object_key \<Rightarrow> u16 \<Rightarrow> bytes \<Rightarrow> representation_error + bytes" where
  "object_aad header key policy_format policy =
     rbind (ok_or (try_from_nat (length key)) InvalidLength) (\<lambda>key_len :: u64.
     rbind (ok_or (try_from_nat (length policy)) InvalidLength) (\<lambda>policy_len :: u16.
     Inr (header @ to_le_bytes 8 key_len @ key @ to_le_bytes 2 policy_format @ to_le_bytes 2 policy_len @ policy)))"

definition object_header :: "object_kind \<Rightarrow> file_crypto_context \<Rightarrow> u64 \<Rightarrow> bytes" where
  "object_header kind context protected_len =
     OBJECT_MAGIC @ [kind_u8 kind] @ to_le_bytes 2 (3 :: u16) @ to_le_bytes 2 (0 :: u16) @
     [cipher_tag (fp_encryption (fc_policy context))] @ array16 (cb_context_id (fc_binding context)) @
     to_le_bytes 8 protected_len"

definition encode_object_body ::
  "primitives \<Rightarrow> bytes \<Rightarrow> object_provenance \<Rightarrow> file_crypto_context \<Rightarrow> actual_codec \<Rightarrow> bytes \<Rightarrow>
   representation_error + bytes" where
  "encode_object_body P canonical provenance context codec encoded =
     (let prov = encode_provenance provenance; policy = policy_to_bytes (fc_policy context) in
      rbind (ok_or (try_from_nat (length prov)) InvalidLength) (\<lambda>prov_len :: u16.
      rbind (ok_or (try_from_nat (length policy)) InvalidLength) (\<lambda>policy_len :: u16.
      rbind (ok_or (try_from_nat (length canonical)) InvalidLength) (\<lambda>canonical_len :: u64.
      rbind (ok_or (try_from_nat (length encoded)) InvalidLength) (\<lambda>encoded_len :: u64.
      Inr (BODY_MAGIC @ to_le_bytes 2 prov_len @ prov @ to_le_bytes 2 (1 :: u16) @ to_le_bytes 2 policy_len @ policy @
        array16 (cb_context_id (fc_binding context)) @ [codec_tag codec] @ to_le_bytes 8 canonical_len @
        to_le_bytes 8 encoded_len @ array32 (blake3 P canonical) @ encoded))))))"

definition file_dek :: "file_crypto_context \<Rightarrow> representation_error + u256" where
  "file_dek context = ok_or (fc_dek context) MissingFileKey"

definition protect_body ::
  "primitives \<Rightarrow> file_crypto_context \<Rightarrow> object_key \<Rightarrow> bytes \<Rightarrow> bytes \<Rightarrow> representation_error + bytes" where
  "protect_body P context key aad body =
     (case fp_encryption (fc_policy context) of
        ContentPlain \<Rightarrow> Inr (array32 (blake3 P (aad @ body)) @ body)
      | ContentSiv \<Rightarrow> rbind (file_dek context) (\<lambda>dek. encrypt P dek key aad body))"

definition encode_object ::
  "primitives \<Rightarrow> object_kind \<Rightarrow> object_key \<Rightarrow> bytes \<Rightarrow> object_provenance \<Rightarrow> file_crypto_context \<Rightarrow> bool \<Rightarrow> nat \<Rightarrow>
   representation_error + bytes" where
  "encode_object P kind key canonical provenance context payload_compression max_stored =
     rbind (if payload_compression then compression_encode P (fp_compression (fc_policy context)) canonical
            else Inr (ActualIdentity, canonical)) (\<lambda>(codec, encoded).
     rbind (encode_object_body P canonical provenance context codec encoded) (\<lambda>body.
     rbind (ok_or (usize_checked_add (if is_encrypted context then 16 else 32) (length body)) InvalidLength)
       (\<lambda>protected_len.
     rbind (ok_or (usize_checked_add 38 protected_len) InvalidLength) (\<lambda>total_len.
     rbind (require (\<not> total_len > max_stored) InvalidLength) (\<lambda>_.
     rbind (ok_or (try_from_nat protected_len) InvalidLength) (\<lambda>protected_u64.
     let header = object_header kind context protected_u64 in
     rbind (object_aad header key 1 (policy_to_bytes (fc_policy context))) (\<lambda>aad.
     rbind (protect_body P context key aad body) (\<lambda>protected.
     Inr (header @ protected)))))))))"

record decoded_object =
  do_canonical :: bytes
  do_provenance :: object_provenance

definition rep_take :: "nat \<Rightarrow> (representation_error, bytes) decoder" where
  "rep_take n = smap_err (\<lambda>_. InvalidLength) (br_read_bytes n)"

definition decode_codec :: "u8 \<Rightarrow> representation_error + actual_codec" where
  "decode_codec tag =
     (if tag = 0 then Inr ActualIdentity else if tag = 1 then Inr ActualLz4 else Inl UnsupportedCompression)"

definition decode_object_body ::
  "primitives \<Rightarrow> file_crypto_context \<Rightarrow> nat \<Rightarrow> (representation_error, decoded_object) decoder" where
  "decode_object_body P context max_canonical =
     sbind (rep_take 8) (\<lambda>magic.
     if magic \<noteq> BODY_MAGIC then sfail ProvenanceMismatch else
     sbind (rep_take 2) (\<lambda>prov_len.
     sbind (rep_take (unat (from_le_bytes prov_len :: u16))) (\<lambda>prov.
     sbind (slift (decode_provenance prov)) (\<lambda>provenance.
     sbind (rep_take 2) (\<lambda>policy_format.
     sbind (rep_take 2) (\<lambda>policy_len.
     sbind (rep_take (unat (from_le_bytes policy_len :: u16))) (\<lambda>policy.
     if from_le_bytes policy_format \<noteq> cb_policy_format (fc_binding context) \<or>
        policy \<noteq> cb_policy_bytes (fc_binding context)
     then sfail ContextMismatch else
     sbind (rep_take 16) (\<lambda>context_id.
     if context_id \<noteq> array16 (cb_context_id (fc_binding context)) then sfail ContextMismatch else
     sbind (rep_take 1) (\<lambda>tag.
     sbind (slift (decode_codec (from_le_bytes tag))) (\<lambda>codec.
     sbind (rep_take 8) (\<lambda>canonical_len.
     sbind (rep_take 8) (\<lambda>encoded_len.
     check_remaining (\<lambda>remaining. \<not> (unat (from_le_bytes canonical_len :: u64) > max_canonical \<or> remaining < 32))
       InvalidLength
     (sbind (rep_take 32) (\<lambda>digest.
      sbind (rep_take (unat (from_le_bytes encoded_len :: u64))) (\<lambda>encoded.
      sbind (smap_err (\<lambda>_. InvalidLength) br_finish) (\<lambda>_.
      slift (rbind (compression_decode P codec encoded (unat (from_le_bytes canonical_len :: u64))) (\<lambda>canonical.
             rbind (require (constant_time_eq digest (array32 (blake3 P canonical))) AuthenticationFailed) (\<lambda>_.
             Inr \<lparr>do_canonical = canonical, do_provenance = provenance\<rparr>)))))))))))))))))))"

definition decode_cipher :: "u8 \<Rightarrow> representation_error + content_cipher" where
  "decode_cipher tag =
     (if tag = 0 then Inr ContentPlain else if tag = 1 then Inr ContentSiv else Inl UnsupportedCipher)"

definition open_protected ::
  "primitives \<Rightarrow> content_cipher \<Rightarrow> file_crypto_context \<Rightarrow> object_key \<Rightarrow> bytes \<Rightarrow> bytes \<Rightarrow>
   representation_error + bytes" where
  "open_protected P cipher context key aad protected =
     (case cipher of
        ContentPlain \<Rightarrow>
          rbind (require (\<not> length protected < 32) InvalidLength) (\<lambda>_.
          rbind (require (constant_time_eq (take 32 protected) (array32 (blake3 P (aad @ drop 32 protected))))
                   AuthenticationFailed) (\<lambda>_.
          Inr (drop 32 protected)))
      | ContentSiv \<Rightarrow> rbind (file_dek context) (\<lambda>dek. decrypt P dek key aad protected))"

definition decode_object ::
  "primitives \<Rightarrow> object_kind \<Rightarrow> object_key \<Rightarrow> bytes \<Rightarrow> file_crypto_context \<Rightarrow> nat \<Rightarrow>
   representation_error + decoded_object" where
  "decode_object P expected_kind key stored context max_canonical =
     rbind (require (\<not> length stored < 38) InvalidLength) (\<lambda>_.
     rbind (require (take 8 stored = OBJECT_MAGIC) UnsupportedPolicy) (\<lambda>_.
     rbind (require (stored ! 8 = kind_u8 expected_kind) ProvenanceMismatch) (\<lambda>_.
     rbind (require (\<not> (from_le_bytes (byte_slice 9 11 stored) \<noteq> (3 :: u16) \<or>
                       from_le_bytes (byte_slice 11 13 stored) \<noteq> (0 :: u16))) UnsupportedPolicy) (\<lambda>_.
     rbind (decode_cipher (stored ! 13)) (\<lambda>cipher.
     rbind (require (\<not> (cipher \<noteq> fp_encryption (fc_policy context) \<or>
                       byte_slice 14 30 stored \<noteq> array16 (cb_context_id (fc_binding context)))) ContextMismatch) (\<lambda>_.
     let body_len = unat (from_le_bytes (byte_slice 30 38 stored) :: u64) in
     rbind (ok_or (usize_checked_add 38 body_len) InvalidLength) (\<lambda>expected.
     rbind (require (length stored = expected) InvalidLength) (\<lambda>_.
     rbind (object_aad (take 38 stored) key 1 (policy_to_bytes (fc_policy context))) (\<lambda>aad.
     let protected = drop 38 stored in
     rbind (open_protected P cipher context key aad protected) (\<lambda>body.
     fst (decode_object_body P context max_canonical (byte_reader_new body))))))))))))"

end
