(* ===== verification/Storage_Object_Codec.thy ===== *)
theory Storage_Object_Codec
  imports Storage_Object
begin

text \<open>
  Round trip of stored objects. Under the documented behaviour of the compression and encryption
  crates (\<open>primitives_ok\<close>) and for a context whose binding carries its own policy
  (\<open>context_ok\<close>), the bytes that \<open>encode_object\<close> returns decode to the canonical bytes
  and the provenance they were made from. The comparison that runs in constant time is equality.
\<close>

unbundle bit_operations_syntax

definition context_ok :: "file_crypto_context \<Rightarrow> bool" where
  "context_ok context \<longleftrightarrow>
     cb_policy_format (fc_binding context) = 1 \<and>
     cb_policy_bytes (fc_binding context) = policy_to_bytes (fc_policy context)"

definition primitives_ok :: "primitives \<Rightarrow> bool" where
  "primitives_ok P \<longleftrightarrow>
     (\<forall>x c. lz4_compress P x = Some c \<longrightarrow> lz4_decompress P c (length x) = Some x) \<and>
     (\<forall>key aad x c. siv_encrypt P key aad x = Some c \<longrightarrow>
        siv_decrypt P key aad c = Some x \<and> length c = 16 + length x)"

lemma word_or_xor_zero: "d OR (x XOR y) = 0 \<longleftrightarrow> d = 0 \<and> x = (y :: u8)"
  by (metis or_eq_0_iff xor.left_commute xor.right_neutral xor_self_eq)

lemma difference_accumulates:
  "length l = length r \<Longrightarrow>
   foldl (\<lambda>difference (a, b). difference OR (a XOR b)) d (zip l r) = 0 \<longleftrightarrow> d = (0 :: u8) \<and> l = r"
  by (induction l r arbitrary: d rule: list_induct2) (auto simp: word_or_xor_zero)

lemma constant_time_eq_iff [simp]: "constant_time_eq l r \<longleftrightarrow> l = r"
  by (auto simp: constant_time_eq_def difference_accumulates)

lemma decoder_finish_err:
  "object_decoder (sbind (smap_err f br_finish) (\<lambda>_. slift g)) (\<lambda>y b. g = Inr y \<and> b = [])"
  by unfold_locales
    (auto simp: br_finish_def smap_err_def map_err_def sbind_def slift_def br_ok_def br_rest_def)

lemma field_rep_take [field_intros]: "object_field (rep_take n) (\<lambda>x b. length x = n \<and> b = x)"
  unfolding rep_take_def by (rule field_smap_err) (rule field_read_bytes)

lemma decoded_object_eq:
  "\<lparr>do_canonical = c, do_provenance = p\<rparr> = (y :: decoded_object) \<longleftrightarrow> do_canonical y = c \<and> do_provenance y = p"
  by (cases y) auto

lemma decode_object_body_relation:
  "object_decoder (decode_object_body P context mx) (\<lambda>y b.
     \<exists>pl prov pf ql tag codec cl el encoded.
       length pl = 2 \<and> length prov = unat (from_le_bytes pl :: u16) \<and> decode_provenance prov = Inr (do_provenance y) \<and>
       length pf = 2 \<and> length ql = 2 \<and>
       length (cb_policy_bytes (fc_binding context)) = unat (from_le_bytes ql :: u16) \<and>
       from_le_bytes pf = cb_policy_format (fc_binding context) \<and>
       length tag = Suc 0 \<and> decode_codec (from_le_bytes tag) = Inr codec \<and>
       length cl = 8 \<and> length el = 8 \<and> \<not> mx < unat (from_le_bytes cl :: u64) \<and>
       length encoded = unat (from_le_bytes el :: u64) \<and>
       compression_decode P codec encoded (unat (from_le_bytes cl :: u64)) = Inr (do_canonical y) \<and>
       b = BODY_MAGIC @ pl @ prov @ pf @ ql @ cb_policy_bytes (fc_binding context) @
         array16 (cb_context_id (fc_binding context)) @ tag @ cl @ el @
         array32 (blake3 P (do_canonical y)) @ encoded)"
  unfolding decode_object_body_def
  by (rule object_decoder_cong, ((rule decoder_finish_err decoder_intros field_intros)+)[1])
    (simp del: ex_simps add: prenex decoded_object_eq BODY_MAGIC_def bytes_of_string_def)

lemma decode_codec_tag [simp]: "decode_codec (codec_tag codec) = Inr codec"
  by (simp add: decode_codec_def codec_tag_def split: actual_codec.splits)

lemma length_policy_to_bytes [simp]: "length (policy_to_bytes policy) = 4"
  by (simp add: policy_to_bytes_def)

lemma from_le_bytes_single [simp]: "from_le_bytes [x :: u8] = x"
  using from_to_le_bytes [of 1 x] by simp

lemma decode_encode_object_body:
  assumes "context_ok context"
    and body: "encode_object_body P canonical prov context codec encoded = Inr body"
    and "compression_decode P codec encoded (length canonical) = Inr canonical"
    and "length canonical \<le> mx" and "length body \<le> usize_max"
  shows "fst (decode_object_body P context mx (byte_reader_new body)) =
    Inr \<lparr>do_canonical = canonical, do_provenance = prov\<rparr>"
proof -
  obtain pl :: u16 and ql :: u16 and cl :: u64 and el :: u64
    where lens: "try_from_nat (length (encode_provenance prov)) = Some pl" "try_from_nat 4 = Some ql"
      "try_from_nat (length canonical) = Some cl" "try_from_nat (length encoded) = Some el"
      and bytes: "body = BODY_MAGIC @ to_le_bytes 2 pl @ encode_provenance prov @ to_le_bytes 2 (1 :: u16) @
        to_le_bytes 2 ql @ policy_to_bytes (fc_policy context) @
        array16 (cb_context_id (fc_binding context)) @ [codec_tag codec] @ to_le_bytes 8 cl @
        to_le_bytes 8 el @ array32 (blake3 P canonical) @ encoded"
    using body by (auto simp: encode_object_body_def Let_def)
  show ?thesis
    unfolding object_decoder.decodes_new [OF decode_object_body_relation assms(5)]
    by (rule exI [of _ "to_le_bytes 2 pl"], rule exI [of _ "encode_provenance prov"],
        rule exI [of _ "to_le_bytes 2 (1 :: u16)"], rule exI [of _ "to_le_bytes 2 ql"],
        rule exI [of _ "[codec_tag codec]"], rule exI [of _ codec], rule exI [of _ "to_le_bytes 8 cl"],
        rule exI [of _ "to_le_bytes 8 el"], rule exI [of _ encoded])
      (use assms(1,3,4) lens in
        \<open>simp add: bytes context_ok_def from_to_le_bytes try_from_nat_Some_iff decode_encode_provenance\<close>)
qed

lemma compression_round_trip:
  assumes "primitives_ok P" and "compression_encode P policy canonical = Inr (codec, encoded)"
  shows "compression_decode P codec encoded (length canonical) = Inr canonical"
  using assms
  by (auto simp: compression_encode_def compression_decode_def primitives_ok_def ok_or_eq_Inr
      split: compression_policy.splits if_splits)

lemma decrypt_encrypt:
  assumes "primitives_ok P" and "encrypt P dek key aad body = Inr c"
  shows "decrypt P dek key aad c = Inr body" and "length c = 16 + length body"
  using assms by (auto simp: encrypt_def decrypt_def primitives_ok_def ok_or_eq_Inr ok_or_def
      split: if_splits option.splits)

lemma length_object_header [simp]: "length (object_header kind context n) = 38"
  by (simp add: object_header_def OBJECT_MAGIC_def bytes_of_string_def)

lemma object_header_fields:
  fixes rest :: bytes and ctx :: file_crypto_context and kind :: object_kind and n :: u64
  defines "stored \<equiv> object_header kind ctx n @ rest"
  shows "take 8 stored = OBJECT_MAGIC" "take 8 (object_header kind ctx n) = OBJECT_MAGIC" "stored ! 8 = kind_u8 kind"
    "from_le_bytes (byte_slice 9 11 stored) = (3 :: u16)" "from_le_bytes (byte_slice 11 13 stored) = (0 :: u16)"
    "stored ! 13 = cipher_tag (fp_encryption (fc_policy ctx))"
    "byte_slice 14 30 stored = array16 (cb_context_id (fc_binding ctx))"
    "from_le_bytes (byte_slice 30 38 stored) = n" 
  by (simp_all add: stored_def object_header_def byte_slice_def OBJECT_MAGIC_def bytes_of_string_def nth_append
      from_to_le_bytes)

lemma object_protected:
  assumes "primitives_ok P" and "protect_body P context key aad body = Inr protected"
  shows "length protected = (if is_encrypted context then 16 else 32) + length body"
    and "open_protected P (fp_encryption (fc_policy context)) context key aad protected = Inr body"
  using assms decrypt_encrypt [OF assms(1)]
  by (auto simp: protect_body_def open_protected_def is_encrypted_def require_def split: content_cipher.splits)

lemma decode_cipher_tag [simp]: "decode_cipher (cipher_tag c) = Inr c"
  by (simp add: cipher_tag_def decode_cipher_def split: content_cipher.splits)

lemma decode_encode_object:
  assumes P: "primitives_ok P" and ctx: "context_ok context"
    and enc: "encode_object P kind key canonical prov context compress mx = Inr stored"
    and len: "length canonical \<le> max_canonical"
  shows "decode_object P kind key stored context max_canonical =
      Inr \<lparr>do_canonical = canonical, do_provenance = prov\<rparr>" and "length stored \<le> mx"
proof -
  obtain codec encoded body protected_len n aad protected
    where codec: "(if compress then compression_encode P (fp_compression (fc_policy context)) canonical
            else Inr (ActualIdentity, canonical)) = Inr (codec, encoded)"
      and body: "encode_object_body P canonical prov context codec encoded = Inr body"
      and plen: "usize_checked_add (if is_encrypted context then 16 else 32) (length body) = Some protected_len"
      and total: "usize_checked_add 38 protected_len = Some (38 + protected_len)" "38 + protected_len \<le> mx"
      and n: "try_from_nat protected_len = Some n"
      and aad: "object_aad (object_header kind context n) key 1 (policy_to_bytes (fc_policy context)) = Inr aad"
      and prot: "protect_body P context key aad body = Inr protected"
      and stored: "stored = object_header kind context n @ protected"
    using enc unfolding encode_object_def Let_def
    by (auto simp: ok_or_eq_Inr usize_checked_add_def split: if_splits)
  have "compression_decode P codec encoded (length canonical) = Inr canonical"
  proof (cases compress)
    case True
    with codec show ?thesis using compression_round_trip [OF P] by simp
  next
    case False
    with codec show ?thesis by (auto simp: compression_decode_def)
  qed
  moreover have plen': "protected_len = (if is_encrypted context then 16 else 32) + length body" "length body \<le> usize_max"
    using plen by (auto simp: usize_checked_add_def split: if_splits)
  ultimately have dec: "fst (decode_object_body P context max_canonical (byte_reader_new body)) =
      Inr \<lparr>do_canonical = canonical, do_provenance = prov\<rparr>"
    using decode_encode_object_body [OF ctx body] len by blast
  have len_prot: "length protected = protected_len"
    using object_protected(1) [OF P prot] plen' by simp
  then show "length stored \<le> mx" using total stored by simp
  have "unat n = protected_len" using n by (simp add: try_from_nat_Some_iff)
  then show "decode_object P kind key stored context max_canonical =
      Inr \<lparr>do_canonical = canonical, do_provenance = prov\<rparr>"
    unfolding decode_object_def stored Let_def
    by (simp add: object_header_fields require_def len_prot total aad object_protected(2) [OF P prot]
        dec ok_or_def del: constant_time_eq_iff)
qed

section \<open>Sizes of objects\<close>

lemma compression_encode_length:
  assumes "compression_encode P policy canonical = Inr (codec, encoded)" and "length canonical < usize_max"
  shows "length encoded \<le> length canonical"
  using assms by (auto simp: compression_encode_def usize_saturating_add_def ok_or_eq_Inr
      split: compression_policy.splits if_splits)

lemma compression_encode_err: "compression_encode P policy canonical \<noteq> Inl InvalidLength"
  by (auto simp: compression_encode_def rbind_def ok_or_def split: compression_policy.splits option.splits)

lemma encode_object_body_fits:
  assumes "length canonical \<le> usize_max" and "length encoded \<le> usize_max"
  obtains body where "encode_object_body P canonical prov context codec encoded = Inr body"
    and "length body = 83 + provenance_encoded_len prov + length encoded"
proof -
  have "provenance_encoded_len prov < 2 ^ 16"
    by (cases prov) simp_all
  then show thesis
    using assms that
    by (auto simp: encode_object_body_def Let_def ok_or_def try_from_nat_def usize_max_def
        length_encode_provenance BODY_MAGIC_def bytes_of_string_def)
qed

lemma object_aad_fits:
  assumes "length key \<le> usize_max"
  obtains aad where "object_aad header key policy_format (policy_to_bytes policy) = Inr aad"
  using assms that by (auto simp: object_aad_def ok_or_def try_from_nat_def usize_max_def)

lemma protect_body_err: "protect_body P context key aad body \<noteq> Inl InvalidLength"
  by (auto simp: protect_body_def file_dek_def encrypt_def rbind_def ok_or_def
      split: content_cipher.splits option.splits)

text \<open>
  An object whose bytes, provenance and 153 bytes of framing fit the limit is not refused for its
  length: the codec never makes the content longer.
\<close>

lemma encode_object_fits:
  assumes fits: "153 + provenance_encoded_len prov + length canonical \<le> mx" "mx \<le> usize_max"
    and key: "length key \<le> usize_max"
    and codec: "(if compress then compression_encode P (fp_compression (fc_policy context)) canonical
            else Inr (ActualIdentity, canonical)) = Inr (codec, encoded)"
  obtains n aad body where
    "encode_object P kind key canonical prov context compress mx =
       rbind (protect_body P context key aad body) (\<lambda>protected. Inr (object_header kind context n @ protected))"
    and "length body = 83 + provenance_encoded_len prov + length encoded"
proof -
  have encoded: "length encoded \<le> length canonical"
    using codec fits compression_encode_length [of P _ canonical codec encoded] by (auto split: if_splits)
  obtain body where body: "encode_object_body P canonical prov context codec encoded = Inr body"
      "length body = 83 + provenance_encoded_len prov + length encoded"
    using encode_object_body_fits [of canonical encoded P prov _ codec] encoded fits
    by (metis add_leD2 le_trans)
  let ?len = "(if is_encrypted context then 16 else 32) + length body"
  have len: "38 + ?len \<le> mx"
    using body(2) encoded fits by simp
  then have "?len < 2 ^ 64"
    using fits(2) by (simp add: usize_max_def)
  moreover obtain aad where "object_aad (object_header kind context (of_nat ?len)) key 1
      (policy_to_bytes (fc_policy context)) = Inr aad"
    using object_aad_fits [OF key] .
  ultimately have "encode_object P kind key canonical prov context compress mx =
       rbind (protect_body P context key aad body)
         (\<lambda>protected. Inr (object_header kind context (of_nat ?len) @ protected))"
    using codec body(1) len fits(2)
    by (simp add: encode_object_def Let_def ok_or_def usize_checked_add_def try_from_nat_def require_def)
  then show thesis
    using that body(2) by blast
qed

lemma encode_object_length_ok:
  assumes "153 + provenance_encoded_len prov + length canonical \<le> mx" "mx \<le> usize_max"
    and "length key \<le> usize_max"
  shows "encode_object P kind key canonical prov context compress mx \<noteq> Inl InvalidLength"
proof (cases "if compress then compression_encode P (fp_compression (fc_policy context)) canonical
            else Inr (ActualIdentity, canonical)")
  case (Inl e)
  then show ?thesis
    using compression_encode_err [of P _ canonical] by (auto simp: encode_object_def split: if_splits)
next
  case (Inr r)
  obtain codec encoded where "r = (codec, encoded)" by fastforce
  with Inr obtain n aad body where run: "encode_object P kind key canonical prov context compress mx =
      rbind (protect_body P context key aad body) (\<lambda>protected. Inr (object_header kind context n @ protected))"
    using encode_object_fits [OF assms] by metis
  show ?thesis
    unfolding run using protect_body_err by (auto simp: rbind_def split: sum.split)
qed

lemma encode_object_plain:
  assumes "153 + provenance_encoded_len prov + length canonical \<le> mx" "mx \<le> usize_max"
    and "length key \<le> usize_max"
    and plain: "fp_encryption (fc_policy context) = ContentPlain"
      "compress \<longrightarrow> fp_compression (fc_policy context) = CompressionIdentity"
  shows "\<exists>stored. encode_object P kind key canonical prov context compress mx = Inr stored \<and>
    length stored = 153 + provenance_encoded_len prov + length canonical"
proof -
  have "(if compress then compression_encode P (fp_compression (fc_policy context)) canonical
      else Inr (ActualIdentity, canonical)) = Inr (ActualIdentity, canonical)"
    using plain(2) by (simp add: compression_encode_def)
  from encode_object_fits [OF assms(1-3) this] obtain n aad body where
    run: "encode_object P kind key canonical prov context compress mx =
       rbind (protect_body P context key aad body) (\<lambda>protected. Inr (object_header kind context n @ protected))"
    and len: "length body = 83 + provenance_encoded_len prov + length canonical" .
  show ?thesis
    unfolding run using plain(1) len by (simp add: protect_body_def)
qed

end
