(* ===== verification/Storage_Repository.thy ===== *)
theory Storage_Repository
  imports Storage_Target Storage_Manifest Storage_Keys Storage_Object_Codec
begin

text \<open>
  The content repository (\<open>repository.rs\<close>): immutable objects are stored under keys derived from
  their provenance and every object that is loaded is verified against the reference that names it.
  A load is a read of the target followed by a pure check; the checks are the definitions
  \<open>open_manifest\<close>, \<open>open_payload\<close> and \<open>open_page\<close>.
\<close>

section \<open>Repository\<close>

record creation_defaults =
  cd_method :: storage_method
  cd_representation :: representation
  cd_block_split :: block_split_parameters

definition creation_defaults_new :: "storage_method \<Rightarrow> creation_defaults" where
  "creation_defaults_new method =
     \<lparr>cd_method = method, cd_representation = representation_current, cd_block_split = block_split_current\<rparr>"

record ('t, 'e) repository =
  rp_target :: "('t, 'e) target_store"
  rp_keys :: key_space
  rp_defaults :: creation_defaults
  rp_limits :: storage_limits

definition repository_new ::
  "('t, 'e) target_store \<Rightarrow> rstring \<Rightarrow> creation_defaults \<Rightarrow> storage_limits \<Rightarrow> configuration_error + ('t, 'e) repository" where
  "repository_new target private_prefix defaults limits =
     rbind (validate_writable (ts_guarantees target)) (\<lambda>_.
     rbind (key_space_new private_prefix limits) (\<lambda>keys.
     Inr \<lparr>rp_target = target, rp_keys = keys, rp_defaults = defaults, rp_limits = limits\<rparr>))"

record prepared_content =
  pc_content :: content_ref
  pc_content_changed :: bool
  pc_identity :: preparation_identity
  pc_attempt :: u32
  pc_binding :: content_context_binding

definition prepared_content_new ::
  "content_ref \<Rightarrow> bool \<Rightarrow> preparation_identity \<Rightarrow> u32 \<Rightarrow> content_context_binding \<Rightarrow> prepared_content" where
  "prepared_content_new content content_changed identity attempt binding =
     \<lparr>pc_content = content, pc_content_changed = content_changed, pc_identity = identity,
      pc_attempt = attempt, pc_binding = binding\<rparr>"

section \<open>Checks\<close>

definition check_input_limit :: "storage_limit_kind \<Rightarrow> nat \<Rightarrow> nat \<Rightarrow> 'e storage_error + unit" where
  "check_input_limit kind actual limit =
     require (\<not> actual > limit) (StLimit (limit_error_new kind (usize_to_u64 actual) (usize_to_u64 limit)))"

definition check_representation_work :: "('t, 'e) repository \<Rightarrow> nat \<Rightarrow> 'e storage_error + unit" where
  "check_representation_work R actual =
     (let limit = max_representation_working_bytes (rp_limits R) in
      require (\<not> actual > limit)
        (StLimit (limit_error_new LkRepresentationWorkingBytes (usize_to_u64 actual) (usize_to_u64 limit))))"

definition check_encode_representation_work ::
  "primitives \<Rightarrow> ('t, 'e) repository \<Rightarrow> nat \<Rightarrow> object_key \<Rightarrow> object_provenance \<Rightarrow> file_crypto_context \<Rightarrow> bool \<Rightarrow>
   'e storage_error + unit" where
  "check_encode_representation_work P R canonical_len key provenance context payload_compression =
     rbind (map_err StRepresentation (encode_working_bytes P canonical_len key provenance context payload_compression))
       (check_representation_work R)"

definition check_decode_representation_work ::
  "('t, 'e) repository \<Rightarrow> nat \<Rightarrow> nat \<Rightarrow> object_key \<Rightarrow> file_crypto_context \<Rightarrow> 'e storage_error + unit" where
  "check_decode_representation_work R canonical_len stored_len key context =
     rbind (map_err StRepresentation (decode_working_bytes canonical_len stored_len key context))
       (check_representation_work R)"

definition validate_context :: "file_id \<Rightarrow> storage_method \<Rightarrow> file_crypto_context \<Rightarrow> 'e storage_error + unit" where
  "validate_context file_id method context =
     require (\<not> (cb_file_id (fc_binding context) \<noteq> file_id \<or> fp_method (fc_policy context) \<noteq> method))
       (StRepresentation ContextMismatch)"

definition repository_object_key ::
  "primitives \<Rightarrow> ('t, 'e) repository \<Rightarrow> file_crypto_context \<Rightarrow> file_id \<Rightarrow> object_provenance \<Rightarrow> object_key" where
  "repository_object_key P R context file_id provenance =
     (let (identity, attempt) = identity_attempt provenance in
      if is_encrypted context
      then
        let token = preparation_token P context identity attempt in
        case provenance of
          ProvManifest _ _ _ \<Rightarrow> key_protected_manifest (rp_keys R) file_id token
        | ProvRawPayload _ _ \<Rightarrow> key_protected_raw_payload (rp_keys R) file_id token
        | ProvBlockPayload _ _ block_index \<Rightarrow> key_protected_block_payload (rp_keys R) file_id token block_index
        | ProvMapPage _ _ level first_block \<Rightarrow> key_protected_map_page (rp_keys R) file_id token level first_block
      else
        case provenance of
          ProvManifest _ _ _ \<Rightarrow> key_manifest (rp_keys R) file_id identity attempt
        | ProvRawPayload _ _ \<Rightarrow> key_raw_payload (rp_keys R) file_id identity attempt
        | ProvBlockPayload _ _ block_index \<Rightarrow> key_block_payload (rp_keys R) file_id identity attempt block_index
        | ProvMapPage _ _ level first_block \<Rightarrow> key_map_page (rp_keys R) file_id identity attempt level first_block)"

definition validate_object_key ::
  "primitives \<Rightarrow> ('t, 'e) repository \<Rightarrow> file_crypto_context \<Rightarrow> file_id \<Rightarrow> object_provenance \<Rightarrow> object_key \<Rightarrow>
   'e storage_error + unit" where
  "validate_object_key P R context file_id provenance actual =
     require (repository_object_key P R context file_id provenance = actual) (StCorruption InvalidKeySchema)"

definition validate_manifest_payloads ::
  "('t, 'e) repository \<Rightarrow> file_manifest \<Rightarrow> file_crypto_context \<Rightarrow> 'e storage_error + unit" where
  "validate_manifest_payloads R manifest context =
     (case fm_layout manifest of
        RawLayout blob \<Rightarrow>
          (case blob of
             None \<Rightarrow> Inr ()
           | Some b \<Rightarrow>
               if is_encrypted context then Inr ()
               else map_err StCorruption (validate_raw_payload (rp_keys R) (fm_file_id manifest) (bl_key b)))
      | BlockSplitLayout parameters root \<Rightarrow>
          (case root of
             None \<Rightarrow> Inr ()
           | Some r \<Rightarrow>
               if is_encrypted context then Inr ()
               else map_err StCorruption
                 (validate_map_page (rp_keys R) (fm_file_id manifest) (pr_level r) (pr_first_block r) (pr_key r))))"

definition ends_with :: "bytes \<Rightarrow> bytes \<Rightarrow> bool" where
  "ends_with s suffix \<longleftrightarrow> length suffix \<le> length s \<and> drop (length s - length suffix) s = suffix"

definition block_key_suffix :: "u64 \<Rightarrow> bytes" where
  "block_key_suffix index = slash_join [bytes_of_string ''blocks'', hex_digits 16 (unat index)]"

definition page_key_suffix :: "u8 \<Rightarrow> u64 \<Rightarrow> bytes" where
  "page_key_suffix level first_block =
     slash_join [bytes_of_string ''maps'', hex_digits 2 (unat level), hex_digits 16 (unat first_block)]"

fun validate_page_children ::
  "('t, 'e) repository \<Rightarrow> block_map_page \<Rightarrow> file_crypto_context \<Rightarrow> 'e storage_error + unit" where
  "validate_page_children R (LeafPage file_id first_block parameters entries) context =
     for_each (\<lambda>entry.
       rbind (ok_or (checked_add first_block (ucast (le_slot entry)))
                (StFormat (FmtArithmeticOverflow ''leaf block index''))) (\<lambda>index.
       if \<not> is_encrypted context
       then map_err StCorruption (validate_block_payload (rp_keys R) file_id index (bl_key (le_blob entry)))
       else require (ends_with (bl_key (le_blob entry)) (block_key_suffix index)) (StCorruption InvalidKeySchema))) entries"
| "validate_page_children R (BranchPage file_id level first_block parameters entries) context =
     for_each (\<lambda>entry.
       if \<not> is_encrypted context
       then map_err StCorruption (validate_map_page (rp_keys R) file_id (pr_level (be_child entry))
              (pr_first_block (be_child entry)) (pr_key (be_child entry)))
       else require (ends_with (pr_key (be_child entry))
              (page_key_suffix (pr_level (be_child entry)) (pr_first_block (be_child entry))))
              (StCorruption InvalidKeySchema)) entries"

section \<open>Target access\<close>

type_synonym ('t, 'e, 'a) storage_action = "('t, 'e storage_error, 'a) action"

definition get_required_bounded ::
  "('t, 'e) repository \<Rightarrow> object_key \<Rightarrow> missing_object_kind \<Rightarrow> nat \<Rightarrow> ('t, 'e, bytes) storage_action" where
  "get_required_bounded R key kind max_bytes =
     sbind (smap_err (StTarget OpGet key) (ts_get (rp_target R) key max_bytes)) (\<lambda>object.
     slift (rbind (ok_or object (StMissing kind key)) (\<lambda>object.
            rbind (require (\<not> length (tg_bytes object) > max_object_bytes (rp_limits R))
                     (StLimit (limit_error_new LkObject (usize_to_u64 (length (tg_bytes object)))
                        (usize_to_u64 (max_object_bytes (rp_limits R)))))) (\<lambda>_.
            Inr (tg_bytes object)))))"

definition required_bound :: "('t, 'e) repository \<Rightarrow> missing_object_kind \<Rightarrow> nat" where
  "required_bound R kind =
     (case kind of
        MissingManifest \<Rightarrow> max_manifest_bytes (rp_limits R)
      | MissingMappingPage \<Rightarrow> max_map_page_bytes (rp_limits R)
      | MissingHead \<Rightarrow> max_object_bytes (rp_limits R)
      | MissingPayload \<Rightarrow> max_object_bytes (rp_limits R))"

definition get_required ::
  "('t, 'e) repository \<Rightarrow> object_key \<Rightarrow> missing_object_kind \<Rightarrow> ('t, 'e, bytes) storage_action" where
  "get_required R key kind = get_required_bounded R key kind (required_bound R kind)"

definition resolve_ambiguous_immutable ::
  "('t, 'e) repository \<Rightarrow> object_key \<Rightarrow> bytes \<Rightarrow> missing_object_kind \<Rightarrow> ('t, 'e, unit) storage_action" where
  "resolve_ambiguous_immutable R key desired kind t =
     (let max_bytes = (if kind = MissingMappingPage then length desired else required_bound R kind) in
      case ts_get (rp_target R) key max_bytes t of
        (Inr (Some object), t') \<Rightarrow>
          (if tg_bytes object = desired then Inr () else Inl (StCorruption ImmutableCollision), t')
      | (Inr None, t') \<Rightarrow> (Inl (StAmbiguous ImmutableCreation key), t')
      | (Inl _, t') \<Rightarrow> (Inl (StAmbiguous ImmutableCreation key), t'))"

definition put_immutable ::
  "('t, 'e) repository \<Rightarrow> object_key \<Rightarrow> bytes \<Rightarrow> missing_object_kind \<Rightarrow> ('t, 'e, unit) storage_action" where
  "put_immutable R key bs kind =
     sbind (smap_err (StTarget OpPutIfAbsent key) (ts_put_if_absent (rp_target R) key bs)) (\<lambda>outcome.
     case outcome of
       PutCreated _ \<Rightarrow> sreturn ()
     | PutAlreadyExists _ \<Rightarrow>
         sbind (if kind = MissingMappingPage then get_required_bounded R key kind (length bs)
                else get_required R key kind) (\<lambda>existing.
         if existing = bs then sreturn () else sfail (StCorruption ImmutableCollision))
     | PutAmbiguous \<Rightarrow> resolve_ambiguous_immutable R key bs kind)"

section \<open>Payloads\<close>

definition expected_payload ::
  "primitives \<Rightarrow> ('t, 'e) repository \<Rightarrow> file_crypto_context \<Rightarrow> object_key \<Rightarrow> object_provenance \<Rightarrow> bytes \<Rightarrow>
   'e storage_error + blob_ref" where
  "expected_payload P R context key provenance plaintext =
     rbind (ok_or (try_from_nat (length plaintext))
       (StLimit (limit_error_new LkObject (-1) (usize_to_u64 (max_object_bytes (rp_limits R)))))) (\<lambda>plaintext_len.
     rbind (check_encode_representation_work P R (length plaintext) key provenance context True) (\<lambda>_.
     rbind (map_err StRepresentation (encode_object P KindPayload key plaintext provenance context True
              (max_object_bytes (rp_limits R)))) (\<lambda>encoded.
     rbind (ok_or (try_from_nat (length encoded))
              (StFormat (FmtArithmeticOverflow ''stored payload length''))) (\<lambda>stored_len.
     Inr (blob_ref_new key plaintext_len stored_len (blake3 P plaintext))))))"

definition store_payload ::
  "primitives \<Rightarrow> ('t, 'e) repository \<Rightarrow> file_crypto_context \<Rightarrow> object_key \<Rightarrow> object_provenance \<Rightarrow> bytes \<Rightarrow>
   ('t, 'e, blob_ref) storage_action" where
  "store_payload P R context key provenance plaintext =
     sbind (slift (expected_payload P R context key provenance plaintext)) (\<lambda>expected.
     sbind (slift (map_err StRepresentation (encode_object P KindPayload key plaintext provenance context True
              (max_object_bytes (rp_limits R))))) (\<lambda>encoded.
     sbind (put_immutable R key encoded MissingPayload) (\<lambda>_.
     sreturn expected)))"

definition store_raw_payload ::
  "primitives \<Rightarrow> ('t, 'e) repository \<Rightarrow> file_crypto_context \<Rightarrow> file_id \<Rightarrow> preparation_identity \<Rightarrow> u32 \<Rightarrow> bytes \<Rightarrow>
   ('t, 'e, blob_ref) storage_action" where
  "store_raw_payload P R context file_id identity attempt plaintext =
     (let provenance = ProvRawPayload identity attempt in
      store_payload P R context (repository_object_key P R context file_id provenance) provenance plaintext)"

definition expected_raw_payload ::
  "primitives \<Rightarrow> ('t, 'e) repository \<Rightarrow> file_crypto_context \<Rightarrow> file_id \<Rightarrow> preparation_identity \<Rightarrow> u32 \<Rightarrow> bytes \<Rightarrow>
   'e storage_error + blob_ref" where
  "expected_raw_payload P R context file_id identity attempt plaintext =
     (let provenance = ProvRawPayload identity attempt in
      expected_payload P R context (repository_object_key P R context file_id provenance) provenance plaintext)"

definition store_block_payload ::
  "primitives \<Rightarrow> ('t, 'e) repository \<Rightarrow> file_crypto_context \<Rightarrow> file_id \<Rightarrow> preparation_identity \<Rightarrow> u32 \<Rightarrow> u64 \<Rightarrow> bytes \<Rightarrow>
   ('t, 'e, blob_ref) storage_action" where
  "store_block_payload P R context file_id identity attempt block_index plaintext =
     (let provenance = ProvBlockPayload identity attempt block_index in
      store_payload P R context (repository_object_key P R context file_id provenance) provenance plaintext)"

definition expected_block_payload ::
  "primitives \<Rightarrow> ('t, 'e) repository \<Rightarrow> file_crypto_context \<Rightarrow> file_id \<Rightarrow> preparation_identity \<Rightarrow> u32 \<Rightarrow> u64 \<Rightarrow> bytes \<Rightarrow>
   'e storage_error + blob_ref" where
  "expected_block_payload P R context file_id identity attempt block_index plaintext =
     (let provenance = ProvBlockPayload identity attempt block_index in
      expected_payload P R context (repository_object_key P R context file_id provenance) provenance plaintext)"

text \<open>The part of \<open>load_payload\<close> that checks the bytes the target returned.\<close>

definition open_payload ::
  "primitives \<Rightarrow> ('t, 'e) repository \<Rightarrow> file_crypto_context \<Rightarrow> blob_ref \<Rightarrow> bytes \<Rightarrow> 'e storage_error + bytes" where
  "open_payload P R context blob bs =
     rbind (require (length bs = unat (bl_stored_len blob))
       (StCorruption (CorruptLength ''stored payload'' (bl_stored_len blob) (usize_to_u64 (length bs))))) (\<lambda>_.
     rbind (map_err StRepresentation
       (decode_object P KindPayload (bl_key blob) bs context (unat (bl_plaintext_len blob)))) (\<lambda>decoded.
     rbind (validate_object_key P R context (cb_file_id (fc_binding context)) (do_provenance decoded) (bl_key blob)) (\<lambda>_.
     rbind (require (\<not> (length (do_canonical decoded) \<noteq> unat (bl_plaintext_len blob) \<or>
                       blake3 P (do_canonical decoded) \<noteq> bl_digest blob)) (StCorruption DigestMismatch)) (\<lambda>_.
     Inr (do_canonical decoded)))))"

definition load_payload ::
  "primitives \<Rightarrow> ('t, 'e) repository \<Rightarrow> file_crypto_context \<Rightarrow> blob_ref \<Rightarrow> ('t, 'e, bytes) storage_action" where
  "load_payload P R context blob =
     sbind (slift (map_err StCorruption (ensure_owned (rp_keys R) (bl_key blob)))) (\<lambda>_.
     sbind (slift (check_decode_representation_work R (unat (bl_plaintext_len blob)) (unat (bl_stored_len blob))
              (bl_key blob) context)) (\<lambda>_.
     sbind (get_required_bounded R (bl_key blob) MissingPayload (unat (bl_stored_len blob))) (\<lambda>bs.
     slift (open_payload P R context blob bs))))"

section \<open>Mapping pages\<close>

definition open_page ::
  "primitives \<Rightarrow> ('t, 'e) repository \<Rightarrow> file_crypto_context \<Rightarrow> file_id \<Rightarrow> page_ref \<Rightarrow> bytes \<Rightarrow>
   'e storage_error + block_map_page" where
  "open_page P R context file_id reference bs =
     (let actual = usize_to_u64 (length bs) in
      rbind (require (actual = pr_encoded_len reference)
        (StCorruption (CorruptLength ''mapping page'' (pr_encoded_len reference) actual))) (\<lambda>_.
      rbind (require (blake3 P bs = pr_digest reference) (StCorruption DigestMismatch)) (\<lambda>_.
      rbind (map_err StRepresentation (decode_object P (if_map_level (pr_level reference)) (pr_key reference) bs context
               (max_map_page_bytes (rp_limits R)))) (\<lambda>decoded.
      rbind (case do_provenance decoded of
               ProvMapPage identity attempt level first_block \<Rightarrow>
                 require (\<not> (level \<noteq> pr_level reference \<or> first_block \<noteq> pr_first_block reference))
                   (StRepresentation ProvenanceMismatch)
             | _ \<Rightarrow> Inl (StRepresentation ProvenanceMismatch)) (\<lambda>_.
      rbind (validate_object_key P R context file_id (do_provenance decoded) (pr_key reference)) (\<lambda>_.
      rbind (map_err storage_error_of (decode_block_map_page P (do_canonical decoded) (pr_level reference) (rp_limits R))) (\<lambda>page.
      rbind (map_err storage_error_of (validate_page_context page reference file_id (rp_limits R))) (\<lambda>_.
      rbind (validate_page_children R page context) (\<lambda>_.
      Inr page)))))))))"

definition load_map_page ::
  "primitives \<Rightarrow> ('t, 'e) repository \<Rightarrow> file_crypto_context \<Rightarrow> file_id \<Rightarrow> page_ref \<Rightarrow> ('t, 'e, block_map_page) storage_action" where
  "load_map_page P R context file_id reference =
     sbind (slift (validate_context file_id (fp_method (fc_policy context)) context)) (\<lambda>_.
     sbind (slift (map_err StCorruption (ensure_owned (rp_keys R) (pr_key reference)))) (\<lambda>_.
     sbind (slift (check_decode_representation_work R (max_map_page_bytes (rp_limits R))
              (unat (pr_encoded_len reference)) (pr_key reference) context)) (\<lambda>_.
     sbind (get_required_bounded R (pr_key reference) MissingMappingPage (unat (pr_encoded_len reference))) (\<lambda>bs.
     slift (open_page P R context file_id reference bs)))))"

definition expected_map_page ::
  "primitives \<Rightarrow> ('t, 'e) repository \<Rightarrow> file_crypto_context \<Rightarrow> block_map_page \<Rightarrow> preparation_identity \<Rightarrow> u32 \<Rightarrow>
   'e storage_error + page_ref \<times> bytes" where
  "expected_map_page P R context page identity attempt =
     rbind (map_err storage_error_of (encode_block_map_page P page (rp_limits R))) (\<lambda>canonical.
     rbind (map_err storage_error_of (page_summary page)) (\<lambda>(count, highest).
     let provenance = ProvMapPage identity attempt (page_level page) (page_first_block page);
         key = repository_object_key P R context (page_file_id page) provenance in
     rbind (check_encode_representation_work P R (length canonical) key provenance context False) (\<lambda>_.
     rbind (map_err StRepresentation (encode_object P (if_map_level (page_level page)) key canonical provenance context
              False (max_map_page_bytes (rp_limits R)))) (\<lambda>encoded.
     Inr (\<lparr>pr_key = key, pr_encoded_len = usize_to_u64 (length encoded), pr_digest = blake3 P encoded,
           pr_level = page_level page, pr_first_block = page_first_block page, pr_count = count,
           pr_highest = highest\<rparr>, encoded)))))"

definition store_map_page ::
  "primitives \<Rightarrow> ('t, 'e) repository \<Rightarrow> file_crypto_context \<Rightarrow> block_map_page \<Rightarrow> preparation_identity \<Rightarrow> u32 \<Rightarrow>
   ('t, 'e, page_ref) storage_action" where
  "store_map_page P R context page identity attempt =
     sbind (slift (expected_map_page P R context page identity attempt)) (\<lambda>(reference, encoded).
     sbind (put_immutable R (pr_key reference) encoded MissingMappingPage) (\<lambda>_.
     sreturn reference))"

section \<open>Manifests\<close>

definition open_manifest ::
  "primitives \<Rightarrow> ('t, 'e) repository \<Rightarrow> content_ref \<Rightarrow> file_crypto_context \<Rightarrow> bytes \<Rightarrow> 'e storage_error + file_manifest" where
  "open_manifest P R content context bs =
     rbind (require (blake3 P bs = cr_manifest_digest content) (StCorruption DigestMismatch)) (\<lambda>_.
     rbind (map_err StRepresentation (decode_object P KindManifest (cr_manifest content) bs context
              (max_manifest_bytes (rp_limits R)))) (\<lambda>decoded.
     rbind (case do_provenance decoded of
              ProvManifest identity attempt generation \<Rightarrow>
                rbind (require (generation = cr_generation content)
                         (StCorruption (IdentityMismatch ''manifest generation''))) (\<lambda>_.
                map_err StCorruption (validate_result_generation
                  \<lparr>pk_identity = identity, pk_attempt = attempt\<rparr> (cr_generation content)))
            | _ \<Rightarrow> Inl (StRepresentation ProvenanceMismatch)) (\<lambda>_.
     rbind (validate_object_key P R context (cr_file_id content) (do_provenance decoded) (cr_manifest content)) (\<lambda>_.
     rbind (map_err storage_error_of (decode_manifest P (do_canonical decoded) (rp_limits R))) (\<lambda>manifest.
     rbind (map_err StCorruption (validate_content_ref manifest content)) (\<lambda>_.
     rbind (validate_manifest_payloads R manifest context) (\<lambda>_.
     Inr manifest)))))))"

definition load_manifest_with_context ::
  "primitives \<Rightarrow> ('t, 'e) repository \<Rightarrow> content_ref \<Rightarrow> file_crypto_context \<Rightarrow> ('t, 'e, file_manifest) storage_action" where
  "load_manifest_with_context P R content context =
     sbind (slift (validate_context (cr_file_id content) (cr_method content) context)) (\<lambda>_.
     sbind (slift (map_err StCorruption (ensure_owned (rp_keys R) (cr_manifest content)))) (\<lambda>_.
     sbind (slift (check_decode_representation_work R (max_manifest_bytes (rp_limits R)) (max_manifest_bytes (rp_limits R))
              (cr_manifest content) context)) (\<lambda>_.
     sbind (get_required R (cr_manifest content) MissingManifest) (\<lambda>bs.
     slift (open_manifest P R content context bs)))))"

definition load_manifest ::
  "primitives \<Rightarrow> ('t, 'e) repository \<Rightarrow> content_ref \<Rightarrow> ('t, 'e, file_manifest) storage_action" where
  "load_manifest P R content =
     load_manifest_with_context P R content (plain_for_file (cr_file_id content) (cr_method content))"

definition validate_content_with_context ::
  "primitives \<Rightarrow> ('t, 'e) repository \<Rightarrow> content_ref \<Rightarrow> file_crypto_context \<Rightarrow> ('t, 'e, unit) storage_action" where
  "validate_content_with_context P R content context =
     sbind (load_manifest_with_context P R content context) (\<lambda>_. sreturn ())"

definition validate_content :: "primitives \<Rightarrow> ('t, 'e) repository \<Rightarrow> content_ref \<Rightarrow> ('t, 'e, unit) storage_action" where
  "validate_content P R content = sbind (load_manifest P R content) (\<lambda>_. sreturn ())"

definition prepare_manifest ::
  "primitives \<Rightarrow> ('t, 'e) repository \<Rightarrow> file_crypto_context \<Rightarrow> file_manifest \<Rightarrow> preparation_identity \<Rightarrow> u32 \<Rightarrow> bool \<Rightarrow>
   ('t, 'e, prepared_content) storage_action" where
  "prepare_manifest P R context manifest identity attempt content_changed =
     (let provenance = ProvManifest identity attempt (fm_generation manifest);
          key = repository_object_key P R context (fm_file_id manifest) provenance in
      sbind (slift (map_err storage_error_of (encode_manifest P manifest (rp_limits R)))) (\<lambda>canonical.
      sbind (slift (check_encode_representation_work P R (length canonical) key provenance context False)) (\<lambda>_.
      sbind (slift (map_err StRepresentation (encode_object P KindManifest key canonical provenance context False
               (max_manifest_bytes (rp_limits R))))) (\<lambda>encoded.
      sbind (put_immutable R key encoded MissingManifest) (\<lambda>_.
      sreturn (prepared_content_new (manifest_content_ref manifest key (blake3 P encoded)) content_changed
        identity attempt (fc_binding context)))))))"

end
