(* ===== verification/Storage_View.thy ===== *)
theory Storage_View
  imports Storage_Repository
begin

text \<open>
  What a target holds, seen through the checks of the repository. A view maps a reference to the
  payload, page or manifest that the repository accepts for it in a state of the target. Loads
  return what the view shows and leave the target as it is; whatever is stored is shown by the view
  of every later state, because immutable objects are never replaced.
\<close>

section \<open>Views\<close>

type_synonym target_view = "object_key \<Rightarrow> target_object option"

definition accepted :: "target_view \<Rightarrow> object_key \<Rightarrow> (bytes \<Rightarrow> 'e + 'a) \<Rightarrow> 'a option" where
  "accepted m key check =
     (case m key of None \<Rightarrow> None
      | Some object \<Rightarrow> (case check (tg_bytes object) of Inl _ \<Rightarrow> None | Inr x \<Rightarrow> Some x))"

definition payload_view ::
  "primitives \<Rightarrow> ('t, 'e) repository \<Rightarrow> file_crypto_context \<Rightarrow> target_view \<Rightarrow> blob_ref \<Rightarrow> bytes option" where
  "payload_view P R context m blob = accepted m (bl_key blob) (open_payload P R context blob)"

definition page_view ::
  "primitives \<Rightarrow> ('t, 'e) repository \<Rightarrow> file_crypto_context \<Rightarrow> file_id \<Rightarrow> target_view \<Rightarrow> page_ref \<Rightarrow> block_map_page option" where
  "page_view P R context file_id m reference = accepted m (pr_key reference) (open_page P R context file_id reference)"

definition manifest_view ::
  "primitives \<Rightarrow> ('t, 'e) repository \<Rightarrow> file_crypto_context \<Rightarrow> target_view \<Rightarrow> content_ref \<Rightarrow> file_manifest option" where
  "manifest_view P R context m content = accepted m (cr_manifest content) (open_manifest P R content context)"

lemma accepted_eq_Some:
  "accepted m key check = Some x \<longleftrightarrow> (\<exists>object. m key = Some object \<and> check (tg_bytes object) = Inr x)"
  by (auto simp: accepted_def split: option.splits sum.splits)

lemma accepted_mono: "m \<subseteq>\<^sub>m m' \<Longrightarrow> accepted m key check = Some x \<Longrightarrow> accepted m' key check = Some x"
  by (fastforce simp: accepted_eq_Some map_le_def dom_def)

lemma view_mono:
  assumes "m \<subseteq>\<^sub>m m'"
  shows "payload_view P R context m blob = Some bs \<Longrightarrow> payload_view P R context m' blob = Some bs"
    and "page_view P R context file_id m reference = Some page \<Longrightarrow> page_view P R context file_id m' reference = Some page"
    and "manifest_view P R context m content = Some manifest \<Longrightarrow> manifest_view P R context m' content = Some manifest"
  using accepted_mono [OF assms] by (simp_all add: payload_view_def page_view_def manifest_view_def)

section \<open>Keys of provenance\<close>

lemma repository_object_key_ok:
  assumes "key_space_ok (rp_keys R)"
  shows "key_ok (repository_object_key P R context file_id provenance)"
    and "ensure_owned (rp_keys R) (repository_object_key P R context file_id provenance) = Inr ()"
  using built_keys_ok [OF assms] built_keys_owned [OF assms]
  by (simp_all add: repository_object_key_def Let_def split: object_provenance.splits prod.splits)

lemma ends_with_append: "ends_with (xs @ ys @ zs) zs"
  by (simp add: ends_with_def)

lemma slash_join_append: "slash_join (xs @ ys) = slash_join xs @ slash_join ys"
  by (simp add: slash_join_def)

lemma protected_key_suffix:
  "ends_with (key_protected_block_payload ks file_id token index) (block_key_suffix index)"
  "ends_with (key_protected_map_page ks file_id token level first) (page_key_suffix level first)"
  unfolding key_protected_block_payload_def key_protected_map_page_def block_key_suffix_def page_key_suffix_def
    slash_join_append
  by (rule ends_with_append)+

section \<open>Loads and stores\<close>

text \<open>An action that leaves the target as it is and whose result satisfies a condition.\<close>

definition reads :: "('t \<Rightarrow> target_view) \<Rightarrow> 't \<Rightarrow> ('t, 'e, 'a) action \<Rightarrow> ('a \<Rightarrow> bool) \<Rightarrow> bool" where
  "reads peek t m Q \<longleftrightarrow> (\<forall>r t'. m t = (r, t') \<longrightarrow> peek t' = peek t \<and> (\<forall>x. r = Inr x \<longrightarrow> Q x))"

lemma reads_check: "reads peek t m Q \<Longrightarrow> reads peek t (sbind (slift c) (\<lambda>_. m)) Q"
  by (cases c) (auto simp: reads_def sbind_def slift_def)

lemma readsD:
  assumes "reads peek t m Q" and "m t = (r, t')"
  shows "peek t' = peek t" and "r = Inr x \<Longrightarrow> Q x"
  using assms by (auto simp: reads_def)

text \<open>
  An action that at most adds objects to the target, and whose result and final state satisfy a
  condition. The rules below follow the structure of an action.
\<close>

definition runs :: "('t \<Rightarrow> target_view) \<Rightarrow> 't \<Rightarrow> ('t, 'e, 'a) action \<Rightarrow> ('a \<Rightarrow> 't \<Rightarrow> bool) \<Rightarrow> bool" where
  "runs peek t m Q \<longleftrightarrow> (\<forall>r t'. m t = (r, t') \<longrightarrow> peek t \<subseteq>\<^sub>m peek t' \<and> (\<forall>x. r = Inr x \<longrightarrow> Q x t'))"

lemma runs_reads: "reads peek t m Q \<Longrightarrow> runs peek t m (\<lambda>x t'. Q x \<and> peek t' = peek t)"
  by (auto simp: reads_def runs_def)

lemma runsD:
  assumes "runs peek t m Q" and "m t = (r, t')"
  shows "peek t \<subseteq>\<^sub>m peek t'" and "r = Inr x \<Longrightarrow> Q x t'"
  using assms by (auto simp: runs_def)

lemma runs_weaken:
  "runs peek t m Q \<Longrightarrow> (\<And>x t'. Q x t' \<Longrightarrow> peek t \<subseteq>\<^sub>m peek t' \<Longrightarrow> Q' x t') \<Longrightarrow> runs peek t m Q'"
  by (auto simp: runs_def)

lemma runs_sbind:
  assumes "runs peek t m Q" and "\<And>x t'. Q x t' \<Longrightarrow> peek t \<subseteq>\<^sub>m peek t' \<Longrightarrow> runs peek t' (f x) Q'"
  shows "runs peek t (sbind m f) Q'"
proof (unfold runs_def, intro allI impI)
  fix r t'
  assume run: "sbind m f t = (r, t')"
  obtain first u where first: "m t = (first, u)" by fastforce
  note m = runsD [OF assms(1) first]
  show "peek t \<subseteq>\<^sub>m peek t' \<and> (\<forall>x. r = Inr x \<longrightarrow> Q' x t')"
  proof (cases first)
    case (Inl e)
    then show ?thesis using run first m(1) by (auto simp: sbind_def)
  next
    case (Inr x)
    then have "f x u = (r, t')" using run first by (simp add: sbind_def)
    moreover have "runs peek u (f x) Q'" using assms(2) m(1) m(2) [OF Inr] by blast
    ultimately show ?thesis using map_le_trans [OF m(1)] by (auto simp: runs_def)
  qed
qed

lemma runs_sreturn: "Q x t \<Longrightarrow> runs peek t (sreturn x) Q"
  by (simp add: runs_def sreturn_def)

lemma runs_sfail: "runs peek t (sfail e) Q"
  by (simp add: runs_def sfail_def)

lemma runs_slift: "(\<And>x. c = Inr x \<Longrightarrow> Q x t) \<Longrightarrow> runs peek t (slift c) Q"
  by (auto simp: runs_def slift_def)

lemma runs_slift_bind: "(\<And>x. c = Inr x \<Longrightarrow> runs peek t (f x) Q) \<Longrightarrow> runs peek t (sbind (slift c) f) Q"
  by (cases c) (auto simp: runs_def sbind_def slift_def)

lemma runs_if: "(c \<Longrightarrow> runs peek t m Q) \<Longrightarrow> (\<not> c \<Longrightarrow> runs peek t n Q) \<Longrightarrow> runs peek t (if c then m else n) Q"
  by simp

text \<open>A repository over a target that keeps the contract.\<close>

locale content_target = object_target "rp_target R" peek
  for R :: "('t, 'e) repository"
    and peek :: "'t \<Rightarrow> object_key \<Rightarrow> target_object option"
begin

lemma get_required_bounded_view:
  assumes "get_required_bounded R key kind n t = (r, t')"
  shows "peek t' = peek t" and "r = Inr bs \<Longrightarrow> \<exists>object. peek t key = Some object \<and> tg_bytes object = bs"
proof -
  obtain got s where got: "ts_get (rp_target R) key n t = (got, s)" by fastforce
  show "peek t' = peek t"
    using assms got get_keeps [OF got]
    by (auto simp: get_required_bounded_def sbind_def smap_err_def map_err_def slift_def split: sum.splits)
  show "\<exists>object. peek t key = Some object \<and> tg_bytes object = bs" if "r = Inr bs"
  proof (cases got)
    case (Inl e)
    then show ?thesis using assms got that
      by (simp add: get_required_bounded_def sbind_def smap_err_def map_err_def)
  next
    case (Inr x)
    then have "x = peek t key" using got get_value by blast
    then show ?thesis using assms got that Inr
      by (auto simp: get_required_bounded_def sbind_def smap_err_def map_err_def slift_def ok_or_def require_def
          split: option.splits if_splits)
  qed
qed

lemma reads_checked:
  "reads peek t (sbind (get_required_bounded R key kind n) (\<lambda>bs. slift (check bs)))
     (\<lambda>x. accepted (peek t) key check = Some x)"
proof (unfold reads_def, intro allI impI)
  fix r t'
  assume run: "sbind (get_required_bounded R key kind n) (\<lambda>bs. slift (check bs)) t = (r, t')"
  obtain got s where got: "get_required_bounded R key kind n t = (got, s)" by fastforce
  show "peek t' = peek t \<and> (\<forall>x. r = Inr x \<longrightarrow> accepted (peek t) key check = Some x)"
  proof (cases got)
    case (Inl e)
    then show ?thesis using run got get_required_bounded_view(1) [OF got] by (auto simp: sbind_def)
  next
    case (Inr bs)
    then obtain object where "peek t key = Some object" "tg_bytes object = bs"
      using get_required_bounded_view(2) [OF got] by blast
    then show ?thesis
      using run got Inr get_required_bounded_view(1) [OF got] by (auto simp: sbind_def slift_def accepted_eq_Some)
  qed
qed

lemma load_payload_reads:
  "reads peek t (load_payload P R context blob) (\<lambda>bs. payload_view P R context (peek t) blob = Some bs)"
  unfolding load_payload_def payload_view_def by (intro reads_check reads_checked)

lemma load_map_page_reads:
  "reads peek t (load_map_page P R context file_id reference)
     (\<lambda>page. page_view P R context file_id (peek t) reference = Some page)"
  unfolding load_map_page_def page_view_def by (intro reads_check reads_checked)

lemma load_manifest_reads:
  "reads peek t (load_manifest_with_context P R content context)
     (\<lambda>manifest. manifest_view P R context (peek t) content = Some manifest)"
  unfolding load_manifest_with_context_def get_required_def manifest_view_def by (intro reads_check reads_checked)

lemma resolve_ambiguous_view:
  assumes "resolve_ambiguous_immutable R key bs kind t = (r, t')"
  shows "peek t' = peek t" and "r = Inr () \<Longrightarrow> \<exists>object. peek t key = Some object \<and> tg_bytes object = bs"
proof -
  obtain n where n: "n = (if kind = MissingMappingPage then length bs else required_bound R kind)" by blast
  obtain got s where got: "ts_get (rp_target R) key n t = (got, s)" by fastforce
  have run: "(case (got, s) of
        (Inr (Some object), t') \<Rightarrow>
          (if tg_bytes object = bs then Inr () else Inl (StCorruption ImmutableCollision), t')
      | (Inr None, t') \<Rightarrow> (Inl (StAmbiguous ImmutableCreation key), t')
      | (Inl _, t') \<Rightarrow> (Inl (StAmbiguous ImmutableCreation key), t')) = (r, t')"
    using assms got by (simp add: resolve_ambiguous_immutable_def n Let_def)
  then have "t' = s" by (auto split: sum.splits option.splits)
  then show "peek t' = peek t" using get_keeps [OF got] by simp
  show "\<exists>object. peek t key = Some object \<and> tg_bytes object = bs" if ok: "r = Inr ()"
  proof -
    obtain object where "got = Inr (Some object)" "tg_bytes object = bs"
      using run ok by (auto split: sum.splits option.splits if_splits)
    then show ?thesis using get_value got by metis
  qed
qed

lemma put_immutable_view:
  assumes "put_immutable R key bs kind t = (r, t')"
  shows "peek t \<subseteq>\<^sub>m peek t'"
    and "r = Inr () \<Longrightarrow> \<exists>object. peek t' key = Some object \<and> tg_bytes object = bs"
proof -
  obtain outcome s where put: "ts_put_if_absent (rp_target R) key bs t = (outcome, s)" by fastforce
  have "peek t \<subseteq>\<^sub>m peek t' \<and> (r = Inr () \<longrightarrow> (\<exists>object. peek t' key = Some object \<and> tg_bytes object = bs))"
  proof (cases outcome)
    case (Inl e)
    then show ?thesis using assms put put_grows [OF put]
      by (auto simp: put_immutable_def sbind_def smap_err_def map_err_def)
  next
    case (Inr created)
    show ?thesis
    proof (cases created)
      case (PutCreated v)
      then have "peek s = (peek t)(key \<mapsto> \<lparr>tg_bytes = bs, tg_version = v\<rparr>)" using put Inr put_created by blast
      then show ?thesis using assms put Inr PutCreated put_grows [OF put]
        by (simp add: put_immutable_def sbind_def smap_err_def map_err_def sreturn_def)
    next
      case (PutAlreadyExists v)
      let ?n = "if kind = MissingMappingPage then length bs else required_bound R kind"
      obtain got u where got: "get_required_bounded R key kind ?n s = (got, u)" by fastforce
      have "sbind (get_required_bounded R key kind ?n) (\<lambda>existing.
          if existing = bs then sreturn () else sfail (StCorruption ImmutableCollision)) s = (r, t')"
        using assms put Inr PutAlreadyExists
        by (simp add: put_immutable_def sbind_def smap_err_def map_err_def get_required_def split: if_splits)
      then show ?thesis
        using got get_required_bounded_view [OF got] put_grows [OF put]
        by (auto simp: sbind_def sreturn_def sfail_def split: sum.splits if_splits)
    next
      case PutAmbiguous
      then have "resolve_ambiguous_immutable R key bs kind s = (r, t')"
        using assms put Inr by (simp add: put_immutable_def sbind_def smap_err_def map_err_def)
      then show ?thesis using resolve_ambiguous_view [of key bs kind s r t'] put_grows [OF put] by auto
    qed
  qed
  then show "peek t \<subseteq>\<^sub>m peek t'"
    and "r = Inr () \<Longrightarrow> \<exists>object. peek t' key = Some object \<and> tg_bytes object = bs" by blast+
qed

lemma put_immutable_runs:
  "runs peek t (put_immutable R key bs kind) (\<lambda>_ t'. \<exists>object. peek t' key = Some object \<and> tg_bytes object = bs)"
  using put_immutable_view by (auto simp: runs_def)

lemma store_payload_runs:
  assumes "primitives_ok P" and "context_ok context"
    and key: "key = repository_object_key P R context (cb_file_id (fc_binding context)) provenance"
  shows "runs peek t (store_payload P R context key provenance plaintext) (\<lambda>blob t'.
    expected_payload P R context key provenance plaintext = Inr blob \<and>
    payload_view P R context (peek t') blob = Some plaintext)"
  unfolding store_payload_def
proof (intro runs_slift_bind)
  fix blob encoded
  assume blob: "expected_payload P R context key provenance plaintext = Inr blob"
    and "map_err StRepresentation (encode_object P KindPayload key plaintext provenance context True
              (max_object_bytes (rp_limits R))) = Inr encoded"
  then have enc: "encode_object P KindPayload key plaintext provenance context True (max_object_bytes (rp_limits R)) = Inr encoded"
    by simp
  obtain n k where n: "try_from_nat (length plaintext) = Some n" and k: "try_from_nat (length encoded) = Some k"
      and new: "blob = blob_ref_new key n k (blake3 P plaintext)"
    using blob unfolding expected_payload_def enc map_err_def sum.case rbind_eq_Inr ok_or_eq_Inr by auto
  have "unat n = length plaintext" "unat k = length encoded"
    using n k by (simp_all add: try_from_nat_Some_iff)
  then have "bl_key blob = key \<and> open_payload P R context blob encoded = Inr plaintext"
    using decode_encode_object(1) [OF assms(1,2) enc order_refl]
    by (simp add: open_payload_def new blob_ref_new_def validate_object_key_def key)
  then show "runs peek t (sbind (put_immutable R key encoded MissingPayload) (\<lambda>_. sreturn blob)) (\<lambda>blob t'.
    expected_payload P R context key provenance plaintext = Inr blob \<and>
    payload_view P R context (peek t') blob = Some plaintext)"
    by (intro runs_sbind [OF put_immutable_runs] runs_sreturn) (auto simp: blob payload_view_def accepted_eq_Some)
qed

end

text \<open>What the encoded page of a reference opens to, once the reference itself is valid.\<close>

lemma expected_map_page_opens:
  assumes P: "primitives_ok P" and ctx: "context_ok context"
    and exp: "expected_map_page P R context page identity attempt = Inr (reference, encoded)"
    and ref: "validate_page_ref reference (rp_limits R) = Inr ()"
    and page: "page_keys_ok page" "validate_page_children R page context = Inr ()"
  shows "open_page P R context (page_file_id page) reference encoded = Inr page"
    and "pr_level reference = page_level page" and "pr_first_block reference = page_first_block page"
    and "pr_key reference = repository_object_key P R context (page_file_id page)
      (ProvMapPage identity attempt (page_level page) (page_first_block page))"
proof -
  let ?prov = "ProvMapPage identity attempt (page_level page) (page_first_block page)"
  let ?key = "repository_object_key P R context (page_file_id page) ?prov"
  obtain canonical count highest
    where canon: "encode_block_map_page P page (rp_limits R) = Inr canonical"
      and summary: "page_summary page = Inr (count, highest)"
      and enc: "encode_object P (if_map_level (page_level page)) ?key canonical ?prov context
              False (max_map_page_bytes (rp_limits R)) = Inr encoded"
      and reference: "reference = \<lparr>pr_key = ?key, pr_encoded_len = usize_to_u64 (length encoded), pr_digest = blake3 P encoded,
           pr_level = page_level page, pr_first_block = page_first_block page, pr_count = count, pr_highest = highest\<rparr>"
    using exp by (auto simp: expected_map_page_def Let_def)
  have len: "length canonical \<le> max_map_page_bytes (rp_limits R)" "length canonical \<le> usize_max"
    using canon unfolding encode_block_map_page_iff by blast+
  have dec: "decode_block_map_page P canonical (page_level page) (rp_limits R) = Inr page"
    using canon page(1) unfolding encode_block_map_page_iff decode_block_map_page_iff [OF len(2)] by blast
  have located: "validate_page_context page reference (page_file_id page) (rp_limits R) = Inr ()"
    using ref summary by (simp add: validate_page_context_def reference require_def)
  show "open_page P R context (page_file_id page) reference encoded = Inr page"
    using decode_encode_object(1) [OF P ctx enc len(1)] dec located page(2)
    by (simp add: open_page_def reference require_def validate_object_key_def Let_def)
  show "pr_level reference = page_level page" "pr_first_block reference = page_first_block page"
    "pr_key reference = ?key" by (simp_all add: reference)
qed

lemma prepare_manifest_opens:
  assumes P: "primitives_ok P" and ctx: "context_ok context"
    and canon: "encode_manifest P manifest (rp_limits R) = Inr canonical"
    and enc: "encode_object P KindManifest key canonical provenance context False (max_manifest_bytes (rp_limits R)) = Inr encoded"
    and key: "provenance = ProvManifest identity attempt (fm_generation manifest)"
      "key = repository_object_key P R context (fm_file_id manifest) provenance"
    and manifest: "layout_keys_ok (fm_layout manifest)" "validate_manifest_payloads R manifest context = Inr ()"
      "validate_result_generation \<lparr>pk_identity = identity, pk_attempt = attempt\<rparr> (fm_generation manifest) = Inr ()"
  shows "open_manifest P R (manifest_content_ref manifest key (blake3 P encoded)) context encoded = Inr manifest"
proof -
  have len: "length canonical \<le> max_manifest_bytes (rp_limits R)" "length canonical \<le> usize_max"
    using canon unfolding encode_manifest_iff by blast+
  have dec: "decode_manifest P canonical (rp_limits R) = Inr manifest"
    using canon manifest(1) unfolding encode_manifest_iff decode_manifest_iff [OF len(2)] by blast
  show ?thesis
    using decode_encode_object(1) [OF P ctx enc len(1)] dec manifest(2,3) key
    by (simp add: open_manifest_def manifest_content_ref_def require_def validate_object_key_def validate_content_ref_def)
qed

context content_target
begin

lemma store_map_page_runs:
  assumes "primitives_ok P" and "context_ok context"
    and "page_keys_ok page" and "validate_page_children R page context = Inr ()"
  shows "runs peek t (store_map_page P R context page identity attempt) (\<lambda>reference t'.
    (\<exists>encoded. expected_map_page P R context page identity attempt = Inr (reference, encoded)) \<and>
    (validate_page_ref reference (rp_limits R) = Inr () \<longrightarrow>
     page_view P R context (page_file_id page) (peek t') reference = Some page))"
  unfolding store_map_page_def
proof (intro runs_slift_bind)
  fix x
  assume exp: "expected_map_page P R context page identity attempt = Inr x"
  obtain reference encoded where x: "x = (reference, encoded)" by fastforce
  show "runs peek t (case x of (reference, encoded) \<Rightarrow>
       sbind (put_immutable R (pr_key reference) encoded MissingMappingPage) (\<lambda>_. sreturn reference))
     (\<lambda>reference t'.
       (\<exists>encoded. expected_map_page P R context page identity attempt = Inr (reference, encoded)) \<and>
       (validate_page_ref reference (rp_limits R) = Inr () \<longrightarrow>
        page_view P R context (page_file_id page) (peek t') reference = Some page))"
    unfolding x split
    by (intro runs_sbind [OF put_immutable_runs] runs_sreturn)
      (use exp x expected_map_page_opens(1) [OF assms(1,2) _ _ assms(3,4)] in
        \<open>fastforce simp: page_view_def accepted_eq_Some\<close>)
qed

lemma prepare_manifest_runs:
  assumes "primitives_ok P" and "context_ok context"
    and "layout_keys_ok (fm_layout manifest)" and "validate_manifest_payloads R manifest context = Inr ()"
    and "validate_result_generation \<lparr>pk_identity = identity, pk_attempt = attempt\<rparr> (fm_generation manifest) = Inr ()"
  shows "runs peek t (prepare_manifest P R context manifest identity attempt changed) (\<lambda>prepared t'.
    manifest_view P R context (peek t') (pc_content prepared) = Some manifest \<and>
    pc_content_changed prepared = changed)"
  unfolding prepare_manifest_def Let_def
  by (intro runs_slift_bind runs_sbind [OF put_immutable_runs] runs_sreturn)
    (use prepare_manifest_opens [OF assms(1,2) _ _ refl refl assms(3-5)] in
      \<open>auto simp: manifest_view_def accepted_eq_Some prepared_content_new_def manifest_content_ref_def\<close>)

end

section \<open>The repository of the memory target\<close>

definition memory_repository ::
  "key_space \<Rightarrow> creation_defaults \<Rightarrow> storage_limits \<Rightarrow> (memory_state, memory_target_error) repository" where
  "memory_repository keys defaults limits =
     \<lparr>rp_target = memory_target, rp_keys = keys, rp_defaults = defaults, rp_limits = limits\<rparr>"

interpretation mr: content_target "memory_repository keys defaults limits" mt_peek for keys defaults limits
  unfolding content_target_def memory_repository_def repository.simps by (rule mt.object_target_axioms)

end
