(* ===== verification/Storage_Properties.thy ===== *)
theory Storage_Properties
  imports Storage_Range Storage_View
begin

text \<open>
  The properties of the content store: block spans cover a range, the persistent formats are
  decoded exactly, keys and objects round trip, and the repository stores immutable objects
  exactly over every target that keeps its contract.
\<close>

section \<open>Sample values\<close>

text \<open>
  Concrete values the witnesses evaluate: primitives that satisfy the documented behaviour of the
  crates, an empty raw file, a leaf page with one block and an encrypted context.
\<close>

definition sample_primitives :: primitives where
  "sample_primitives =
     \<lparr>blake3 = (\<lambda>_. 0), blake3_derive = (\<lambda>label n bs. replicate n 0),
      lz4_feature = True, lz4_maximum_output_size = (\<lambda>n. n + 20), lz4_compress = Some,
      lz4_decompress = (\<lambda>bs n. if length bs \<le> n then Some bs else None),
      siv_feature = True, siv_encrypt = (\<lambda>key aad bs. Some (replicate 16 0 @ bs)),
      siv_decrypt = (\<lambda>key aad bs. if 16 \<le> length bs then Some (drop 16 bs) else None)\<rparr>"

definition sample_manifest :: file_manifest where
  "sample_manifest = \<lparr>fm_file_id = 7, fm_generation = 1, fm_logical_size = 0,
     fm_representation = representation_current, fm_layout = RawLayout None\<rparr>"

definition sample_head :: file_head where
  "sample_head = \<lparr>fh_file_id = 7, fh_generation = 1, fh_manifest_key = [97], fh_manifest_digest = 5, fh_mutation_id = 3\<rparr>"

definition sample_page :: block_map_page where
  "sample_page = LeafPage 7 0 block_split_current
     [\<lparr>le_slot = 3, le_blob = blob_ref_new [97] 32768 40000 1\<rparr>]"

definition sample_context :: file_crypto_context where
  "sample_context =
     (let policy = \<lparr>fp_method = Raw, fp_compression = CompressionLz4, fp_encryption = ContentSiv\<rparr> in
      \<lparr>fc_binding = \<lparr>cb_file_id = 7, cb_context_id = 9, cb_policy_format = 1, cb_policy_bytes = policy_to_bytes policy,
         cb_key_commitment = None, cb_context_revision = 0\<rparr>,
       fc_policy = policy, fc_dek = Some 11\<rparr>)"

definition sample_identity :: preparation_identity where
  "sample_identity = \<lparr>pi_mutation_id = 3, pi_base = base_new_file, pi_fingerprint = 2\<rparr>"

lemma sample_page_keys: "page_keys_ok sample_page" "page_level sample_page = 0"
  by (simp_all add: sample_page_def blob_ref_new_def key_ok_def is_ascii_control_def)

lemma sample_page_encodes:
  "\<exists>bs. encode_block_map_page sample_primitives sample_page storage_limits_default = Inr bs"
proof -
  have "validate_page sample_primitives sample_page storage_limits_default = Inr ()"
    by (simp add: validate_page_def sample_page_def page_coverage_def BLOCK_MAP_MAX_LEVEL_def require_def
        checked_add_def validate_slots_def check_slots.simps validate_blob_def blob_ref_new_def
        checked_key_length_def try_from_nat_def storage_limits_default_def PAYLOAD_MIN_STORED_BYTES_def
        try_from_or_max_def BLOCK_SIZE_def sample_primitives_def ok_or_def BLOCK_MAP_FANOUT_def)
  moreover have "length (page_payload 0 sample_page) \<le> 1000"
    by (simp add: page_payload_def sample_page_def blob_ref_new_def profile_bytes_def leaf_entry_bytes_def
        blob_bytes_def key_bytes_def)
  ultimately show ?thesis
    using sample_page_keys
    by (simp add: encode_block_map_page_iff page_ok_def storage_limits_default_def usize_max_def)
qed

definition sample_repository :: "(memory_state, memory_target_error) repository" where
  "sample_repository = memory_repository \<lparr>ks_prefix = [97, 47, 98], ks_max_key_bytes = 1024\<rparr>
     (creation_defaults_new BlockSplit) storage_limits_default"

lemma sample_primitives_ok: "primitives_ok sample_primitives"
  by (simp add: primitives_ok_def sample_primitives_def)

lemma sample_context_ok: "context_ok sample_context"
  by (simp add: context_ok_def sample_context_def Let_def)

lemma sample_object_encodes:
  assumes "length key \<le> 1024"
  shows "\<exists>stored. encode_object sample_primitives KindPayload key [1, 2, 3] (ProvBlockPayload sample_identity 0 5)
    sample_context True (64 * 1024 * 1024) = Inr stored"
  using assms
  by (simp add: encode_object_def encode_object_body_def compression_encode_def protect_body_def object_aad_def file_dek_def
      encrypt_def is_encrypted_def sample_context_def sample_primitives_def Let_def ok_or_def require_def
      try_from_nat_def usize_checked_add_def usize_saturating_add_def usize_max_def provenance_common_def
      policy_to_bytes_def BODY_MAGIC_def bytes_of_string_def)

lemma sample_limits: "rp_limits sample_repository = storage_limits_default" "max_object_bytes storage_limits_default = 64 * 1024 * 1024"
  by (simp_all add: sample_repository_def memory_repository_def storage_limits_default_def)

lemma sample_put: "\<exists>t. put_immutable sample_repository key bs kind memory_state_default = (Inr (), t)"
  by (simp add: put_immutable_def sample_repository_def memory_repository_def memory_target_def mt_put_if_absent_def
      memory_state_default_def mt_record_def should_fail_def should_leave_put_ambiguous_def allocate_version_def Let_def
      sbind_def smap_err_def map_err_def sreturn_def)

lemma sample_key_space_ok: "key_space_ok (rp_keys sample_repository)"
  by (simp add: sample_repository_def memory_repository_def key_space_ok_def is_ascii_control_def)

lemma sample_payload_expected:
  assumes "length key \<le> 1024"
  shows "\<exists>blob. expected_payload sample_primitives sample_repository sample_context key
    (ProvBlockPayload sample_identity 0 5) [1, 2, 3] = Inr blob"
proof -
  obtain stored where stored: "encode_object sample_primitives KindPayload key [1, 2, 3]
      (ProvBlockPayload sample_identity 0 5) sample_context True (64 * 1024 * 1024) = Inr stored"
    using sample_object_encodes [OF assms] by blast
  then have "length stored \<le> 64 * 1024 * 1024"
    using decode_encode_object(2) [OF sample_primitives_ok sample_context_ok stored order_refl] by simp
  then have "\<exists>n :: u64. try_from_nat (length stored) = Some n" by (simp add: try_from_nat_def)
  moreover have "check_encode_representation_work sample_primitives sample_repository (length [1 :: u8, 2, 3]) key
      (ProvBlockPayload sample_identity 0 5) sample_context True = Inr ()"
    using assms by (simp add: check_encode_representation_work_def encode_working_bytes_def maximum_encode_capacity_def
        sample_context_def sample_primitives_def is_encrypted_def usize_checked_add_def usize_max_def checked_sum_def
        check_representation_work_def sample_repository_def memory_repository_def storage_limits_default_def
        Let_def ok_or_def)
  ultimately show ?thesis
    unfolding expected_payload_def sample_limits stored map_err_def sum.case
    by (auto simp: try_from_nat_def ok_or_def split: if_splits)
qed

lemma sample_store_succeeds:
  "\<exists>blob. fst (store_block_payload sample_primitives sample_repository sample_context 7 sample_identity 0 5 [1, 2, 3]
     memory_state_default) = Inr blob"
proof -
  let ?key = "repository_object_key sample_primitives sample_repository sample_context 7 (ProvBlockPayload sample_identity 0 5)"
  have "length ?key \<le> 1024"
    using repository_object_key_ok(2) [OF sample_key_space_ok, of sample_primitives sample_context 7 "ProvBlockPayload sample_identity 0 5"]
    by (simp add: ensure_owned_def key_components_def sample_repository_def memory_repository_def split: if_splits)
  then obtain blob stored where "expected_payload sample_primitives sample_repository sample_context ?key
        (ProvBlockPayload sample_identity 0 5) [1, 2, 3] = Inr blob"
      and "encode_object sample_primitives KindPayload ?key [1, 2, 3] (ProvBlockPayload sample_identity 0 5)
        sample_context True (64 * 1024 * 1024) = Inr stored"
    using sample_payload_expected sample_object_encodes by meson
  moreover obtain t where "put_immutable sample_repository ?key stored MissingPayload memory_state_default = (Inr (), t)"
    using sample_put by blast
  ultimately show ?thesis
    by (simp add: sreturn_def store_block_payload_def store_payload_def Let_def sbind_def slift_def sample_limits)
qed

section \<open>Ranges\<close>

text \<open>
  C20: the spans of a checked range enumerate its bytes exactly once and in order; each span is
  non-empty, stays within its block and is placed in the caller's buffer at its distance from the
  start of the range; the block indices increase strictly, so no block is visited twice.
\<close>

theorem spans_cover_range:
  assumes "logical_range_from_usize offset n = Inr r"
  shows "concat (map (\<lambda>sp. [span_start sp ..< span_stop sp]) (spans (block_spans_new r))) =
      [unat offset ..< unat offset + n] \<and>
    (\<forall>sp \<in> set (spans (block_spans_new r)).
      0 < unat (sp_len sp) \<and> unat (sp_within_block sp) + unat (sp_len sp) \<le> 32768 \<and>
      span_start sp = unat offset + sp_buffer_offset sp) \<and>
    sorted_wrt (<) (map (\<lambda>sp. unat (sp_block_index sp)) (spans (block_spans_new r)))"
proof -
  note r = logical_range_from_usize_Inr [OF assms]
  note ok = block_spans_new_ok [OF r(1)]
  have start: "bs_absolute (block_spans_new r) = offset" "bs_buffer_offset (block_spans_new r) = 0"
    using r(2) by (simp_all add: block_spans_new_def)
  have len: "unat (bs_remaining (block_spans_new r)) = n"
    using ok(2) r(2,3) by simp
  have "span_start sp = unat offset + sp_buffer_offset sp" if "sp \<in> set (spans (block_spans_new r))" for sp
    using spans_placed [OF ok(1) that] by (simp add: start)
  then show ?thesis
    using spans_bytes [OF ok(1)] spans_placed [OF ok(1)] spans_increasing [OF ok(1)]
    unfolding start len by blast
qed

theorem spans_cover_range_witness:
  "logical_range_from_usize 40000 30000 = Inr \<lparr>lr_start = 40000, lr_end = 70000\<rparr> \<and>
   sorted_wrt (<) (map (\<lambda>sp. unat (sp_block_index sp))
     (spans (block_spans_new \<lparr>lr_start = 40000, lr_end = 70000\<rparr>)))"
proof -
  have "logical_range_from_usize 40000 30000 = Inr \<lparr>lr_start = 40000, lr_end = 70000\<rparr>"
    by (simp add: logical_range_from_usize_def logical_range_new_def try_from_nat_def checked_add_def)
  with spans_cover_range [OF this] show ?thesis by blast
qed

section \<open>Persistent formats\<close>

text \<open>
  C22: manifests have exactly one encoding. Bytes decode to a manifest exactly when they are what
  the encoder returns for it, so decoding inverts encoding and only canonical bytes are accepted; the
  keys of a decoded manifest are valid object keys.
\<close>

theorem manifest_codec_exact:
  assumes "length bs \<le> usize_max"
  shows "decode_manifest P bs limits = Inr m \<longleftrightarrow>
     encode_manifest P m limits = Inr bs \<and> layout_keys_ok (fm_layout m)"
  using assms by (auto simp: decode_manifest_iff [OF assms] encode_manifest_iff)

theorem manifest_codec_exact_witness:
  "\<exists>bs. length bs \<le> usize_max \<and> encode_manifest sample_primitives sample_manifest storage_limits_default = Inr bs \<and>
     decode_manifest sample_primitives bs storage_limits_default = Inr sample_manifest"
proof -
  let ?bs = "envelope_bytes sample_primitives KindManifest (manifest_payload sample_manifest)"
  have len: "length ?bs \<le> usize_max"
    by (simp add: manifest_payload_def sample_manifest_def option_bytes_def usize_max_def)
  moreover have "encode_manifest sample_primitives sample_manifest storage_limits_default = Inr ?bs"
    by (simp add: encode_manifest_iff manifest_ok_def validate_manifest_def sample_manifest_def require_def
        manifest_payload_def option_bytes_def usize_max_def storage_limits_default_def)
  ultimately show ?thesis
    using manifest_codec_exact [OF len, of sample_primitives storage_limits_default sample_manifest]
    by (auto simp: sample_manifest_def)
qed

text \<open>
  C24: file heads have exactly one encoding. Bytes decode to a head exactly when they are what the
  encoder returns for it and its manifest key is a valid object key.
\<close>

theorem head_codec_exact:
  assumes "length bs \<le> usize_max"
  shows "decode_head P bs limits = Inr head \<longleftrightarrow>
     encode_head P head limits = Inr bs \<and> key_ok (fh_manifest_key head)"
  using assms by (auto simp: decode_head_iff [OF assms] encode_head_iff)

theorem head_codec_exact_witness:
  "\<exists>bs. length bs \<le> usize_max \<and> encode_head sample_primitives sample_head storage_limits_default = Inr bs \<and>
     decode_head sample_primitives bs storage_limits_default = Inr sample_head"
proof -
  let ?bs = "envelope_bytes sample_primitives KindHead (head_payload sample_head)"
  have len: "length ?bs \<le> usize_max"
    by (simp add: head_payload_def sample_head_def key_bytes_def usize_max_def)
  moreover have "encode_head sample_primitives sample_head storage_limits_default = Inr ?bs"
    by (simp add: encode_head_iff head_ok_def validate_head_def sample_head_def require_def
        head_payload_def key_bytes_def usize_max_def storage_limits_default_def checked_key_length_iff key_fits_def)
  ultimately show ?thesis
    using head_codec_exact [OF len, of sample_primitives storage_limits_default sample_head]
    by (auto simp: sample_head_def key_ok_def is_ascii_control_def)
qed

text \<open>
  C23: block-map pages. The bytes the encoder returns for a page decode, under the level of the
  page, to the same page; and above the leaf level only these bytes decode to it.
\<close>

theorem page_codec_exact:
  assumes "length bs \<le> usize_max" and "level \<noteq> 0 \<or> encode_block_map_page P page limits = Inr bs"
  shows "decode_block_map_page P bs level limits = Inr page \<longleftrightarrow>
     encode_block_map_page P page limits = Inr bs \<and> page_keys_ok page \<and> page_level page = level"
  using assms(2) by (auto simp: decode_block_map_page_iff [OF assms(1)] encode_block_map_page_iff assms(1))

theorem page_codec_exact_witness:
  "\<exists>bs. encode_block_map_page sample_primitives sample_page storage_limits_default = Inr bs \<and>
     decode_block_map_page sample_primitives bs 0 storage_limits_default = Inr sample_page"
proof -
  obtain bs where bs: "encode_block_map_page sample_primitives sample_page storage_limits_default = Inr bs"
    using sample_page_encodes by blast
  then have len: "length bs \<le> usize_max" unfolding encode_block_map_page_iff by blast
  show ?thesis
    using page_codec_exact [OF len disjI2 [OF bs], of 0] bs sample_page_keys by auto
qed

text \<open>
  C27: the decoder does not look at the level byte of leaf pages. Replacing it by any other byte in
  the encoding of a leaf page (with a checksum to match) yields different bytes that decode to the
  same page, so the encoding of leaf pages is not canonical.
\<close>

theorem leaf_level_byte_ignored:
  assumes "encode_block_map_page P page limits = Inr bs" and "page_keys_ok page"
    and "page_level page = 0" and "b \<noteq> 0"
  shows "envelope_bytes P KindLeafMap (page_payload b page) \<noteq> bs \<and>
    decode_block_map_page P (envelope_bytes P KindLeafMap (page_payload b page)) 0 limits = Inr page"
proof -
  have enc: "page_ok P limits page" "length bs \<le> max_map_page_bytes limits" "length bs \<le> usize_max"
    "bs = envelope_bytes P KindLeafMap (page_payload 0 page)"
    using assms(1,3) by (auto simp: encode_block_map_page_iff if_map_level_def)
  have len: "length (page_payload b page) = length (page_payload 0 page)"
    by (simp add: page_payload_def)
  have "page_payload b page \<noteq> page_payload 0 page"
    using assms(4) by (simp add: page_payload_def)
  then have "envelope_bytes P KindLeafMap (page_payload b page) \<noteq> bs"
    using enc(4) by (simp add: envelope_bytes_def)
  moreover have small: "length (envelope_bytes P KindLeafMap (page_payload b page)) \<le> usize_max"
    using enc(3,4) len by simp
  then have "decode_block_map_page P (envelope_bytes P KindLeafMap (page_payload b page)) 0 limits = Inr page"
    unfolding decode_block_map_page_iff [OF small] using enc assms(2,3) len by (auto simp: if_map_level_def)
  ultimately show ?thesis by blast
qed

theorem leaf_level_byte_ignored_witness:
  "decode_block_map_page sample_primitives
     (envelope_bytes sample_primitives KindLeafMap (page_payload 200 sample_page)) 0 storage_limits_default = Inr sample_page"
proof -
  obtain bs where bs: "encode_block_map_page sample_primitives sample_page storage_limits_default = Inr bs"
    using sample_page_encodes by blast
  show ?thesis
    using leaf_level_byte_ignored [OF bs, of 200] sample_page_keys by simp
qed

section \<open>Keys, objects and limits\<close>

text \<open>
  C25: keys of a checked key space. Every key that is built under it is a valid object key of its
  own prefix, the manifest key parses back to the preparation it was built for, and the payload and
  page keys pass the checks that a reader makes against its file, block and page location.
\<close>

theorem built_keys_accepted:
  assumes "key_space_new prefix limits = Inr ks" and "utf8_valid prefix"
  shows "key_ok (key_manifest ks file identity attempt) \<and>
    parse_manifest_key ks file (key_manifest ks file identity attempt) =
      Inr \<lparr>pk_identity = identity, pk_attempt = attempt\<rparr> \<and>
    key_ok (key_raw_payload ks file identity attempt) \<and>
    validate_raw_payload ks file (key_raw_payload ks file identity attempt) = Inr () \<and>
    key_ok (key_block_payload ks file identity attempt block) \<and>
    validate_block_payload ks file block (key_block_payload ks file identity attempt block) = Inr () \<and>
    key_ok (key_map_page ks file identity attempt level first) \<and>
    validate_map_page ks file level first (key_map_page ks file identity attempt level first) = Inr ()"
  using key_space_new_ok(1) [OF assms] by (simp add: built_keys_ok built_keys_parse)

theorem built_keys_accepted_witness:
  "key_space_new [97, 47, 98] storage_limits_default = Inr \<lparr>ks_prefix = [97, 47, 98], ks_max_key_bytes = 1024\<rparr> \<and>
   validate_block_payload \<lparr>ks_prefix = [97, 47, 98], ks_max_key_bytes = 1024\<rparr> 7 5
     (key_block_payload \<lparr>ks_prefix = [97, 47, 98], ks_max_key_bytes = 1024\<rparr> 7 sample_identity 0 5) = Inr ()"
proof -
  have ks: "key_space_new [97, 47, 98] storage_limits_default = Inr \<lparr>ks_prefix = [97, 47, 98], ks_max_key_bytes = 1024\<rparr>"
    by (simp add: key_space_new_def require_def is_ascii_control_def storage_limits_default_def LONGEST_SUFFIX_BYTES_def
        usize_checked_add_def usize_max_def ok_or_def)
  then show ?thesis using built_keys_accepted [OF ks] by simp
qed

text \<open>
  C21: what the store protects it can open. Whatever the policy (compressed or not, plain or
  encrypted), the stored bytes of an object fit the limit and decode under the same kind, key and
  context to the canonical bytes and the provenance they were made from.
\<close>

theorem object_round_trip:
  assumes "primitives_ok P" and "context_ok ctx"
    and "encode_object P kind key canonical prov ctx compress max_stored = Inr stored"
    and "length canonical \<le> max_canonical"
  shows "decode_object P kind key stored ctx max_canonical =
      Inr \<lparr>do_canonical = canonical, do_provenance = prov\<rparr> \<and> length stored \<le> max_stored"
  using decode_encode_object [OF assms] by blast

theorem object_round_trip_witness:
  "primitives_ok sample_primitives \<and> context_ok sample_context \<and>
   (\<exists>stored. encode_object sample_primitives KindPayload [97] [1, 2, 3] (ProvRawPayload sample_identity 0)
        sample_context True 1000 = Inr stored \<and>
      decode_object sample_primitives KindPayload [97] stored sample_context 10 =
        Inr \<lparr>do_canonical = [1, 2, 3], do_provenance = ProvRawPayload sample_identity 0\<rparr>)"
proof -
  have P: "primitives_ok sample_primitives"
    by (simp add: primitives_ok_def sample_primitives_def)
  have ctx: "context_ok sample_context"
    by (simp add: context_ok_def sample_context_def Let_def)
  have enc: "\<exists>stored. encode_object sample_primitives KindPayload [97] [1, 2, 3] (ProvRawPayload sample_identity 0)
        sample_context True 1000 = Inr stored"
    by (simp add: encode_object_def encode_object_body_def compression_encode_def protect_body_def object_aad_def file_dek_def
        encrypt_def is_encrypted_def sample_context_def sample_primitives_def Let_def ok_or_def require_def
        try_from_nat_def usize_checked_add_def usize_saturating_add_def usize_max_def provenance_common_def
        policy_to_bytes_def BODY_MAGIC_def bytes_of_string_def)
  show ?thesis
    using object_round_trip [OF P ctx] P ctx enc by fastforce
qed

text \<open>
  C26: resource limits. Under limits that the checked constructor accepted, neither a raw file of
  at most \<open>max_raw_file_bytes\<close> nor a block of at most 32 KiB is refused for its length when it is
  made into an object, whatever the policy. Plain uncompressed objects are produced and are longer
  than their content by exactly the overhead constants that the constructor reserves.
\<close>

theorem accepted_limits_fit_payloads:
  assumes "storage_limits_new values = Inr lim"
    and "max_object_bytes values \<le> usize_max" and "max_map_working_bytes values \<le> usize_max"
    and "length key \<le> usize_max"
    and "length raw \<le> unat (max_raw_file_bytes lim)" and "length block \<le> unat BLOCK_SIZE"
  shows "let raw_object = encode_object P kind key raw (ProvRawPayload identity attempt) ctx compress
        (max_object_bytes lim);
      block_object = encode_object P kind key block (ProvBlockPayload identity attempt index) ctx compress
        (max_object_bytes lim)
    in raw_object \<noteq> Inl InvalidLength \<and> block_object \<noteq> Inl InvalidLength \<and>
      (fp_encryption (fc_policy ctx) = ContentPlain \<and>
       (compress \<longrightarrow> fp_compression (fc_policy ctx) = CompressionIdentity) \<longrightarrow>
       (\<exists>stored. raw_object = Inr stored \<and> length stored = length raw + unat RAW_PAYLOAD_MAX_OVERHEAD) \<and>
       (\<exists>stored. block_object = Inr stored \<and> length stored = length block + unat BLOCK_PAYLOAD_MAX_OVERHEAD))"
proof -
  have "lim = values" "limits_ok values"
    using storage_limits_new_iff [OF assms(2,3)] assms(1) by auto
  then have raw: "153 + provenance_encoded_len (ProvRawPayload identity attempt) + length raw \<le> max_object_bytes lim"
    and block: "153 + provenance_encoded_len (ProvBlockPayload identity attempt index) + length block
      \<le> max_object_bytes lim"
    and mx: "max_object_bytes lim \<le> usize_max"
    using assms by (simp_all add: limits_ok_def BLOCK_SIZE_def)
  have overhead: "unat RAW_PAYLOAD_MAX_OVERHEAD = 246" "unat BLOCK_PAYLOAD_MAX_OVERHEAD = 254"
    by (simp_all add: RAW_PAYLOAD_MAX_OVERHEAD_def BLOCK_PAYLOAD_MAX_OVERHEAD_def)
  show ?thesis
    unfolding Let_def overhead
    using encode_object_length_ok [OF raw mx assms(4)] encode_object_length_ok [OF block mx assms(4)]
      encode_object_plain [OF raw mx assms(4)] encode_object_plain [OF block mx assms(4)]
    by (simp add: add.commute)
qed

theorem accepted_limits_fit_payloads_witness:
  "storage_limits_new storage_limits_default = Inr storage_limits_default \<and>
   (\<exists>stored. encode_object sample_primitives KindPayload [97] [1, 2, 3] (ProvRawPayload sample_identity 0)
        (plain_for_file 7 Raw) True (max_object_bytes storage_limits_default) = Inr stored \<and>
      length stored = 249)"
proof -
  have sizes: "max_object_bytes storage_limits_default \<le> usize_max"
      "max_map_working_bytes storage_limits_default \<le> usize_max"
      "3 \<le> unat (max_raw_file_bytes storage_limits_default)" "limits_ok storage_limits_default"
    by (simp_all add: storage_limits_default_def usize_max_def limits_ok_def)
  then have new: "storage_limits_new storage_limits_default = Inr storage_limits_default"
    using storage_limits_new_iff by blast
  show ?thesis
    using accepted_limits_fit_payloads [OF new sizes(1,2), of "[97]" "[1, 2, 3]" "[]" sample_primitives
        KindPayload sample_identity 0 "plain_for_file 7 Raw" True 0] new sizes(3)
    by (simp add: Let_def usize_max_def plain_for_file_def policy_plain_def RAW_PAYLOAD_MAX_OVERHEAD_def)
qed

section \<open>Targets and the repository\<close>


text \<open>
  C29: immutable objects. Over any target that keeps the contract, storing an object never changes
  or removes an object of the target, and when it reports success the target holds exactly the
  bytes of the caller under the key, also after an ambiguous outcome or when the key existed.
\<close>

theorem put_immutable_is_exact:
  assumes "object_target (rp_target R) peek" and "put_immutable R key bs kind t = (r, t')"
  shows "peek t \<subseteq>\<^sub>m peek t' \<and> (r = Inr () \<longrightarrow> map_option tg_bytes (peek t' key) = Some bs)"
proof -
  from assms(1) have "content_target R peek" by (simp add: content_target_def)
  from content_target.put_immutable_view [OF this assms(2)] show ?thesis by auto
qed

theorem put_immutable_is_exact_witness:
  "\<exists>t'. put_immutable sample_repository [97] [1, 2] MissingPayload memory_state_default = (Inr (), t') \<and>
     map_option tg_bytes (mt_peek t' [97]) = Some [1, 2]"
proof -
  obtain r t' where run: "put_immutable sample_repository [97] [1, 2] MissingPayload memory_state_default = (r, t')"
    by fastforce
  then have "r = Inr ()"
    using sample_put [of "[97]" "[1, 2]" MissingPayload] by simp
  then show ?thesis
    using put_immutable_is_exact [OF _ run, of mt_peek] run mt.object_target_axioms
    by (simp add: sample_repository_def memory_repository_def)
qed

text \<open>
  C28: stored payloads. After a block payload was stored under a context, every later state of the
  target shows it under the returned reference: the checks of the repository accept it, and a load
  that succeeds returns the plaintext.
\<close>

theorem stored_payload_reads_back:
  assumes "object_target (rp_target R) peek" and "primitives_ok P" and "context_ok ctx"
    and "store_block_payload P R ctx (cb_file_id (fc_binding ctx)) identity attempt index plaintext t = (Inr blob, t1)"
    and "peek t1 \<subseteq>\<^sub>m peek t2"
  shows "payload_view P R ctx (peek t2) blob = Some plaintext \<and>
    (\<forall>bs t3. load_payload P R ctx blob t2 = (Inr bs, t3) \<longrightarrow> bs = plaintext \<and> peek t3 = peek t2)"
proof -
  from assms(1) have R: "content_target R peek" by (simp add: content_target_def)
  have "payload_view P R ctx (peek t1) blob = Some plaintext"
    using runsD(2) [OF content_target.store_payload_runs [OF R assms(2,3) refl] assms(4) [unfolded store_block_payload_def Let_def]]
    by blast
  then have view: "payload_view P R ctx (peek t2) blob = Some plaintext"
    by (rule view_mono(1) [OF assms(5)])
  moreover have "bs = plaintext \<and> peek t3 = peek t2" if "load_payload P R ctx blob t2 = (Inr bs, t3)" for bs t3
    using readsD [OF content_target.load_payload_reads [OF R] that] view by auto
  ultimately show ?thesis by blast
qed

theorem stored_payload_reads_back_witness:
  "\<exists>blob t1. store_block_payload sample_primitives sample_repository sample_context 7 sample_identity 0 5 [1, 2, 3]
       memory_state_default = (Inr blob, t1) \<and>
     payload_view sample_primitives sample_repository sample_context (mt_peek t1) blob = Some [1, 2, 3]"
proof -
  have fid: "cb_file_id (fc_binding sample_context) = 7" by (simp add: sample_context_def Let_def)
  obtain r t1 where run: "store_block_payload sample_primitives sample_repository sample_context 7 sample_identity 0 5
      [1, 2, 3] memory_state_default = (r, t1)" by fastforce
  obtain blob where blob: "r = Inr blob" using run sample_store_succeeds by (cases r) auto
  have T: "object_target (rp_target sample_repository) mt_peek"
    using mt.object_target_axioms by (simp add: sample_repository_def memory_repository_def)
  show ?thesis
    using stored_payload_reads_back [OF T sample_primitives_ok sample_context_ok, of sample_identity 0 5 "[1, 2, 3]"
        memory_state_default blob t1 t1] run blob unfolding fid by auto
qed

end
