(* ===== verification/Spec2Isabelle.thy ===== *)
theory Spec2Isabelle
  imports Wire_Properties Session_Drain Session_Version Storage_Properties
begin

text \<open>
  Verification of w9pt, an embeddable \<open>9P2000.L\<close> file server framework in Rust. Two parts are
  modelled. The protocol crate \<open>crates/w9pt\<close> is a Sans-I/O state machine: it turns transport bytes
  into filesystem and policy effects and turns the completions of the host into response frames.
  The content store \<open>crates/w9pt-fs-storage\<close> keeps the bytes of files as immutable objects under an
  object store: formats and keys of these objects, their protection, and a repository that stores
  and verifies them. The two parts meet in the filesystem engine, which is not modelled.

  \<^bold>\<open>How the code is represented.\<close> A method that may fail is a function from a state to a result
  (\<open>Inl\<close> the error, \<open>Inr\<close> the value) and the new state; \<open>?\<close> is \<open>sbind\<close>, and on values without a
  state \<open>rbind\<close>. Integers keep their width as words; \<open>usize\<close> is a natural number bounded by
  \<open>usize_max\<close> (\<open>2 ^ 64 - 1\<close>), with checked and saturating operations written out. Hash maps are
  association lists behind the locale \<open>hash_map\<close>. Fixed byte arrays are the word with these
  little-endian bytes. BLAKE3, LZ4 and AES-SIV are the fields of the record \<open>primitives\<close>, a
  parameter of every definition that uses them; \<open>primitives_ok\<close> states that decompression and
  decryption invert their counterparts. No injectivity of the hash is assumed.

  \<^bold>\<open>Protocol.\<close>
  \<^item> \<open>W9_Prelude\<close>: results, actions and their rules, machine integers, byte strings, hash maps.
  \<^item> \<open>Wire_Types\<close>, \<open>Wire_Codec\<close>: \<open>protocol/types.rs\<close>, \<open>flags.rs\<close>, \<open>message_type.rs\<close>,
    \<open>structures.rs\<close>, \<open>message.rs\<close>, \<open>codec.rs\<close> and \<open>limits.rs\<close>.
  \<^item> \<open>Wire_Format\<close>, \<open>Wire_Response\<close>: the wire format as functions from messages to bytes, and
    the proof that decoder and encoder implement it exactly (locales \<open>wire_field\<close>,
    \<open>wire_emitter\<close>).
  \<^item> \<open>Frame_Decoder\<close>: \<open>protocol/frame.rs\<close> with a reference splitter. While all headers are valid,
    framing does not depend on how the stream was cut; the call that meets an invalid header loses
    the frames it had already completed. \<open>Wire_Properties\<close> holds the properties of this layer.
  \<^item> \<open>Fs_Boundary\<close>, \<open>Session_Effects\<close>, \<open>Session_State\<close>, \<open>Session_Handlers\<close>,
    \<open>Session_Complete\<close>: \<open>filesystem/\<close>, \<open>effect.rs\<close>, \<open>config.rs\<close>, \<open>error.rs\<close> and \<open>session/\<close>, one
    definition per handler, for \<open>receive_bytes\<close>, \<open>receive_frame\<close>, \<open>complete\<close> and \<open>poll_effect\<close>.
  \<^item> \<open>Session_Invariant\<close>, \<open>Session_Preserve\<close>, \<open>Session_Close\<close>, \<open>Session_Finish\<close>: the session
    invariant, and that every method and so every step of a host keeps it.
  \<^item> \<open>Session_Trace\<close>, \<open>Session_Samples\<close>, \<open>Session_Properties\<close>: what holds along a run (identifiers
    are not reused, closing is final, bounds of all accounts), with concrete sessions as witnesses.
  \<^item> \<open>Session_Drain\<close>, \<open>Session_Version\<close>: a closing session drains in finitely many steps, and what
    version negotiation leaves: cancellations for pending requests and releases for settled fids,
    but none for the handles of fids claimed by a pending operation.

  \<^bold>\<open>Content store.\<close>
  \<^item> \<open>Storage_Base\<close>: \<open>config.rs\<close>, \<open>limits.rs\<close>, \<open>error.rs\<close>, \<open>ids.rs\<close>. \<open>Storage_Range\<close>:
    \<open>layout/range.rs\<close>; spans cover a range once and in order.
  \<^item> \<open>Storage_Codec\<close>: \<open>format/primitives.rs\<close>, \<open>format/envelope.rs\<close> and the keys of \<open>format/head.rs\<close>.
    The locales \<open>object_field\<close>, \<open>object_decoder\<close> and \<open>object_emitter\<close> relate a reader or writer
    to the bytes it accepts or produces; the rules in \<open>field_intros\<close>, \<open>decoder_intros\<close> and
    \<open>emitter_intros\<close> follow the structure of the code.
  \<^item> \<open>Storage_Page\<close>, \<open>Storage_Page_Codec\<close>: \<open>format/block_map.rs\<close>, the radix pages of block-split
    files. \<open>Storage_Manifest\<close>: \<open>format/manifest.rs\<close>, \<open>format/head.rs\<close>. Bytes decode exactly when
    they are canonical, with the exception of the level byte of leaf pages, which the code ignores.
  \<^item> \<open>Storage_Keys\<close>: \<open>keys.rs\<close>; every key that is built parses back.
  \<^item> \<open>Storage_Object\<close>, \<open>Storage_Object_Codec\<close>: \<open>representation/mod.rs\<close>, \<open>compression.rs\<close>,
    \<open>encryption.rs\<close>; a protected object opens to what it was made from, and content within the
    accepted limits is never refused for the length of its object.
  \<^item> \<open>Storage_Target\<close>: \<open>object_store.rs\<close> and \<open>testing/memory_store.rs\<close>. The locale
    \<open>object_target\<close> is the part of the contract of \<open>TargetStore\<close> the repository relies on, and
    \<open>target_contract\<close> extends it by exact range reads; the memory target, with injected failures,
    interprets both.
  \<^item> \<open>Storage_Repository\<close>, \<open>Storage_View\<close>: \<open>repository.rs\<close>. A load is a read of the target followed
    by a pure check; the views show what the checks accept in a state of the target. Loads return
    what the view shows, and what was stored is shown from then on (locale \<open>content_target\<close>).
  \<^item> \<open>Storage_Properties\<close>: the properties of the store.

  \<^bold>\<open>Bounds.\<close> No definition uses fuel: loops recurse on lists or have a termination proof, so every
  operation of the model returns.

  \<^bold>\<open>Not modelled.\<close> Raw and block-split layouts, head publication and the wrapping of file keys
  (\<open>layout/raw.rs\<close>, \<open>layout/block_map.rs\<close>, \<open>layout/block_split.rs\<close>, \<open>publisher.rs\<close>,
  \<open>representation/file_keys.rs\<close>); the filesystem engine and the state contract (\<open>w9pt-fs\<close>,
  \<open>w9pt-fs-state\<close>), which are asynchronous services over external state; the PostgreSQL and S3
  adapters, which only call external clients; test hosts and conformance suites. Futures are
  modelled as one atomic step per call, so interleavings inside a call are not represented.
  \<open>Debug\<close> and \<open>Display\<close> output and the zeroizing of buffers have no functional effect.
\<close>

end
